(* ===== verification/Prelude.thy ===== *)
theory Prelude
  imports Main "HOL-Library.Word" "HOL-Library.Multiset" "HOL-Library.AList"
begin

text \<open>
  The shared vocabulary of the development: Go errors as values, the state-passing type of
  code that talks to the outside world, the early-return sequencing of Go function bodies,
  loops that stop at the first error, the string and path functions of Go's standard library
  the program uses, and the generic lemmas (with their named collections) the component
  theories rest on.

  Printing, logging and progress output are not part of any state and are left out everywhere.
\<close>

named_theorems io_ok \<open>success of a compound action, decomposed into its parts\<close>
named_theorems keeps_rule \<open>a world predicate that every step of an action keeps\<close>

section \<open>Errors, results, actions\<close>

text \<open>
  An \<open>error\<close> value keeps the format string and the arguments of the call that made it
  (\<open>fmt.Errorf\<close>, \<open>errors.New\<close>, \<open>errors.Errorf\<close>), or the wrapped
  cause with the wrapper's format (\<open>errors.Wrap\<close>, \<open>errors.Wrapf\<close> with
  the argument order of Go). \<open>ErrNotFound\<close> and \<open>ErrNotImplemented\<close> are the
  sentinel values of managers/source.go, compared by identity in the code; \<open>ApiError\<close>
  is a Kubernetes API status error with its reason; \<open>OsNotExist\<close> and
  \<open>OsExist\<close> are the classes \<open>os.IsNotExist\<close> and \<open>os.IsExist\<close> test;
  \<open>AwsError\<close> is an \<open>awserr.Error\<close> with its code.
\<close>

datatype fmt_arg = Str string | Num int

datatype api_reason = ReasonNotFound | ReasonAlreadyExists | ReasonOther string

datatype gerror =
    Errorf string "fmt_arg list"
  | Wrapf gerror string "fmt_arg list"
  | ErrNotFound
  | ErrNotImplemented
  | ApiError api_reason
  | OsNotExist
  | OsExist
  | AwsError string
  | Foreign string

abbreviation apo :: string where
  "apo \<equiv> [CHR 0x27]"

text \<open>\<open>errors.Wrapf(nil, ...)\<close> is \<open>nil\<close>.\<close>

definition wrapf_opt :: "gerror option \<Rightarrow> string \<Rightarrow> fmt_arg list \<Rightarrow> gerror option" where
  "wrapf_opt e f args = map_option (\<lambda>c. Wrapf c f args) e"

text \<open>
  The four ways a call can end: it returns a value, it returns a non-nil error, it panics
  (a nil dereference, an index out of range, a failed type assertion), or the iteration bound
  \<open>rt_fuel\<close> of the model is used up in a loop that has no bound in the code.
\<close>

datatype 'a result = Ok 'a | Err gerror | Panic string | OutOfFuel

type_synonym ('w, 'a) io = "'w \<Rightarrow> 'a result \<times> 'w"

definition ret :: "'a \<Rightarrow> ('w, 'a) io" where
  "ret a = (\<lambda>w. (Ok a, w))"

definition fail :: "gerror \<Rightarrow> ('w, 'a) io" where
  "fail e = (\<lambda>w. (Err e, w))"

definition panic :: "string \<Rightarrow> ('w, 'a) io" where
  "panic s = (\<lambda>w. (Panic s, w))"

definition out_of_fuel :: "('w, 'a) io" where
  "out_of_fuel = (\<lambda>w. (OutOfFuel, w))"

text \<open>A result computed without touching the world, as an action.\<close>

definition lift_result :: "'a result \<Rightarrow> ('w, 'a) io" where
  "lift_result r = (\<lambda>w. (r, w))"

text \<open>
  \<open>handle m k h\<close> is \<open>x, err := m\<close> followed by \<open>k x\<close> when
  \<open>err\<close> is nil and by \<open>h err\<close> otherwise; a panic ends the whole body.
  \<open>try_do m f k\<close> is the common case
  \<open>x, err := m; if err != nil { return f(err) }; k x\<close>.
\<close>

definition handle ::
    "('w, 'a) io \<Rightarrow> ('a \<Rightarrow> ('w, 'b) io) \<Rightarrow> (gerror \<Rightarrow> ('w, 'b) io) \<Rightarrow> ('w, 'b) io" where
  "handle m k h = (\<lambda>w. case m w of (r, w') \<Rightarrow>
     (case r of Ok a \<Rightarrow> k a w' | Err e \<Rightarrow> h e w'
      | Panic s \<Rightarrow> (Panic s, w') | OutOfFuel \<Rightarrow> (OutOfFuel, w')))"

definition try_do ::
    "('w, 'a) io \<Rightarrow> (gerror \<Rightarrow> gerror) \<Rightarrow> ('a \<Rightarrow> ('w, 'b) io) \<Rightarrow> ('w, 'b) io" where
  "try_do m f k = handle m k (\<lambda>e. fail (f e))"

definition andthen :: "('w, 'a) io \<Rightarrow> ('a \<Rightarrow> ('w, 'b) io) \<Rightarrow> ('w, 'b) io" where
  "andthen m k = try_do m (\<lambda>e. e) k"

text \<open>
  \<open>check m d k\<close> is \<open>x, err := m\<close> where the code goes on to look at \<open>err\<close>
  itself: \<open>k\<close> gets it (\<open>None\<close> for nil), with the value, or \<open>d\<close> when
  the call left none.
\<close>

definition check ::
    "('w, 'a) io \<Rightarrow> 'a \<Rightarrow> (gerror option \<Rightarrow> 'a \<Rightarrow> ('w, 'b) io) \<Rightarrow> ('w, 'b) io" where
  "check m d k = handle m (\<lambda>a. k None a) (\<lambda>e. k (Some e) d)"

text \<open>
  \<open>deferring c m\<close> is \<open>defer c()\<close> followed by \<open>m\<close>: the deferred call runs
  however \<open>m\<close> ends and its own error is dropped.
\<close>

definition deferring :: "('w, unit) io \<Rightarrow> ('w, 'a) io \<Rightarrow> ('w, 'a) io" where
  "deferring c m = (\<lambda>w. case m w of (r, w') \<Rightarrow> (r, snd (c w')))"

text \<open>\<open>for ... range\<close> loops whose body may return an error early.\<close>

primrec for_each :: "('a \<Rightarrow> ('w, unit) io) \<Rightarrow> 'a list \<Rightarrow> ('w, unit) io" where
  "for_each f [] = ret ()"
| "for_each f (x # xs) = andthen (f x) (\<lambda>_. for_each f xs)"

primrec fold_io :: "('a \<Rightarrow> 's \<Rightarrow> ('w, 's) io) \<Rightarrow> 'a list \<Rightarrow> 's \<Rightarrow> ('w, 's) io" where
  "fold_io f [] s = ret s"
| "fold_io f (x # xs) s = andthen (f x s) (\<lambda>s'. fold_io f xs s')"

lemma ret_apply [simp]: "ret a w = (Ok a, w)"
  and fail_apply [simp]: "fail e w = (Err e, w)"
  and panic_apply [simp]: "panic s w = (Panic s, w)"
  and out_of_fuel_apply [simp]: "out_of_fuel w = (OutOfFuel, w)"
  and lift_result_apply [simp]: "lift_result r w = (r, w)"
  by (simp_all add: ret_def fail_def panic_def out_of_fuel_def lift_result_def)

lemma handle_simps [simp]:
  "m w = (Ok a, w') \<Longrightarrow> handle m k h w = k a w'"
  "m w = (Err e, w') \<Longrightarrow> handle m k h w = h e w'"
  "m w = (Panic s, w') \<Longrightarrow> handle m k h w = (Panic s, w')"
  "m w = (OutOfFuel, w') \<Longrightarrow> handle m k h w = (OutOfFuel, w')"
  by (simp_all add: handle_def)

lemma try_do_simps [simp]:
  "m w = (Ok a, w') \<Longrightarrow> try_do m f k w = k a w'"
  "m w = (Err e, w') \<Longrightarrow> try_do m f k w = (Err (f e), w')"
  "m w = (Panic s, w') \<Longrightarrow> try_do m f k w = (Panic s, w')"
  "m w = (OutOfFuel, w') \<Longrightarrow> try_do m f k w = (OutOfFuel, w')"
  by (simp_all add: try_do_def)

lemma andthen_simps [simp]:
  "m w = (Ok a, w') \<Longrightarrow> andthen m k w = k a w'"
  "m w = (Err e, w') \<Longrightarrow> andthen m k w = (Err e, w')"
  "m w = (Panic s, w') \<Longrightarrow> andthen m k w = (Panic s, w')"
  "m w = (OutOfFuel, w') \<Longrightarrow> andthen m k w = (OutOfFuel, w')"
  by (simp_all add: andthen_def)

lemma check_simps [simp]:
  "m w = (Ok a, w') \<Longrightarrow> check m d k w = k None a w'"
  "m w = (Err e, w') \<Longrightarrow> check m d k w = k (Some e) d w'"
  "m w = (Panic s, w') \<Longrightarrow> check m d k w = (Panic s, w')"
  "m w = (OutOfFuel, w') \<Longrightarrow> check m d k w = (OutOfFuel, w')"
  by (simp_all add: check_def)

lemma handle_Ok [io_ok]:
  "handle m k h w = (Ok b, w'') \<longleftrightarrow>
     (\<exists>a w'. m w = (Ok a, w') \<and> k a w' = (Ok b, w'')) \<or>
     (\<exists>e w'. m w = (Err e, w') \<and> h e w' = (Ok b, w''))"
  by (auto simp: handle_def split: prod.splits result.splits)

lemma try_do_Ok [io_ok]:
  "try_do m f k w = (Ok b, w'') \<longleftrightarrow> (\<exists>a w'. m w = (Ok a, w') \<and> k a w' = (Ok b, w''))"
  by (auto simp: try_do_def handle_Ok)

lemma check_Ok [io_ok]:
  "check m d k w = (Ok b, w'') \<longleftrightarrow>
     (\<exists>a w'. m w = (Ok a, w') \<and> k None a w' = (Ok b, w'')) \<or>
     (\<exists>e w'. m w = (Err e, w') \<and> k (Some e) d w' = (Ok b, w''))"
  by (simp add: check_def handle_Ok)

lemma andthen_Ok [io_ok]:
  "andthen m k w = (Ok b, w'') \<longleftrightarrow> (\<exists>a w'. m w = (Ok a, w') \<and> k a w' = (Ok b, w''))"
  by (auto simp: andthen_def try_do_Ok)

text \<open>A sequence runs out of fuel only if one of its parts does.\<close>

lemma handle_returns:
  assumes "fst (m w) \<noteq> OutOfFuel" and "\<And>a w'. m w = (Ok a, w') \<Longrightarrow> fst (k a w') \<noteq> OutOfFuel"
    and "\<And>e w'. m w = (Err e, w') \<Longrightarrow> fst (h e w') \<noteq> OutOfFuel"
  shows "fst (handle m k h w) \<noteq> OutOfFuel"
  using assms by (cases "m w"; cases "fst (m w)") auto

lemma try_do_returns:
  assumes "fst (m w) \<noteq> OutOfFuel" and "\<And>a w'. m w = (Ok a, w') \<Longrightarrow> fst (k a w') \<noteq> OutOfFuel"
  shows "fst (try_do m f k w) \<noteq> OutOfFuel"
  unfolding try_do_def using assms by (rule handle_returns) simp_all

lemma andthen_returns:
  assumes "fst (m w) \<noteq> OutOfFuel" and "\<And>a w'. m w = (Ok a, w') \<Longrightarrow> fst (k a w') \<noteq> OutOfFuel"
  shows "fst (andthen m k w) \<noteq> OutOfFuel"
  unfolding andthen_def using assms by (rule try_do_returns)

lemma deferring_result [simp]: "fst (deferring c m w) = fst (m w)"
  by (simp add: deferring_def split: prod.splits)

lemma deferring_apply [simp]: "m w = (r, w') \<Longrightarrow> deferring c m w = (r, snd (c w'))"
  by (simp add: deferring_def)

lemma deferring_Ok [io_ok]:
  "deferring c m w = (Ok a, w'') \<longleftrightarrow> (\<exists>w'. m w = (Ok a, w') \<and> w'' = snd (c w'))"
  by (auto simp: deferring_def split: prod.splits)

lemma for_each_append:
  "for_each f (xs @ ys) = andthen (for_each f xs) (\<lambda>_. for_each f ys)"
proof (induction xs)
  case Nil
  show ?case by (rule ext) (simp add: andthen_def try_do_def handle_def)
next
  case (Cons x xs)
  then show ?case
    by (auto simp: fun_eq_iff andthen_def try_do_def handle_def split: prod.splits result.splits)
qed

text \<open>A loop succeeds only if its body succeeds on every element.\<close>

lemma for_each_Ok_body:
  assumes "for_each f xs w = (Ok (), w')" and "x \<in> set xs"
  shows "\<exists>u u'. f x u = (Ok (), u')"
  using assms by (induction xs arbitrary: w) (auto simp: io_ok)

text \<open>A loop that succeeds went through its elements in their order, from state to state.\<close>

lemma for_each_runs:
  assumes "for_each f xs w = (Ok (), w')"
  shows "\<exists>us. length us = Suc (length xs) \<and> us ! 0 = w \<and> us ! length xs = w' \<and>
    (\<forall>i<length xs. f (xs ! i) (us ! i) = (Ok (), us ! Suc i))"
  using assms
proof (induction xs arbitrary: w)
  case Nil
  then show ?case by (intro exI [of _ "[w]"]) simp
next
  case (Cons x xs)
  then obtain u where u: "f x w = (Ok (), u)" "for_each f xs u = (Ok (), w')"
    by (auto simp: io_ok)
  from Cons.IH [OF u(2)] obtain us where us: "length us = Suc (length xs)" "us ! 0 = u" "us ! length xs = w'"
    "\<forall>i<length xs. f (xs ! i) (us ! i) = (Ok (), us ! Suc i)" by blast
  then have "\<forall>i<length (x # xs). f ((x # xs) ! i) ((w # us) ! i) = (Ok (), (w # us) ! Suc i)"
    using u(1) by (auto simp: nth_Cons split: nat.splits)
  with us show ?case by (intro exI [of _ "w # us"]) simp
qed

text \<open>A loop whose body neither fails nor panics runs to its end.\<close>

lemma for_each_total:
  assumes "\<And>x w. x \<in> set xs \<Longrightarrow> \<exists>w'. f x w = (Ok (), w')"
  shows "\<exists>w'. for_each f xs w = (Ok (), w')"
  using assms
proof (induction xs arbitrary: w)
  case (Cons x xs)
  obtain w1 where "f x w = (Ok (), w1)" using Cons.prems [of x w] by auto
  then show ?case using Cons by simp
qed simp

lemma fold_io_ret:
  assumes "\<And>x s w. x \<in> set xs \<Longrightarrow> f x s w = (Ok (g x s), w)"
  shows "fold_io f xs s w = (Ok (fold g xs s), w)"
  using assms by (induction xs arbitrary: s) auto

lemma fold_io_append: "fold_io f (xs @ ys) s = andthen (fold_io f xs s) (fold_io f ys)"
proof (induction xs arbitrary: s)
  case Nil
  show ?case by (rule ext) simp
next
  case (Cons x xs)
  then show ?case
    by (auto simp: fun_eq_iff andthen_def try_do_def handle_def split: prod.splits result.splits)
qed

lemma fold_io_map: "fold_io f (map g xs) = fold_io (\<lambda>x. f (g x)) xs"
proof (rule ext)
  show "fold_io f (map g xs) s = fold_io (\<lambda>x. f (g x)) xs s" for s
    by (induction xs arbitrary: s) simp_all
qed

subsection \<open>World predicates kept by actions\<close>

definition keeps :: "('w \<Rightarrow> bool) \<Rightarrow> ('w, 'a) io \<Rightarrow> bool" where
  "keeps P m \<longleftrightarrow> (\<forall>w. P w \<longrightarrow> P (snd (m w)))"

lemma keepsI: "(\<And>w. P w \<Longrightarrow> P (snd (m w))) \<Longrightarrow> keeps P m"
  by (simp add: keeps_def)

lemma keepsD: "keeps P m \<Longrightarrow> P w \<Longrightarrow> P (snd (m w))"
  by (simp add: keeps_def)

lemma keeps_result: "keeps P m \<Longrightarrow> P w \<Longrightarrow> m w = (r, w') \<Longrightarrow> P w'"
  by (drule (1) keepsD) simp

lemma keeps_simple [keeps_rule, simp]:
  "keeps P (ret a)" "keeps P (fail e)" "keeps P (panic s)" "keeps P out_of_fuel"
  "keeps P (lift_result r)"
  by (simp_all add: keeps_def)

lemma keeps_handle [keeps_rule]:
  assumes "keeps P m" and "\<And>a. keeps P (k a)" and "\<And>e. keeps P (h e)"
  shows "keeps P (handle m k h)"
proof (rule keepsI)
  fix w assume w: "P w"
  obtain r w' where m: "m w = (r, w')" by fastforce
  have "P w'" by (rule keeps_result [OF assms(1) w m])
  with m assms(2,3) show "P (snd (handle m k h w))"
    by (cases r) (auto dest: keepsD)
qed

lemma keeps_try_do [keeps_rule]:
  "keeps P m \<Longrightarrow> (\<And>a. keeps P (k a)) \<Longrightarrow> keeps P (try_do m f k)"
  by (simp add: try_do_def keeps_handle)

lemma keeps_andthen [keeps_rule]:
  "keeps P m \<Longrightarrow> (\<And>a. keeps P (k a)) \<Longrightarrow> keeps P (andthen m k)"
  by (simp add: andthen_def keeps_try_do)

lemma keeps_check [keeps_rule]:
  "keeps P m \<Longrightarrow> (\<And>e a. keeps P (k e a)) \<Longrightarrow> keeps P (check m d k)"
  by (simp add: check_def keeps_handle)

lemma keeps_deferring [keeps_rule]:
  "keeps P c \<Longrightarrow> keeps P m \<Longrightarrow> keeps P (deferring c m)"
  by (simp add: keeps_def deferring_def split: prod.splits) (metis snd_conv)

lemma keeps_for_each [keeps_rule]:
  "(\<And>x. x \<in> set xs \<Longrightarrow> keeps P (f x)) \<Longrightarrow> keeps P (for_each f xs)"
  by (induction xs) (auto intro: keeps_andthen)

lemma keeps_fold_io [keeps_rule]:
  "(\<And>x s. x \<in> set xs \<Longrightarrow> keeps P (f x s)) \<Longrightarrow> keeps P (fold_io f xs s)"
  by (induction xs arbitrary: s) (auto intro: keeps_andthen)

lemma keeps_if [keeps_rule]:
  "(b \<Longrightarrow> keeps P m) \<Longrightarrow> (\<not> b \<Longrightarrow> keeps P n) \<Longrightarrow> keeps P (if b then m else n)"
  by simp

lemma keeps_list [keeps_rule]:
  "keeps P m \<Longrightarrow> (\<And>y ys. keeps P (f y ys)) \<Longrightarrow> keeps P (case xs of [] \<Rightarrow> m | y # ys \<Rightarrow> f y ys)"
  by (cases xs) simp_all

text \<open>The panic of a nil pointer dereference.\<close>

abbreviation nil_dereference :: string where
  "nil_dereference \<equiv> ''invalid memory address or nil pointer dereference''"

section \<open>The Go runtime the code calls\<close>

text \<open>
  The clock (\<open>time.Now\<close>, in nanoseconds), \<open>time.Sleep\<close>, the iteration order
  the runtime picks for a map with the given keys, and the bound on the iterations of the loops
  that have none in the code. Durations are in nanoseconds, as in Go.
\<close>

record 'w runtime =
  rt_now :: "'w \<Rightarrow> int"
  rt_sleep :: "int \<Rightarrow> 'w \<Rightarrow> 'w"
  rt_range :: "string list \<Rightarrow> 'w \<Rightarrow> string list \<times> 'w"
  rt_fuel :: nat

text \<open>Go's division of signed integers truncates toward zero.\<close>

definition go_div :: "int \<Rightarrow> int \<Rightarrow> int" where
  "go_div a b = sgn a * sgn b * (\<bar>a\<bar> div \<bar>b\<bar>)"

lemma go_div_nonneg [simp]: "0 \<le> a \<Longrightarrow> 0 < b \<Longrightarrow> go_div a b = a div b"
  by (cases "a = 0") (auto simp: go_div_def)

definition second :: int where
  "second = 1000000000"

definition sleep :: "'w runtime \<Rightarrow> int \<Rightarrow> ('w, unit) io" where
  "sleep rt d = (\<lambda>w. (Ok (), rt_sleep rt d w))"

lemma sleep_apply [simp]: "sleep rt d w = (Ok (), rt_sleep rt d w)"
  by (simp add: sleep_def)

definition now :: "'w runtime \<Rightarrow> ('w, int) io" where
  "now rt = (\<lambda>w. (Ok (rt_now rt w), w))"

lemma now_apply [simp]: "now rt w = (Ok (rt_now rt w), w)"
  by (simp add: now_def)

text \<open>Map iteration: the order is the runtime's choice, the keys are the map's.\<close>

definition range_keys :: "'w runtime \<Rightarrow> (string \<times> 'v) list \<Rightarrow> ('w, string list) io" where
  "range_keys rt m = (\<lambda>w. case rt_range rt (map fst m) w of (ks, w') \<Rightarrow> (Ok ks, w'))"

definition fair_range :: "'w runtime \<Rightarrow> bool" where
  "fair_range rt \<longleftrightarrow> (\<forall>ks w. mset (fst (rt_range rt ks w)) = mset ks)"

end
