(* ===== verification/Go_Strings.thy ===== *)
theory Go_Strings
  imports Prelude "HOL-Library.Sublist"
begin

text \<open>
  The string and path functions of Go's standard library that the program calls, on byte
  strings: \<open>strings.TrimSpace\<close>, \<open>strings.Split\<close> at one separator byte,
  \<open>strings.Join\<close>, \<open>strings.ReplaceAll\<close>, \<open>strings.Contains\<close>,
  \<open>strings.TrimSuffix\<close>, \<open>strconv.Itoa\<close>, \<open>path.Clean\<close>/\<open>path.Join\<close>
  (which \<open>path/filepath\<close> agrees with on Unix) and \<open>filepath.Base\<close>.
\<close>

subsection \<open>TrimSpace\<close>

text \<open>The UTF-8 encodings of the code points of \<open>unicode.IsSpace\<close>.\<close>

definition space_encodings :: "string list" where
  "space_encodings =
     map (\<lambda>b. [char_of b]) [9, 10, 11, 12, 13, 32 :: nat]
     @ map (map char_of)
       ([[0xC2, 0x85], [0xC2, 0xA0], [0xE1, 0x9A, 0x80]]
        @ map (\<lambda>b. [0xE2, 0x80, b]) ([0x80 ..< 0x8B] @ [0xA8, 0xA9, 0xAF])
        @ [[0xE2, 0x81, 0x9F], [0xE3, 0x80, 0x80 :: nat]])"

function trim_left :: "string list \<Rightarrow> string \<Rightarrow> string" where
  "trim_left ps s =
     (case find (\<lambda>p. p \<noteq> [] \<and> prefix p s) ps of
        None \<Rightarrow> s
      | Some p \<Rightarrow> trim_left ps (drop (length p) s))"
  by pat_completeness auto
termination
proof (relation "measure (\<lambda>(ps, s). length s)", goal_cases)
  case (2 ps s p)
  then have "p \<noteq> []" and "prefix p s"
    by (auto simp: find_Some_iff)
  then have "length p \<le> length s"
    by (auto dest: prefix_length_le)
  with \<open>p \<noteq> []\<close> show ?case by (cases p) auto
qed simp

declare trim_left.simps [simp del]

definition TrimSpace :: "string \<Rightarrow> string" where
  "TrimSpace s = rev (trim_left (map rev space_encodings) (rev (trim_left space_encodings s)))"

lemma trim_left_Nil [simp]: "trim_left ps [] = []"
proof -
  have "find (\<lambda>p. p \<noteq> [] \<and> prefix p []) ps = None"
    by (simp add: find_None_iff)
  then show ?thesis by (subst trim_left.simps) simp
qed

lemma TrimSpace_Nil [simp]: "TrimSpace [] = []"
  by (simp add: TrimSpace_def)

lemma trim_left_plain:
  assumes "\<And>p. p \<in> set ps \<Longrightarrow> p \<noteq> [] \<Longrightarrow> \<not> prefix p s"
  shows "trim_left ps s = s"
proof -
  have "find (\<lambda>p. p \<noteq> [] \<and> prefix p s) ps = None"
    using assms by (auto simp: find_None_iff)
  then show ?thesis by (subst trim_left.simps) simp
qed

text \<open>A text that begins and ends with printable ASCII has nothing to trim.\<close>

definition printable :: "char \<Rightarrow> bool" where
  "printable c \<longleftrightarrow> 32 < (of_char c :: nat) \<and> (of_char c :: nat) < 128"

lemma space_encodings_ends:
  "list_all (\<lambda>p. \<not> printable (hd p) \<and> \<not> printable (last p)) space_encodings"
  by (simp add: space_encodings_def printable_def upt_rec)

lemma TrimSpace_plain:
  assumes "s \<noteq> []" and "printable (hd s)" and "printable (last s)"
  shows "TrimSpace s = s"
proof -
  have "trim_left space_encodings s = s"
    using space_encodings_ends assms(2) by (intro trim_left_plain) (auto simp: list_all_iff prefix_def)
  moreover have "trim_left (map rev space_encodings) (rev s) = rev s"
  proof (rule trim_left_plain)
    fix p
    assume "p \<in> set (map rev space_encodings)" "p \<noteq> []"
    then obtain q where q: "p = rev q" "q \<in> set space_encodings" "q \<noteq> []" by auto
    show "\<not> prefix p (rev s)"
    proof
      assume "prefix p (rev s)"
      with q(1) have "suffix q s" by (simp add: suffix_to_prefix)
      with q(3) have "last q = last s" by (auto simp: suffix_def)
      with space_encodings_ends q(2) assms(3) show False by (auto simp: list_all_iff)
    qed
  qed
  ultimately show ?thesis by (simp add: TrimSpace_def)
qed

subsection \<open>Split, Join, ReplaceAll\<close>

primrec split_char :: "char \<Rightarrow> string \<Rightarrow> string list" where
  "split_char c [] = [[]]"
| "split_char c (x # xs) =
     (if x = c then [] # split_char c xs
      else case split_char c xs of [] \<Rightarrow> [[x]] | y # ys \<Rightarrow> (x # y) # ys)"

fun join :: "string \<Rightarrow> string list \<Rightarrow> string" where
  "join sep [] = []"
| "join sep [s] = s"
| "join sep (s # t # ts) = s @ sep @ join sep (t # ts)"

function replace_all :: "string \<Rightarrow> string \<Rightarrow> string \<Rightarrow> string" where
  "replace_all old new [] = []"
| "replace_all old new (x # xs) =
     (if old \<noteq> [] \<and> prefix old (x # xs)
      then new @ replace_all old new (drop (length old) (x # xs))
      else x # replace_all old new xs)"
  by pat_completeness auto
termination
proof (relation "measure (\<lambda>(old, new, s). length s)", goal_cases)
  case (2 old new x xs)
  then show ?case by (cases old) simp_all
qed simp_all

definition contains :: "string \<Rightarrow> string \<Rightarrow> bool" where
  "contains s sub \<longleftrightarrow> sublist sub s"

definition TrimSuffix :: "string \<Rightarrow> string \<Rightarrow> string" where
  "TrimSuffix s suf = (if suffix suf s then take (length s - length suf) s else s)"

lemma split_char_not_Nil [simp]: "split_char c s \<noteq> []"
  by (cases s) (auto split: list.splits)

lemma split_char_none: "c \<notin> set s \<Longrightarrow> split_char c s = [s]"
  by (induction s) auto

lemma split_char_append:
  "c \<notin> set k \<Longrightarrow> split_char c (k @ c # v) = k # split_char c v"
  by (induction k) auto

lemma length_split_char: "length (split_char c s) = Suc (count_list s c)"
  by (induction s) (auto split: list.splits)

lemma join_split_char: "join [c] (split_char c s) = s"
proof (induction s)
  case (Cons x xs)
  then show ?case
    by (cases "split_char c xs" rule: list.exhaust; cases "tl (split_char c xs)") auto
qed simp

lemma split_char_parts: "p \<in> set (split_char c s) \<Longrightarrow> c \<notin> set p"
  by (induction s arbitrary: p) (auto split: list.splits if_splits)

lemma concat_split_char: "concat (split_char c s) = filter (\<lambda>x. x \<noteq> c) s"
  by (induction s) (auto split: list.splits)

lemma join_empty_sep: "join [] ss = concat ss"
proof (induction ss)
  case (Cons s ss)
  then show ?case by (cases ss) auto
qed simp

text \<open>Replacing one character by one other character works position by position.\<close>

lemma replace_all_char: "replace_all [c] [d] s = map (\<lambda>x. if x = c then d else x) s"
  by (induction s) auto

lemma replace_all_absent:
  assumes "\<not> sublist old s" shows "replace_all old new s = s"
  using assms
proof (induction s)
  case (Cons x xs)
  then have "\<not> prefix old (x # xs)" and "\<not> sublist old xs"
    by (auto dest: prefix_imp_sublist simp: sublist_Cons_right)
  with Cons.IH show ?case by simp
qed simp

subsection \<open>Decimal numbers\<close>

fun dec_nat :: "nat \<Rightarrow> string" where
  "dec_nat n = (if n < 10 then [char_of (48 + n)]
                else dec_nat (n div 10) @ [char_of (48 + n mod 10)])"

declare dec_nat.simps [simp del]

definition Itoa :: "int \<Rightarrow> string" where
  "Itoa i = (if i < 0 then CHR 0x2D # dec_nat (nat (- i)) else dec_nat (nat i))"

subsection \<open>Paths\<close>

text \<open>
  The elements of a path between slashes, processed left to right with the kept elements on a
  stack (the last one first), as \<open>path.Clean\<close> does in its output buffer.
\<close>

fun clean_step :: "bool \<Rightarrow> string list \<Rightarrow> string \<Rightarrow> string list" where
  "clean_step rooted st e =
     (if e = [] \<or> e = ''.'' then st
      else if e = ''..'' then
        (case st of
           [] \<Rightarrow> if rooted then [] else [''..'']
         | t # ts \<Rightarrow> if t = ''..'' then ''..'' # st else ts)
      else e # st)"

definition path_Clean :: "string \<Rightarrow> string" where
  "path_Clean p =
     (let rooted = (case p of [] \<Rightarrow> False | c # _ \<Rightarrow> c = CHR 0x2F);
          st = foldl (clean_step rooted) [] (split_char (CHR 0x2F) p);
          body = join ''/'' (rev st)
      in if rooted then CHR 0x2F # body else if body = [] then ''.'' else body)"

definition path_Join :: "string list \<Rightarrow> string" where
  "path_Join es =
     (let ne = filter (\<lambda>e. e \<noteq> []) es
      in if ne = [] then [] else path_Clean (join ''/'' ne))"

text \<open>\<open>filepath.Base\<close>: the last element, trailing slashes removed.\<close>

definition path_Base :: "string \<Rightarrow> string" where
  "path_Base p =
     (if p = [] then ''.''
      else let q = rev (dropWhile (\<lambda>c. c = CHR 0x2F) (rev p))
           in if q = [] then ''/'' else last (split_char (CHR 0x2F) q))"

subsection \<open>What cleaning and joining keep\<close>

text \<open>
  The element stack of a cleaned path: names above a run of \<open>..\<close> elements, which a rooted
  path does not have. Cleaning a cleaned path changes nothing, joining can be done in steps, and a
  joined path ends with its file name.
\<close>

definition clean_stack :: "bool \<Rightarrow> string list \<Rightarrow> bool" where
  "clean_stack rooted st \<longleftrightarrow> (\<exists>ns k. st = ns @ replicate k ''..'' \<and> (rooted \<longrightarrow> k = 0) \<and>
     (\<forall>n\<in>set ns. n \<notin> {[], ''.'', ''..''} \<and> CHR ''/'' \<notin> set n))"

lemma clean_stack_Nil [simp]: "clean_stack r []"
  by (simp add: clean_stack_def)

lemma clean_step_stack:
  assumes "clean_stack r st" and "CHR ''/'' \<notin> set e"
  shows "clean_stack r (clean_step r st e)"
proof -
  from assms(1) obtain ns k where st: "st = ns @ replicate k ''..''" and k: "r \<longrightarrow> k = 0"
    and ns: "\<forall>n\<in>set ns. n \<notin> {[], ''.'', ''..''} \<and> CHR ''/'' \<notin> set n"
    by (auto simp: clean_stack_def)
  consider "e = [] \<or> e = ''.''" | "e = ''..''" | "e \<notin> {[], ''.'', ''..''}" by blast
  then show ?thesis
  proof cases
    case 1
    then show ?thesis using assms(1) by simp
  next
    case 2
    show ?thesis
    proof (cases ns)
      case Nil
      then have "clean_step r st e = [] @ replicate (if r then 0 else Suc k) ''..''"
        using 2 k st by (cases k) auto
      then show ?thesis unfolding clean_stack_def
        by (intro exI [of _ "[]"] exI [of _ "if r then 0 else Suc k"]) simp
    next
      case (Cons n ns')
      then have "clean_step r st e = ns' @ replicate k ''..''"
        using 2 ns st by auto
      then show ?thesis using k ns Cons by (auto simp: clean_stack_def)
    qed
  next
    case 3
    then have "clean_step r st e = (e # ns) @ replicate k ''..''" by (simp add: st)
    then show ?thesis
      using k ns 3 assms(2) unfolding clean_stack_def by (intro exI [of _ "e # ns"] exI [of _ k]) auto
  qed
qed

lemma foldl_clean_stack:
  "clean_stack r st \<Longrightarrow> \<forall>e\<in>set es. CHR ''/'' \<notin> set e \<Longrightarrow> clean_stack r (foldl (clean_step r) st es)"
  by (induction es arbitrary: st) (auto simp del: clean_step.simps intro: clean_step_stack)

lemma foldl_clean_dots: "foldl (clean_step False) (replicate j ''..'') (replicate k ''..'') = replicate (k + j) ''..''"
proof (induction k arbitrary: j)
  case (Suc k)
  have "clean_step False (replicate j ''..'') ''..'' = replicate (Suc j) ''..''" by (cases j) simp_all
  with Suc.IH [of "Suc j"] show ?case by (simp del: clean_step.simps)
qed simp

lemma foldl_clean_names:
  "\<forall>n\<in>set ns. n \<notin> {[], ''.'', ''..''} \<Longrightarrow> foldl (clean_step r) st ns = rev ns @ st"
  by (induction ns arbitrary: st) auto

lemma foldl_clean_rev:
  assumes "clean_stack r st" shows "foldl (clean_step r) [] (rev st) = st"
proof -
  from assms obtain ns k where st: "st = ns @ replicate k ''..''" and k: "r \<longrightarrow> k = 0"
    and ns: "\<forall>n\<in>set ns. n \<notin> {[], ''.'', ''..''}"
    by (auto simp: clean_stack_def)
  have "foldl (clean_step r) [] (replicate k ''..'') = replicate k ''..''"
    using k foldl_clean_dots [of 0 k] by (cases r) simp_all
  with foldl_clean_names [of "rev ns" r "replicate k ''..''"] ns show ?thesis
    by (simp add: st)
qed

lemma split_char_join_parts:
  "es \<noteq> [] \<Longrightarrow> \<forall>e\<in>set es. c \<notin> set e \<Longrightarrow> split_char c (join [c] es) = es"
proof (induction es)
  case (Cons e es)
  then show ?case by (cases es) (simp_all add: split_char_none split_char_append)
qed simp

lemma split_char_snoc: "c \<notin> set f \<Longrightarrow> split_char c (x @ c # f) = split_char c x @ [f]"
  by (induction x) (auto simp: split_char_none split: list.splits)

definition rooted_path :: "string \<Rightarrow> bool" where
  "rooted_path p = (case p of [] \<Rightarrow> False | c # _ \<Rightarrow> c = CHR ''/'')"

definition path_stack :: "string \<Rightarrow> string list" where
  "path_stack p = foldl (clean_step (rooted_path p)) [] (split_char (CHR ''/'') p)"

lemma path_Clean_stack:
  "path_Clean p = (if rooted_path p then CHR ''/'' # join ''/'' (rev (path_stack p))
     else if join ''/'' (rev (path_stack p)) = [] then ''.'' else join ''/'' (rev (path_stack p)))"
  by (simp add: path_Clean_def path_stack_def rooted_path_def Let_def)

lemma path_stack_clean: "clean_stack (rooted_path p) (path_stack p)"
  unfolding path_stack_def by (rule foldl_clean_stack) (auto dest: split_char_parts)

lemma clean_stack_parts:
  assumes "clean_stack r st" and "e \<in> set st"
  shows "e \<noteq> [] \<and> CHR ''/'' \<notin> set e"
proof -
  from assms(1) obtain ns k where st: "st = ns @ replicate k ''..''"
    and ns: "\<forall>n\<in>set ns. n \<notin> {[], ''.'', ''..''} \<and> CHR ''/'' \<notin> set n"
    unfolding clean_stack_def by blast
  show ?thesis
  proof (cases "e \<in> set ns")
    case True
    then show ?thesis using ns by blast
  next
    case False
    then have "e = ''..''" using assms(2) by (simp add: st)
    then show ?thesis by simp
  qed
qed

lemma join_clean_ne:
  assumes "clean_stack r st" and "st \<noteq> []"
  shows "join ''/'' (rev st) \<noteq> [] \<and> hd (join ''/'' (rev st)) \<noteq> CHR ''/''"
proof -
  obtain e es where e: "rev st = e # es" using assms(2) by (cases "rev st") auto
  then have "e \<in> set st" by (metis list.set_intros(1) set_rev)
  from clean_stack_parts [OF assms(1) this] obtain c cs where "e = c # cs" "c \<noteq> CHR ''/''"
    by (cases e) auto
  then show ?thesis unfolding e by (cases es) simp_all
qed

lemma rooted_append: "x \<noteq> [] \<Longrightarrow> rooted_path (x @ y) = rooted_path x"
  by (cases x) (auto simp: rooted_path_def)

lemma rooted_Cons [simp]: "rooted_path (c # cs) \<longleftrightarrow> c = CHR ''/''" "\<not> rooted_path []"
  by (simp_all add: rooted_path_def)

lemma rooted_hd: "p \<noteq> [] \<Longrightarrow> rooted_path p \<longleftrightarrow> hd p = CHR ''/''"
  by (cases p) simp_all

lemma rooted_Clean [simp]: "rooted_path (path_Clean x) = rooted_path x"
proof (cases "rooted_path x \<or> path_stack x = []")
  case True
  then show ?thesis by (cases "rooted_path x") (simp_all add: path_Clean_stack)
next
  case False
  with join_clean_ne [OF path_stack_clean [of x]] show ?thesis
    by (simp add: path_Clean_stack rooted_hd)
qed

lemma path_stack_Clean [simp]: "path_stack (path_Clean x) = path_stack x"
proof (cases "path_stack x = []")
  case True
  then show ?thesis
    by (cases "rooted_path x") (simp_all add: path_Clean_stack path_stack_def [of "''/''"] path_stack_def [of "''.''"])
next
  case False
  have c: "clean_stack (rooted_path x) (path_stack x)" by (rule path_stack_clean)
  then have parts: "\<forall>e\<in>set (rev (path_stack x)). CHR ''/'' \<notin> set e"
    using clean_stack_parts by (metis set_rev)
  have sp: "split_char (CHR ''/'') (join ''/'' (rev (path_stack x))) = rev (path_stack x)"
    using parts False split_char_join_parts [of "rev (path_stack x)"] by simp
  have "path_stack (path_Clean x) = foldl (clean_step (rooted_path x)) [] (split_char (CHR ''/'') (path_Clean x))"
    by (simp add: path_stack_def [of "path_Clean x"])
  also have "\<dots> = foldl (clean_step (rooted_path x)) [] (rev (path_stack x))"
    using join_clean_ne [OF c False] sp by (cases "rooted_path x") (simp_all add: path_Clean_stack)
  also have "\<dots> = path_stack x" by (rule foldl_clean_rev [OF c])
  finally show ?thesis .
qed

lemma path_stack_snoc:
  assumes "x \<noteq> []" and "CHR ''/'' \<notin> set f"
  shows "path_stack (x @ CHR ''/'' # f) = clean_step (rooted_path x) (path_stack x) f"
  using assms by (simp add: path_stack_def rooted_append split_char_snoc del: clean_step.simps)

lemma path_Clean_cong:
  "rooted_path p = rooted_path q \<Longrightarrow> path_stack p = path_stack q \<Longrightarrow> path_Clean p = path_Clean q"
  by (simp only: path_Clean_stack)

lemma path_Clean_nonempty [simp]: "path_Clean x \<noteq> []"
  by (simp add: path_Clean_stack)

lemma path_Clean_Clean_snoc:
  assumes "x \<noteq> []" and "CHR ''/'' \<notin> set f"
  shows "path_Clean (path_Clean x @ CHR ''/'' # f) = path_Clean (x @ CHR ''/'' # f)"
  by (rule path_Clean_cong)
     (simp_all only: rooted_append path_Clean_nonempty assms rooted_Clean path_stack_snoc path_stack_Clean not_False_eq_True)

lemma join_snoc: "xs \<noteq> [] \<Longrightarrow> join [c] (xs @ [f]) = join [c] xs @ c # f"
proof (induction xs)
  case (Cons x xs)
  then show ?case by (cases xs) simp_all
qed simp

lemma path_Join_nested:
  assumes "f \<noteq> []" and "CHR ''/'' \<notin> set f"
  shows "path_Join [path_Join es, f] = path_Join (es @ [f])"
proof -
  let ?ne = "filter (\<lambda>e. e \<noteq> []) es"
  show ?thesis
  proof (cases "?ne = []")
    case True
    then show ?thesis using assms by (simp add: path_Join_def Let_def)
  next
    case False
    then have "join ''/'' ?ne \<noteq> []"
      by (cases ?ne; cases "tl ?ne") (auto simp: filter_eq_Cons_iff)
    with False assms show ?thesis
      by (simp add: path_Join_def Let_def join_snoc path_Clean_Clean_snoc)
  qed
qed

text \<open>A joined path ends with its file name.\<close>

lemma last_path_Join:
  assumes "f \<notin> {[], ''.'', ''..''}" and "CHR ''/'' \<notin> set f"
  shows "last (split_char (CHR ''/'') (path_Join (es @ [f]))) = f"
proof -
  let ?p = "join ''/'' (filter (\<lambda>e. e \<noteq> []) es @ [f])"
  have "\<exists>st. path_stack ?p = f # st"
  proof (cases "filter (\<lambda>e. e \<noteq> []) es = []")
    case True
    then show ?thesis using assms by (simp add: path_stack_def split_char_none)
  next
    case False
    then have "join ''/'' (filter (\<lambda>e. e \<noteq> []) es) \<noteq> []"
      by (cases "filter (\<lambda>e. e \<noteq> []) es"; cases "tl (filter (\<lambda>e. e \<noteq> []) es)") (auto simp: filter_eq_Cons_iff)
    with assms False show ?thesis
      by (simp add: join_snoc path_stack_snoc del: clean_step.simps) simp
  qed
  then obtain st where st: "path_stack ?p = f # st" ..
  have parts: "\<forall>e\<in>set (rev st @ [f]). CHR ''/'' \<notin> set e"
    using clean_stack_parts [OF path_stack_clean [of ?p]] st by auto
  have "split_char (CHR ''/'') (join ''/'' (rev st @ [f])) = rev st @ [f]"
    using split_char_join_parts [OF _ parts] by simp
  moreover have "join ''/'' (rev st @ [f]) \<noteq> []"
    using join_clean_ne [OF path_stack_clean [of ?p]] st by simp
  ultimately have "last (split_char (CHR ''/'') (path_Clean ?p)) = f"
    by (simp add: path_Clean_stack st del: clean_step.simps foldl.simps)
  then show ?thesis using assms by (simp add: path_Join_def Let_def)
qed

lemma last_split_char_snoc: "last (split_char c (xs @ [c])) = []"
  using split_char_snoc [of c "[]" xs] by simp

lemma path_Base_Join:
  assumes "f \<notin> {[], ''.'', ''..''}" and "CHR ''/'' \<notin> set f"
  shows "path_Base (path_Join (es @ [f])) = f"
proof -
  let ?p = "path_Join (es @ [f])"
  note l = last_path_Join [OF assms, of es]
  have "?p \<noteq> []" using l assms(1) by auto
  then obtain xs x where p: "?p = xs @ [x]" by (meson rev_exhaust)
  with l assms(1) last_split_char_snoc have "x \<noteq> CHR ''/''" by fastforce
  then have "rev (dropWhile (\<lambda>c. c = CHR ''/'') (rev ?p)) = ?p" by (simp add: p)
  with l \<open>?p \<noteq> []\<close> show ?thesis by (simp add: path_Base_def)
qed

end
