(* ===== verification/Api_Types.thy ===== *)
theory Api_Types
  imports Go_Strings
begin

text \<open>
  The custom resources of api/v1alpha1 (Application, Flavor, Install, Manifest, Registry,
  Source) with their methods. Every resource embeds an \<open>ObjectMeta\<close>, of which the code
  uses the name and the namespace; the empty status structs carry nothing and have no field here.
  A nil slice and an empty slice are the same list.
\<close>

record object_meta =
  om_Name :: string
  om_Namespace :: string

record type_meta =
  tm_Kind :: string
  tm_APIVersion :: string

abbreviation no_meta :: object_meta where
  "no_meta \<equiv> \<lparr>om_Name = [], om_Namespace = []\<rparr>"

section \<open>Parameters and installs (install\_types.go)\<close>

record GenerateSecret =
  gs_Format :: string
  gs_Bytes :: int
  gs_Bits :: int

record ParameterSpec =
  ps_Name :: string
  ps_Value :: string
  ps_GenerateSecret :: GenerateSecret

record InstallSpec =
  is_Application :: string
  is_Version :: string
  is_Suffix :: string
  is_DeployImage :: string
  is_Flavor :: string
  is_DockerRegistry :: string
  is_Parameters :: "ParameterSpec list"
  is_Secrets :: "ParameterSpec list"

record Install =
  in_TypeMeta :: type_meta
  in_ObjectMeta :: object_meta
  in_Spec :: InstallSpec

abbreviation no_secret :: GenerateSecret where
  "no_secret \<equiv> \<lparr>gs_Format = [], gs_Bytes = 0, gs_Bits = 0\<rparr>"

abbreviation plain_param :: "string \<Rightarrow> string \<Rightarrow> ParameterSpec" where
  "plain_param n v \<equiv> \<lparr>ps_Name = n, ps_Value = v, ps_GenerateSecret = no_secret\<rparr>"

definition zero_install :: Install where
  "zero_install = \<lparr>in_TypeMeta = \<lparr>tm_Kind = [], tm_APIVersion = []\<rparr>, in_ObjectMeta = no_meta,
     in_Spec = \<lparr>is_Application = [], is_Version = [], is_Suffix = [], is_DeployImage = [],
       is_Flavor = [], is_DockerRegistry = [], is_Parameters = [], is_Secrets = []\<rparr>\<rparr>"

section \<open>Applications (application\_types.go)\<close>

record StatusList =
  sl_Endpoint :: string
  sl_ExpectedCode :: string

record ImageSpec =
  img_Image :: string
  img_Scheme :: string

record ParameterDefinitionSpec =
  pd_Name :: string
  pd_Default :: string
  pd_Description :: string
  pd_Required :: bool
  pd_GenerateSecret :: GenerateSecret

record OutputDefinitionSpec =
  od_Name :: string
  od_Description :: string

record ProvidesList =
  pl_Name :: string
  pl_Outputs :: "OutputDefinitionSpec list"

record RequiresList =
  rl_Name :: string
  rl_Suffix :: string
  rl_Parameters :: "ParameterSpec list"

record Resource =
  rs_Name :: string
  rs_Category :: string
  rs_Type :: string

record ApplicationSpec =
  as_Name :: string
  as_Version :: string
  as_DockerRegistry :: string
  as_DeployImage :: string
  as_Images :: "ImageSpec list"
  as_ParameterDefinitions :: "ParameterDefinitionSpec list"
  as_Provides :: "ProvidesList list"
  as_Requires :: "RequiresList list"
  as_Resources :: "Resource list"
  as_Status :: "StatusList list"

record Application =
  app_ObjectMeta :: object_meta
  app_Spec :: ApplicationSpec

definition zero_application :: Application where
  "zero_application = \<lparr>app_ObjectMeta = no_meta,
     app_Spec = \<lparr>as_Name = [], as_Version = [], as_DockerRegistry = [], as_DeployImage = [],
       as_Images = [], as_ParameterDefinitions = [], as_Provides = [], as_Requires = [],
       as_Resources = [], as_Status = []\<rparr>\<rparr>"

definition Application_Validate :: "Application \<Rightarrow> gerror option" where
  "Application_Validate a =
     (if TrimSpace (as_Name (app_Spec a)) = [] then Some (Errorf (''empty field 'name'' @ apo) [])
      else if TrimSpace (as_Version (app_Spec a)) = [] then Some (Errorf (''empty field 'version'' @ apo) [])
      else if TrimSpace (as_DeployImage (app_Spec a)) = [] then Some (Errorf (''empty field 'deployImage'' @ apo) [])
      else None)"

section \<open>Flavors, manifests, registries, sources\<close>

record FlavorSpec =
  fs_Name :: string
  fs_StatefulQuorumReplicas :: int
  fs_StatefulReplicationReplicas :: int
  fs_StatelessReplicas :: int
  fs_AntiAffinity :: string
  fs_MinimumNodes :: int

record Flavor =
  fl_ObjectMeta :: object_meta
  fl_Spec :: FlavorSpec

definition zero_flavor :: Flavor where
  "zero_flavor = \<lparr>fl_ObjectMeta = no_meta,
     fl_Spec = \<lparr>fs_Name = [], fs_StatefulQuorumReplicas = 0, fs_StatefulReplicationReplicas = 0,
       fs_StatelessReplicas = 0, fs_AntiAffinity = [], fs_MinimumNodes = 0\<rparr>\<rparr>"

record BundleSpec =
  bs_Name :: string
  bs_Version :: string
  bs_Parameters :: "ParameterSpec list"
  bs_Requires :: "RequiresList list"

record SourceInfo =
  si_Name :: string
  si_Section :: string
  si_Release :: string

record ManifestSpec =
  ms_Flavor :: string
  ms_Registry :: string
  ms_Sources :: "SourceInfo list"
  ms_Bundles :: "BundleSpec list"
  ms_CPU :: string
  ms_Memory :: string

record Manifest =
  mf_ObjectMeta :: object_meta
  mf_Spec :: ManifestSpec

definition zero_manifest :: Manifest where
  "zero_manifest = \<lparr>mf_ObjectMeta = no_meta,
     mf_Spec = \<lparr>ms_Flavor = [], ms_Registry = [], ms_Sources = [], ms_Bundles = [],
       ms_CPU = [], ms_Memory = []\<rparr>\<rparr>"

record RegistrySpec =
  rg_Image :: string
  rg_Flavor :: string
  rg_NodeSelector :: "(string \<times> string) list"
  rg_HostPath :: string

record Registry =
  reg_ObjectMeta :: object_meta
  reg_Spec :: RegistrySpec

definition zero_registry :: Registry where
  "zero_registry = \<lparr>reg_ObjectMeta = no_meta,
     reg_Spec = \<lparr>rg_Image = [], rg_Flavor = [], rg_NodeSelector = [], rg_HostPath = []\<rparr>\<rparr>"

record SourceSpec =
  ss_Type :: string
  ss_Path :: string
  ss_Options :: "string \<rightharpoonup> string"

record SourceResource =
  src_ObjectMeta :: object_meta
  src_Spec :: SourceSpec

definition zero_source :: SourceResource where
  "zero_source = \<lparr>src_ObjectMeta = no_meta,
     src_Spec = \<lparr>ss_Type = [], ss_Path = [], ss_Options = Map.empty\<rparr>\<rparr>"

section \<open>Registry names (registry\_types.go)\<close>

definition invalidDnsChars :: "string list" where
  "invalidDnsChars = [''.'', ''_'', ''^'', ''$'', ''@'', ''!'', ''+'', ''='', ''('', '')'', ''&'']"

definition SanitizedRegistryName :: "Registry \<Rightarrow> string" where
  "SanitizedRegistryName r =
     foldl (\<lambda>regName invalidChar. replace_all invalidChar ''-'' regName)
       (om_Name (reg_ObjectMeta r)) invalidDnsChars"

definition ClusterUrl :: "Registry \<Rightarrow> string" where
  "ClusterUrl r = ''localhost:6000/registry-'' @ SanitizedRegistryName r"

lemma foldl_replace_chars:
  "foldl (\<lambda>s c. replace_all [c] [d] s) s cs = map (\<lambda>x. if x \<in> set cs then d else x) s"
  if "d \<notin> set cs"
  using that
proof (induction cs arbitrary: s)
  case (Cons c cs)
  then show ?case by (auto simp: replace_all_char)
qed simp

lemma SanitizedRegistryName_map:
  "SanitizedRegistryName r =
     map (\<lambda>x. if x \<in> set (concat invalidDnsChars) then CHR ''-'' else x) (om_Name (reg_ObjectMeta r))"
proof -
  have fold_concat: "foldl (\<lambda>regName c. replace_all c ''-'' regName) s (map (\<lambda>c. [c]) cs)
      = foldl (\<lambda>s c. replace_all [c] ''-'' s) s cs" for s cs
    by (induction cs arbitrary: s) auto
  have chars: "invalidDnsChars = map (\<lambda>c. [c]) (concat invalidDnsChars)"
    by (simp add: invalidDnsChars_def)
  have dash: "CHR ''-'' \<notin> set (concat invalidDnsChars)"
    by (simp add: invalidDnsChars_def)
  show ?thesis
    unfolding SanitizedRegistryName_def
    by (subst chars) (simp only: fold_concat foldl_replace_chars [OF dash])
qed

text \<open>
  The registry name used in the deployment, the service and the URL has the length of the
  resource's name, contains none of the characters the code calls invalid in DNS names, and
  differs from the resource's name only where that had such a character, by a dash.
\<close>

lemma SanitizedRegistryName_valid:
  "length (SanitizedRegistryName r) = length (om_Name (reg_ObjectMeta r)) \<and>
   (\<forall>c. [c] \<in> set invalidDnsChars \<longrightarrow> c \<notin> set (SanitizedRegistryName r)) \<and>
   (\<forall>i. i < length (om_Name (reg_ObjectMeta r)) \<longrightarrow>
      SanitizedRegistryName r ! i =
        (if [om_Name (reg_ObjectMeta r) ! i] \<in> set invalidDnsChars then CHR ''-''
         else om_Name (reg_ObjectMeta r) ! i))"
proof -
  have mem: "c \<in> set (concat invalidDnsChars) \<longleftrightarrow> [c] \<in> set invalidDnsChars" for c
    by (simp add: invalidDnsChars_def)
  have "[CHR ''-''] \<notin> set invalidDnsChars"
    by (simp add: invalidDnsChars_def)
  then show ?thesis
    unfolding SanitizedRegistryName_map mem by auto
qed

theorem SanitizedRegistryName_valid_witness:
  "\<exists>r. SanitizedRegistryName r = ''my-reg-v1-2'' \<and> ClusterUrl r = ''localhost:6000/registry-my-reg-v1-2''
     \<and> CHR ''.'' \<notin> set (SanitizedRegistryName r)"
proof -
  let ?r = "zero_registry\<lparr>reg_ObjectMeta := \<lparr>om_Name = ''my_reg@v1.2'', om_Namespace = ''default''\<rparr>\<rparr>"
  have name: "SanitizedRegistryName ?r = ''my-reg-v1-2''"
    by (simp add: SanitizedRegistryName_map invalidDnsChars_def)
  have "CHR ''.'' \<notin> set (SanitizedRegistryName ?r)"
    using SanitizedRegistryName_valid [of ?r] by (simp add: invalidDnsChars_def)
  with name show ?thesis by (auto simp: ClusterUrl_def)
qed

end
