(* ===== verification/Kube_Types.thy ===== *)
theory Kube_Types
  imports Api_Types
begin

text \<open>
  The Kubernetes objects the code reads and builds, with the fields it uses, and the records of
  operations that stand for the two Kubernetes clients: controller-runtime's \<open>client.Client\<close>
  (one \<open>kind_client\<close> per resource kind) and client-go's \<open>kubernetes.Interface\<close>
  (\<open>clientset\<close>). Both are code outside the repository: each operation is a parameter
  that takes the state of the world and returns a result and the next state, so that other
  writers, failures and the passing of time are all covered. 32-bit fields are \<open>32 word\<close>,
  compared and printed as signed numbers.
\<close>

type_synonym int32 = "32 word"

type_synonym labels = "(string \<times> string) list"

section \<open>Pods, jobs, config maps, nodes, secrets\<close>

record VolumeMount =
  vm_Name :: string
  vm_MountPath :: string

record Volume =
  vol_Name :: string
  vol_ConfigMapName :: string

record Container =
  ctr_Name :: string
  ctr_Image :: string
  ctr_Args :: "string list"
  ctr_RunAsNonRoot :: "bool option"
  ctr_VolumeMounts :: "VolumeMount list"

record PodSpec =
  psp_ActiveDeadlineSeconds :: "int option"
  psp_TerminationGracePeriodSeconds :: "int option"
  psp_RestartPolicy :: string
  psp_NodeName :: string
  psp_Containers :: "Container list"
  psp_Volumes :: "Volume list"

record Waiting =
  wt_Reason :: string

record Terminated =
  tr_Reason :: string
  tr_ExitCode :: int32

record ContainerState =
  cst_Waiting :: "Waiting option"
  cst_Running :: "unit option"
  cst_Terminated :: "Terminated option"

record ContainerStatus =
  cs_Name :: string
  cs_State :: ContainerState
  cs_RestartCount :: int32

record Pod =
  pod_ObjectMeta :: object_meta
  pod_Spec :: PodSpec
  pod_Phase :: string
  pod_HostIP :: string
  pod_InitContainerStatuses :: "ContainerStatus list"
  pod_ContainerStatuses :: "ContainerStatus list"

record JobSpec =
  js_BackoffLimit :: "int32 option"
  js_ActiveDeadlineSeconds :: "int option"
  js_Completions :: "int32 option"
  js_Parallelism :: "int32 option"
  js_MatchLabels :: labels
  js_Template :: PodSpec

record Job =
  job_ObjectMeta :: object_meta
  job_CreationTimestamp :: int
  job_Spec :: JobSpec
  job_Conditions :: "string list"

text \<open>
  \<open>job_Conditions\<close> are the \<open>Type\<close>s of \<open>job.Status.Conditions\<close>, in order. The
  text of a configuration file is kept as the value \<open>json.Marshal\<close> was given.
\<close>

datatype json_text =
    Json_parameters "string \<rightharpoonup> string"
  | Json_install InstallSpec
  | Json_requires "RequiresList list"
  | Json_flavor FlavorSpec

record ConfigMap =
  cm_ObjectMeta :: object_meta
  cm_Data :: "(string \<rightharpoonup> json_text) option"

record Node =
  node_Name :: string
  node_Labels :: "string \<rightharpoonup> string"
  node_Allocatable_CPU :: int
  node_Allocatable_Memory :: int
  node_Addresses :: "string list"
  node_Conditions :: "(string \<times> string) list"

record Secret =
  sec_ObjectMeta :: object_meta
  sec_Data :: "(string \<rightharpoonup> string) option"

section \<open>Workloads\<close>

record DeploymentCondition =
  dc_Type :: string
  dc_Reason :: string

record Deployment =
  dep_Name :: string
  dep_Annotations :: "string \<rightharpoonup> string"
  dep_Generation :: int
  dep_MatchLabels :: labels
  dep_Replicas :: "int32 option"
  dep_ObservedGeneration :: int
  dep_StatusReplicas :: int32
  dep_UpdatedReplicas :: int32
  dep_AvailableReplicas :: int32
  dep_ReadyReplicas :: int32
  dep_Conditions :: "DeploymentCondition list"

record RollingUpdate =
  ru_Partition :: "int32 option"

record StatefulSet =
  sts_Name :: string
  sts_Namespace :: string
  sts_Generation :: int
  sts_MatchLabels :: labels
  sts_Replicas :: "int32 option"
  sts_UpdateStrategyType :: string
  sts_RollingUpdate :: "RollingUpdate option"
  sts_ObservedGeneration :: int
  sts_ReadyReplicas :: int32
  sts_UpdatedReplicas :: int32
  sts_CurrentReplicas :: int32
  sts_UpdateRevision :: string
  sts_CurrentRevision :: string

record DaemonSet =
  ds_Name :: string
  ds_Generation :: int
  ds_MatchLabels :: labels
  ds_UpdateStrategyType :: string
  ds_ObservedGeneration :: int
  ds_UpdatedNumberScheduled :: int32
  ds_DesiredNumberScheduled :: int32
  ds_NumberAvailable :: int32
  ds_NumberReady :: int32

record CronJob =
  cj_Name :: string
  cj_Suspend :: "bool option"
  cj_JobTemplateLabels :: labels

record Kubegres =
  kg_Name :: string
  kg_Replicas :: int

section \<open>The controller-runtime client\<close>

datatype list_opt = InNamespace string | MatchingFields labels | MatchingLabels labels

record ('o, 'w) kind_client =
  kc_ObjectMeta :: "'o \<Rightarrow> object_meta"
  kc_SetObjectMeta :: "object_meta \<Rightarrow> 'o \<Rightarrow> 'o"
  kc_Get :: "string \<Rightarrow> string \<Rightarrow> 'o \<Rightarrow> ('w, 'o) io"
  kc_List :: "list_opt list \<Rightarrow> ('w, 'o list) io"
  kc_Create :: "'o \<Rightarrow> ('w, 'o) io"
  kc_CreateOrPatch :: "'o \<Rightarrow> ('o \<Rightarrow> 'o) \<Rightarrow> ('w, 'o) io"
  kc_Patch :: "'o \<Rightarrow> 'o \<Rightarrow> ('w, 'o) io"
  kc_Apply :: "'o \<Rightarrow> ('w, 'o) io"
  kc_DeleteAllOf :: "string \<Rightarrow> string \<Rightarrow> ('w, unit) io"

section \<open>The client-go client\<close>

record Scale =
  scale_Replicas :: int32

record PodLogOptions =
  plo_Container :: string
  plo_Follow :: bool
  plo_TailLines :: "int option"

datatype patch_payload =
    RestartedAt int
  | Suspend bool
  | NodeSelectorNonExisting
  | RemoveNodeSelectorNonExisting

record ('o, 'w) workload_client =
  wl_Get :: "string \<Rightarrow> string \<Rightarrow> ('w, 'o) io"
  wl_List :: "string \<Rightarrow> labels \<Rightarrow> ('w, 'o list) io"
  wl_Patch :: "string \<Rightarrow> string \<Rightarrow> patch_payload \<Rightarrow> ('w, unit) io"
  wl_GetScale :: "string \<Rightarrow> string \<Rightarrow> ('w, Scale) io"
  wl_UpdateScale :: "string \<Rightarrow> string \<Rightarrow> Scale \<Rightarrow> ('w, unit) io"
  wl_Update :: "string \<Rightarrow> 'o \<Rightarrow> ('w, unit) io"
  wl_Delete :: "string \<Rightarrow> string \<Rightarrow> ('w, unit) io"

record 'w clientset =
  cs_rt :: "'w runtime"
  cs_Secrets_Get :: "string \<Rightarrow> string \<Rightarrow> ('w, Secret) io"
  cs_Secrets_Create :: "string \<Rightarrow> Secret \<Rightarrow> ('w, unit) io"
  cs_Secrets_Update :: "string \<Rightarrow> Secret \<Rightarrow> ('w, unit) io"
  cs_Nodes_List :: "('w, Node list) io"
  cs_Pods_List :: "string \<Rightarrow> labels \<Rightarrow> ('w, Pod list) io"
  cs_Pods_DeleteCollection :: "string \<Rightarrow> int \<Rightarrow> labels \<Rightarrow> ('w, unit) io"
  cs_Pods_GetLogs :: "string \<Rightarrow> string \<Rightarrow> PodLogOptions \<Rightarrow> ('w, nat) io"
  cs_Logs_Copy :: "nat \<Rightarrow> ('w, unit) io"
  cs_Logs_Close :: "nat \<Rightarrow> ('w, unit) io"
  cs_Jobs :: "(Job, 'w) workload_client"
  cs_Deployments :: "(Deployment, 'w) workload_client"
  cs_StatefulSets :: "(StatefulSet, 'w) workload_client"
  cs_DaemonSets :: "(DaemonSet, 'w) workload_client"
  cs_CronJobs :: "(CronJob, 'w) workload_client"
  cs_GetConfig :: "('w, unit) io"
  cs_Kubegres :: "(Kubegres, 'w) workload_client"

section \<open>KBClient\<close>

text \<open>
  managers/client.go: the pair of both clients. The other parameters are the pure functions of
  third-party and standard library code the managers call: \<open>resource.ParseQuantity\<close>
  (the value of the quantity), \<open>dependencysolver.LayeredTopologicalSort\<close> (\<open>None\<close>
  for its nil result), the generators behind \<open>crypto/rand\<close> and \<open>crypto/rsa\<close> and
  the encoding of a private key as a PEM block (\<open>None\<close> for its nil result).
\<close>

type_synonym rsa_key = string

record 'w KBClient =
  kb_Interface :: "'w clientset"
  kb_Installs :: "(Install, 'w) kind_client"
  kb_Applications :: "(Application, 'w) kind_client"
  kb_Flavors :: "(Flavor, 'w) kind_client"
  kb_Manifests :: "(Manifest, 'w) kind_client"
  kb_Registries :: "(Registry, 'w) kind_client"
  kb_Sources :: "(SourceResource, 'w) kind_client"
  kb_Jobs :: "(Job, 'w) kind_client"
  kb_ConfigMaps :: "(ConfigMap, 'w) kind_client"
  kb_Pods :: "(Pod, 'w) kind_client"
  kb_ParseQuantity :: "string \<Rightarrow> int result"
  kb_LayeredTopologicalSort :: "(string \<times> string list) list \<Rightarrow> string list list option"
  kb_ReadRandom :: "nat \<Rightarrow> ('w, 8 word list) io"
  kb_GenerateKey :: "int \<Rightarrow> ('w, rsa_key) io"
  kb_ValidateKey :: "rsa_key \<Rightarrow> gerror option"
  kb_EncodePEM :: "rsa_key \<Rightarrow> string option"
  kb_UrlPath :: "string \<Rightarrow> string result"

abbreviation kb_rt :: "'w KBClient \<Rightarrow> 'w runtime" where
  "kb_rt kb \<equiv> cs_rt (kb_Interface kb)"

end
