(* ===== verification/Resource_Manager.thy ===== *)
theory Resource_Manager
  imports Kube_Types
begin

text \<open>
  managers/resource.go: the \<open>ResourceManager\<close>, a thin layer over the controller-runtime
  client that every other manager uses. It is generic in the kind of the resource, as the Go
  code is through \<open>client.Object\<close>.
\<close>

section \<open>Operations\<close>

definition rm_Get ::
    "('o, 'w) kind_client \<Rightarrow> string \<Rightarrow> string \<Rightarrow> 'o \<Rightarrow> ('w, 'o) io" where
  "rm_Get c name namespace obj =
     try_do (kc_Get c name namespace obj)
       (\<lambda>err. Wrapf err ''couldn't get resource %q'' [Str name]) ret"

definition rm_List ::
    "('o, 'w) kind_client \<Rightarrow> string \<Rightarrow> list_opt list \<Rightarrow> ('w, 'o list) io" where
  "rm_List c namespace opts =
     try_do (kc_List c (opts @ [InNamespace namespace]))
       (\<lambda>err. Wrapf err ''couldn't list resources in namespace %q'' [Str namespace]) ret"

definition rm_Create :: "('o, 'w) kind_client \<Rightarrow> 'o \<Rightarrow> ('w, 'o) io" where
  "rm_Create c obj =
     try_do (kc_Create c obj)
       (\<lambda>err. Wrapf err ''couldn't create resource %q'' [Str (om_Name (kc_ObjectMeta c obj))]) ret"

text \<open>
  \<open>apierrors.IsNotFound\<close> looks through wrapped errors; \<open>client.IgnoreNotFound\<close>
  returns nil for such an error and for nil, and any other error unchanged.
\<close>

fun is_not_found :: "gerror \<Rightarrow> bool" where
  "is_not_found (ApiError r) = (r = ReasonNotFound)"
| "is_not_found (Wrapf e f args) = is_not_found e"
| "is_not_found e = False"

definition IgnoreNotFound :: "gerror option \<Rightarrow> gerror option" where
  "IgnoreNotFound err =
     (case err of None \<Rightarrow> None | Some e \<Rightarrow> if is_not_found e then None else Some e)"

text \<open>The object passed in is the one \<open>Get\<close> decodes into, and the one returned.\<close>

definition rm_CreateIfNotExists :: "('o, 'w) kind_client \<Rightarrow> 'o \<Rightarrow> ('w, 'o) io" where
  "rm_CreateIfNotExists c obj =
     (let name = om_Name (kc_ObjectMeta c obj); namespace = om_Namespace (kc_ObjectMeta c obj) in
      check (kc_Get c name namespace obj) obj (\<lambda>err obj'.
        case err of
          Some e \<Rightarrow>
            if IgnoreNotFound err = None
            then try_do (kc_Create c obj')
                   (\<lambda>createErr. Wrapf createErr ''couldn't create resource %q'' [Str name]) ret
            else fail (Wrapf e ''couldn't get resource %q'' [Str name])
        | None \<Rightarrow> ret obj'))"

definition rm_CreateOrPatch ::
    "('o, 'w) kind_client \<Rightarrow> string \<Rightarrow> string \<Rightarrow> 'o \<Rightarrow> ('o \<Rightarrow> 'o) \<Rightarrow> ('w, unit) io" where
  "rm_CreateOrPatch c name namespace obj f =
     check (kc_Get c name namespace obj) obj (\<lambda>err obj'.
       andthen
         (case err of
            Some e \<Rightarrow>
              if IgnoreNotFound err = None
              then ret (kc_SetObjectMeta c (\<lparr>om_Name = name, om_Namespace = namespace\<rparr>) obj')
              else fail (Wrapf e ''couldn't get resource to create or patch'' [])
          | None \<Rightarrow> ret obj')
         (\<lambda>obj''.
            try_do (kc_CreateOrPatch c obj'' f)
              (\<lambda>e. Wrapf e ''couldn't create or update resource'' []) (\<lambda>_. ret ())))"

definition rm_Patch :: "('o, 'w) kind_client \<Rightarrow> 'o \<Rightarrow> 'o \<Rightarrow> ('w, unit) io" where
  "rm_Patch c newObj original =
     try_do (kc_Patch c newObj original)
       (\<lambda>err. Wrapf err ''couldn't patch resource %q'' [Str (om_Name (kc_ObjectMeta c newObj))])
       (\<lambda>_. ret ())"

definition rm_Apply :: "('o, 'w) kind_client \<Rightarrow> 'o \<Rightarrow> ('w, unit) io" where
  "rm_Apply c obj =
     try_do (kc_Apply c obj)
       (\<lambda>err. Wrapf err ''couldn't apply resource %q'' [Str (om_Name (kc_ObjectMeta c obj))])
       (\<lambda>_. ret ())"

text \<open>
  The polling loop of \<open>Delete\<close>. It has no bound in the code, so it takes fuel; the branch
  order is the code's: the test \<open>IgnoreNotFound(err) == nil\<close> comes first.
\<close>

fun delete_poll ::
    "nat \<Rightarrow> 'w runtime \<Rightarrow> ('o, 'w) kind_client \<Rightarrow> string \<Rightarrow> string \<Rightarrow> 'o \<Rightarrow> ('w, unit) io" where
  "delete_poll 0 rt c name namespace obj = out_of_fuel"
| "delete_poll (Suc n) rt c name namespace obj =
     check (kc_Get c name namespace obj) obj (\<lambda>err obj'.
       if IgnoreNotFound err = None then ret ()
       else case err of
         Some e \<Rightarrow> fail (Wrapf e ''error polling resource'' [])
       | None \<Rightarrow> andthen (sleep rt second) (\<lambda>_. delete_poll n rt c name namespace obj'))"

definition rm_Delete ::
    "'w runtime \<Rightarrow> ('o, 'w) kind_client \<Rightarrow> string \<Rightarrow> string \<Rightarrow> 'o \<Rightarrow> ('w, unit) io" where
  "rm_Delete rt c name namespace obj =
     check (kc_DeleteAllOf c namespace name) () (\<lambda>err _.
       case IgnoreNotFound err of
         Some e \<Rightarrow> fail (Wrapf e ''error deleting resource'' [])
       | None \<Rightarrow>
           andthen (delete_poll (rt_fuel rt) rt c name namespace obj)
             (\<lambda>_. sleep rt second))"

section \<open>What the operations do\<close>

lemma IgnoreNotFound_simps [simp]:
  "IgnoreNotFound None = None"
  "IgnoreNotFound (Some e) = (if is_not_found e then None else Some e)"
  by (simp_all add: IgnoreNotFound_def)

lemma rm_Get_Ok [io_ok]:
  "rm_Get c n ns ob w = (Ok x, w') \<longleftrightarrow> kc_Get c n ns ob w = (Ok x, w')"
  by (auto simp: rm_Get_def io_ok)

lemma rm_List_Ok [io_ok]:
  "rm_List c ns opts w = (Ok xs, w') \<longleftrightarrow> kc_List c (opts @ [InNamespace ns]) w = (Ok xs, w')"
  by (auto simp: rm_List_def io_ok)

lemma rm_Create_Ok [io_ok]:
  "rm_Create c ob w = (Ok x, w') \<longleftrightarrow> kc_Create c ob w = (Ok x, w')"
  by (auto simp: rm_Create_def io_ok)

lemma rm_Patch_Ok [io_ok]:
  "rm_Patch c a b w = (Ok u, w') \<longleftrightarrow> (\<exists>x. kc_Patch c a b w = (Ok x, w'))"
  by (auto simp: rm_Patch_def io_ok)

lemma rm_Apply_Ok [io_ok]:
  "rm_Apply c a w = (Ok u, w') \<longleftrightarrow> (\<exists>x. kc_Apply c a w = (Ok x, w'))"
  by (auto simp: rm_Apply_def io_ok)

lemma keeps_rm [keeps_rule]:
  "keeps P (kc_Get c n ns obj) \<Longrightarrow> keeps P (rm_Get c n ns obj)"
  "keeps P (kc_List c (opts @ [InNamespace ns])) \<Longrightarrow> keeps P (rm_List c ns opts)"
  "keeps P (kc_Create c obj) \<Longrightarrow> keeps P (rm_Create c obj)"
  "keeps P (kc_Patch c new old) \<Longrightarrow> keeps P (rm_Patch c new old)"
  "keeps P (kc_Apply c obj) \<Longrightarrow> keeps P (rm_Apply c obj)"
  by (auto simp: rm_Get_def rm_List_def rm_Create_def rm_Patch_def rm_Apply_def
      intro!: keeps_rule)

text \<open>
  The poll never takes its waiting branch: an object that is still there ends it just as an
  object that is gone does.
\<close>

lemma delete_poll_once:
  "delete_poll (Suc n) rt c name namespace obj w =
     (case kc_Get c name namespace obj w of
        (Ok _, w') \<Rightarrow> (Ok (), w')
      | (Err e, w') \<Rightarrow>
          if is_not_found e then (Ok (), w') else (Err (Wrapf e ''error polling resource'' []), w')
      | (Panic s, w') \<Rightarrow> (Panic s, w')
      | (OutOfFuel, w') \<Rightarrow> (OutOfFuel, w'))"
  by (auto simp: check_def handle_def split: prod.splits result.splits)

lemma delete_poll_fuel:
  "0 < n \<Longrightarrow> delete_poll n rt c name namespace obj = delete_poll 1 rt c name namespace obj"
  by (cases n) (auto simp: fun_eq_iff delete_poll_once simp del: delete_poll.simps)

text \<open>
  \<open>ResourceManager.Delete\<close> succeeds exactly when the delete request succeeds (or
  finds nothing) and the one poll that follows either does not find the object or finds it: the
  loop that is meant to wait until the object is gone ends at its first successful \<open>Get\<close>
  whatever it returned, because \<open>client.IgnoreNotFound(nil)\<close> is nil as well. Any positive
  loop bound gives this result, so the code's unbounded loop always ends.
\<close>

lemma rm_Delete_single_poll:
  assumes "0 < rt_fuel rt"
  shows "rm_Delete rt c name namespace obj w = (Ok (), w') \<longleftrightarrow>
    (\<exists>dr w1 gr w2. kc_DeleteAllOf c namespace name w = (dr, w1) \<and>
       (dr = Ok () \<or> (\<exists>e. dr = Err e \<and> is_not_found e)) \<and>
       kc_Get c name namespace obj w1 = (gr, w2) \<and>
       ((\<exists>x. gr = Ok x) \<or> (\<exists>e. gr = Err e \<and> is_not_found e)) \<and>
       w' = rt_sleep rt second w2)"
proof -
  obtain dr w1 where d: "kc_DeleteAllOf c namespace name w = (dr, w1)" by fastforce
  obtain gr w2 where g: "kc_Get c name namespace obj w1 = (gr, w2)" by fastforce
  obtain n where n: "rt_fuel rt = Suc n" using assms by (cases "rt_fuel rt") auto
  have poll: "delete_poll (rt_fuel rt) rt c name namespace obj w1 = (Ok (), w3) \<longleftrightarrow>
      ((\<exists>x. gr = Ok x) \<or> (\<exists>e. gr = Err e \<and> is_not_found e)) \<and> w3 = w2" for w3
    unfolding n delete_poll_once g by (auto split: result.splits)
  show ?thesis
  proof (cases dr)
    case (Ok u)
    then show ?thesis
      using d g by (auto simp: rm_Delete_def io_ok poll simp del: delete_poll.simps)
  next
    case (Err e)
    then show ?thesis
      using d g by (cases "is_not_found e")
        (auto simp: rm_Delete_def io_ok poll simp del: delete_poll.simps)
  qed (use d in \<open>auto simp: rm_Delete_def\<close>)
qed

end
