(* ===== verification/Cluster.thy ===== *)
theory Cluster
  imports Resource_Manager
begin

text \<open>
  What the code relies on from the Kubernetes API server, stated as named hypotheses: an abstract
  cluster is one map per resource kind, and a client \<open>serves\<close> it when its requests have
  their documented effect on these maps (a \<open>Get\<close> finds what is stored and reports
  \<open>NotFound\<close> otherwise, a \<open>Create\<close> refuses an existing name, a \<open>Patch\<close>
  replaces the stored object, nothing else changes). Theorems that need less assume less; none of
  these laws is used by a definition. \<open>mem_client\<close> is a small in-memory server that
  meets the laws, for the witnesses.
\<close>

section \<open>The abstract cluster\<close>

type_synonym key = "string \<times> string"

record cluster =
  cl_Installs :: "key \<rightharpoonup> Install"
  cl_Applications :: "key \<rightharpoonup> Application"
  cl_Flavors :: "key \<rightharpoonup> Flavor"
  cl_Manifests :: "key \<rightharpoonup> Manifest"
  cl_Registries :: "key \<rightharpoonup> Registry"
  cl_Sources :: "key \<rightharpoonup> SourceResource"
  cl_Secrets :: "key \<rightharpoonup> Secret"
  cl_Nodes :: "Node list"

definition key_of :: "('o, 'w) kind_client \<Rightarrow> 'o \<Rightarrow> key" where
  "key_of c ob = (om_Name (kc_ObjectMeta c ob), om_Namespace (kc_ObjectMeta c ob))"

section \<open>Laws\<close>

text \<open>\<open>get\<close> selects the kind's map from the abstract cluster and \<open>upd\<close> changes it.\<close>

definition serves_Get ::
    "('o, 'w) kind_client \<Rightarrow> ('w \<Rightarrow> cluster) \<Rightarrow> (cluster \<Rightarrow> key \<rightharpoonup> 'o) \<Rightarrow> bool" where
  "serves_Get c view get \<longleftrightarrow> (\<forall>n ns ob w. kc_Get c n ns ob w =
     (case get (view w) (n, ns) of None \<Rightarrow> (Err (ApiError ReasonNotFound), w) | Some x \<Rightarrow> (Ok x, w)))"

definition serves_List ::
    "('o, 'w) kind_client \<Rightarrow> ('w \<Rightarrow> cluster) \<Rightarrow> (cluster \<Rightarrow> key \<rightharpoonup> 'o) \<Rightarrow> bool" where
  "serves_List c view get \<longleftrightarrow> (\<forall>ns w. \<exists>xs. kc_List c [InNamespace ns] w = (Ok xs, w) \<and>
     set xs = {x. \<exists>n. get (view w) (n, ns) = Some x})"

definition serves_Create ::
    "('o, 'w) kind_client \<Rightarrow> ('w \<Rightarrow> cluster) \<Rightarrow> (cluster \<Rightarrow> key \<rightharpoonup> 'o) \<Rightarrow>
     (((key \<rightharpoonup> 'o) \<Rightarrow> (key \<rightharpoonup> 'o)) \<Rightarrow> cluster \<Rightarrow> cluster) \<Rightarrow> bool" where
  "serves_Create c view get upd \<longleftrightarrow> (\<forall>ob w.
     (if get (view w) (key_of c ob) = None
      then \<exists>w'. kc_Create c ob w = (Ok ob, w') \<and> view w' = upd (\<lambda>m. m(key_of c ob \<mapsto> ob)) (view w)
      else kc_Create c ob w = (Err (ApiError ReasonAlreadyExists), w)))"

definition serves_Patch ::
    "('o, 'w) kind_client \<Rightarrow> ('w \<Rightarrow> cluster) \<Rightarrow> (cluster \<Rightarrow> key \<rightharpoonup> 'o) \<Rightarrow>
     (((key \<rightharpoonup> 'o) \<Rightarrow> (key \<rightharpoonup> 'o)) \<Rightarrow> cluster \<Rightarrow> cluster) \<Rightarrow> bool" where
  "serves_Patch c view get upd \<longleftrightarrow> (\<forall>new old w.
     get (view w) (key_of c new) = Some old \<longrightarrow>
     (\<exists>w'. kc_Patch c new old w = (Ok new, w') \<and>
        view w' = upd (\<lambda>m. m(key_of c new \<mapsto> new)) (view w)))"

text \<open>
  A secret is stored without an empty \<open>data\<close> field (the field is \<open>omitempty\<close>),
  so that reading back a secret created with an empty map gives a nil map.
\<close>

definition stored_secret :: "Secret \<Rightarrow> Secret" where
  "stored_secret s = s\<lparr>sec_Data := (if sec_Data s = Some Map.empty then None else sec_Data s)\<rparr>"

definition serves_Secrets :: "'w clientset \<Rightarrow> ('w \<Rightarrow> cluster) \<Rightarrow> bool" where
  "serves_Secrets cs view \<longleftrightarrow> (\<forall>ns n s w.
     cs_Secrets_Get cs ns n w =
       (case cl_Secrets (view w) (n, ns) of
          None \<Rightarrow> (Err (ApiError ReasonNotFound), w) | Some x \<Rightarrow> (Ok x, w)) \<and>
     (\<exists>w'. cs_Secrets_Create cs ns s w = (Ok (), w') \<and>
        view w' = (view w)\<lparr>cl_Secrets := (cl_Secrets (view w))((om_Name (sec_ObjectMeta s), ns) \<mapsto> stored_secret s)\<rparr>) \<and>
     (\<exists>w'. cs_Secrets_Update cs ns s w = (Ok (), w') \<and>
        view w' = (view w)\<lparr>cl_Secrets := (cl_Secrets (view w))((om_Name (sec_ObjectMeta s), ns) \<mapsto> stored_secret s)\<rparr>))"

text \<open>The identity of an object is a field of it, which the accessors of a client read.\<close>

definition plain_meta :: "'w KBClient \<Rightarrow> bool" where
  "plain_meta kb \<longleftrightarrow> kc_ObjectMeta (kb_Installs kb) = in_ObjectMeta
     \<and> kc_ObjectMeta (kb_Applications kb) = app_ObjectMeta
     \<and> kc_ObjectMeta (kb_Flavors kb) = fl_ObjectMeta"

text \<open>In the stored maps, every install is filed under its own name and namespace.\<close>

definition keyed_installs :: "cluster \<Rightarrow> bool" where
  "keyed_installs cl \<longleftrightarrow> (\<forall>n ns i. cl_Installs cl (n, ns) = Some i \<longrightarrow>
     in_ObjectMeta i = \<lparr>om_Name = n, om_Namespace = ns\<rparr>)"

lemma serves_Get_cases:
  assumes "serves_Get c view get"
  shows "get (view w) (n, ns) = None \<Longrightarrow> kc_Get c n ns ob w = (Err (ApiError ReasonNotFound), w)"
    and "get (view w) (n, ns) = Some x \<Longrightarrow> kc_Get c n ns ob w = (Ok x, w)"
  using assms by (simp_all add: serves_Get_def)

lemma serves_Get_OkD:
  "serves_Get c view get \<Longrightarrow> kc_Get c n ns ob w = (Ok x, w') \<Longrightarrow> get (view w) (n, ns) = Some x \<and> w' = w"
  by (auto simp: serves_Get_def split: option.splits)

lemma rm_Get_served:
  assumes "serves_Get c view get"
  shows "get (view w) (n, ns) = None \<Longrightarrow>
      rm_Get c n ns ob w =
        (Err (Wrapf (ApiError ReasonNotFound) ''couldn't get resource %q'' [Str n]), w)"
    and "get (view w) (n, ns) = Some x \<Longrightarrow> rm_Get c n ns ob w = (Ok x, w)"
  using assms by (simp_all add: rm_Get_def serves_Get_def)

lemma serves_Secrets_Get:
  assumes "serves_Secrets cs view"
  shows "cl_Secrets (view w) (n, ns) = None \<Longrightarrow>
      cs_Secrets_Get cs ns n w = (Err (ApiError ReasonNotFound), w)"
    and "cl_Secrets (view w) (n, ns) = Some x \<Longrightarrow> cs_Secrets_Get cs ns n w = (Ok x, w)"
  using assms by (simp_all add: serves_Secrets_def)

text \<open>
  Creating a resource that is missing stores it, and doing so again changes nothing and
  returns what is stored: \<open>CreateIfNotExists\<close> is idempotent on a served cluster, and an
  existing resource is never overwritten.
\<close>

lemma CreateIfNotExists_idempotent:
  assumes "serves_Get c view get" and "serves_Create c view get upd"
    and upd: "\<And>f cl. get (upd f cl) = f (get cl)"
  shows "\<exists>w' x. rm_CreateIfNotExists c ob w = (Ok x, w') \<and>
     x = (case get (view w) (key_of c ob) of None \<Rightarrow> ob | Some y \<Rightarrow> y) \<and>
     get (view w') = (get (view w))(key_of c ob \<mapsto> x) \<and>
     rm_CreateIfNotExists c ob w' = (Ok x, w')"
proof (cases "get (view w) (key_of c ob)")
  case None
  with assms(2) obtain w' where w': "kc_Create c ob w = (Ok ob, w')"
    "view w' = upd (\<lambda>m. m(key_of c ob \<mapsto> ob)) (view w)"
    unfolding serves_Create_def by metis
  have "get (view w') (key_of c ob) = Some ob" by (simp add: w'(2) upd)
  with None w' assms(1) show ?thesis
    by (intro exI [of _ w'] exI [of _ ob])
       (simp add: rm_CreateIfNotExists_def key_of_def serves_Get_def upd Let_def fun_eq_iff)
next
  case (Some y)
  with assms(1) show ?thesis
    by (intro exI [of _ w] exI [of _ y])
       (simp add: rm_CreateIfNotExists_def key_of_def serves_Get_def fun_upd_idem Let_def)
qed

section \<open>An in-memory server\<close>

record memory =
  m_Installs :: "(key \<times> Install) list"
  m_Applications :: "(key \<times> Application) list"
  m_Flavors :: "(key \<times> Flavor) list"
  m_Manifests :: "(key \<times> Manifest) list"
  m_Registries :: "(key \<times> Registry) list"
  m_Sources :: "(key \<times> SourceResource) list"
  m_Secrets :: "(key \<times> Secret) list"
  m_Nodes :: "Node list"
  m_Clock :: int

definition cluster_of :: "memory \<Rightarrow> cluster" where
  "cluster_of m = \<lparr>cl_Installs = map_of (m_Installs m), cl_Applications = map_of (m_Applications m),
     cl_Flavors = map_of (m_Flavors m), cl_Manifests = map_of (m_Manifests m),
     cl_Registries = map_of (m_Registries m), cl_Sources = map_of (m_Sources m),
     cl_Secrets = map_of (m_Secrets m), cl_Nodes = m_Nodes m\<rparr>"

definition empty_memory :: memory where
  "empty_memory = \<lparr>m_Installs = [], m_Applications = [], m_Flavors = [], m_Manifests = [],
     m_Registries = [], m_Sources = [], m_Secrets = [], m_Nodes = [], m_Clock = 0\<rparr>"

text \<open>
  One resource kind of the in-memory server. A list request selects by namespace and, with a
  field selector on the name, by name.
\<close>

definition opt_matches :: "key \<Rightarrow> list_opt \<Rightarrow> bool" where
  "opt_matches k opt = (case opt of
     InNamespace ns \<Rightarrow> snd k = ns
   | MatchingFields fs \<Rightarrow>
       list_all (\<lambda>(f, v). if f = ''metadata.name'' then fst k = v
                          else f = ''metadata.namespace'' \<and> snd k = v) fs
   | MatchingLabels ls \<Rightarrow> ls = [])"

definition mem_kind ::
    "('o \<Rightarrow> object_meta) \<Rightarrow> (object_meta \<Rightarrow> 'o \<Rightarrow> 'o) \<Rightarrow> (memory \<Rightarrow> (key \<times> 'o) list) \<Rightarrow>
     (((key \<times> 'o) list \<Rightarrow> (key \<times> 'o) list) \<Rightarrow> memory \<Rightarrow> memory) \<Rightarrow> ('o, memory) kind_client" where
  "mem_kind meta set_meta get upd =
     (let k = (\<lambda>ob. (om_Name (meta ob), om_Namespace (meta ob)));
          store = (\<lambda>ob w. (Ok ob, upd (AList.update (k ob) ob) w)) in
      \<lparr>kc_ObjectMeta = meta,
       kc_SetObjectMeta = set_meta,
       kc_Get = (\<lambda>n ns ob w. case map_of (get w) (n, ns) of
          None \<Rightarrow> (Err (ApiError ReasonNotFound), w) | Some x \<Rightarrow> (Ok x, w)),
       kc_List = (\<lambda>opts w. (Ok (map snd (filter (\<lambda>(k, _). list_all (opt_matches k) opts)
          (AList.clearjunk (get w)))), w)),
       kc_Create = (\<lambda>ob w. case map_of (get w) (k ob) of
          None \<Rightarrow> store ob w | Some _ \<Rightarrow> (Err (ApiError ReasonAlreadyExists), w)),
       kc_CreateOrPatch = (\<lambda>ob f w. store (f ob) w),
       kc_Patch = (\<lambda>new old w. store new w),
       kc_Apply = (\<lambda>ob w. store ob w),
       kc_DeleteAllOf = (\<lambda>ns n w. (Ok (), upd (AList.delete (n, ns)) w))\<rparr>)"

definition mem_runtime :: "memory runtime" where
  "mem_runtime = \<lparr>rt_now = m_Clock, rt_sleep = (\<lambda>d w. w\<lparr>m_Clock := m_Clock w + d\<rparr>),
     rt_range = (\<lambda>ks w. (ks, w)), rt_fuel = 10\<rparr>"

definition no_workloads :: "('o, 'w) workload_client" where
  "no_workloads = \<lparr>wl_Get = (\<lambda>ns n. fail (ApiError ReasonNotFound)),
     wl_List = (\<lambda>ns l. ret []), wl_Patch = (\<lambda>ns n p. fail (ApiError ReasonNotFound)),
     wl_GetScale = (\<lambda>ns n. fail (ApiError ReasonNotFound)),
     wl_UpdateScale = (\<lambda>ns n s. fail (ApiError ReasonNotFound)),
     wl_Update = (\<lambda>ns ob. fail (ApiError ReasonNotFound)),
     wl_Delete = (\<lambda>ns n. fail (ApiError ReasonNotFound))\<rparr>"

definition no_kind :: "('o \<Rightarrow> object_meta) \<Rightarrow> ('o, 'w) kind_client" where
  "no_kind meta = \<lparr>kc_ObjectMeta = meta, kc_SetObjectMeta = (\<lambda>_ ob. ob),
     kc_Get = (\<lambda>n ns ob. fail (ApiError ReasonNotFound)), kc_List = (\<lambda>opts. ret []),
     kc_Create = ret, kc_CreateOrPatch = (\<lambda>ob f. ret (f ob)), kc_Patch = (\<lambda>new old. ret new),
     kc_Apply = ret, kc_DeleteAllOf = (\<lambda>ns n. ret ())\<rparr>"

definition mem_clientset :: "memory clientset" where
  "mem_clientset = \<lparr>cs_rt = mem_runtime,
     cs_Secrets_Get = (\<lambda>ns n w. case map_of (m_Secrets w) (n, ns) of
        None \<Rightarrow> (Err (ApiError ReasonNotFound), w) | Some x \<Rightarrow> (Ok x, w)),
     cs_Secrets_Create = (\<lambda>ns s w.
        (Ok (), w\<lparr>m_Secrets := AList.update (om_Name (sec_ObjectMeta s), ns) (stored_secret s) (m_Secrets w)\<rparr>)),
     cs_Secrets_Update = (\<lambda>ns s w.
        (Ok (), w\<lparr>m_Secrets := AList.update (om_Name (sec_ObjectMeta s), ns) (stored_secret s) (m_Secrets w)\<rparr>)),
     cs_Nodes_List = (\<lambda>w. (Ok (m_Nodes w), w)),
     cs_Pods_List = (\<lambda>ns l. ret []),
     cs_Pods_DeleteCollection = (\<lambda>ns g l. ret ()),
     cs_Pods_GetLogs = (\<lambda>ns n opts. fail (ApiError ReasonNotFound)),
     cs_Logs_Copy = (\<lambda>s. ret ()), cs_Logs_Close = (\<lambda>s. ret ()),
     cs_Jobs = no_workloads, cs_Deployments = no_workloads, cs_StatefulSets = no_workloads,
     cs_DaemonSets = no_workloads, cs_CronJobs = no_workloads,
     cs_GetConfig = ret (), cs_Kubegres = no_workloads\<rparr>"

definition mem_client :: "memory KBClient" where
  "mem_client = \<lparr>kb_Interface = mem_clientset,
     kb_Installs = mem_kind in_ObjectMeta (\<lambda>m x. x\<lparr>in_ObjectMeta := m\<rparr>) m_Installs m_Installs_update,
     kb_Applications = mem_kind app_ObjectMeta (\<lambda>m x. x\<lparr>app_ObjectMeta := m\<rparr>)
        m_Applications m_Applications_update,
     kb_Flavors = mem_kind fl_ObjectMeta (\<lambda>m x. x\<lparr>fl_ObjectMeta := m\<rparr>) m_Flavors m_Flavors_update,
     kb_Manifests = mem_kind mf_ObjectMeta (\<lambda>m x. x\<lparr>mf_ObjectMeta := m\<rparr>)
        m_Manifests m_Manifests_update,
     kb_Registries = mem_kind reg_ObjectMeta (\<lambda>m x. x\<lparr>reg_ObjectMeta := m\<rparr>)
        m_Registries m_Registries_update,
     kb_Sources = mem_kind src_ObjectMeta (\<lambda>m x. x\<lparr>src_ObjectMeta := m\<rparr>) m_Sources m_Sources_update,
     kb_Jobs = no_kind job_ObjectMeta, kb_ConfigMaps = no_kind cm_ObjectMeta,
     kb_Pods = no_kind pod_ObjectMeta,
     kb_ParseQuantity = (\<lambda>s. Err (Foreign ''quantity'')),
     kb_LayeredTopologicalSort = (\<lambda>es. Some (map (\<lambda>e. [fst e]) es)),
     kb_ReadRandom = (\<lambda>n. ret (replicate n 0)),
     kb_GenerateKey = (\<lambda>bits. fail (Foreign ''rsa'')),
     kb_ValidateKey = (\<lambda>key. None), kb_EncodePEM = (\<lambda>key. None),
     kb_UrlPath = (\<lambda>s. Err (Foreign ''url''))\<rparr>"

lemma mem_kind_serves:
  assumes "\<And>f w. get' (cluster_of (upd f w)) = map_of (f (get w))"
    and "\<And>w. get' (cluster_of w) = map_of (get w)"
    and "\<And>k x w. cluster_of (upd (AList.update k x) w) = upd' (\<lambda>m. m(k \<mapsto> x)) (cluster_of w)"
  shows "serves_Get (mem_kind meta smeta get upd) cluster_of get'"
    and "serves_Create (mem_kind meta smeta get upd) cluster_of get' upd'"
    and "serves_Patch (mem_kind meta smeta get upd) cluster_of get' upd'"
  using assms
  by (auto simp: serves_Get_def serves_Create_def serves_Patch_def mem_kind_def Let_def key_of_def
      split: option.splits)

lemma mem_client_installs:
  "serves_Get (kb_Installs mem_client) cluster_of cl_Installs"
  "serves_Create (kb_Installs mem_client) cluster_of cl_Installs cl_Installs_update"
  "serves_Patch (kb_Installs mem_client) cluster_of cl_Installs cl_Installs_update"
  by (simp_all add: mem_client_def,
      (rule mem_kind_serves [where upd' = cl_Installs_update];
       simp add: cluster_of_def update_conv' fun_upd_def)+)

lemma mem_client_applications:
  "serves_Get (kb_Applications mem_client) cluster_of cl_Applications"
  "serves_Create (kb_Applications mem_client) cluster_of cl_Applications cl_Applications_update"
  by (simp_all add: mem_client_def,
      (rule mem_kind_serves [where upd' = cl_Applications_update];
       simp add: cluster_of_def update_conv' fun_upd_def)+)

lemma mem_client_flavors:
  "serves_Get (kb_Flavors mem_client) cluster_of cl_Flavors"
  "serves_Create (kb_Flavors mem_client) cluster_of cl_Flavors cl_Flavors_update"
  by (simp_all add: mem_client_def,
      (rule mem_kind_serves [where upd' = cl_Flavors_update];
       simp add: cluster_of_def update_conv' fun_upd_def)+)

lemma mem_client_secrets: "serves_Secrets (kb_Interface mem_client) cluster_of"
  by (simp add: mem_client_def mem_clientset_def serves_Secrets_def cluster_of_def update_conv'
      split: option.splits)

lemma mem_client_meta: "plain_meta mem_client"
  by (simp add: plain_meta_def mem_client_def mem_kind_def Let_def)

theorem CreateIfNotExists_idempotent_witness:
  "\<exists>w. rm_CreateIfNotExists (kb_Flavors mem_client) zero_flavor empty_memory = (Ok zero_flavor, w) \<and>
     rm_CreateIfNotExists (kb_Flavors mem_client) zero_flavor w = (Ok zero_flavor, w) \<and>
     cl_Flavors (cluster_of w) ('''', '''') = Some zero_flavor"
proof -
  have key: "key_of (kb_Flavors mem_client) zero_flavor = ('''', '''')"
    by (simp add: key_of_def mem_client_def mem_kind_def Let_def zero_flavor_def)
  have none: "cl_Flavors (cluster_of empty_memory) ('''', '''') = None"
    by (simp add: cluster_of_def empty_memory_def)
  show ?thesis
    using CreateIfNotExists_idempotent [OF mem_client_flavors, of zero_flavor empty_memory]
    by (auto simp: key none)
qed

text \<open>A delete request that has not taken effect yet: the object is still there, and the call succeeds.\<close>

theorem rm_Delete_single_poll_witness:
  "rm_Delete mem_runtime ((no_kind reg_ObjectMeta)\<lparr>kc_Get := (\<lambda>n ns ob. ret zero_registry)\<rparr>) ''r'' ''ns''
     zero_registry empty_memory = (Ok (), empty_memory\<lparr>m_Clock := second\<rparr>)"
  by (subst rm_Delete_single_poll) (simp_all add: mem_runtime_def no_kind_def empty_memory_def)

end
