(* ===== verification/Parameters.thy ===== *)
theory Parameters
  imports Cluster
begin

text \<open>
  managers/parameter.go: the \<open>ParameterManager\<close>, which merges the parameters an install
  sets over the defaults its application defines, generates secret parameters and keeps them in
  the global secret of the cluster.
\<close>

section \<open>Data\<close>

definition secretName :: string where
  "secretName = ''global-secret''"

definition defaultNamespace :: string where
  "defaultNamespace = ''default''"

record ParameterDesc =
  pdesc_Value :: string
  pdesc_Default :: string
  pdesc_Description :: string

record 'w ParameterManager =
  pm_kbClient :: "'w KBClient"
  pm_installName :: string
  pm_definitions :: "ParameterDefinitionSpec list"
  pm_parameters :: "ParameterSpec list"

definition NewParameterManager ::
    "'w KBClient \<Rightarrow> string \<Rightarrow> ParameterDefinitionSpec list \<Rightarrow> ParameterSpec list \<Rightarrow> 'w ParameterManager"
  where
  "NewParameterManager kbClient installName definitions parameters =
     \<lparr>pm_kbClient = kbClient, pm_installName = installName, pm_definitions = definitions,
      pm_parameters = parameters\<rparr>"

section \<open>Generated secrets\<close>

definition hex_digit :: "nat \<Rightarrow> char" where
  "hex_digit n = ''0123456789abcdef'' ! n"

definition hex_EncodeToString :: "8 word list \<Rightarrow> string" where
  "hex_EncodeToString bs =
     concat (map (\<lambda>b. [hex_digit (unat b div 16), hex_digit (unat b mod 16)]) bs)"

definition generateRandomPrivateKey :: "'w KBClient \<Rightarrow> int \<Rightarrow> ('w, rsa_key) io" where
  "generateRandomPrivateKey kb bits =
     try_do (kb_GenerateKey kb bits) (\<lambda>err. Wrapf err ''Failed to generate private key'' [])
       (\<lambda>privKey. case kb_ValidateKey kb privKey of
          Some err \<Rightarrow> fail (Wrapf err ''Failed to validate private key'' [])
        | None \<Rightarrow> ret privKey)"

definition encodePrivateKeyToPEM :: "'w KBClient \<Rightarrow> rsa_key \<Rightarrow> ('w, string) io" where
  "encodePrivateKeyToPEM kb privKey =
     (case kb_EncodePEM kb privKey of
        None \<Rightarrow> fail (Errorf ''Unable to PEM-encode private key'' [])
      | Some pem \<Rightarrow> ret pem)"

definition generatePEMEncodedKey :: "'w KBClient \<Rightarrow> int \<Rightarrow> ('w, string) io" where
  "generatePEMEncodedKey kb bits =
     andthen (generateRandomPrivateKey kb bits) (encodePrivateKeyToPEM kb)"

text \<open>\<open>make([]byte, n)\<close> panics for a negative length.\<close>

definition generateSecretValue :: "'w KBClient \<Rightarrow> string \<Rightarrow> int \<Rightarrow> int \<Rightarrow> ('w, string) io" where
  "generateSecretValue kb format bytes bits =
     (if format = ''hex'' then
        if bytes < 0 then panic ''makeslice: len out of range''
        else try_do (kb_ReadRandom kb (nat bytes))
               (\<lambda>err. Wrapf err ''Failed to generate random value'' [])
               (\<lambda>randomBytes. ret (hex_EncodeToString randomBytes))
      else if format = ''rsa'' then
        try_do (generatePEMEncodedKey kb bits)
          (\<lambda>err. Wrapf err ''Failed to generate RSA key'' []) ret
      else fail (Errorf (''Unknown format: '' @ format) []))"

section \<open>The global secret\<close>

definition empty_secret :: Secret where
  "empty_secret = \<lparr>sec_ObjectMeta = \<lparr>om_Name = secretName, om_Namespace = defaultNamespace\<rparr>,
     sec_Data = Some Map.empty\<rparr>"

text \<open>Any error of the lookup, not only \<open>NotFound\<close>, leads to the creation.\<close>

definition getGlobalSecret :: "'w KBClient \<Rightarrow> ('w, Secret) io" where
  "getGlobalSecret kb =
     handle (cs_Secrets_Get (kb_Interface kb) defaultNamespace secretName) ret (\<lambda>err.
       try_do (cs_Secrets_Create (kb_Interface kb) defaultNamespace empty_secret)
         (\<lambda>e. Wrapf e ''Failed to create global secret'' [])
         (\<lambda>_. ret empty_secret))"

text \<open>
  A lookup in a nil map finds nothing; an assignment to an entry of a nil map panics.
\<close>

definition map_lookup :: "('k \<rightharpoonup> 'v) option \<Rightarrow> 'k \<Rightarrow> 'v option" where
  "map_lookup m k = (case m of None \<Rightarrow> None | Some f \<Rightarrow> f k)"

definition getSecretValue ::
    "'w ParameterManager \<Rightarrow> string \<Rightarrow> GenerateSecret \<Rightarrow> ('w, string) io" where
  "getSecretValue pm parameterName generateSecret =
     try_do (getGlobalSecret (pm_kbClient pm)) (\<lambda>err. Wrapf err ''Failed to get global secret'' [])
       (\<lambda>secret.
         let secretKey = pm_installName pm @ ''.'' @ parameterName in
         case map_lookup (sec_Data secret) secretKey of
           Some secretValue \<Rightarrow> ret secretValue
         | None \<Rightarrow>
             try_do (generateSecretValue (pm_kbClient pm) (gs_Format generateSecret)
                       (gs_Bytes generateSecret) (gs_Bits generateSecret))
               (\<lambda>err. Wrapf err ''Failed to generate secret value'' [])
               (\<lambda>parameterSecretValue.
                 case sec_Data secret of
                   None \<Rightarrow> panic ''assignment to entry in nil map''
                 | Some data \<Rightarrow>
                     try_do (cs_Secrets_Update (kb_Interface (pm_kbClient pm)) defaultNamespace
                               (secret\<lparr>sec_Data := Some (data(secretKey \<mapsto> parameterSecretValue))\<rparr>))
                       (\<lambda>err. Wrapf err ''Failed to update global secret'' [])
                       (\<lambda>_. ret parameterSecretValue)))"

section \<open>Merging\<close>

text \<open>The value of one parameter: a generated secret if it has a format, else the text given.\<close>

definition parameter_value ::
    "'w ParameterManager \<Rightarrow> string \<Rightarrow> GenerateSecret \<Rightarrow> string \<Rightarrow> ('w, string) io" where
  "parameter_value pm name gs plain =
     (if gs_Format gs \<noteq> [] then
        try_do (getSecretValue pm name gs) (\<lambda>err. Wrapf err ''Failed to get secret value'' []) ret
      else ret plain)"

definition GetMergedMap :: "'w ParameterManager \<Rightarrow> ('w, string \<rightharpoonup> string) io" where
  "GetMergedMap pm =
     andthen
       (fold_io (\<lambda>parameter m.
            andthen (parameter_value pm (pd_Name parameter) (pd_GenerateSecret parameter)
                       (pd_Default parameter))
              (\<lambda>v. ret (m(pd_Name parameter \<mapsto> v))))
          (pm_definitions pm) Map.empty)
       (fold_io (\<lambda>parameter m.
            andthen (parameter_value pm (ps_Name parameter) (ps_GenerateSecret parameter)
                       (ps_Value parameter))
              (\<lambda>v. ret (m(ps_Name parameter \<mapsto> v))))
          (pm_parameters pm))"

definition zero_desc :: ParameterDesc where
  "zero_desc = \<lparr>pdesc_Value = [], pdesc_Default = [], pdesc_Description = []\<rparr>"

definition GetParameterDesc :: "'w ParameterManager \<Rightarrow> string \<rightharpoonup> ParameterDesc" where
  "GetParameterDesc pm =
     foldl (\<lambda>m parameter.
         let desc = (case m (ps_Name parameter) of None \<Rightarrow> zero_desc | Some d \<Rightarrow> d)
         in m(ps_Name parameter \<mapsto> desc\<lparr>pdesc_Value := ps_Value parameter\<rparr>))
       (foldl (\<lambda>m parameter. m(pd_Name parameter \<mapsto>
            \<lparr>pdesc_Value = pd_Default parameter, pdesc_Default = pd_Default parameter,
             pdesc_Description = pd_Description parameter\<rparr>))
          Map.empty (pm_definitions pm))
       (pm_parameters pm)"

text \<open>
  The inner loop assigns to its own copy of the element, so its only effect is on \<open>found\<close>,
  which is never reset.
\<close>

fun merge_additional ::
    "ParameterSpec list \<Rightarrow> bool \<Rightarrow> ParameterSpec list \<Rightarrow> ParameterSpec list \<Rightarrow> ParameterSpec list" where
  "merge_additional src found [] paramsArray = paramsArray"
| "merge_additional src found (a # as) paramsArray =
     (let found' = (found \<or> list_ex (\<lambda>params. ps_Name params = ps_Name a) src)
      in merge_additional src found' as
           (if \<not> found' then paramsArray @ [plain_param (ps_Name a) (ps_Value a)] else paramsArray))"

definition MergeAdditionalParameters ::
    "'w ParameterManager \<Rightarrow> ParameterSpec list \<Rightarrow> ParameterSpec list" where
  "MergeAdditionalParameters pm additionalParameters =
     pm_parameters pm @ merge_additional (pm_parameters pm) False additionalParameters []"

fun first_unset :: "(string \<rightharpoonup> ParameterSpec) \<Rightarrow> ParameterDefinitionSpec list \<Rightarrow> gerror option" where
  "first_unset m [] = None"
| "first_unset m (d # ds) =
     (let value = (case m (pd_Name d) of None \<Rightarrow> [] | Some p \<Rightarrow> ps_Value p)
      in if pd_Required d \<and> TrimSpace value = []
         then Some (Errorf ''required parameter '%s' not set'' [Str (pd_Name d)])
         else first_unset m ds)"

definition Parameter_Validate :: "'w ParameterManager \<Rightarrow> gerror option" where
  "Parameter_Validate pm =
     first_unset
       (foldl (\<lambda>m p. m(ps_Name p \<mapsto> plain_param (ps_Name p) (ps_Value p))) Map.empty (pm_parameters pm))
       (pm_definitions pm)"

section \<open>Properties\<close>

subsection \<open>Validation\<close>

text \<open>The value a list of parameters gives to a name: that of the last one, empty if there is none.\<close>

definition last_value :: "ParameterSpec list \<Rightarrow> string \<Rightarrow> string" where
  "last_value ps n = (case map_of (rev (map (\<lambda>p. (ps_Name p, ps_Value p)) ps)) n of
     None \<Rightarrow> [] | Some v \<Rightarrow> v)"

lemma foldl_upd_map_of:
  "foldl (\<lambda>m p. m(f p \<mapsto> g p)) m0 ps = m0 ++ map_of (rev (map (\<lambda>p. (f p, g p)) ps))"
  by (induction ps arbitrary: m0) (auto simp: fun_eq_iff map_add_def split: option.splits)

lemma map_of_rev_map_value:
  "map_of (rev (map (\<lambda>p. (f p, h (g p))) ps)) n = map_option h (map_of (rev (map (\<lambda>p. (f p, g p)) ps)) n)"
  by (induction ps rule: rev_induct) auto

lemma first_unset_find:
  "first_unset m ds =
     map_option (\<lambda>d. Errorf ''required parameter '%s' not set'' [Str (pd_Name d)])
       (find (\<lambda>d. pd_Required d \<and>
          TrimSpace (case m (pd_Name d) of None \<Rightarrow> [] | Some p \<Rightarrow> ps_Value p) = []) ds)"
  by (induction ds) (auto simp: Let_def)

text \<open>
  Validation reports the first required definition for which the install sets no value
  (its last entry of that name is missing or blank), and accepts when there is none; defaults
  and generated secrets do not count.
\<close>

lemma Parameter_Validate_first_missing:
  "Parameter_Validate pm =
     map_option (\<lambda>d. Errorf ''required parameter '%s' not set'' [Str (pd_Name d)])
       (find (\<lambda>d. pd_Required d \<and> TrimSpace (last_value (pm_parameters pm) (pd_Name d)) = [])
          (pm_definitions pm))"
proof -
  have "(case (Map.empty ++ map_of (rev (map (\<lambda>p. (ps_Name p, plain_param (ps_Name p) (ps_Value p))) ps))) n of
           None \<Rightarrow> [] | Some p \<Rightarrow> ps_Value p) = last_value ps n" for ps n
    by (induction ps rule: rev_induct) (auto simp: last_value_def)
  then show ?thesis
    by (simp add: Parameter_Validate_def first_unset_find foldl_upd_map_of)
qed

subsection \<open>Merging additional parameters\<close>

lemma merge_additional_found: "merge_additional src True as acc = acc"
  by (induction as arbitrary: acc) simp_all

lemma merge_additional_takeWhile:
  "merge_additional src False as acc =
     acc @ map (\<lambda>a. plain_param (ps_Name a) (ps_Value a))
       (takeWhile (\<lambda>a. ps_Name a \<notin> ps_Name ` set src) as)"
proof (induction as arbitrary: acc)
  case (Cons a as)
  have "list_ex (\<lambda>p. ps_Name p = ps_Name a) src \<longleftrightarrow> ps_Name a \<in> ps_Name ` set src"
    by (simp add: list_ex_iff image_iff) metis
  with Cons show ?case by (simp add: merge_additional_found Let_def)
qed simp

text \<open>
  What \<open>MergeAdditionalParameters\<close> returns: the parameters it was built with,
  unchanged, followed by plain copies of the additional parameters up to the first one whose name
  is already set. No value is overridden, and what follows an already set name is dropped, since
  \<open>params.Value = ...\<close> writes to the loop variable and \<open>found\<close> is never reset.
\<close>

lemma MergeAdditionalParameters_result:
  "MergeAdditionalParameters pm additional =
     pm_parameters pm @
     map (\<lambda>a. plain_param (ps_Name a) (ps_Value a))
       (takeWhile (\<lambda>a. ps_Name a \<notin> ps_Name ` set (pm_parameters pm)) additional)"
  by (simp add: MergeAdditionalParameters_def merge_additional_takeWhile)

subsection \<open>The global secret\<close>

text \<open>
  The entries of the global secret on a served cluster. \<open>quiet_generators\<close>: generating
  random bytes or a key does not touch the cluster.
\<close>

definition secret_data :: "cluster \<Rightarrow> string \<rightharpoonup> string" where
  "secret_data cl = (case cl_Secrets cl (secretName, defaultNamespace) of
     None \<Rightarrow> Map.empty | Some s \<Rightarrow> (case sec_Data s of None \<Rightarrow> Map.empty | Some d \<Rightarrow> d))"

definition quiet_generators :: "'w KBClient \<Rightarrow> ('w \<Rightarrow> cluster) \<Rightarrow> bool" where
  "quiet_generators kb view \<longleftrightarrow>
     (\<forall>n w. view (snd (kb_ReadRandom kb n w)) = view w) \<and>
     (\<forall>b w. view (snd (kb_GenerateKey kb b w)) = view w)"

text \<open>The global secret, where there is one, carries its own name.\<close>

definition secret_named :: "cluster \<Rightarrow> bool" where
  "secret_named cl \<longleftrightarrow> (\<forall>s. cl_Secrets cl (secretName, defaultNamespace) = Some s \<longrightarrow>
     om_Name (sec_ObjectMeta s) = secretName)"

definition lawful_secrets :: "'w KBClient \<Rightarrow> ('w \<Rightarrow> cluster) \<Rightarrow> bool" where
  "lawful_secrets kb view \<longleftrightarrow> serves_Secrets (kb_Interface kb) view \<and> quiet_generators kb view"

text \<open>Two clusters that differ at most in their secrets.\<close>

definition same_but_secrets :: "cluster \<Rightarrow> cluster \<Rightarrow> bool" where
  "same_but_secrets a b \<longleftrightarrow> b = a\<lparr>cl_Secrets := cl_Secrets b\<rparr>"

lemma same_but_secrets_refl [simp]: "same_but_secrets a a"
  by (simp add: same_but_secrets_def)

lemma same_but_secrets_upd [simp]: "same_but_secrets a (a\<lparr>cl_Secrets := s\<rparr>)"
  by (simp add: same_but_secrets_def)

lemma same_but_secrets_trans: "same_but_secrets a b \<Longrightarrow> same_but_secrets b c \<Longrightarrow> same_but_secrets a c"
  unfolding same_but_secrets_def by (metis cluster.surjective cluster.update_convs(7) cluster.select_convs)

lemma same_but_secrets_sel:
  assumes "same_but_secrets a b"
  shows "cl_Installs b = cl_Installs a" "cl_Applications b = cl_Applications a"
    "cl_Flavors b = cl_Flavors a" "cl_Manifests b = cl_Manifests a"
    "cl_Registries b = cl_Registries a" "cl_Sources b = cl_Sources a" "cl_Nodes b = cl_Nodes a"
  using assms by (metis same_but_secrets_def cluster.ext_inject cluster.surjective cluster.update_convs(7))+

lemma view_ReadRandom:
  "quiet_generators kb view \<Longrightarrow> kb_ReadRandom kb n w = (r, w') \<Longrightarrow> view w' = view w"
  by (metis quiet_generators_def snd_conv)

lemma view_GenerateKey:
  "quiet_generators kb view \<Longrightarrow> kb_GenerateKey kb b w = (r, w') \<Longrightarrow> view w' = view w"
  by (metis quiet_generators_def snd_conv)

lemma generateSecretValue_view:
  assumes "quiet_generators kb view" and "generateSecretValue kb f n b w = (Ok v, w')"
  shows "view w' = view w"
  using assms
  by (auto simp: generateSecretValue_def generatePEMEncodedKey_def generateRandomPrivateKey_def
      encodePrivateKeyToPEM_def io_ok split: if_splits option.splits
      dest: view_ReadRandom view_GenerateKey)

lemma serves_Secrets_Create:
  "serves_Secrets cs view \<Longrightarrow> cs_Secrets_Create cs ns s w = (r, w') \<Longrightarrow>
     r = Ok () \<and> view w' = (view w)\<lparr>cl_Secrets := (cl_Secrets (view w))((om_Name (sec_ObjectMeta s), ns) \<mapsto> stored_secret s)\<rparr>"
  unfolding serves_Secrets_def by (metis Pair_inject)

lemma serves_Secrets_Update:
  "serves_Secrets cs view \<Longrightarrow> cs_Secrets_Update cs ns s w = (r, w') \<Longrightarrow>
     r = Ok () \<and> view w' = (view w)\<lparr>cl_Secrets := (cl_Secrets (view w))((om_Name (sec_ObjectMeta s), ns) \<mapsto> stored_secret s)\<rparr>"
  unfolding serves_Secrets_def by (metis Pair_inject)

lemma stored_secret_nonempty [simp]:
  "stored_secret (s\<lparr>sec_Data := Some (d(k \<mapsto> v))\<rparr>) = s\<lparr>sec_Data := Some (d(k \<mapsto> v))\<rparr>"
  by (simp add: stored_secret_def)

text \<open>On a served cluster the global secret is always found or created, with the data it holds.\<close>

lemma getGlobalSecret_served:
  assumes "serves_Secrets (kb_Interface kb) view" and "secret_named (view w)"
  obtains s w' where "getGlobalSecret kb w = (Ok s, w')" "om_Name (sec_ObjectMeta s) = secretName"
    "secret_named (view w')" "secret_data (view w') = secret_data (view w)"
    "map_lookup (sec_Data s) = secret_data (view w)" "same_but_secrets (view w) (view w')"
    "cl_Secrets (view w) (secretName, defaultNamespace) \<noteq> None \<Longrightarrow> w' = w"
proof (cases "cl_Secrets (view w) (secretName, defaultNamespace)")
  case (Some s)
  with assms have "getGlobalSecret kb w = (Ok s, w)"
    by (simp add: getGlobalSecret_def serves_Secrets_Get)
  moreover have "map_lookup (sec_Data s) = secret_data (view w)"
    by (auto simp: fun_eq_iff map_lookup_def secret_data_def Some split: option.splits)
  ultimately show ?thesis using that assms(2) Some by (auto simp: secret_named_def)
next
  case None
  obtain r w' where c: "cs_Secrets_Create (kb_Interface kb) defaultNamespace empty_secret w = (r, w')"
    by fastforce
  from serves_Secrets_Create [OF assms(1) c] have r: "r = Ok ()"
    and v: "view w' = (view w)\<lparr>cl_Secrets := (cl_Secrets (view w))((secretName, defaultNamespace)
        \<mapsto> empty_secret\<lparr>sec_Data := None\<rparr>)\<rparr>"
    by (simp_all add: empty_secret_def stored_secret_def)
  have "getGlobalSecret kb w = (Ok empty_secret, w')"
    using None assms(1) c r by (simp add: getGlobalSecret_def serves_Secrets_Get)
  then show ?thesis
  proof (rule that)
    show "map_lookup (sec_Data empty_secret) = secret_data (view w)"
      by (simp add: fun_eq_iff empty_secret_def map_lookup_def secret_data_def None)
  qed (simp_all add: v secret_named_def secret_data_def None empty_secret_def)
qed

lemma getSecretValue_present:
  assumes "serves_Secrets (kb_Interface (pm_kbClient pm)) view" and "secret_named (view w)"
    and "secret_data (view w) (pm_installName pm @ ''.'' @ n) = Some v"
  shows "getSecretValue pm n gs w = (Ok v, w)"
proof -
  from assms(3) have "cl_Secrets (view w) (secretName, defaultNamespace) \<noteq> None"
    by (auto simp: secret_data_def split: option.splits)
  with getGlobalSecret_served [OF assms(1,2)] obtain s where
    "getGlobalSecret (pm_kbClient pm) w = (Ok s, w)" "map_lookup (sec_Data s) = secret_data (view w)"
    by metis
  with assms(3) show ?thesis by (simp add: getSecretValue_def Let_def)
qed

lemma getSecretValue_Ok:
  assumes law: "lawful_secrets (pm_kbClient pm) view" and nm: "secret_named (view w)"
    and ok: "getSecretValue pm n gs w = (Ok v, w')"
  shows "secret_named (view w')" "same_but_secrets (view w) (view w')"
    "secret_data (view w') = (secret_data (view w))(pm_installName pm @ ''.'' @ n \<mapsto> v)"
    "secret_data (view w) \<subseteq>\<^sub>m secret_data (view w')"
proof -
  let ?kb = "pm_kbClient pm" let ?k = "pm_installName pm @ ''.'' @ n"
  have ss: "serves_Secrets (kb_Interface ?kb) view" and q: "quiet_generators ?kb view"
    using law by (simp_all add: lawful_secrets_def)
  obtain s w1 where g: "getGlobalSecret ?kb w = (Ok s, w1)" "om_Name (sec_ObjectMeta s) = secretName"
    "secret_named (view w1)" "secret_data (view w1) = secret_data (view w)"
    "map_lookup (sec_Data s) = secret_data (view w)" "same_but_secrets (view w) (view w1)"
    using getGlobalSecret_served [OF ss nm] by metis
  have "secret_named (view w') \<and> same_but_secrets (view w) (view w') \<and>
    secret_data (view w') = (secret_data (view w))(?k \<mapsto> v) \<and>
    secret_data (view w) \<subseteq>\<^sub>m secret_data (view w')"
  proof (cases "secret_data (view w) ?k")
    case (Some v0)
    with ok g have "v = v0" "w' = w1"
      by (simp_all add: getSecretValue_def Let_def)
    with g Some show ?thesis by (simp add: fun_upd_idem)
  next
    case None
    from None ok g(1,5) obtain w2 d w3 where gen: "generateSecretValue ?kb (gs_Format gs) (gs_Bytes gs) (gs_Bits gs) w1 = (Ok v, w2)"
      and d: "sec_Data s = Some d"
      and u: "cs_Secrets_Update (kb_Interface ?kb) defaultNamespace
         (s\<lparr>sec_Data := Some (d(?k \<mapsto> v))\<rparr>) w2 = (Ok (), w')"
      by (auto simp: getSecretValue_def Let_def io_ok split: option.splits)
    have v2: "view w2 = view w1" by (rule generateSecretValue_view [OF q gen])
    have "d = secret_data (view w)" using g(5) d by (auto simp: map_lookup_def fun_eq_iff)
    with serves_Secrets_Update [OF ss u] v2 g(2,6) None show ?thesis
      by (auto simp: secret_named_def secret_data_def map_le_def
          intro: same_but_secrets_trans)
  qed
  then show "secret_named (view w')" "same_but_secrets (view w) (view w')"
    "secret_data (view w') = (secret_data (view w))(?k \<mapsto> v)"
    "secret_data (view w) \<subseteq>\<^sub>m secret_data (view w')" by auto
qed

subsection \<open>Merging\<close>

text \<open>
  What the merged map is meant to hold: every definition and every parameter gives an entry, and
  the last entry of a name decides; an entry with a secret format has the value the global secret
  holds for it, any other one its default or the value set.
\<close>

type_synonym entry = "string \<times> GenerateSecret \<times> string"

definition entries :: "ParameterDefinitionSpec list \<Rightarrow> ParameterSpec list \<Rightarrow> entry list" where
  "entries ds ps = map (\<lambda>d. (pd_Name d, pd_GenerateSecret d, pd_Default d)) ds
     @ map (\<lambda>p. (ps_Name p, ps_GenerateSecret p, ps_Value p)) ps"

definition entry_value :: "string \<Rightarrow> (string \<rightharpoonup> string) \<Rightarrow> entry \<Rightarrow> string" where
  "entry_value iname data e = (case e of (n, gs, plain) \<Rightarrow>
     if gs_Format gs \<noteq> [] then the (data (iname @ ''.'' @ n)) else plain)"

definition secrets_present :: "string \<Rightarrow> (string \<rightharpoonup> string) \<Rightarrow> entry list \<Rightarrow> bool" where
  "secrets_present iname data es \<longleftrightarrow>
     (\<forall>(n, gs, plain)\<in>set es. gs_Format gs \<noteq> [] \<longrightarrow> data (iname @ ''.'' @ n) \<noteq> None)"

definition merged_entries :: "string \<Rightarrow> (string \<rightharpoonup> string) \<Rightarrow> entry list \<Rightarrow> string \<rightharpoonup> string" where
  "merged_entries iname data es = map_of (rev (map (\<lambda>e. (fst e, entry_value iname data e)) es))"

definition entry_step ::
    "'w ParameterManager \<Rightarrow> entry \<Rightarrow> (string \<rightharpoonup> string) \<Rightarrow> ('w, string \<rightharpoonup> string) io" where
  "entry_step pm e m = (case e of (n, gs, plain) \<Rightarrow>
     andthen (parameter_value pm n gs plain) (\<lambda>v. ret (m(n \<mapsto> v))))"

lemma entry_step_pair:
  "entry_step pm (n, gs, plain) = (\<lambda>m. andthen (parameter_value pm n gs plain) (\<lambda>v. ret (m(n \<mapsto> v))))"
  by (simp add: entry_step_def fun_eq_iff)

lemma GetMergedMap_entries:
  "GetMergedMap pm = fold_io (entry_step pm) (entries (pm_definitions pm) (pm_parameters pm)) Map.empty"
  by (simp add: GetMergedMap_def entries_def fold_io_append fold_io_map entry_step_pair)

lemma parameter_value_Ok:
  assumes law: "lawful_secrets (pm_kbClient pm) view" and nm: "secret_named (view w)"
    and ok: "parameter_value pm n gs plain w = (Ok v, w')"
  shows "secret_named (view w') \<and> same_but_secrets (view w) (view w') \<and>
    secret_data (view w) \<subseteq>\<^sub>m secret_data (view w') \<and>
    secrets_present (pm_installName pm) (secret_data (view w')) [(n, gs, plain)] \<and>
    v = entry_value (pm_installName pm) (secret_data (view w')) (n, gs, plain)"
proof (cases "gs_Format gs = []")
  case True
  with ok nm show ?thesis by (simp add: parameter_value_def secrets_present_def entry_value_def)
next
  case False
  with ok have "getSecretValue pm n gs w = (Ok v, w')"
    by (auto simp: parameter_value_def io_ok)
  from getSecretValue_Ok [OF law nm this] False show ?thesis
    by (simp add: secrets_present_def entry_value_def)
qed

lemma entry_value_mono:
  assumes "secrets_present iname data es" and "data \<subseteq>\<^sub>m data'"
  shows "secrets_present iname data' es" "e \<in> set es \<Longrightarrow> entry_value iname data' e = entry_value iname data e"
proof -
  have eq: "data' k = data k" if "data k \<noteq> None" for k
    using assms(2) that by (auto simp: map_le_def dom_def)
  then show "secrets_present iname data' es"
    using assms(1) by (force simp: secrets_present_def)
  show "e \<in> set es \<Longrightarrow> entry_value iname data' e = entry_value iname data e"
    using assms(1) eq by (auto simp: secrets_present_def entry_value_def split: prod.splits)
qed

lemma fold_entries_Ok:
  assumes law: "lawful_secrets (pm_kbClient pm) view" and nm: "secret_named (view w)"
    and ok: "fold_io (entry_step pm) es m w = (Ok m', w')"
  shows "secret_named (view w') \<and> same_but_secrets (view w) (view w') \<and>
    secret_data (view w) \<subseteq>\<^sub>m secret_data (view w') \<and>
    secrets_present (pm_installName pm) (secret_data (view w')) es \<and>
    m' = m ++ merged_entries (pm_installName pm) (secret_data (view w')) es"
  using nm ok
proof (induction es arbitrary: m w)
  case Nil
  then show ?case by (simp add: secrets_present_def merged_entries_def)
next
  case (Cons e es)
  obtain n gs plain where e: "e = (n, gs, plain)" by (cases e)
  from Cons.prems(2) obtain v w1 where v: "parameter_value pm n gs plain w = (Ok v, w1)"
    and rest: "fold_io (entry_step pm) es (m(n \<mapsto> v)) w1 = (Ok m', w')"
    by (auto simp: e entry_step_pair io_ok)
  note one = parameter_value_Ok [OF law Cons.prems(1) v]
  note two = Cons.IH [OF _ rest]
  let ?i = "pm_installName pm"
  have s1: "secrets_present ?i (secret_data (view w')) [e]"
    and v1: "v = entry_value ?i (secret_data (view w')) e"
    using one two entry_value_mono [of ?i "secret_data (view w1)" "[e]" "secret_data (view w')"]
    by (auto simp: e)
  have "m' = m ++ merged_entries ?i (secret_data (view w')) (e # es)"
    using one two v1 by (simp add: merged_entries_def e map_add_upd_left fun_eq_iff map_add_def split: option.splits)
  then show ?case
    using one two s1
    by (auto simp: secrets_present_def intro: same_but_secrets_trans map_le_trans)
qed

lemma fold_entries_present:
  assumes "serves_Secrets (kb_Interface (pm_kbClient pm)) view" and "secret_named (view w)"
    and "secrets_present (pm_installName pm) (secret_data (view w)) es"
  shows "fold_io (entry_step pm) es m w =
    (Ok (m ++ merged_entries (pm_installName pm) (secret_data (view w)) es), w)"
  using assms(3)
proof (induction es arbitrary: m)
  case Nil
  then show ?case by (simp add: merged_entries_def)
next
  case (Cons e es)
  obtain n gs plain where e: "e = (n, gs, plain)" by (cases e)
  let ?v = "entry_value (pm_installName pm) (secret_data (view w)) e"
  have "parameter_value pm n gs plain w = (Ok ?v, w)"
    using Cons.prems getSecretValue_present [OF assms(1,2)]
    by (auto simp: parameter_value_def e entry_value_def secrets_present_def)
  moreover have "secrets_present (pm_installName pm) (secret_data (view w)) es"
    using Cons.prems by (simp add: secrets_present_def)
  ultimately show ?case
    by (simp add: e entry_step_pair Cons.IH)
       (simp add: merged_entries_def fun_eq_iff map_add_def split: option.splits)
qed

lemma GetMergedMap_present:
  assumes "serves_Secrets (kb_Interface (pm_kbClient pm)) view" and "secret_named (view w)"
    and "secrets_present (pm_installName pm) (secret_data (view w))
           (entries (pm_definitions pm) (pm_parameters pm))"
  shows "GetMergedMap pm w =
    (Ok (merged_entries (pm_installName pm) (secret_data (view w))
           (entries (pm_definitions pm) (pm_parameters pm))), w)"
  by (simp add: GetMergedMap_entries fold_entries_present [OF assms])

lemma GetMergedMap_Ok:
  assumes "lawful_secrets (pm_kbClient pm) view" and "secret_named (view w)"
    and "GetMergedMap pm w = (Ok m, w')"
  shows "secret_named (view w') \<and> same_but_secrets (view w) (view w') \<and>
    secret_data (view w) \<subseteq>\<^sub>m secret_data (view w') \<and>
    secrets_present (pm_installName pm) (secret_data (view w')) (entries (pm_definitions pm) (pm_parameters pm)) \<and>
    m = merged_entries (pm_installName pm) (secret_data (view w')) (entries (pm_definitions pm) (pm_parameters pm))"
  using fold_entries_Ok [OF assms(1,2) assms(3) [unfolded GetMergedMap_entries]] by simp

lemma dom_merged_entries: "dom (merged_entries i d es) = fst ` set es"
  by (force simp: merged_entries_def dom_map_of_conv_image_fst)


text \<open>
  Secrets are generated once: merging again after a successful merge gives the same map,
  writes nothing and draws no random value.
\<close>

lemma GetMergedMap_stable:
  assumes "lawful_secrets (pm_kbClient pm) view" and "secret_named (view w)"
    and "GetMergedMap pm w = (Ok m, w')"
  shows "GetMergedMap pm w' = (Ok m, w')"
  using GetMergedMap_Ok [OF assms] GetMergedMap_present [of pm view w'] assms(1)
  by (simp add: lawful_secrets_def)

text \<open>
  A global secret stored without data makes the first generation panic: the code writes to the
  nil map the API returns.
\<close>

lemma getSecretValue_nil_data:
  assumes "serves_Secrets (kb_Interface (pm_kbClient pm)) view"
    and "cl_Secrets (view w) (secretName, defaultNamespace) = Some s" and "sec_Data s = None"
    and "generateSecretValue (pm_kbClient pm) (gs_Format gs) (gs_Bytes gs) (gs_Bits gs) w = (Ok v, w')"
  shows "getSecretValue pm n gs w = (Panic ''assignment to entry in nil map'', w')"
  using assms serves_Secrets_Get(2) [OF assms(1,2)]
  by (simp add: getSecretValue_def getGlobalSecret_def Let_def map_lookup_def)

subsection \<open>Examples\<close>

lemma mem_client_lawful: "lawful_secrets mem_client cluster_of"
  using mem_client_secrets
  by (simp add: lawful_secrets_def quiet_generators_def) (simp add: mem_client_def)

definition sample_pm :: "memory ParameterManager" where
  "sample_pm = NewParameterManager mem_client ''web''
     [\<lparr>pd_Name = ''color'', pd_Default = ''red'', pd_Description = [], pd_Required = False,
       pd_GenerateSecret = no_secret\<rparr>,
      \<lparr>pd_Name = ''key'', pd_Default = [], pd_Description = [], pd_Required = True,
       pd_GenerateSecret = \<lparr>gs_Format = ''hex'', gs_Bytes = 1, gs_Bits = 0\<rparr>\<rparr>]
     [plain_param ''color'' ''blue'']"

definition sample_secret :: Secret where
  "sample_secret = \<lparr>sec_ObjectMeta = \<lparr>om_Name = secretName, om_Namespace = defaultNamespace\<rparr>,
     sec_Data = Some [''web.key'' \<mapsto> ''00'']\<rparr>"

lemma sample_merge:
  "GetMergedMap sample_pm empty_memory =
     (Ok [''color'' \<mapsto> ''blue'', ''key'' \<mapsto> ''00''],
      empty_memory\<lparr>m_Secrets := [((secretName, defaultNamespace), sample_secret)]\<rparr>)"
  by (simp add: GetMergedMap_entries entries_def sample_pm_def NewParameterManager_def entry_step_pair
      parameter_value_def getSecretValue_def getGlobalSecret_def generateSecretValue_def
      hex_EncodeToString_def hex_digit_def mem_client_def mem_clientset_def empty_memory_def
      empty_secret_def stored_secret_def sample_secret_def map_lookup_def
      fun_upd_twist)

lemma sample_named: "secret_named (cluster_of empty_memory)"
  by (simp add: secret_named_def cluster_of_def empty_memory_def)

lemma sample_pm_sel:
  "pm_kbClient sample_pm = mem_client"
  "pd_Name ` set (pm_definitions sample_pm) \<union> ps_Name ` set (pm_parameters sample_pm) = {''color'', ''key''}"
  by (simp_all add: sample_pm_def NewParameterManager_def insert_commute)


theorem GetMergedMap_stable_witness:
  "\<exists>m w. GetMergedMap sample_pm empty_memory = (Ok m, w) \<and> GetMergedMap sample_pm w = (Ok m, w)"
proof -
  have law: "lawful_secrets (pm_kbClient sample_pm) cluster_of"
    by (simp add: sample_pm_sel mem_client_lawful)
  show ?thesis
    by (rule exI, rule exI, rule conjI, rule sample_merge,
        rule GetMergedMap_stable [OF law sample_named sample_merge])
qed

end
