(* ===== verification/Config.thy ===== *)
theory Config
  imports Parameters
begin

text \<open>
  managers/config.go: reading, setting and removing the parameters of an install, with the
  \<open>key=value\<close> splitting of cmd/kb/subcommands/config.go and \<open>InstallReference\<close> of
  managers/common.go.
\<close>

section \<open>Data\<close>

record InstallReference =
  ir_Name :: string
  ir_Namespace :: string

definition DefaultResourceName :: string where
  "DefaultResourceName = ''default''"

record 'w ConfigManager =
  cmg_kbClient :: "'w KBClient"

section \<open>Operations\<close>

definition application_name :: "InstallSpec \<Rightarrow> string" where
  "application_name spec = is_Application spec @ ''-'' @ is_Version spec"

definition Config_List ::
    "'w ConfigManager \<Rightarrow> InstallReference \<Rightarrow> ('w, string \<rightharpoonup> string) io" where
  "Config_List cm installRef =
     (let kb = cmg_kbClient cm in
      try_do (rm_Get (kb_Installs kb) (ir_Name installRef) (ir_Namespace installRef) zero_install)
        (\<lambda>err. Wrapf err ''couldn't get install %q'' [Str (ir_Name installRef)])
        (\<lambda>install.
          let appName = application_name (in_Spec install) in
          try_do (rm_Get (kb_Applications kb) appName (ir_Namespace installRef) zero_application)
            (\<lambda>err. Wrapf err ''couldn't get application %q'' [Str appName])
            (\<lambda>app.
              try_do (GetMergedMap (NewParameterManager kb (ir_Name installRef)
                        (as_ParameterDefinitions (app_Spec app)) (is_Parameters (in_Spec install))))
                (\<lambda>err. Wrapf err ''couldn't get merged map'' []) ret)))"

definition Config_Get ::
    "'w ConfigManager \<Rightarrow> InstallReference \<Rightarrow> string \<Rightarrow> ('w, string) io" where
  "Config_Get cm installRef key =
     (let kb = cmg_kbClient cm in
      try_do (Config_List cm installRef) (\<lambda>err. Wrapf err ''failed to get config map'' [])
        (\<lambda>configMap.
          if configMap key = None
          then fail (Errorf (''unknown config '%s' for install '%s'' @ apo) [Str key, Str (ir_Name installRef)])
          else
            try_do (rm_Get (kb_Installs kb) (ir_Name installRef) (ir_Namespace installRef) zero_install)
              (\<lambda>err. Wrapf err ''couldn't get install %q'' [Str (ir_Name installRef)])
              (\<lambda>install.
                let appName = application_name (in_Spec install) in
                try_do (rm_Get (kb_Applications kb) appName (ir_Namespace installRef) zero_application)
                  (\<lambda>err. Wrapf err ''couldn't get application %q'' [Str appName])
                  (\<lambda>app.
                    try_do (GetMergedMap (NewParameterManager kb (ir_Name installRef)
                              (as_ParameterDefinitions (app_Spec app)) (is_Parameters (in_Spec install))))
                      (\<lambda>err. Wrapf err ''couldn't get merged map'' [])
                      (\<lambda>m. ret (case m key of None \<Rightarrow> [] | Some v \<Rightarrow> v))))))"

text \<open>The loop overwrites the value of the first parameter of that name, or appends one.\<close>

fun set_parameter :: "string \<Rightarrow> string \<Rightarrow> ParameterSpec list \<Rightarrow> ParameterSpec list" where
  "set_parameter key value [] = [plain_param key value]"
| "set_parameter key value (p # ps) =
     (if ps_Name p = key then p\<lparr>ps_Value := value\<rparr> # ps else p # set_parameter key value ps)"

definition with_parameters :: "ParameterSpec list \<Rightarrow> Install \<Rightarrow> Install" where
  "with_parameters ps i = i\<lparr>in_Spec := (in_Spec i)\<lparr>is_Parameters := ps\<rparr>\<rparr>"

definition Config_Set ::
    "'w ConfigManager \<Rightarrow> InstallReference \<Rightarrow> string \<Rightarrow> string \<Rightarrow> ('w, unit) io" where
  "Config_Set cm installRef key value =
     (let kb = cmg_kbClient cm in
      try_do (Config_List cm installRef) (\<lambda>err. Wrapf err ''failed to get config map'' [])
        (\<lambda>configMap.
          if configMap key = None
          then fail (Errorf (''unknown config '%s' for install '%s'' @ apo) [Str key, Str (ir_Name installRef)])
          else
            try_do (rm_Get (kb_Installs kb) (ir_Name installRef) (ir_Namespace installRef) zero_install)
              (\<lambda>err. Wrapf err ''couldn't find install %q'' [Str (ir_Name installRef)])
              (\<lambda>originalInstall.
                let newInstall = with_parameters
                      (set_parameter key value (is_Parameters (in_Spec originalInstall))) originalInstall
                in try_do (rm_Patch (kb_Installs kb) newInstall originalInstall)
                     (\<lambda>err. Wrapf err ''couldn't patch install %q'' [Str (ir_Name installRef)])
                     ret)))"

definition remove_parameter ::
    "string \<Rightarrow> string \<Rightarrow> (string \<rightharpoonup> string) option \<Rightarrow> ParameterSpec list \<Rightarrow> ParameterSpec list" where
  "remove_parameter installName key data ps =
     concat (map (\<lambda>p.
       if ps_Name p \<noteq> key then [p]
       else case map_lookup data (installName @ ''.'' @ ps_Name p) of
              Some secretValue \<Rightarrow>
                [\<lparr>ps_Name = ps_Name p, ps_Value = secretValue, ps_GenerateSecret = ps_GenerateSecret p\<rparr>]
            | None \<Rightarrow> []) ps)"

definition Config_Remove ::
    "'w ConfigManager \<Rightarrow> InstallReference \<Rightarrow> string \<Rightarrow> ('w, unit) io" where
  "Config_Remove cm installRef key =
     (let kb = cmg_kbClient cm in
      try_do (rm_Get (kb_Installs kb) (ir_Name installRef) (ir_Namespace installRef) zero_install)
        (\<lambda>err. Wrapf err ''couldn't find install %q'' [Str (ir_Name installRef)])
        (\<lambda>originalInstall.
          try_do (getGlobalSecret kb) (\<lambda>err. Wrapf err ''Failed to get global secret'' [])
            (\<lambda>secret.
              let newInstall = with_parameters
                    (remove_parameter (ir_Name installRef) key (sec_Data secret)
                       (is_Parameters (in_Spec originalInstall))) originalInstall
              in try_do (rm_Patch (kb_Installs kb) newInstall originalInstall)
                   (\<lambda>err. Wrapf err ''couldn't patch install %q'' [Str (ir_Name installRef)])
                   ret)))"

definition splitKeyValue :: "string \<Rightarrow> (string \<times> string) result" where
  "splitKeyValue keyValue =
     (let splits = split_char (CHR ''='') keyValue in
      if length splits = 1 then Err (Errorf ''expected %s in key=value format'' [Str keyValue])
      else if length splits = 2 then Ok (splits ! 0, splits ! 1)
      else Ok (splits ! 0, join [] (drop 1 splits)))"

section \<open>Properties\<close>

subsection \<open>Splitting\<close>

text \<open>
  \<open>splitKeyValue\<close> cuts at the first equals sign and deletes every later one from the
  value; a text without one is refused.
\<close>

lemma splitKeyValue_cut:
  "splitKeyValue s =
     (if CHR ''='' \<in> set s
      then Ok (takeWhile (\<lambda>c. c \<noteq> CHR ''='') s,
               filter (\<lambda>c. c \<noteq> CHR ''='') (tl (dropWhile (\<lambda>c. c \<noteq> CHR ''='') s)))
      else Err (Errorf ''expected %s in key=value format'' [Str s]))"
proof (cases "CHR ''='' \<in> set s")
  case True
  define k where "k = takeWhile (\<lambda>c. c \<noteq> CHR ''='') s"
  define v where "v = tl (dropWhile (\<lambda>c. c \<noteq> CHR ''='') s)"
  have k: "CHR ''='' \<notin> set k" by (auto simp: k_def dest: set_takeWhileD)
  have "dropWhile (\<lambda>c. c \<noteq> CHR ''='') s = CHR ''='' # v"
    using True unfolding v_def by (induction s) auto
  then have s: "s = k @ CHR ''='' # v"
    unfolding k_def by (metis takeWhile_dropWhile_id)
  have sp: "split_char (CHR ''='') s = k # split_char (CHR ''='') v"
    unfolding s by (rule split_char_append [OF k])
  have "join [] (split_char (CHR ''='') v) = filter (\<lambda>c. c \<noteq> CHR ''='') v"
    by (simp add: join_empty_sep concat_split_char)
  moreover have "length (split_char (CHR ''='') v) = 1 \<Longrightarrow>
      split_char (CHR ''='') v ! 0 = concat (split_char (CHR ''='') v)"
    by (cases "split_char (CHR ''='') v") auto
  ultimately show ?thesis
    using True by (auto simp: splitKeyValue_def sp Let_def k_def v_def concat_split_char)
next
  case False
  then show ?thesis by (simp add: splitKeyValue_def split_char_none)
qed

subsection \<open>Setting and reading back\<close>

text \<open>What the configuration operations rely on from the API server.\<close>

definition lawful_config :: "'w KBClient \<Rightarrow> ('w \<Rightarrow> cluster) \<Rightarrow> bool" where
  "lawful_config kb view \<longleftrightarrow> lawful_secrets kb view \<and> plain_meta kb
     \<and> serves_Get (kb_Installs kb) view cl_Installs
     \<and> serves_Get (kb_Applications kb) view cl_Applications
     \<and> serves_Patch (kb_Installs kb) view cl_Installs cl_Installs_update"

text \<open>The install a reference names, with its application.\<close>

definition installed :: "cluster \<Rightarrow> InstallReference \<Rightarrow> Install \<Rightarrow> Application \<Rightarrow> bool" where
  "installed cl ref i a \<longleftrightarrow>
     cl_Installs cl (ir_Name ref, ir_Namespace ref) = Some i
     \<and> in_ObjectMeta i = \<lparr>om_Name = ir_Name ref, om_Namespace = ir_Namespace ref\<rparr>
     \<and> cl_Applications cl (application_name (in_Spec i), ir_Namespace ref) = Some a"

definition install_pm :: "'w KBClient \<Rightarrow> InstallReference \<Rightarrow> Install \<Rightarrow> Application \<Rightarrow> 'w ParameterManager" where
  "install_pm kb ref i a = NewParameterManager kb (ir_Name ref)
     (as_ParameterDefinitions (app_Spec a)) (is_Parameters (in_Spec i))"

lemma install_pm_sel [simp]:
  "pm_kbClient (install_pm kb ref i a) = kb" "pm_installName (install_pm kb ref i a) = ir_Name ref"
  "pm_definitions (install_pm kb ref i a) = as_ParameterDefinitions (app_Spec a)"
  "pm_parameters (install_pm kb ref i a) = is_Parameters (in_Spec i)"
  by (simp_all add: install_pm_def NewParameterManager_def)

lemma with_parameters_sel [simp]:
  "in_ObjectMeta (with_parameters ps i) = in_ObjectMeta i"
  "application_name (in_Spec (with_parameters ps i)) = application_name (in_Spec i)"
  "is_Parameters (in_Spec (with_parameters ps i)) = ps"
  by (simp_all add: with_parameters_def application_name_def)

lemma installed_same: "installed cl ref i a \<Longrightarrow> same_but_secrets cl cl' \<Longrightarrow> installed cl' ref i a"
  by (simp add: installed_def same_but_secrets_sel)

lemma installed_Get:
  assumes "lawful_config kb view" and "installed (view w) ref i a"
  shows "rm_Get (kb_Installs kb) (ir_Name ref) (ir_Namespace ref) z w = (Ok i, w)"
    and "rm_Get (kb_Applications kb) (application_name (in_Spec i)) (ir_Namespace ref) za w = (Ok a, w)"
  using assms rm_Get_served(2) [of "kb_Installs kb" view cl_Installs]
    rm_Get_served(2) [of "kb_Applications kb" view cl_Applications]
  by (simp_all add: lawful_config_def installed_def)

lemma Config_List_installed:
  assumes "lawful_config (cmg_kbClient cm) view" and "installed (view w) ref i a"
  shows "Config_List cm ref w = try_do (GetMergedMap (install_pm (cmg_kbClient cm) ref i a))
     (\<lambda>err. Wrapf err ''couldn't get merged map'' []) ret w"
  by (simp add: Config_List_def Let_def install_pm_def installed_Get [OF assms])

lemma Config_Patch_installed:
  assumes "lawful_config kb view" and "installed (view w) ref i a"
  obtains w' where "rm_Patch (kb_Installs kb) (with_parameters ps i) i w = (Ok (), w')"
    "view w' = (view w)\<lparr>cl_Installs := (cl_Installs (view w))
        ((ir_Name ref, ir_Namespace ref) \<mapsto> with_parameters ps i)\<rparr>"
proof -
  have key: "key_of (kb_Installs kb) (with_parameters ps i) = (ir_Name ref, ir_Namespace ref)"
    using assms by (simp add: key_of_def lawful_config_def plain_meta_def installed_def)
  obtain w' where "kc_Patch (kb_Installs kb) (with_parameters ps i) i w = (Ok (with_parameters ps i), w')"
    "view w' = cl_Installs_update (\<lambda>m. m((ir_Name ref, ir_Namespace ref) \<mapsto> with_parameters ps i)) (view w)"
    using assms key unfolding lawful_config_def serves_Patch_def installed_def by metis
  then show ?thesis by (intro that [of w']) (simp_all add: rm_Patch_def)
qed

lemma installed_patched:
  assumes "installed cl ref i a"
  shows "installed (cl\<lparr>cl_Installs := (cl_Installs cl)((ir_Name ref, ir_Namespace ref) \<mapsto> with_parameters ps i)\<rparr>)
           ref (with_parameters ps i) a"
  using assms by (simp add: installed_def)

lemma secret_data_patched [simp]:
  "secret_data (cl\<lparr>cl_Installs := f\<rparr>) = secret_data cl"
  "secret_named (cl\<lparr>cl_Installs := f\<rparr>) = secret_named cl"
  by (simp_all add: secret_data_def secret_named_def)

lemma set_parameter_names:
  "ps_Name ` set (set_parameter k v ps) = insert k (ps_Name ` set ps)"
  "distinct (map ps_Name ps) \<Longrightarrow> distinct (map ps_Name (set_parameter k v ps))"
  by (induction ps) auto

lemma set_parameter_mem:
  assumes "\<And>p. p \<in> set ps \<Longrightarrow> ps_Name p = k \<Longrightarrow> gs_Format (ps_GenerateSecret p) = []"
  shows "\<exists>p\<in>set (set_parameter k v ps). ps_Name p = k \<and> ps_Value p = v \<and> gs_Format (ps_GenerateSecret p) = []"
  using assms by (induction ps) auto

lemma set_parameter_secret:
  "p \<in> set (set_parameter k v ps) \<Longrightarrow> gs_Format (ps_GenerateSecret p) \<noteq> [] \<Longrightarrow>
     \<exists>q\<in>set ps. ps_Name q = ps_Name p \<and> ps_GenerateSecret q = ps_GenerateSecret p"
  by (induction ps) (auto split: if_splits)

lemma set_parameter_secrets_present:
  "secrets_present n data (entries ds ps) \<Longrightarrow> secrets_present n data (entries ds (set_parameter k v ps))"
  unfolding secrets_present_def entries_def
  by (simp add: ball_Un, rule ballI, rule impI, drule (1) set_parameter_secret) auto

lemma merged_entries_parameter:
  assumes "distinct (map ps_Name ps)" and "p \<in> set ps" and "gs_Format (ps_GenerateSecret p) = []"
  shows "merged_entries n data (entries ds ps) (ps_Name p) = Some (ps_Value p)"
proof -
  let ?es = "map (\<lambda>e. (fst e, entry_value n data e)) (map (\<lambda>p. (ps_Name p, ps_GenerateSecret p, ps_Value p)) ps)"
  have "map fst (rev ?es) = rev (map ps_Name ps)" by (simp add: rev_map comp_def)
  then have "distinct (map fst (rev ?es))" using assms(1) by simp
  moreover have "(ps_Name p, ps_Value p) \<in> set (rev ?es)"
    using assms(2,3) by (force simp: entry_value_def)
  ultimately have "map_of (rev ?es) (ps_Name p) = Some (ps_Value p)"
    by (rule map_of_is_SomeI)
  then show ?thesis by (simp add: merged_entries_def entries_def)
qed

text \<open>
  After a successful \<open>Set\<close> the install has the changed parameters, and in every state of the
  world with that cluster the merged map of the install has the value and computing it writes nothing.
\<close>

lemma Config_Set_merged:
  assumes law: "lawful_config (cmg_kbClient cm) view" and nm: "secret_named (view w)"
    and inst: "installed (view w) ref i a"
    and dist: "distinct (map ps_Name (is_Parameters (in_Spec i)))"
    and plain: "\<And>p. p \<in> set (is_Parameters (in_Spec i)) \<Longrightarrow> ps_Name p = key \<Longrightarrow>
        gs_Format (ps_GenerateSecret p) = []"
    and ok: "Config_Set cm ref key value w = (Ok (), w')"
  obtains j m where "installed (view w') ref j a" "m key = Some value"
    "\<And>u. view u = view w' \<Longrightarrow> GetMergedMap (install_pm (cmg_kbClient cm) ref j a) u = (Ok m, u)"
proof -
  let ?kb = "cmg_kbClient cm"
  let ?ps = "set_parameter key value (is_Parameters (in_Spec i))"
  have sec: "lawful_secrets (pm_kbClient (install_pm ?kb ref j b)) view" for j b
    using law by (simp add: lawful_config_def)
  from ok obtain m w1 where m: "GetMergedMap (install_pm ?kb ref i a) w = (Ok m, w1)" and
    rest: "Config_Set cm ref key value w =
      (if m key = None then fail (Errorf (''unknown config '%s' for install '%s'' @ apo) [Str key, Str (ir_Name ref)])
       else try_do (rm_Get (kb_Installs ?kb) (ir_Name ref) (ir_Namespace ref) zero_install)
              (\<lambda>err. Wrapf err ''couldn't find install %q'' [Str (ir_Name ref)])
              (\<lambda>originalInstall.
                let newInstall = with_parameters
                      (set_parameter key value (is_Parameters (in_Spec originalInstall))) originalInstall
                in try_do (rm_Patch (kb_Installs ?kb) newInstall originalInstall)
                     (\<lambda>err. Wrapf err ''couldn't patch install %q'' [Str (ir_Name ref)]) ret)) w1"
    by (auto simp: Config_Set_def Let_def io_ok Config_List_installed [OF law inst])
  note merged = GetMergedMap_Ok [OF sec nm m, simplified]
  have inst1: "installed (view w1) ref i a" using merged inst installed_same by blast
  obtain w2 where p: "rm_Patch (kb_Installs ?kb) (with_parameters ?ps i) i w1 = (Ok (), w2)"
    and v2: "view w2 = (view w1)\<lparr>cl_Installs := (cl_Installs (view w1))
        ((ir_Name ref, ir_Namespace ref) \<mapsto> with_parameters ?ps i)\<rparr>"
    by (rule Config_Patch_installed [OF law inst1])
  have get1: "rm_Get (kb_Installs ?kb) (ir_Name ref) (ir_Namespace ref) zero_install w1 = (Ok i, w1)"
    by (rule installed_Get(1) [OF law inst1])
  have w': "w' = w2"
    using ok rest p get1 by (auto simp: Let_def split: if_splits)
  have inst2: "installed (view w2) ref (with_parameters ?ps i) a"
    unfolding v2 by (rule installed_patched [OF inst1])
  let ?m = "merged_entries (ir_Name ref) (secret_data (view w2)) (entries (as_ParameterDefinitions (app_Spec a)) ?ps)"
  have m2: "GetMergedMap (install_pm ?kb ref (with_parameters ?ps i) a) u = (Ok ?m, u)" if "view u = view w2" for u
    using GetMergedMap_present [of "install_pm ?kb ref (with_parameters ?ps i) a" view u] law merged
      set_parameter_secrets_present that
    by (simp add: lawful_config_def lawful_secrets_def v2)
  obtain p where "p \<in> set ?ps" "ps_Name p = key" "ps_Value p = value" "gs_Format (ps_GenerateSecret p) = []"
    using set_parameter_mem [OF plain] by metis
  with merged_entries_parameter [OF set_parameter_names(2) [OF dist]] have "?m key = Some value" by metis
  with m2 inst2 w' show ?thesis using that by blast
qed

text \<open>
  Setting a configuration key and reading it back gives the value set, provided the stored
  parameters name each key once and the key's own entry is not a generated secret. (With duplicate
  entries the code sets the first one while reading takes the last one.)
\<close>

lemma Config_Set_Get:
  assumes law: "lawful_config (cmg_kbClient cm) view" and nm: "secret_named (view w)"
    and inst: "installed (view w) ref i a"
    and dist: "distinct (map ps_Name (is_Parameters (in_Spec i)))"
    and plain: "\<And>p. p \<in> set (is_Parameters (in_Spec i)) \<Longrightarrow> ps_Name p = key \<Longrightarrow>
        gs_Format (ps_GenerateSecret p) = []"
    and ok: "Config_Set cm ref key value w = (Ok (), w')"
  shows "Config_Get cm ref key w' = (Ok value, w')"
proof -
  obtain j m where j: "installed (view w') ref j a" and "m key = Some value"
    and "GetMergedMap (install_pm (cmg_kbClient cm) ref j a) w' = (Ok m, w')"
    using Config_Set_merged [OF law nm inst dist plain ok] by metis
  with installed_Get [OF law j] show ?thesis
    by (simp add: Config_Get_def Let_def Config_List_installed [OF law j]) (simp add: install_pm_def)
qed

text \<open>
  A key that neither the application defines nor the install sets is refused with the store of
  installs untouched.
\<close>

lemma Config_Set_unknown:
  assumes law: "lawful_config (cmg_kbClient cm) view" and nm: "secret_named (view w)"
    and inst: "installed (view w) ref i a"
    and ok: "Config_List cm ref w = (Ok m, w1)"
    and unknown: "key \<notin> pd_Name ` set (as_ParameterDefinitions (app_Spec a)) \<union> ps_Name ` set (is_Parameters (in_Spec i))"
  shows "Config_Set cm ref key value w =
      (Err (Errorf (''unknown config '%s' for install '%s'' @ apo) [Str key, Str (ir_Name ref)]), w1)
    \<and> cl_Installs (view w1) = cl_Installs (view w)"
proof -
  let ?pm = "install_pm (cmg_kbClient cm) ref i a"
  have m: "GetMergedMap ?pm w = (Ok m, w1)"
    using ok by (simp add: Config_List_installed [OF law inst] io_ok)
  have sec: "lawful_secrets (pm_kbClient ?pm) view" using law by (simp add: lawful_config_def)
  from GetMergedMap_Ok [OF sec nm m] unknown have "m key = None"
    by (auto simp: entries_def image_Un image_image merged_entries_def map_of_eq_None_iff)
  then show ?thesis
    using ok same_but_secrets_sel(1) GetMergedMap_Ok [OF sec nm m] by (simp add: Config_Set_def Let_def)
qed

subsection \<open>Removing\<close>

lemma remove_parameter_others:
  "filter (\<lambda>p. ps_Name p \<noteq> k) (remove_parameter n k data ps) = filter (\<lambda>p. ps_Name p \<noteq> k) ps"
  by (induction ps) (auto simp: remove_parameter_def split: option.splits)

lemma remove_parameter_key:
  assumes "p \<in> set (remove_parameter n k data ps)" and "ps_Name p = k"
  shows "map_lookup data (n @ ''.'' @ k) = Some (ps_Value p)"
proof -
  from assms(1) obtain q where "p \<in> set (if ps_Name q \<noteq> k then [q]
      else case map_lookup data (n @ ''.'' @ ps_Name q) of
             Some v \<Rightarrow> [\<lparr>ps_Name = ps_Name q, ps_Value = v, ps_GenerateSecret = ps_GenerateSecret q\<rparr>]
           | None \<Rightarrow> [])"
    unfolding remove_parameter_def by (simp only: set_concat set_map) blast
  with assms(2) show ?thesis
    by (cases "map_lookup data (n @ ''.'' @ ps_Name q)") (simp_all split: if_splits)
qed

text \<open>
  Removing a key from an install always succeeds on a served cluster. It leaves every other
  parameter as it was and in its order; an entry of the key stays only when the global secret
  holds a value for it, and then carries that value.
\<close>

lemma Config_Remove_stored:
  assumes law: "lawful_config (cmg_kbClient cm) view" and nm: "secret_named (view w)"
    and inst: "installed (view w) ref i a"
  shows "\<exists>w' ps. Config_Remove cm ref key w = (Ok (), w')
    \<and> cl_Installs (view w') = (cl_Installs (view w))((ir_Name ref, ir_Namespace ref) \<mapsto> with_parameters ps i)
    \<and> filter (\<lambda>p. ps_Name p \<noteq> key) ps = filter (\<lambda>p. ps_Name p \<noteq> key) (is_Parameters (in_Spec i))
    \<and> (\<forall>p\<in>set ps. ps_Name p = key \<longrightarrow>
         secret_data (view w) (ir_Name ref @ ''.'' @ key) = Some (ps_Value p))
    \<and> secret_data (view w') = secret_data (view w)"
proof -
  let ?kb = "cmg_kbClient cm"
  have ss: "serves_Secrets (kb_Interface ?kb) view"
    using law by (simp add: lawful_config_def lawful_secrets_def)
  obtain s w1 where s: "getGlobalSecret ?kb w = (Ok s, w1)"
    "secret_data (view w1) = secret_data (view w)" "map_lookup (sec_Data s) = secret_data (view w)"
    "same_but_secrets (view w) (view w1)"
    using getGlobalSecret_served [OF ss nm] by metis
  have inst1: "installed (view w1) ref i a" by (rule installed_same [OF inst s(4)])
  let ?ps = "remove_parameter (ir_Name ref) key (sec_Data s) (is_Parameters (in_Spec i))"
  obtain w2 where p: "rm_Patch (kb_Installs ?kb) (with_parameters ?ps i) i w1 = (Ok (), w2)"
    and v2: "view w2 = (view w1)\<lparr>cl_Installs := (cl_Installs (view w1))
        ((ir_Name ref, ir_Namespace ref) \<mapsto> with_parameters ?ps i)\<rparr>"
    by (rule Config_Patch_installed [OF law inst1])
  have "Config_Remove cm ref key w = (Ok (), w2)"
    using s(1) p installed_Get [OF law inst] by (simp add: Config_Remove_def Let_def)
  then show ?thesis
    using v2 s(2) same_but_secrets_sel(1) [OF s(4)] remove_parameter_key [where data = "sec_Data s", unfolded s(3)]
    by (intro exI [of _ w2] exI [of _ ?ps] conjI ballI impI) (simp_all add: remove_parameter_others)
qed

text \<open>
  Removing any key from an install before the cluster has a global secret stores an empty one.
  The next parameter that has to be generated then panics: the secret the API returns has no data
  map, and the code assigns an entry of it.
\<close>

lemma Config_Remove_breaks_generation:
  assumes law: "lawful_config (cmg_kbClient cm) view" and none: "cl_Secrets (view w) (secretName, defaultNamespace) = None"
    and inst: "installed (view w) ref i a"
    and gen: "\<And>u. \<exists>v u'. generateSecretValue (cmg_kbClient cm) (gs_Format gs) (gs_Bytes gs) (gs_Bits gs) u = (Ok v, u')"
  shows "\<exists>w' w''. Config_Remove cm ref key w = (Ok (), w') \<and>
    getSecretValue (install_pm (cmg_kbClient cm) ref i a) n gs w' = (Panic ''assignment to entry in nil map'', w'')"
proof -
  let ?kb = "cmg_kbClient cm"
  have ss: "serves_Secrets (kb_Interface ?kb) view"
    using law by (simp add: lawful_config_def lawful_secrets_def)
  obtain r w1 where c: "cs_Secrets_Create (kb_Interface ?kb) defaultNamespace empty_secret w = (r, w1)"
    by fastforce
  from serves_Secrets_Create [OF ss c] have r: "r = Ok ()"
    and v: "view w1 = (view w)\<lparr>cl_Secrets := (cl_Secrets (view w))((secretName, defaultNamespace)
        \<mapsto> empty_secret\<lparr>sec_Data := None\<rparr>)\<rparr>"
    by (simp_all add: empty_secret_def stored_secret_def)
  have s: "getGlobalSecret ?kb w = (Ok empty_secret, w1)"
    using c r serves_Secrets_Get(1) [OF ss none] by (simp add: getGlobalSecret_def)
  have inst1: "installed (view w1) ref i a" using inst by (simp add: v installed_def)
  let ?ps = "remove_parameter (ir_Name ref) key (sec_Data empty_secret) (is_Parameters (in_Spec i))"
  obtain w2 where p: "rm_Patch (kb_Installs ?kb) (with_parameters ?ps i) i w1 = (Ok (), w2)"
    and v2: "view w2 = (view w1)\<lparr>cl_Installs := (cl_Installs (view w1))
        ((ir_Name ref, ir_Namespace ref) \<mapsto> with_parameters ?ps i)\<rparr>"
    by (rule Config_Patch_installed [OF law inst1])
  have rem: "Config_Remove cm ref key w = (Ok (), w2)"
    using s p installed_Get [OF law inst] by (simp add: Config_Remove_def Let_def)
  obtain v' u' where "generateSecretValue ?kb (gs_Format gs) (gs_Bytes gs) (gs_Bits gs) w2 = (Ok v', u')"
    using gen by metis
  then have "getSecretValue (install_pm ?kb ref i a) n gs w2 = (Panic ''assignment to entry in nil map'', u')"
    using getSecretValue_nil_data [of "install_pm ?kb ref i a" view w2 "empty_secret\<lparr>sec_Data := None\<rparr>"] ss
    by (simp add: v v2)
  with rem show ?thesis by blast
qed

subsection \<open>Examples\<close>

lemma mem_client_config: "lawful_config mem_client cluster_of"
  by (simp add: lawful_config_def mem_client_lawful mem_client_meta mem_client_installs mem_client_applications)

definition sample_ref :: InstallReference where
  "sample_ref = \<lparr>ir_Name = ''web'', ir_Namespace = ''default''\<rparr>"

definition sample_install :: Install where
  "sample_install = zero_install
     \<lparr>in_ObjectMeta := \<lparr>om_Name = ''web'', om_Namespace = ''default''\<rparr>,
      in_Spec := (in_Spec zero_install)\<lparr>is_Application := ''nginx'', is_Version := ''1'',
        is_Parameters := [plain_param ''color'' ''blue'']\<rparr>\<rparr>"

definition sample_app :: Application where
  "sample_app = zero_application
     \<lparr>app_ObjectMeta := \<lparr>om_Name = ''nginx-1'', om_Namespace = ''default''\<rparr>,
      app_Spec := (app_Spec zero_application)\<lparr>as_Name := ''nginx'', as_Version := ''1'',
        as_ParameterDefinitions := [\<lparr>pd_Name = ''size'', pd_Default = ''1'', pd_Description = [],
          pd_Required = False, pd_GenerateSecret = no_secret\<rparr>]\<rparr>\<rparr>"

definition sample_memory :: memory where
  "sample_memory = empty_memory\<lparr>m_Installs := [((''web'', ''default''), sample_install)],
     m_Applications := [((''nginx-1'', ''default''), sample_app)]\<rparr>"

lemma sample_installed: "installed (cluster_of sample_memory) sample_ref sample_install sample_app"
  by (simp add: installed_def cluster_of_def sample_memory_def sample_ref_def sample_install_def
      application_name_def)

lemma sample_memory_named: "secret_named (cluster_of sample_memory)"
  by (simp add: secret_named_def cluster_of_def sample_memory_def empty_memory_def)

lemma sample_law: "lawful_config (cmg_kbClient \<lparr>cmg_kbClient = mem_client\<rparr>) cluster_of"
  by (simp add: mem_client_config)

lemma sample_list:
  "Config_List \<lparr>cmg_kbClient = mem_client\<rparr> sample_ref sample_memory =
     (Ok [''size'' \<mapsto> ''1'', ''color'' \<mapsto> ''blue''], sample_memory)"
proof -
  show ?thesis
    by (simp add: Config_List_installed [OF sample_law sample_installed] GetMergedMap_entries entries_def
        entry_step_pair parameter_value_def)
       (simp add: sample_app_def sample_install_def zero_application_def zero_install_def entry_step_pair
        parameter_value_def)
qed

lemma sample_set:
  "\<exists>w'. Config_Set \<lparr>cmg_kbClient = mem_client\<rparr> sample_ref ''color'' ''green'' sample_memory = (Ok (), w')"
proof -
  let ?ps = "set_parameter ''color'' ''green'' (is_Parameters (in_Spec sample_install))"
  obtain w' where "rm_Patch (kb_Installs mem_client) (with_parameters ?ps sample_install) sample_install
      sample_memory = (Ok (), w')"
    by (rule Config_Patch_installed [OF mem_client_config sample_installed])
  then have "Config_Set \<lparr>cmg_kbClient = mem_client\<rparr> sample_ref ''color'' ''green'' sample_memory = (Ok (), w')"
    using installed_Get(1) [OF mem_client_config sample_installed]
    by (simp add: Config_Set_def sample_list Let_def)
  then show ?thesis ..
qed

theorem Config_Set_Get_witness:
  "\<exists>w'. Config_Set \<lparr>cmg_kbClient = mem_client\<rparr> sample_ref ''color'' ''green'' sample_memory = (Ok (), w') \<and>
     Config_Get \<lparr>cmg_kbClient = mem_client\<rparr> sample_ref ''color'' w' = (Ok ''green'', w')"
proof -
  obtain w' where s: "Config_Set \<lparr>cmg_kbClient = mem_client\<rparr> sample_ref ''color'' ''green'' sample_memory = (Ok (), w')"
    using sample_set by blast
  have "Config_Get \<lparr>cmg_kbClient = mem_client\<rparr> sample_ref ''color'' w' = (Ok ''green'', w')"
    by (rule Config_Set_Get [OF sample_law sample_memory_named sample_installed _ _ s])
       (simp_all add: sample_install_def zero_install_def)
  with s show ?thesis by blast
qed

theorem Config_Set_unknown_witness:
  "fst (Config_Set \<lparr>cmg_kbClient = mem_client\<rparr> sample_ref ''colour'' ''green'' sample_memory) =
     Err (Errorf (''unknown config '%s' for install '%s'' @ apo) [Str ''colour'', Str ''web''])"
  using Config_Set_unknown [OF sample_law sample_memory_named sample_installed sample_list, of "''colour''" "''green''"]
  by (simp add: mem_client_config sample_install_def zero_install_def sample_app_def zero_application_def)
     (simp add: sample_ref_def)

theorem Config_Remove_stored_witness:
  "\<exists>w' ps. Config_Remove \<lparr>cmg_kbClient = mem_client\<rparr> sample_ref ''color'' sample_memory = (Ok (), w') \<and>
     cl_Installs (cluster_of w') (''web'', ''default'') = Some (with_parameters ps sample_install) \<and>
     filter (\<lambda>p. ps_Name p \<noteq> ''color'') ps = []"
  using Config_Remove_stored [OF sample_law sample_memory_named sample_installed, of "''color''"]
  by (simp add: sample_ref_def)
     (auto simp: sample_install_def zero_install_def)

theorem Config_Remove_breaks_generation_witness:
  "\<exists>w' w''. Config_Remove \<lparr>cmg_kbClient = mem_client\<rparr> sample_ref ''color'' sample_memory = (Ok (), w') \<and>
    getSecretValue (install_pm mem_client sample_ref sample_install sample_app) ''token''
      \<lparr>gs_Format = ''hex'', gs_Bytes = 8, gs_Bits = 0\<rparr> w' = (Panic ''assignment to entry in nil map'', w'')"
proof -
  have none: "cl_Secrets (cluster_of sample_memory) (secretName, defaultNamespace) = None"
    by (simp add: cluster_of_def sample_memory_def empty_memory_def)
  have gen: "\<exists>v u'. generateSecretValue (cmg_kbClient \<lparr>cmg_kbClient = mem_client\<rparr>) ''hex'' 8 0 u = (Ok v, u')" for u
    by (simp add: generateSecretValue_def mem_client_def)
  show ?thesis
    using Config_Remove_breaks_generation [OF sample_law none sample_installed,
        of "\<lparr>gs_Format = ''hex'', gs_Bytes = 8, gs_Bits = 0\<rparr>" "''color''" "''token''"] gen
    by simp
qed

end
