(* ===== verification/Util.thy ===== *)
theory Util
  imports Config
begin

text \<open>
  managers/util.go and managers/flavor.go: resource names, the checks of a manifest's requirements
  against the nodes of the cluster, and the \<open>FlavorManager\<close>.
\<close>

section \<open>Names\<close>

definition stringSliceContains :: "string list \<Rightarrow> string \<Rightarrow> bool" where
  "stringSliceContains sl item = list_ex (\<lambda>i. i = item) sl"

definition getResourceName :: "string \<Rightarrow> string \<Rightarrow> string" where
  "getResourceName name sfx = (if sfx \<noteq> [] then name @ ''-'' @ sfx else name)"

text \<open>The actions of a deploy image (managers/deploy.go), the arguments of its container.\<close>

definition ActionApplyOutputs :: string where "ActionApplyOutputs = ''apply outputs''"
definition ActionApply :: string where "ActionApply = ''apply''"
definition ActionDiff :: string where "ActionDiff = ''diff''"
definition ActionDelete :: string where "ActionDelete = ''delete''"
definition ActionSmoketest :: string where "ActionSmoketest = ''smoketest''"

lemmas action_defs = ActionApplyOutputs_def ActionApply_def ActionDiff_def ActionDelete_def
  ActionSmoketest_def

definition getNameWithAction :: "string \<Rightarrow> string \<Rightarrow> string" where
  "getNameWithAction name action =
     (if action = ActionSmoketest then name @ ''-smoketest'' else name)"

lemma stringSliceContains_iff [simp]: "stringSliceContains xs x \<longleftrightarrow> x \<in> set xs"
  by (auto simp: stringSliceContains_def list_ex_iff)

section \<open>Requirements\<close>

definition verify_cpu :: "'w KBClient \<Rightarrow> Manifest \<Rightarrow> Node \<Rightarrow> ('w, unit) io" where
  "verify_cpu client manifest n =
     (if ms_CPU (mf_Spec manifest) \<noteq> [] then
        try_do (lift_result (kb_ParseQuantity client (ms_CPU (mf_Spec manifest))))
          (\<lambda>err. Wrapf err ''Failed to parse field 'CPU' in manifest'' [])
          (\<lambda>minCPU.
            if node_Allocatable_CPU n < minCPU
            then fail (Errorf ''Insufficient CPU in cluster node %s: available CPU %v is less than required minimum %v''
                        [Str (node_Name n), Num (node_Allocatable_CPU n), Num minCPU])
            else ret ())
      else ret ())"

definition verify_memory :: "'w KBClient \<Rightarrow> Manifest \<Rightarrow> Node \<Rightarrow> ('w, unit) io" where
  "verify_memory client manifest n =
     (if ms_Memory (mf_Spec manifest) \<noteq> [] then
        try_do (lift_result (kb_ParseQuantity client (ms_Memory (mf_Spec manifest))))
          (\<lambda>err. Wrapf err ''Failed to parse field 'Memory' in manifest'' [])
          (\<lambda>minMemory.
            if node_Allocatable_Memory n < minMemory
            then
              let in_gb = (\<lambda>v. go_div (go_div (go_div v 1024) 1024) 1024) in
              fail (Errorf ''Insufficient Memory in cluster node %s: available Memory %v is less than required minimum %v''
                      [Str (node_Name n), Num (in_gb (node_Allocatable_Memory n)), Num (in_gb minMemory)])
            else ret ())
      else ret ())"

definition verifyResourceRequirements :: "'w KBClient \<Rightarrow> Manifest \<Rightarrow> ('w, unit) io" where
  "verifyResourceRequirements client manifest =
     try_do (cs_Nodes_List (kb_Interface client)) (\<lambda>err. Wrapf err ''couldn't get cluster nodes'' [])
       (for_each (\<lambda>n. andthen (verify_cpu client manifest n) (\<lambda>_. verify_memory client manifest n)))"

definition verifyNodeRequirements :: "'w KBClient \<Rightarrow> string \<Rightarrow> string \<Rightarrow> ('w, unit) io" where
  "verifyNodeRequirements client flavorName namespace =
     try_do (rm_Get (kb_Flavors client) flavorName namespace zero_flavor)
       (\<lambda>err. Wrapf err ''couldn't get flavor %q'' [Str flavorName])
       (\<lambda>flavor.
         try_do (cs_Nodes_List (kb_Interface client)) (\<lambda>err. Wrapf err ''couldn't get cluster nodes'' [])
           (\<lambda>nodes.
             let availableNodes = int (length nodes) in
             if availableNodes < fs_MinimumNodes (fl_Spec flavor)
             then fail (Errorf ''cluster node count %d is lower than minimum %d required by flavor %s''
                          [Num availableNodes, Num (fs_MinimumNodes (fl_Spec flavor)), Str flavorName])
             else ret ()))"

section \<open>FlavorManager\<close>

text \<open>Any error of the lookup leads to the creation, with the fields of the zero flavor set.\<close>

definition Flavor_Create ::
    "'w KBClient \<Rightarrow> string \<Rightarrow> string \<Rightarrow> string \<Rightarrow> int \<Rightarrow> int \<Rightarrow> int \<Rightarrow> int \<Rightarrow> ('w, Flavor) io" where
  "Flavor_Create kb flavorName namespace antiAffinity quorumReplicas replicationReplicas
       statelessReplicas minNodes =
     handle (rm_Get (kb_Flavors kb) flavorName namespace zero_flavor) ret (\<lambda>_.
       let flavor = \<lparr>fl_ObjectMeta = \<lparr>om_Name = flavorName, om_Namespace = namespace\<rparr>,
             fl_Spec = (fl_Spec zero_flavor)\<lparr>fs_AntiAffinity := antiAffinity, fs_MinimumNodes := minNodes,
               fs_StatefulQuorumReplicas := quorumReplicas,
               fs_StatefulReplicationReplicas := replicationReplicas,
               fs_StatelessReplicas := statelessReplicas\<rparr>\<rparr>
       in try_do (rm_Create (kb_Flavors kb) flavor)
            (\<lambda>err. Wrapf err ''couldn't create flavor %s'' [Str flavorName]) ret)"

definition Flavor_Get :: "'w KBClient \<Rightarrow> string \<Rightarrow> string \<Rightarrow> ('w, Flavor) io" where
  "Flavor_Get kb flavorName namespace =
     try_do (rm_Get (kb_Flavors kb) flavorName namespace zero_flavor)
       (\<lambda>err. Wrapf err ''Could not find flavor %s'' [Str flavorName]) ret"

section \<open>Properties\<close>

text \<open>What it means for a node to have the resources a manifest asks for.\<close>

definition has_at_least :: "'w KBClient \<Rightarrow> string \<Rightarrow> int \<Rightarrow> bool" where
  "has_at_least kb quantity available \<longleftrightarrow>
     quantity = [] \<or> (\<exists>q. kb_ParseQuantity kb quantity = Ok q \<and> q \<le> available)"

lemma verify_cpu_Ok [io_ok]:
  "verify_cpu kb m n w = (Ok u, w') \<longleftrightarrow>
     has_at_least kb (ms_CPU (mf_Spec m)) (node_Allocatable_CPU n) \<and> w' = w"
  by (cases "kb_ParseQuantity kb (ms_CPU (mf_Spec m))")
     (auto simp: verify_cpu_def has_at_least_def)

lemma verify_memory_Ok [io_ok]:
  "verify_memory kb m n w = (Ok u, w') \<longleftrightarrow>
     has_at_least kb (ms_Memory (mf_Spec m)) (node_Allocatable_Memory n) \<and> w' = w"
  by (cases "kb_ParseQuantity kb (ms_Memory (mf_Spec m))")
     (auto simp: verify_memory_def has_at_least_def Let_def)

lemma for_each_verify_Ok:
  "for_each (\<lambda>n. andthen (verify_cpu kb m n) (\<lambda>_. verify_memory kb m n)) ns w = (Ok u, w') \<longleftrightarrow>
     (\<forall>n\<in>set ns. has_at_least kb (ms_CPU (mf_Spec m)) (node_Allocatable_CPU n) \<and>
        has_at_least kb (ms_Memory (mf_Spec m)) (node_Allocatable_Memory n)) \<and> w' = w"
  by (induction ns) (auto simp: io_ok)

text \<open>
  The resource check of a manifest accepts exactly when the nodes can be listed and every node
  of the cluster has the CPU and the memory asked for, as the quantity parser reads them. A cluster
  without nodes is accepted, even with unreadable quantities.
\<close>

lemma verifyResourceRequirements_accepts:
  "verifyResourceRequirements kb m w = (Ok (), w') \<longleftrightarrow>
     (\<exists>nodes. cs_Nodes_List (kb_Interface kb) w = (Ok nodes, w') \<and>
        (\<forall>n\<in>set nodes. has_at_least kb (ms_CPU (mf_Spec m)) (node_Allocatable_CPU n) \<and>
           has_at_least kb (ms_Memory (mf_Spec m)) (node_Allocatable_Memory n)))"
  by (auto simp: verifyResourceRequirements_def io_ok for_each_verify_Ok)

theorem verifyResourceRequirements_accepts_witness:
  "let kb = mem_client\<lparr>kb_ParseQuantity := (\<lambda>s. if s = ''2'' then Ok 2 else Err (Foreign s))\<rparr>;
       node = \<lparr>node_Name = ''n1'', node_Labels = Map.empty, node_Allocatable_CPU = 2,
         node_Allocatable_Memory = 0, node_Addresses = [], node_Conditions = []\<rparr>;
       m = zero_manifest\<lparr>mf_Spec := (mf_Spec zero_manifest)\<lparr>ms_CPU := ''2''\<rparr>\<rparr>;
       w = empty_memory\<lparr>m_Nodes := [node]\<rparr>
   in verifyResourceRequirements kb m w = (Ok (), w)"
  by (simp add: verifyResourceRequirements_accepts Let_def mem_client_def mem_clientset_def has_at_least_def
      zero_manifest_def)

lemma verifyNodeRequirements_Ok [io_ok]:
  "verifyNodeRequirements kb f ns w = (Ok u, w') \<longleftrightarrow>
     (\<exists>fl w1 nodes. kc_Get (kb_Flavors kb) f ns zero_flavor w = (Ok fl, w1) \<and>
        cs_Nodes_List (kb_Interface kb) w1 = (Ok nodes, w') \<and>
        fs_MinimumNodes (fl_Spec fl) \<le> int (length nodes))"
  by (auto simp: verifyNodeRequirements_def io_ok Let_def not_less split: if_splits)

end
