(* ===== verification/Sources.thy ===== *)
theory Sources
  imports Util
begin

text \<open>
  managers/source.go, copy.go and publish.go: bundle files, the four kinds of source (directory,
  S3 bucket, list of files, and several sources searched in order), copying bundles between sources
  and publishing files to one. The file system, the zip and YAML readers, the JSON codec of the
  metadata file and the S3 client are parameters (\<open>'w os\<close>).
\<close>

section \<open>The operating system and the libraries the sources call\<close>

type_synonym fd = nat

record BundleRef =
  br_Name :: string
  br_Version :: string

record ReleaseMetadata =
  rm_Version :: string
  rm_Size :: string

record PublishMetadata =
  pmd_Latest :: ReleaseMetadata

text \<open>
  Files and response bodies are open handles; \<open>os_DecodeMetadata\<close> is a JSON decoder reading
  from one, \<open>os_Discard\<close> drains one, \<open>os_Copy dst src n\<close> is \<open>io.Copy\<close> from a section reader of the
  first \<open>n\<close> bytes. \<open>os_ZipOpen h n member\<close> is \<open>zip.NewReader\<close> over the first
  \<open>n\<close> bytes of a file: its outer result is the reader's, the inner one that of opening the
  member.
\<close>

record 'w os =
  os_Stat :: "string \<Rightarrow> ('w, int) io"
  os_Open :: "string \<Rightarrow> ('w, fd) io"
  os_Create :: "string \<Rightarrow> ('w, fd) io"
  os_CreateTemp :: "string \<Rightarrow> ('w, fd \<times> string) io"
  os_MkdirAll :: "string \<Rightarrow> ('w, unit) io"
  os_DecodeMetadata :: "fd \<Rightarrow> ('w, PublishMetadata) io"
  os_Discard :: "fd \<Rightarrow> ('w, unit) io"
  os_Copy :: "fd \<Rightarrow> fd \<Rightarrow> int \<Rightarrow> ('w, unit) io"
  os_Close :: "fd \<Rightarrow> ('w, unit) io"
  os_WriteFile :: "string \<Rightarrow> string \<Rightarrow> ('w, unit) io"
  os_ZipOpen :: "fd \<Rightarrow> int \<Rightarrow> string \<Rightarrow> ('w, string result) io"
  os_DecodeApplication :: "string \<Rightarrow> Application result"
  os_EncodeMetadata :: "PublishMetadata \<Rightarrow> string result"
  s3_GetObject :: "string \<Rightarrow> string \<Rightarrow> string \<Rightarrow> ('w, fd) io"
  s3_Download :: "string \<Rightarrow> string \<Rightarrow> string \<Rightarrow> fd \<Rightarrow> ('w, unit) io"
  s3_UploadFile :: "string \<Rightarrow> string \<Rightarrow> string \<Rightarrow> fd \<Rightarrow> int \<Rightarrow> ('w, unit) io"
  s3_UploadBytes :: "string \<Rightarrow> string \<Rightarrow> string \<Rightarrow> string \<Rightarrow> ('w, unit) io"

section \<open>Bundle files\<close>

definition DefaultAppFile :: string where "DefaultAppFile = ''app.yaml''"
definition DefaultImagesFile :: string where "DefaultImagesFile = ''images.tar''"
definition Latest :: string where "Latest = ''latest''"

definition Filename :: "BundleRef \<Rightarrow> string" where
  "Filename bf = br_Name bf @ ''-'' @ br_Version bf @ ''.kb''"

definition MetadataFilename :: "BundleRef \<Rightarrow> string" where
  "MetadataFilename bf = br_Name bf @ ''.json''"

record BundleFile =
  bf_BundleRef :: BundleRef
  bf_Contents :: fd
  bf_Size :: int

definition BundleFile_String :: "BundleFile \<Rightarrow> string" where
  "BundleFile_String bf = br_Name (bf_BundleRef bf) @ ''-'' @ br_Version (bf_BundleRef bf)"

definition BundleFile_Close :: "'w os \<Rightarrow> BundleFile \<Rightarrow> ('w, unit) io" where
  "BundleFile_Close os bf = os_Close os (bf_Contents bf)"

definition normalize_application :: "string \<Rightarrow> Application \<Rightarrow> Application result" where
  "normalize_application namespace app0 =
     (let spec = app_Spec app0;
          app = app0\<lparr>app_ObjectMeta :=
            \<lparr>om_Name = as_Name spec @ ''-'' @ as_Version spec, om_Namespace = namespace\<rparr>\<rparr> in
      if length (as_Provides spec) > 1
      then Err (Errorf ''bundle '%s' can only provide 1 dependency'' [Str (as_Name spec)])
      else if as_Provides spec = []
      then Ok (app\<lparr>app_Spec := spec\<lparr>as_Provides := [\<lparr>pl_Name = as_Name spec, pl_Outputs = []\<rparr>]\<rparr>\<rparr>)
      else Ok app)"

definition BundleFile_Application ::
    "'w os \<Rightarrow> BundleFile \<Rightarrow> string \<Rightarrow> ('w, Application) io" where
  "BundleFile_Application os bf namespace =
     try_do (os_ZipOpen os (bf_Contents bf) (bf_Size bf) DefaultAppFile)
       (\<lambda>err. Wrapf err ''couldn't open bundle reader'' [])
       (\<lambda>opened. try_do (lift_result opened)
         (\<lambda>err. Wrapf err ''couldn't read bundle application definition'' [])
         (\<lambda>f. try_do (lift_result (os_DecodeApplication os f))
           (\<lambda>err. Wrapf err ''couldn't decode bundle application definition'' [])
           (\<lambda>app. lift_result (normalize_application namespace app))))"

definition NewBundleFromFile :: "'w os \<Rightarrow> string \<Rightarrow> ('w, BundleFile) io" where
  "NewBundleFromFile os filename =
     try_do (os_Stat os filename) (\<lambda>err. Wrapf err (''couldn't stat bundle '%s'' @ apo) [Str filename])
       (\<lambda>size.
         try_do (os_Open os filename) (\<lambda>err. Wrapf err (''couldn't open bundle '%s'' @ apo) [Str filename])
           (\<lambda>f.
             let bf = \<lparr>bf_BundleRef = \<lparr>br_Name = [], br_Version = []\<rparr>, bf_Contents = f, bf_Size = size\<rparr> in
             try_do (BundleFile_Application os bf ''default'')
               (\<lambda>err. Wrapf err ''couldn't open bundle application definition'' [])
               (\<lambda>app. ret (bf\<lparr>bf_BundleRef := \<lparr>br_Name = as_Name (app_Spec app),
                                               br_Version = as_Version (app_Spec app)\<rparr>\<rparr>))))"

section \<open>Sources\<close>

text \<open>The Go interface: the two methods.\<close>

record 'w Source =
  src_Get :: "BundleRef \<Rightarrow> ('w, BundleFile) io"
  src_Put :: "BundleFile \<Rightarrow> ('w, unit) io"

record DirectorySource =
  dir_Path :: string
  dir_Options :: "string \<rightharpoonup> string"
  dir_Section :: string
  dir_Release :: string

definition source_path :: "string \<Rightarrow> string \<Rightarrow> string \<Rightarrow> string \<Rightarrow> string" where
  "source_path path sec release file = path_Join [path, sec, release, file]"

text \<open>The version a reference to the latest one stands for comes from the metadata file.\<close>

definition Directory_Get :: "'w os \<Rightarrow> DirectorySource \<Rightarrow> BundleRef \<Rightarrow> ('w, BundleFile) io" where
  "Directory_Get os ds bundleRef =
     (let in_folder = source_path (dir_Path ds) (dir_Section ds) (dir_Release ds);
          metadataPath = in_folder (MetadataFilename bundleRef);
          open_bundle = (\<lambda>ref. NewBundleFromFile os (in_folder (Filename ref))) in
      if br_Version bundleRef = Latest then
        handle (os_Open os metadataPath)
          (\<lambda>f. deferring (os_Close os f)
            (try_do (os_DecodeMetadata os f)
              (\<lambda>err. Wrapf err (''couldn't decode metadata file '%s'' @ apo) [Str metadataPath])
              (\<lambda>publishMetadata.
                open_bundle (bundleRef\<lparr>br_Version := rm_Version (pmd_Latest publishMetadata)\<rparr>))))
          (\<lambda>err. if err = OsNotExist then fail ErrNotFound
                 else fail (Wrapf err (''couldn't open metadata file '%s'' @ apo) [Str metadataPath]))
      else open_bundle bundleRef)"

definition publish_metadata :: "BundleFile \<Rightarrow> PublishMetadata" where
  "publish_metadata bf = \<lparr>pmd_Latest = \<lparr>rm_Version = br_Version (bf_BundleRef bf), rm_Size = Itoa (bf_Size bf)\<rparr>\<rparr>"

definition Directory_Put :: "'w os \<Rightarrow> DirectorySource \<Rightarrow> BundleFile \<Rightarrow> ('w, unit) io" where
  "Directory_Put os ds bundleFile =
     (let folderPath = path_Join [dir_Path ds, dir_Section ds, dir_Release ds];
          fullPath = path_Join [folderPath, Filename (bf_BundleRef bundleFile)];
          metadataPath = source_path (dir_Path ds) (dir_Section ds) (dir_Release ds)
            (MetadataFilename (bf_BundleRef bundleFile)) in
      andthen
        (check (os_Stat os folderPath) 0
          (\<lambda>err _. if err = Some OsNotExist then check (os_MkdirAll os folderPath) () (\<lambda>_ _. ret ())
                   else ret ()))
        (\<lambda>_. try_do (os_Create os fullPath)
          (\<lambda>err. Wrapf err ''couldn't open path '%s' for writing'' [Str fullPath])
          (\<lambda>f. try_do (os_Copy os f (bf_Contents bundleFile) (bf_Size bundleFile))
            (\<lambda>err. Wrapf err ''couldn't copy file content'' [])
            (\<lambda>_. try_do (os_Close os f) (\<lambda>err. Wrapf err ''couldn't close bundle'' [])
              (\<lambda>_. try_do (lift_result (os_EncodeMetadata os (publish_metadata bundleFile)))
                (\<lambda>err. Wrapf err ''couldn't encode metadata json'' [])
                (\<lambda>b. try_do (os_WriteFile os metadataPath b)
                  (\<lambda>err. Wrapf err ''couldn't write metadata file'' []) ret))))))"

definition directory_source :: "'w os \<Rightarrow> DirectorySource \<Rightarrow> 'w Source" where
  "directory_source os ds = \<lparr>src_Get = Directory_Get os ds, src_Put = Directory_Put os ds\<rparr>"

record MultiFileSource =
  mfs_Files :: "string list"

fun MultiFile_Get :: "'w os \<Rightarrow> string list \<Rightarrow> BundleRef \<Rightarrow> ('w, BundleFile) io" where
  "MultiFile_Get os [] bundleRef = fail ErrNotFound"
| "MultiFile_Get os (file # files) bundleRef =
     (if path_Base file = Filename bundleRef then NewBundleFromFile os file
      else MultiFile_Get os files bundleRef)"

definition MultiFile_Put :: "BundleFile \<Rightarrow> ('w, unit) io" where
  "MultiFile_Put bundleFile = fail ErrNotImplemented"

definition NewMultiFileSource :: "'w os \<Rightarrow> string list \<Rightarrow> 'w Source" where
  "NewMultiFileSource os files = \<lparr>src_Get = MultiFile_Get os files, src_Put = MultiFile_Put\<rparr>"

fun Multi_Get :: "'w Source list \<Rightarrow> BundleRef \<Rightarrow> ('w, BundleFile) io" where
  "Multi_Get [] bundleRef = fail ErrNotFound"
| "Multi_Get (source # sources) bundleRef =
     handle (src_Get source bundleRef) ret
       (\<lambda>err. if err = ErrNotFound then Multi_Get sources bundleRef else fail err)"

definition Multi_Put :: "BundleFile \<Rightarrow> ('w, unit) io" where
  "Multi_Put bundleFile = fail ErrNotImplemented"

definition NewMultiSource :: "'w Source list \<Rightarrow> 'w Source" where
  "NewMultiSource sources = \<lparr>src_Get = Multi_Get sources, src_Put = Multi_Put\<rparr>"

text \<open>The errors of \<open>session.NewSession\<close> and the returned session are not looked at.\<close>

record S3Source =
  s3_Path :: string
  s3_Options :: "string \<rightharpoonup> string"
  s3_Section :: string
  s3_Release :: string

definition option_or_empty :: "(string \<rightharpoonup> string) \<Rightarrow> string \<Rightarrow> string" where
  "option_or_empty m k = (case m k of None \<Rightarrow> [] | Some v \<Rightarrow> v)"

definition S3_latest ::
    "'w os \<Rightarrow> S3Source \<Rightarrow> string \<Rightarrow> string \<Rightarrow> BundleRef \<Rightarrow> ('w, BundleRef) io" where
  "S3_latest os s bucket region bundleRef =
     (let metadataKey = source_path (s3_Path s) (s3_Section s) (s3_Release s) (MetadataFilename bundleRef) in
      handle (s3_GetObject os region bucket metadataKey)
        (\<lambda>body. check (os_DecodeMetadata os body) \<lparr>pmd_Latest = \<lparr>rm_Version = [], rm_Size = []\<rparr>\<rparr>
          (\<lambda>err publishMetadata. check (os_Discard os body) () (\<lambda>_ _.
            case err of
              Some e \<Rightarrow> fail (Wrapf e (''couldn't decode metadata file 's3://%s'' @ apo) [Str (path_Join [bucket, metadataKey])])
            | None \<Rightarrow> ret (bundleRef\<lparr>br_Version := rm_Version (pmd_Latest publishMetadata)\<rparr>))))
        (\<lambda>err. if err = AwsError ''NoSuchKey'' then fail ErrNotFound
               else fail (Wrapf err (''couldn't download metadata file 's3://%s'' @ apo) [Str (path_Join [bucket, metadataKey])])))"

definition S3_download ::
    "'w os \<Rightarrow> S3Source \<Rightarrow> string \<Rightarrow> string \<Rightarrow> BundleRef \<Rightarrow> ('w, BundleFile) io" where
  "S3_download os s bucket region bundleRef =
     try_do (os_CreateTemp os (Filename bundleRef @ ''.*.kb'')) (\<lambda>err. Wrapf err ''couldn't create temp file'' [])
       (\<lambda>(f, name).
         let key = source_path (s3_Path s) (s3_Section s) (s3_Release s) (Filename bundleRef) in
         handle (s3_Download os region bucket key f)
           (\<lambda>_. try_do (os_Close os f) (\<lambda>err. Wrapf err ''couldn't close bundle file'' [])
             (\<lambda>_. NewBundleFromFile os name))
           (\<lambda>err. if err = AwsError ''NotFound'' then fail ErrNotFound
                  else fail (Wrapf err ''couldn't download s3://%s'' [Str (path_Join [bucket, key])])))"

definition S3_Get :: "'w os \<Rightarrow> S3Source \<Rightarrow> BundleRef \<Rightarrow> ('w, BundleFile) io" where
  "S3_Get os s bundleRef =
     (let bucket = option_or_empty (s3_Options s) ''bucket'';
          region = option_or_empty (s3_Options s) ''region'' in
      if bucket = [] then fail (Errorf ''missing bucket'' [])
      else if region = [] then fail (Errorf ''missing region'' [])
      else andthen
        (if br_Version bundleRef = Latest then S3_latest os s bucket region bundleRef else ret bundleRef)
        (S3_download os s bucket region))"

definition S3_Put :: "'w os \<Rightarrow> S3Source \<Rightarrow> BundleFile \<Rightarrow> ('w, unit) io" where
  "S3_Put os s bundleFile =
     (let bucket = option_or_empty (s3_Options s) ''bucket'';
          region = option_or_empty (s3_Options s) ''region'';
          in_folder = source_path (s3_Path s) (s3_Section s) (s3_Release s) in
      if bucket = [] then fail (Errorf ''missing bucket'' [])
      else if region = [] then fail (Errorf ''missing region'' [])
      else
        try_do (s3_UploadFile os region bucket (in_folder (Filename (bf_BundleRef bundleFile)))
                  (bf_Contents bundleFile) (bf_Size bundleFile))
          (\<lambda>err. Wrapf err ''couldn't upload to s3'' [])
          (\<lambda>_. try_do (lift_result (os_EncodeMetadata os (publish_metadata bundleFile)))
            (\<lambda>err. Wrapf err ''couldn't encode metadata json'' [])
            (\<lambda>b. try_do (s3_UploadBytes os region bucket (in_folder (MetadataFilename (bf_BundleRef bundleFile))) b)
              (\<lambda>err. Wrapf err ''couldn't upload bundle metadata to s3'' []) ret)))"

definition s3_source :: "'w os \<Rightarrow> S3Source \<Rightarrow> 'w Source" where
  "s3_source os s = \<lparr>src_Get = S3_Get os s, src_Put = S3_Put os s\<rparr>"

definition NewSource ::
    "'w os \<Rightarrow> string \<Rightarrow> string \<Rightarrow> (string \<rightharpoonup> string) \<Rightarrow> string \<Rightarrow> string \<Rightarrow> 'w Source result" where
  "NewSource os sourceType path options sec release =
     (if sourceType = ''directory'' then
        Ok (directory_source os \<lparr>dir_Path = path, dir_Options = options, dir_Section = sec, dir_Release = release\<rparr>)
      else if sourceType = ''s3'' then
        Ok (s3_source os \<lparr>s3_Path = path, s3_Options = options, s3_Section = sec, s3_Release = release\<rparr>)
      else Err (Errorf ''unrecognized source: %s'' [Str sourceType]))"

section \<open>CopyManager and PublishManager\<close>

definition Copy :: "'w os \<Rightarrow> 'w Source \<Rightarrow> 'w Source \<Rightarrow> BundleRef list \<Rightarrow> ('w, unit) io" where
  "Copy os fromSource destinationSource bundleRefs =
     for_each (\<lambda>bundleRef.
       try_do (src_Get fromSource bundleRef)
         (\<lambda>err. Wrapf err (''couldn't get bundle '%s'' @ apo) [Str (br_Name bundleRef)])
         (\<lambda>bundleFile. check (src_Put destinationSource bundleFile) () (\<lambda>_ _.
            check (BundleFile_Close os bundleFile) () (\<lambda>_ _. ret ())))) bundleRefs"

definition Publish :: "'w os \<Rightarrow> 'w Source \<Rightarrow> string list \<Rightarrow> ('w, unit) io" where
  "Publish os source filenames =
     for_each (\<lambda>filename.
       try_do (NewBundleFromFile os filename)
         (\<lambda>err. Wrapf err (''couldn't open bundle '%s'' @ apo) [Str filename])
         (\<lambda>bundleFile. try_do (src_Put source bundleFile)
            (\<lambda>err. Wrapf err (''couldn't publish bundle '%s'' @ apo) [Str filename])
            (\<lambda>_. check (BundleFile_Close os bundleFile) () (\<lambda>_ _. ret ())))) filenames"

section \<open>Properties\<close>

subsection \<open>Bundle files\<close>

lemma normalize_application_Ok:
  "normalize_application ns a = Ok b \<longleftrightarrow>
     length (as_Provides (app_Spec a)) \<le> 1 \<and>
     b = a\<lparr>app_ObjectMeta := \<lparr>om_Name = as_Name (app_Spec a) @ ''-'' @ as_Version (app_Spec a), om_Namespace = ns\<rparr>,
           app_Spec := (app_Spec a)\<lparr>as_Provides := (case as_Provides (app_Spec a) of
              [] \<Rightarrow> [\<lparr>pl_Name = as_Name (app_Spec a), pl_Outputs = []\<rparr>] | p # ps \<Rightarrow> p # ps)\<rparr>\<rparr>"
  by (cases "as_Provides (app_Spec a)") (auto simp: normalize_application_def Let_def)

lemma BundleFile_Application_Ok [io_ok]:
  "BundleFile_Application os bf ns w = (Ok app, w') \<longleftrightarrow>
     (\<exists>doc a. os_ZipOpen os (bf_Contents bf) (bf_Size bf) DefaultAppFile w = (Ok (Ok doc), w') \<and>
        os_DecodeApplication os doc = Ok a \<and> normalize_application ns a = Ok app)"
  by (auto simp: BundleFile_Application_def io_ok)

text \<open>
  An application read from a bundle is named after its own name and version, lives in the
  namespace asked for, and provides exactly one dependency: the one its definition lists, or itself.
\<close>

lemma BundleFile_Application_normalized:
  assumes "BundleFile_Application os bf ns w = (Ok app, w')"
  shows "app_ObjectMeta app = \<lparr>om_Name = as_Name (app_Spec app) @ ''-'' @ as_Version (app_Spec app), om_Namespace = ns\<rparr>
    \<and> (\<exists>doc a p. os_DecodeApplication os doc = Ok a \<and> as_Provides (app_Spec app) = [p] \<and>
         (as_Provides (app_Spec a) = [p] \<or> as_Provides (app_Spec a) = [] \<and> pl_Name p = as_Name (app_Spec a)))"
proof -
  from assms obtain doc a where a: "os_DecodeApplication os doc = Ok a" "normalize_application ns a = Ok app"
    by (auto simp: io_ok)
  then show ?thesis
    by (cases "as_Provides (app_Spec a)") (auto simp: normalize_application_Ok)
qed

lemma NewBundleFromFile_Ok [io_ok]:
  "NewBundleFromFile os p w = (Ok bf, w') \<longleftrightarrow>
     (\<exists>n w1 h w2 app bf0. os_Stat os p w = (Ok n, w1) \<and> os_Open os p w1 = (Ok h, w2) \<and>
        bf0 = \<lparr>bf_BundleRef = \<lparr>br_Name = [], br_Version = []\<rparr>, bf_Contents = h, bf_Size = n\<rparr> \<and>
        BundleFile_Application os bf0 ''default'' w2 = (Ok app, w') \<and>
        bf = bf0\<lparr>bf_BundleRef := \<lparr>br_Name = as_Name (app_Spec app), br_Version = as_Version (app_Spec app)\<rparr>\<rparr>)"
  unfolding NewBundleFromFile_def Let_def try_do_Ok by (auto simp del: BundleFile_Application_Ok simp: ret_def)

subsection \<open>The contract of a source\<close>

text \<open>
  Every source of the program answers \<open>Get\<close> with a bundle it has opened from a file, so the
  name and the version of the bundle are those its own application definition gives, whatever the
  reference asked for.
\<close>

locale bundle_source =
  fixes os :: "'w os" and get :: "BundleRef \<Rightarrow> ('w, BundleFile) io"
  assumes get_opens: "get ref w = (Ok bf, w') \<Longrightarrow> \<exists>p u u'. NewBundleFromFile os p u = (Ok bf, u')"
begin

lemma get_named:
  assumes "get ref w = (Ok bf, w')"
  shows "\<exists>doc a. os_DecodeApplication os doc = Ok a \<and> length (as_Provides (app_Spec a)) \<le> 1 \<and>
    bf_BundleRef bf = \<lparr>br_Name = as_Name (app_Spec a), br_Version = as_Version (app_Spec a)\<rparr>"
  using get_opens [OF assms] by (fastforce simp: io_ok normalize_application_Ok)

end

lemma Directory_Get_opens:
  "Directory_Get os ds ref w = (Ok bf, w') \<Longrightarrow> \<exists>p u u'. NewBundleFromFile os p u = (Ok bf, u')"
  unfolding Directory_Get_def Let_def
  by (auto simp: handle_Ok deferring_Ok try_do_Ok split: if_splits)

lemma MultiFile_Get_opens:
  "MultiFile_Get os files ref w = (Ok bf, w') \<Longrightarrow> \<exists>p u u'. NewBundleFromFile os p u = (Ok bf, u')"
  by (induction files) (auto split: if_splits)

lemma S3_Get_opens:
  "S3_Get os s ref w = (Ok bf, w') \<Longrightarrow> \<exists>p u u'. NewBundleFromFile os p u = (Ok bf, u')"
  unfolding S3_Get_def S3_download_def Let_def
  by (auto simp: handle_Ok andthen_Ok try_do_Ok split: if_splits)

lemma Multi_Get_opens:
  assumes "\<And>s ref w bf w'. s \<in> set sources \<Longrightarrow> src_Get s ref w = (Ok bf, w') \<Longrightarrow>
     \<exists>p u u'. NewBundleFromFile os p u = (Ok bf, u')"
    and "Multi_Get sources ref w = (Ok bf, w')"
  shows "\<exists>p u u'. NewBundleFromFile os p u = (Ok bf, u')"
  using assms
proof (induction sources arbitrary: w)
  case (Cons s sources)
  from Cons.prems(2) show ?case
    by (auto simp: handle_Ok split: if_splits intro: Cons.prems(1) Cons.IH [OF Cons.prems(1)])
qed simp

interpretation directory: bundle_source os "Directory_Get os ds" for os ds
  by unfold_locales (rule Directory_Get_opens)

interpretation multi_file: bundle_source os "MultiFile_Get os files" for os files
  by unfold_locales (rule MultiFile_Get_opens)

interpretation s3: bundle_source os "S3_Get os s" for os s
  by unfold_locales (rule S3_Get_opens)

interpretation multi: bundle_source os
    "Multi_Get (map (directory_source os) ds @ map (s3_source os) ss)" for os ds ss
  by unfold_locales
    (erule Multi_Get_opens [rotated],
     auto simp: directory_source_def s3_source_def intro: Directory_Get_opens S3_Get_opens)

subsection \<open>Searching several sources\<close>

text \<open>
  \<open>MultiSource.Get\<close> asks the sources in order: those before the first that does not
  say \<open>ErrNotFound\<close> are skipped, and that source's answer, a bundle or an error, is the
  result; the sources after it are never asked.
\<close>

lemma Multi_Get_first:
  assumes skip: "\<And>s u. s \<in> set before \<Longrightarrow> src_Get s ref u = (Err ErrNotFound, u)"
    and first: "src_Get s ref w = (r, w')" "r \<noteq> Err ErrNotFound"
  shows "Multi_Get (before @ s # after) ref w = (r, w')"
  using skip
proof (induction before)
  case Nil
  then show ?case using first by (cases r) simp_all
next
  case (Cons b before)
  then show ?case by simp
qed

text \<open>
  C38. A pinned version that a directory source does not have ends the search with an error of
  \<open>os.Stat\<close>: the sources configured after it are never asked, unlike for the latest version,
  where a missing metadata file is \<open>ErrNotFound\<close>.
\<close>

theorem Multi_Get_pinned_missing:
  assumes "br_Version ref \<noteq> Latest"
    and "os_Stat os (source_path (dir_Path ds) (dir_Section ds) (dir_Release ds) (Filename ref)) w = (Err OsNotExist, w')"
  shows "Multi_Get (directory_source os ds # after) ref w =
    (Err (Wrapf OsNotExist (''couldn't stat bundle '%s'' @ apo)
       [Str (source_path (dir_Path ds) (dir_Section ds) (dir_Release ds) (Filename ref))]), w')"
  using assms by (simp add: directory_source_def Directory_Get_def Let_def NewBundleFromFile_def)

lemma Multi_Get_latest_missing:
  assumes "br_Version ref = Latest"
    and "os_Open os (source_path (dir_Path ds) (dir_Section ds) (dir_Release ds) (MetadataFilename ref)) w = (Err OsNotExist, w')"
  shows "Multi_Get (directory_source os ds # after) ref w = Multi_Get after ref w'"
  using assms by (simp add: directory_source_def Directory_Get_def Let_def)

subsection \<open>Copying\<close>

text \<open>
  \<open>Copy\<close> reports success whenever every bundle can be read from the source, however the
  destination fails: the error of \<open>Put\<close> is only logged.
\<close>

lemma Copy_ignores_destination:
  assumes get: "\<And>ref u. ref \<in> set refs \<Longrightarrow> \<exists>bf u'. src_Get from ref u = (Ok bf, u')"
    and put: "\<And>bf u. \<exists>e u'. src_Put dest bf u = (Err e, u')"
    and close: "\<And>h u. \<exists>r u'. os_Close os h u = (r, u') \<and> (r = Ok () \<or> (\<exists>e. r = Err e))"
  shows "\<exists>w'. Copy os from dest refs w = (Ok (), w')"
  unfolding Copy_def
proof (rule for_each_total)
  fix ref u assume ref: "ref \<in> set refs"
  obtain bf u1 where g: "src_Get from ref u = (Ok bf, u1)" using get [OF ref] by blast
  obtain e u2 where p: "src_Put dest bf u1 = (Err e, u2)" using put by blast
  obtain r u3 where c: "os_Close os (bf_Contents bf) u2 = (r, u3)" "r = Ok () \<or> (\<exists>e. r = Err e)"
    using close by blast
  show "\<exists>w'. try_do (src_Get from ref)
         (\<lambda>err. Wrapf err (''couldn't get bundle '%s'' @ apo) [Str (br_Name ref)])
         (\<lambda>bundleFile. check (src_Put dest bundleFile) () (\<lambda>_ _.
            check (BundleFile_Close os bundleFile) () (\<lambda>_ _. ret ()))) u = (Ok (), w')"
    using g p c by (auto simp: BundleFile_Close_def)
qed

subsection \<open>Publishing to a directory and reading back\<close>

text \<open>
  What the round trip relies on: a file system with the content of each file and the file behind
  each open handle, in which the operations have their usual effect, a codec of the metadata that
  decodes what it encoded, and a zip reader that looks only at the bytes of the file.
\<close>

definition same_files :: "('w \<Rightarrow> string \<rightharpoonup> string) \<Rightarrow> ('w \<Rightarrow> fd \<rightharpoonup> string) \<Rightarrow> 'w \<Rightarrow> 'w \<Rightarrow> bool" where
  "same_files files at w w' \<longleftrightarrow> files w' = files w \<and> at w' = at w"

definition lawful_reads ::
    "'w os \<Rightarrow> ('w \<Rightarrow> string \<rightharpoonup> string) \<Rightarrow> ('w \<Rightarrow> fd \<rightharpoonup> string) \<Rightarrow> (string \<Rightarrow> string \<Rightarrow> string result result) \<Rightarrow> bool"
  where
  "lawful_reads os files at unzip \<longleftrightarrow>
     (\<forall>p w. same_files files at w (snd (os_Stat os p w))) \<and>
     (\<forall>p w c. files w p = Some c \<longrightarrow> fst (os_Stat os p w) = Ok (int (length c))) \<and>
     (\<forall>p w c. files w p = Some c \<longrightarrow> (\<exists>h w'. os_Open os p w = (Ok h, w') \<and>
        files w' = files w \<and> at w' = (at w)(h \<mapsto> p) \<and> at w h = None)) \<and>
     (\<forall>h w. files (snd (os_Close os h w)) = files w \<and> at (snd (os_Close os h w)) = (at w)(h := None)) \<and>
     (\<forall>h p c w m. at w h = Some p \<longrightarrow> files w p = Some c \<longrightarrow>
        fst (os_ZipOpen os h (int (length c)) m w) = unzip c m \<and>
        same_files files at w (snd (os_ZipOpen os h (int (length c)) m w))) \<and>
     (\<forall>h p d w m. at w h = Some p \<longrightarrow> files w p = Some d \<longrightarrow> os_EncodeMetadata os m = Ok d \<longrightarrow>
        (\<exists>w'. os_DecodeMetadata os h w = (Ok m, w') \<and> same_files files at w w'))"

definition lawful_writes :: "'w os \<Rightarrow> ('w \<Rightarrow> string \<rightharpoonup> string) \<Rightarrow> ('w \<Rightarrow> fd \<rightharpoonup> string) \<Rightarrow> bool" where
  "lawful_writes os files at \<longleftrightarrow>
     (\<forall>p w. same_files files at w (snd (os_MkdirAll os p w))) \<and>
     (\<forall>p w h w'. os_Create os p w = (Ok h, w') \<longrightarrow>
        files w' = (files w)(p \<mapsto> []) \<and> at w' = (at w)(h \<mapsto> p) \<and> at w h = None) \<and>
     (\<forall>d s n p q c w w'. os_Copy os d s n w = (Ok (), w') \<longrightarrow> at w d = Some p \<longrightarrow> at w s = Some q \<longrightarrow>
        p \<noteq> q \<longrightarrow> files w p = Some [] \<longrightarrow> files w q = Some c \<longrightarrow>
        files w' = (files w)(p \<mapsto> take (nat n) c) \<and> at w' = at w) \<and>
     (\<forall>p d w w'. os_WriteFile os p d w = (Ok (), w') \<longrightarrow> files w' = (files w)(p \<mapsto> d) \<and> at w' = at w)"

lemma lawful_Stat:
  assumes "lawful_reads os files at unzip"
  shows "same_files files at w (snd (os_Stat os p w))"
    and "files w p = Some c \<Longrightarrow> fst (os_Stat os p w) = Ok (int (length c))"
  using assms by (simp_all add: lawful_reads_def)

lemma lawful_MkdirAll: "lawful_writes os files at \<Longrightarrow> same_files files at w (snd (os_MkdirAll os p w))"
  by (simp add: lawful_writes_def)

lemma lawful_ZipOpen:
  assumes "lawful_reads os files at unzip" and "at w h = Some p" and "files w p = Some c"
  shows "\<exists>w'. os_ZipOpen os h (int (length c)) m w = (unzip c m, w') \<and> files w' = files w \<and> at w' = at w"
proof -
  have "fst (os_ZipOpen os h (int (length c)) m w) = unzip c m \<and>
      same_files files at w (snd (os_ZipOpen os h (int (length c)) m w))"
    using assms by (simp add: lawful_reads_def)
  then show ?thesis
    by (intro exI [of _ "snd (os_ZipOpen os h (int (length c)) m w)"]) (simp add: prod_eq_iff same_files_def)
qed

text \<open>The bytes of a bundle whose definition gives this name and version.\<close>

definition bundle_bytes :: "'w os \<Rightarrow> (string \<Rightarrow> string \<Rightarrow> string result result) \<Rightarrow> string \<Rightarrow> BundleRef \<Rightarrow> bool" where
  "bundle_bytes os unzip c ref \<longleftrightarrow> (\<exists>doc a. unzip c DefaultAppFile = Ok (Ok doc) \<and>
     os_DecodeApplication os doc = Ok a \<and> length (as_Provides (app_Spec a)) \<le> 1 \<and>
     ref = \<lparr>br_Name = as_Name (app_Spec a), br_Version = as_Version (app_Spec a)\<rparr>)"

lemma NewBundleFromFile_stored:
  assumes law: "lawful_reads os files at unzip" and c: "files w p = Some c" and b: "bundle_bytes os unzip c ref"
  shows "\<exists>h w'. NewBundleFromFile os p w = (Ok \<lparr>bf_BundleRef = ref, bf_Contents = h, bf_Size = int (length c)\<rparr>, w')
    \<and> files w' = files w \<and> at w' = (at w)(h \<mapsto> p) \<and> at w h = None"
proof -
  obtain w1 where s: "os_Stat os p w = (Ok (int (length c)), w1)" "files w1 = files w" "at w1 = at w"
    using lawful_Stat [OF law, of w p] c by (cases "os_Stat os p w") (auto simp: same_files_def)
  obtain h w2 where o: "os_Open os p w1 = (Ok h, w2)" "files w2 = files w1" "at w2 = (at w1)(h \<mapsto> p)" "at w1 h = None"
    using law c s(2) unfolding lawful_reads_def by metis
  obtain doc a where d: "unzip c DefaultAppFile = Ok (Ok doc)" "os_DecodeApplication os doc = Ok a"
    "length (as_Provides (app_Spec a)) \<le> 1" "ref = \<lparr>br_Name = as_Name (app_Spec a), br_Version = as_Version (app_Spec a)\<rparr>"
    using b by (auto simp: bundle_bytes_def)
  obtain w3 where z: "os_ZipOpen os h (int (length c)) DefaultAppFile w2 = (Ok (Ok doc), w3)"
    "files w3 = files w2" "at w3 = at w2"
  proof -
    have "at w2 h = Some p" "files w2 p = Some c" using o c s(2) by simp_all
    from lawful_ZipOpen [OF law this, of DefaultAppFile] d(1) that show ?thesis by auto
  qed
  obtain b where b: "normalize_application ''default'' a = Ok b"
    "as_Name (app_Spec b) = as_Name (app_Spec a)" "as_Version (app_Spec b) = as_Version (app_Spec a)"
    using d(3) by (simp add: normalize_application_Ok)
  have "NewBundleFromFile os p w = (Ok \<lparr>bf_BundleRef = ref, bf_Contents = h, bf_Size = int (length c)\<rparr>, w3)"
    by (simp add: NewBundleFromFile_def BundleFile_Application_def s(1) o(1) z(1) d(2) b d(4))
  then show ?thesis using s(2,3) o(2,3,4) z(2,3) by (intro exI [of _ h] exI [of _ w3]) simp
qed

lemma file_names_distinct:
  assumes "CHR ''/'' \<notin> set (br_Name ref)" and "CHR ''/'' \<notin> set (br_Version ref)"
    and that: "CHR ''/'' \<notin> set (br_Name ref')"
  shows "path_Join (es @ [Filename ref]) \<noteq> path_Join (es' @ [MetadataFilename ref'])"
proof
  assume "path_Join (es @ [Filename ref]) = path_Join (es' @ [MetadataFilename ref'])"
  moreover have "last (split_char (CHR ''/'') (path_Join (es @ [Filename ref]))) = Filename ref"
    using assms(1,2) by (intro last_path_Join) (auto simp: Filename_def)
  moreover have "last (split_char (CHR ''/'') (path_Join (es' @ [MetadataFilename ref']))) = MetadataFilename ref'"
    using that by (intro last_path_Join) (auto simp: MetadataFilename_def Cons_eq_append_conv)
  ultimately have "Filename ref = MetadataFilename ref'" by simp
  then have "last (Filename ref) = last (MetadataFilename ref')" by simp
  then show False by (simp add: Filename_def MetadataFilename_def)
qed

lemma Directory_Put_stored:
  assumes writes: "lawful_writes os files at" and reads: "lawful_reads os files at unzip"
    and opened: "at w (bf_Contents bf) = Some p0" "files w p0 = Some c" "bf_Size bf = int (length c)"
    and names: "CHR ''/'' \<notin> set (br_Name (bf_BundleRef bf))" "CHR ''/'' \<notin> set (br_Version (bf_BundleRef bf))"
    and elsewhere: "p0 \<noteq> source_path (dir_Path ds) (dir_Section ds) (dir_Release ds) (Filename (bf_BundleRef bf))"
    and put: "Directory_Put os ds bf w = (Ok (), w1)"
  shows "files w1 (source_path (dir_Path ds) (dir_Section ds) (dir_Release ds) (Filename (bf_BundleRef bf))) = Some c"
    "\<exists>b. os_EncodeMetadata os (publish_metadata bf) = Ok b \<and>
      files w1 (source_path (dir_Path ds) (dir_Section ds) (dir_Release ds) (MetadataFilename (bf_BundleRef bf))) = Some b"
proof -
  let ?dirs = "[dir_Path ds, dir_Section ds, dir_Release ds]"
  define full where "full = path_Join (?dirs @ [Filename (bf_BundleRef bf)])"
  define meta where "meta = path_Join (?dirs @ [MetadataFilename (bf_BundleRef bf)])"
  have full': "path_Join [path_Join ?dirs, Filename (bf_BundleRef bf)] = full"
    unfolding full_def using names by (intro path_Join_nested) (auto simp: Filename_def)
  have ne: "full \<noteq> meta" unfolding full_def meta_def using names by (intro file_names_distinct) auto
  have p0: "p0 \<noteq> full" using elsewhere by (simp add: full_def source_path_def)
  obtain u u1 h u2 u3 b where
    prep: "check (os_Stat os (path_Join ?dirs)) 0
          (\<lambda>err _. if err = Some OsNotExist then check (os_MkdirAll os (path_Join ?dirs)) () (\<lambda>_ _. ret ())
                   else ret ()) w = (Ok (), u)"
    and cr: "os_Create os full u = (Ok h, u1)"
    and cp: "os_Copy os h (bf_Contents bf) (bf_Size bf) u1 = (Ok (), u2)"
    and cl: "os_Close os h u2 = (Ok (), u3)"
    and b: "os_EncodeMetadata os (publish_metadata bf) = Ok b"
    and wr: "os_WriteFile os meta b u3 = (Ok (), w1)"
    using put unfolding Directory_Put_def Let_def full' source_path_def
    by (auto simp: andthen_Ok try_do_Ok meta_def)
  have same: "files u = files w \<and> at u = at w"
  proof -
    note st = lawful_Stat(1) [OF reads] and mk = lawful_MkdirAll [OF writes]
    obtain r v where "os_Stat os (path_Join ?dirs) w = (r, v)" by fastforce
    with prep st [where w = w and p = "path_Join ?dirs"] mk [where w = v and p = "path_Join ?dirs"] show ?thesis
      by (cases r) (auto simp: same_files_def check_Ok split: if_splits)
  qed
  have f1: "files u1 = (files w)(full \<mapsto> [])" "at u1 = (at w)(h \<mapsto> full)" "at w h = None"
    using writes cr same unfolding lawful_writes_def by metis+
  have "at u1 (bf_Contents bf) = Some p0" "files u1 p0 = Some c" "at u1 h = Some full" "files u1 full = Some []"
    using f1 opened p0 by auto
  then have f2: "files u2 = (files u1)(full \<mapsto> take (nat (bf_Size bf)) c)"
    using writes cp p0 unfolding lawful_writes_def by metis
  have f3: "files u3 = files u2" using reads cl unfolding lawful_reads_def by (metis snd_conv)
  have f4: "files w1 = (files u3)(meta \<mapsto> b)" using writes wr unfolding lawful_writes_def by blast
  show "files w1 (source_path (dir_Path ds) (dir_Section ds) (dir_Release ds) (Filename (bf_BundleRef bf))) = Some c"
    using ne opened(3) by (simp add: f4 f3 f2 source_path_def flip: full_def [simplified])
  show "\<exists>b. os_EncodeMetadata os (publish_metadata bf) = Ok b \<and>
      files w1 (source_path (dir_Path ds) (dir_Section ds) (dir_Release ds) (MetadataFilename (bf_BundleRef bf))) = Some b"
    using b by (simp add: f4 source_path_def flip: meta_def [simplified])
qed


subsection \<open>Examples\<close>

text \<open>
  A small file system in memory. A bundle file is the text of its definition, which is the bundle's
  name; every bundle has version 1.
\<close>

record disk =
  d_files :: "string \<rightharpoonup> string"
  d_open :: "(fd \<times> string) list"

definition fresh_fd :: "disk \<Rightarrow> fd" where
  "fresh_fd d = Suc (foldr max (map fst (d_open d)) 0)"

lemma fresh_fd: "map_of (d_open d) (fresh_fd d) = None"
proof -
  have "h \<in> fst ` set hs \<Longrightarrow> h \<le> foldr max (map fst hs) 0" for h and hs :: "(fd \<times> string) list"
    by (induction hs) (auto simp: le_max_iff_disj)
  then show ?thesis by (force simp: fresh_fd_def map_of_eq_None_iff)
qed

definition app_named :: "string \<Rightarrow> Application" where
  "app_named n = zero_application\<lparr>app_Spec := (app_Spec zero_application)\<lparr>as_Name := n, as_Version := ''1''\<rparr>\<rparr>"

definition disk_os :: "disk os" where
  "disk_os = \<lparr>
     os_Stat = (\<lambda>p w. case d_files w p of None \<Rightarrow> (Err OsNotExist, w) | Some c \<Rightarrow> (Ok (int (length c)), w)),
     os_Open = (\<lambda>p w. case d_files w p of None \<Rightarrow> (Err OsNotExist, w)
        | Some c \<Rightarrow> (Ok (fresh_fd w), w\<lparr>d_open := (fresh_fd w, p) # d_open w\<rparr>)),
     os_Create = (\<lambda>p w. (Ok (fresh_fd w),
        w\<lparr>d_files := (d_files w)(p \<mapsto> []), d_open := (fresh_fd w, p) # d_open w\<rparr>)),
     os_CreateTemp = (\<lambda>p w. (Ok (fresh_fd w, p), w\<lparr>d_open := (fresh_fd w, p) # d_open w\<rparr>)),
     os_MkdirAll = (\<lambda>p. ret ()),
     os_DecodeMetadata = (\<lambda>h w. case map_of (d_open w) h of
        None \<Rightarrow> (Err (Foreign ''closed''), w)
      | Some p \<Rightarrow> (case d_files w p of
          None \<Rightarrow> (Err (Foreign ''removed''), w)
        | Some c \<Rightarrow> (Ok \<lparr>pmd_Latest = \<lparr>rm_Version = ''1'', rm_Size = c\<rparr>\<rparr>, w))),
     os_Discard = (\<lambda>h. ret ()),
     os_Copy = (\<lambda>d s n w. case (map_of (d_open w) d, map_of (d_open w) s) of
        (Some p, Some q) \<Rightarrow> (Ok (), w\<lparr>d_files := (d_files w)(p := map_option (take (nat n)) (d_files w q))\<rparr>)
      | _ \<Rightarrow> (Err (Foreign ''closed''), w)),
     os_Close = (\<lambda>h w. (Ok (), w\<lparr>d_open := AList.delete h (d_open w)\<rparr>)),
     os_WriteFile = (\<lambda>p d w. (Ok (), w\<lparr>d_files := (d_files w)(p \<mapsto> d)\<rparr>)),
     os_ZipOpen = (\<lambda>h n m w. case map_of (d_open w) h of
        None \<Rightarrow> (Err (Foreign ''closed''), w)
      | Some p \<Rightarrow> (case d_files w p of None \<Rightarrow> (Err (Foreign ''removed''), w) | Some c \<Rightarrow> (Ok (Ok c), w))),
     os_DecodeApplication = (\<lambda>doc. Ok (app_named doc)),
     os_EncodeMetadata = (\<lambda>m. if rm_Version (pmd_Latest m) = ''1'' then Ok (rm_Size (pmd_Latest m))
                              else Err (Foreign ''version'')),
     s3_GetObject = (\<lambda>r b k. fail (AwsError ''NoSuchKey'')),
     s3_Download = (\<lambda>r b k h. fail (AwsError ''NotFound'')),
     s3_UploadFile = (\<lambda>r b k h n. fail (AwsError ''AccessDenied'')),
     s3_UploadBytes = (\<lambda>r b k d. fail (AwsError ''AccessDenied''))\<rparr>"

lemma disk_os_reads: "lawful_reads disk_os d_files (\<lambda>w. map_of (d_open w)) (\<lambda>c m. Ok (Ok c))"
  by (auto simp: lawful_reads_def same_files_def disk_os_def fresh_fd delete_conv' split: option.splits if_splits)

lemma disk_os_writes: "lawful_writes disk_os d_files (\<lambda>w. map_of (d_open w))"
  by (auto simp: lawful_writes_def same_files_def disk_os_def fresh_fd)

definition sample_disk :: disk where
  "sample_disk = \<lparr>d_files = [''in/web.kb'' \<mapsto> ''web''], d_open = [(7, ''in/web.kb'')]\<rparr>"

definition sample_bundle :: BundleFile where
  "sample_bundle = \<lparr>bf_BundleRef = \<lparr>br_Name = ''web'', br_Version = ''1''\<rparr>, bf_Contents = 7, bf_Size = 3\<rparr>"

definition sample_dir :: DirectorySource where
  "sample_dir = \<lparr>dir_Path = ''/repo'', dir_Options = Map.empty, dir_Section = ''main'', dir_Release = ''r1''\<rparr>"

lemma sample_put: "\<exists>w'. Directory_Put disk_os sample_dir sample_bundle sample_disk = (Ok (), w')"
  by (cases "path_Join [dir_Path sample_dir, dir_Section sample_dir, dir_Release sample_dir] = ''in/web.kb''")
     (simp_all add: Directory_Put_def Let_def disk_os_def sample_disk_def sample_bundle_def
      publish_metadata_def fresh_fd_def)


theorem BundleFile_Application_normalized_witness:
  "\<exists>app. BundleFile_Application disk_os sample_bundle ''prod'' sample_disk = (Ok app, sample_disk) \<and>
     app_ObjectMeta app = \<lparr>om_Name = ''web-1'', om_Namespace = ''prod''\<rparr>"
proof -
  obtain app where r: "BundleFile_Application disk_os sample_bundle ''prod'' sample_disk = (Ok app, sample_disk)"
    and s: "as_Name (app_Spec app) = ''web''" "as_Version (app_Spec app) = ''1''"
    by (auto simp: BundleFile_Application_def disk_os_def sample_disk_def sample_bundle_def app_named_def
        normalize_application_def zero_application_def)
  from BundleFile_Application_normalized [OF r] r s show ?thesis by auto
qed

theorem Multi_Get_first_witness:
  "Multi_Get [NewMultiFileSource disk_os [], NewMultiFileSource disk_os [''nowhere/web-1.kb''],
      NewMultiFileSource disk_os []] \<lparr>br_Name = ''web'', br_Version = ''1''\<rparr> sample_disk =
   (Err (Wrapf OsNotExist (''couldn't stat bundle '%s'' @ apo) [Str ''nowhere/web-1.kb'']), sample_disk)"
proof -
  let ?s = "NewMultiFileSource disk_os [''nowhere/web-1.kb'']"
  have "src_Get ?s \<lparr>br_Name = ''web'', br_Version = ''1''\<rparr> sample_disk =
     (Err (Wrapf OsNotExist (''couldn't stat bundle '%s'' @ apo) [Str ''nowhere/web-1.kb'']), sample_disk)"
    by (simp add: NewMultiFileSource_def path_Base_def Filename_def NewBundleFromFile_def disk_os_def sample_disk_def)
  from Multi_Get_first [OF _ this, of "[NewMultiFileSource disk_os []]" "[NewMultiFileSource disk_os []]"]
  show ?thesis by (simp add: NewMultiFileSource_def)
qed

theorem Multi_Get_pinned_missing_witness:
  "\<exists>e p. Multi_Get [directory_source disk_os sample_dir, NewMultiFileSource disk_os [''in/web-2.kb'']]
     \<lparr>br_Name = ''web'', br_Version = ''2''\<rparr> (sample_disk\<lparr>d_files := [''in/web-2.kb'' \<mapsto> ''web'']\<rparr>) =
   (Err (Wrapf OsNotExist e p), sample_disk\<lparr>d_files := [''in/web-2.kb'' \<mapsto> ''web'']\<rparr>)"
proof -
  let ?ref = "\<lparr>br_Name = ''web'', br_Version = ''2''\<rparr>"
  let ?w = "sample_disk\<lparr>d_files := [''in/web-2.kb'' \<mapsto> ''web'']\<rparr>"
  have "hd (source_path (dir_Path sample_dir) (dir_Section sample_dir) (dir_Release sample_dir) (Filename ?ref)) = CHR ''/''"
    by (simp add: sample_dir_def source_path_def path_Join_def path_Clean_stack rooted_path_def)
  then have "os_Stat disk_os (source_path (dir_Path sample_dir) (dir_Section sample_dir) (dir_Release sample_dir) (Filename ?ref)) ?w =
     (Err OsNotExist, ?w)"
    by (auto simp: disk_os_def)
  from Multi_Get_pinned_missing [OF _ this] show ?thesis by (simp add: Latest_def)
qed

theorem Copy_ignores_destination_witness:
  "\<exists>w'. Copy disk_os (NewMultiFileSource disk_os []\<lparr>src_Get := (\<lambda>ref. ret sample_bundle)\<rparr>)
     (NewMultiFileSource disk_os []) [\<lparr>br_Name = ''web'', br_Version = ''1''\<rparr>] sample_disk = (Ok (), w')"
  by (rule Copy_ignores_destination) (simp_all add: NewMultiFileSource_def MultiFile_Put_def disk_os_def)

text \<open>
  An operating system of any world that holds one bundle per handle and never changes: the
  application behind handle \<open>h\<close> is \<open>app_of h\<close>.
\<close>

definition still_os :: "(fd \<Rightarrow> Application) \<Rightarrow> 'w os" where
  "still_os app_of = \<lparr>os_Stat = (\<lambda>p. ret 0), os_Open = (\<lambda>p. ret (length p)), os_Create = (\<lambda>p. ret (length p)),
     os_CreateTemp = (\<lambda>p. ret (length p, p)), os_MkdirAll = (\<lambda>p. ret ()),
     os_DecodeMetadata = (\<lambda>h. ret \<lparr>pmd_Latest = \<lparr>rm_Version = ''1'', rm_Size = ''0''\<rparr>\<rparr>),
     os_Discard = (\<lambda>h. ret ()), os_Copy = (\<lambda>d s n. ret ()), os_Close = (\<lambda>h. ret ()),
     os_WriteFile = (\<lambda>p d. ret ()), os_ZipOpen = (\<lambda>h n m. ret (Ok (replicate h (CHR ''x'')))),
     os_DecodeApplication = (\<lambda>doc. Ok (app_of (length doc))),
     os_EncodeMetadata = (\<lambda>m. Ok (rm_Size (pmd_Latest m))),
     s3_GetObject = (\<lambda>r b k. fail (AwsError ''NoSuchKey'')),
     s3_Download = (\<lambda>r b k h. fail (AwsError ''NotFound'')),
     s3_UploadFile = (\<lambda>r b k h n. ret ()), s3_UploadBytes = (\<lambda>r b k d. ret ())\<rparr>"

definition bundle_at :: "fd \<Rightarrow> BundleFile" where
  "bundle_at h = \<lparr>bf_BundleRef = \<lparr>br_Name = [], br_Version = []\<rparr>, bf_Contents = h, bf_Size = 0\<rparr>"

text \<open>A source whose bundle for a name is behind the handle of the name's length.\<close>

definition still_source :: "'w Source" where
  "still_source = \<lparr>src_Get = (\<lambda>ref. ret (bundle_at (length (br_Name ref)))), src_Put = (\<lambda>bf. fail ErrNotImplemented)\<rparr>"

lemma still_application:
  "BundleFile_Application (still_os app_of) (bundle_at h) ns w = (normalize_application ns (app_of h), w)"
  by (simp add: BundleFile_Application_def still_os_def bundle_at_def)

end
