(* ===== verification/Register.thy ===== *)
theory Register
  imports Sources
begin

text \<open>
  managers/register.go: registering the applications of bundles with the cluster, in the order of
  their dependencies. The layered topological sort is third-party code and a parameter of the client
  record (\<open>kb_LayeredTopologicalSort\<close>).
\<close>

section \<open>Operations\<close>

fun check_requires ::
    "string list \<Rightarrow> string list \<Rightarrow> Application \<Rightarrow> RequiresList list \<Rightarrow> gerror option" where
  "check_requires present toBeInstalled app [] = None"
| "check_requires present toBeInstalled app (r # rs) =
     (if \<not> stringSliceContains present (rl_Name r) \<and> \<not> stringSliceContains toBeInstalled (rl_Name r)
      then Some (Errorf ''required dependency %q for app %q not found''
                   [Str (rl_Name r), Str (om_Name (app_ObjectMeta app))])
      else if rl_Name r = as_Name (app_Spec app)
      then Some (Errorf ''bundle %q cannot require itself'' [Str (rl_Name r)])
      else check_requires present toBeInstalled app rs)"

fun check_apps :: "string list \<Rightarrow> string list \<Rightarrow> Application list \<Rightarrow> gerror option" where
  "check_apps present toBeInstalled [] = None"
| "check_apps present toBeInstalled (app # apps) =
     (case check_requires present toBeInstalled app (as_Requires (app_Spec app)) of
        Some e \<Rightarrow> Some e | None \<Rightarrow> check_apps present toBeInstalled apps)"

definition validateDependencies :: "'w KBClient \<Rightarrow> string \<Rightarrow> Application list \<Rightarrow> ('w, unit) io" where
  "validateDependencies kb namespace apps =
     try_do (rm_List (kb_Applications kb) namespace []) (\<lambda>err. Wrapf err ''couldn't list applications'' [])
       (\<lambda>installedAppList.
         case check_apps (map (\<lambda>a. as_Name (app_Spec a)) installedAppList)
                (map (\<lambda>a. as_Name (app_Spec a)) apps) apps of
           None \<Rightarrow> ret () | Some e \<Rightarrow> fail e)"

text \<open>The application passed in is the object \<open>CreateIfNotExists\<close> decodes an existing one into.\<close>

definition register :: "'w KBClient \<Rightarrow> Application \<Rightarrow> ('w, Application) io" where
  "register kb app =
     try_do (rm_CreateIfNotExists (kb_Applications kb) app)
       (\<lambda>err. Wrapf err ''couldn't create application definition'' []) ret"

definition Register ::
    "'w os \<Rightarrow> 'w KBClient \<Rightarrow> BundleRef \<Rightarrow> 'w Source \<Rightarrow> string \<Rightarrow> ('w, Application) io" where
  "Register os kb bundleRef bundleSource namespace =
     try_do (src_Get bundleSource bundleRef)
       (\<lambda>err. Wrapf err (''couldn't find bundle file with name '%s'' @ apo) [Str (Filename bundleRef)])
       (\<lambda>bundleFile. deferring (BundleFile_Close os bundleFile)
         (andthen (BundleFile_Application os bundleFile namespace)
           (\<lambda>app. try_do (validateDependencies kb namespace [app])
              (\<lambda>err. Wrapf err ''couldn't satisfy dependencies'' [])
              (\<lambda>_. register kb app))))"

text \<open>
  What the first loop of \<open>RegisterAll\<close> collects. The applications are pointers: the map
  holds the current value of each, the result lists the names in the order processed. Of two bundles
  with one name the maps keep the last.
\<close>

record batch =
  ba_entries :: "(string \<times> string list) list"
  ba_files :: "string \<rightharpoonup> BundleFile"
  ba_apps :: "string \<rightharpoonup> Application"
  ba_list :: "Application list"

definition read_bundle ::
    "'w os \<Rightarrow> 'w Source \<Rightarrow> string \<Rightarrow> BundleRef \<Rightarrow> batch \<Rightarrow> ('w, batch) io" where
  "read_bundle os bundleSource namespace ref b =
     try_do (src_Get bundleSource ref)
       (\<lambda>err. Wrapf err (''couldn't find bundle file with name '%s'' @ apo) [Str (br_Name ref), Str (br_Version ref)])
       (\<lambda>bundleFile. andthen (BundleFile_Application os bundleFile namespace)
         (\<lambda>app. let name = as_Name (app_Spec app) in
           case as_Provides (app_Spec app) of
             [] \<Rightarrow> panic ''index out of range''
           | p # _ \<Rightarrow> ret (b\<lparr>
               ba_files := (ba_files b)(name \<mapsto> bundleFile),
               ba_apps := (ba_apps b)(name \<mapsto> app),
               ba_list := ba_list b @ [app],
               ba_entries := ba_entries b @ [(pl_Name p, map rl_Name (as_Requires (app_Spec app)))]\<rparr>)))"

definition register_name ::
    "'w os \<Rightarrow> 'w KBClient \<Rightarrow> (string \<rightharpoonup> BundleFile) \<Rightarrow> string \<Rightarrow> (string \<rightharpoonup> Application) \<Rightarrow>
     ('w, string \<rightharpoonup> Application) io" where
  "register_name os kb bundleFiles name apps =
     (case apps name of
        None \<Rightarrow> panic nil_dereference
      | Some app \<Rightarrow>
          try_do (register kb app) (\<lambda>err. Wrapf err ''couldn't register application %q'' [Str name])
            (\<lambda>app'. case bundleFiles name of
                None \<Rightarrow> panic nil_dereference
              | Some bundleFile \<Rightarrow>
                  check (BundleFile_Close os bundleFile) () (\<lambda>_ _. ret (apps(name \<mapsto> app')))))"

definition RegisterAll ::
    "'w os \<Rightarrow> 'w KBClient \<Rightarrow> BundleRef list \<Rightarrow> 'w Source \<Rightarrow> string \<Rightarrow> ('w, Application list) io" where
  "RegisterAll os kb bundleRefs bundleSource namespace =
     andthen (fold_io (read_bundle os bundleSource namespace) bundleRefs
                \<lparr>ba_entries = [], ba_files = Map.empty, ba_apps = Map.empty, ba_list = []\<rparr>)
       (\<lambda>b. try_do (validateDependencies kb namespace (ba_list b))
          (\<lambda>err. Wrapf err ''couldn't satisfy dependencies'' [])
          (\<lambda>_. case kb_LayeredTopologicalSort kb (ba_entries b) of
             None \<Rightarrow> fail (Errorf ''can't resolve circular dependencies'' [])
           | Some layers \<Rightarrow>
               andthen (fold_io (register_name os kb (ba_files b)) (concat layers) (ba_apps b))
                 (\<lambda>apps. ret (map (\<lambda>name. the (apps name)) (concat layers)))))"

section \<open>Properties\<close>

lemma check_requires_None:
  "check_requires ins tobe app rs = None \<longleftrightarrow>
     (\<forall>r\<in>set rs. rl_Name r \<in> set ins \<union> set tobe \<and> rl_Name r \<noteq> as_Name (app_Spec app))"
  by (induction rs) auto

lemma check_apps_None:
  "check_apps ins tobe apps = None \<longleftrightarrow>
     (\<forall>app\<in>set apps. check_requires ins tobe app (as_Requires (app_Spec app)) = None)"
  by (induction apps) (auto split: option.splits)

text \<open>
  C19. Dependency validation accepts exactly when the registered applications can be listed and
  every requirement of every application is the name of a registered application or of one in the
  batch, and is not the application's own name.
\<close>

theorem validateDependencies_accepts:
  "validateDependencies kb ns apps w = (Ok (), w') \<longleftrightarrow>
     (\<exists>inst. kc_List (kb_Applications kb) [InNamespace ns] w = (Ok inst, w') \<and>
        (\<forall>app\<in>set apps. \<forall>r\<in>set (as_Requires (app_Spec app)).
           rl_Name r \<in> (\<lambda>a. as_Name (app_Spec a)) ` (set inst \<union> set apps) \<and>
           rl_Name r \<noteq> as_Name (app_Spec app)))"
  unfolding validateDependencies_def
  by (auto simp: io_ok check_apps_None check_requires_None image_Un split: option.splits)

text \<open>What registration relies on beyond \<open>serves_Get\<close>: a failed create stores nothing.\<close>

definition atomic_Create ::
    "('o, 'w) kind_client \<Rightarrow> ('w \<Rightarrow> cluster) \<Rightarrow> (cluster \<Rightarrow> key \<rightharpoonup> 'o) \<Rightarrow> bool" where
  "atomic_Create c view get \<longleftrightarrow> (\<forall>ob w r w'. kc_Create c ob w = (r, w') \<longrightarrow>
     (case r of Ok x \<Rightarrow> get (view w') = (get (view w))(key_of c ob \<mapsto> ob)
      | _ \<Rightarrow> get (view w') = get (view w)))"

lemma register_stores:
  assumes "serves_Get (kb_Applications kb) view cl_Applications"
    and "atomic_Create (kb_Applications kb) view cl_Applications"
    and "register kb app w = (r, w')"
  shows "cl_Applications (view w) \<subseteq>\<^sub>m cl_Applications (view w')"
    and "r = Ok x \<Longrightarrow> dom (cl_Applications (view w')) = insert (key_of (kb_Applications kb) app) (dom (cl_Applications (view w)))"
    and "\<not> (\<exists>x. r = Ok x) \<Longrightarrow> dom (cl_Applications (view w')) = dom (cl_Applications (view w))"
proof -
  let ?c = "kb_Applications kb" let ?k = "key_of ?c app"
  have "cl_Applications (view w) \<subseteq>\<^sub>m cl_Applications (view w') \<and>
    dom (cl_Applications (view w')) = (if \<exists>x. r = Ok x then insert ?k (dom (cl_Applications (view w)))
      else dom (cl_Applications (view w)))"
  proof (cases "cl_Applications (view w) ?k")
    case None
    with assms(1) have g: "kc_Get ?c (fst ?k) (snd ?k) app w = (Err (ApiError ReasonNotFound), w)"
      by (simp add: serves_Get_def key_of_def)
    obtain r' v where c: "kc_Create ?c app w = (r', v)" by fastforce
    from assms(3) g c have r: "w' = v \<and> (\<exists>x. r = Ok x) = (\<exists>x. r' = Ok x)"
      by (cases r') (auto simp: register_def rm_CreateIfNotExists_def key_of_def Let_def)
    have "case r' of Ok x \<Rightarrow> cl_Applications (view v) = (cl_Applications (view w))(?k \<mapsto> app)
        | _ \<Rightarrow> cl_Applications (view v) = cl_Applications (view w)"
      using assms(2) c unfolding atomic_Create_def by blast
    with None r show ?thesis
      by (cases r') (auto simp: map_le_def dom_def)
  next
    case (Some y)
    with assms(1) have "kc_Get ?c (fst ?k) (snd ?k) app w = (Ok y, w)"
      by (simp add: serves_Get_def key_of_def)
    with assms(3) have "r = Ok y" "w' = w"
      by (simp_all add: register_def rm_CreateIfNotExists_def key_of_def Let_def)
    with Some show ?thesis by auto
  qed
  then show "cl_Applications (view w) \<subseteq>\<^sub>m cl_Applications (view w')"
    and "r = Ok x \<Longrightarrow> dom (cl_Applications (view w')) = insert ?k (dom (cl_Applications (view w)))"
    and "\<not> (\<exists>x. r = Ok x) \<Longrightarrow> dom (cl_Applications (view w')) = dom (cl_Applications (view w))"
    by auto
qed

text \<open>The keys of the applications a list of names stands for.\<close>

definition batch_keys :: "'w KBClient \<Rightarrow> (string \<rightharpoonup> Application) \<Rightarrow> string list \<Rightarrow> key set" where
  "batch_keys kb apps names = {key_of (kb_Applications kb) a | a n. n \<in> set names \<and> apps n = Some a}"

lemma batch_keys_upd:
  "n \<notin> set names \<Longrightarrow> batch_keys kb (apps(n \<mapsto> a)) names = batch_keys kb apps names"
  unfolding batch_keys_def by (rule Collect_cong) auto

lemma batch_keys_Cons:
  "apps n = Some a \<Longrightarrow> batch_keys kb apps (n # names) = insert (key_of (kb_Applications kb) a) (batch_keys kb apps names)"
  unfolding batch_keys_def by auto

lemma register_names_prefix:
  assumes law: "serves_Get (kb_Applications kb) view cl_Applications"
      "atomic_Create (kb_Applications kb) view cl_Applications"
    and close: "\<And>h u. view (snd (os_Close os h u)) = view u"
    and "distinct names"
    and "fold_io (register_name os kb files) names apps w = (r, w')"
  shows "\<exists>k\<le>length names. cl_Applications (view w) \<subseteq>\<^sub>m cl_Applications (view w') \<and>
    dom (cl_Applications (view w')) = dom (cl_Applications (view w)) \<union> batch_keys kb apps (take k names) \<and>
    ((\<exists>x. r = Ok x) \<longrightarrow> k = length names)"
  using assms(4,5)
proof (induction names arbitrary: apps w)
  case Nil
  then show ?case by (simp add: batch_keys_def)
next
  case (Cons n names)
  have stop: ?case if "dom (cl_Applications (view w')) = dom (cl_Applications (view w))"
      "cl_Applications (view w) \<subseteq>\<^sub>m cl_Applications (view w')" "\<not> (\<exists>x. r = Ok x)"
    using that by (intro exI [of _ 0]) (simp add: batch_keys_def)
  show ?case
  proof (cases "apps n")
    case None
    with Cons.prems(2) have "w' = w" "r = Panic nil_dereference" by (simp_all add: register_name_def)
    then show ?thesis by (intro stop) auto
  next
    case (Some app)
    obtain r1 w1 where reg: "register kb app w = (r1, w1)" by fastforce
    note st = register_stores [OF law reg]
    show ?thesis
    proof (cases "\<exists>x. r1 = Ok x")
      case False
      with Cons.prems(2) Some reg have "w' = w1 \<and> \<not> (\<exists>x. r = Ok x)"
        by (cases r1) (auto simp: register_name_def)
      with st False show ?thesis by (intro stop) auto
    next
      case True
      then obtain app' where r1: "r1 = Ok app'" ..
      have one: "take (Suc j) (n # names) = n # take j names" for j by simp
      show ?thesis
      proof (cases "files n")
        case None
        with Cons.prems(2) Some reg r1 have "w' = w1" "\<not> (\<exists>x. r = Ok x)"
          by (auto simp: register_name_def)
        with st(1) st(2) [OF r1] Some show ?thesis
          by (intro exI [of _ "Suc 0"]) (simp add: batch_keys_Cons, simp add: batch_keys_def)
      next
        case fl: (Some bf)
        obtain r2 w2 where cl: "BundleFile_Close os bf w1 = (r2, w2)" by fastforce
        have v2: "view w2 = view w1" using close cl by (metis BundleFile_Close_def snd_conv)
        show ?thesis
        proof (cases "\<exists>s. r2 = Panic s \<or> r2 = OutOfFuel")
          case True
          with Cons.prems(2) Some reg r1 fl cl have "w' = w2" "\<not> (\<exists>x. r = Ok x)"
            by (auto simp: register_name_def)
          with st(1) st(2) [OF r1] Some v2 show ?thesis
            by (intro exI [of _ "Suc 0"]) (simp add: batch_keys_Cons, simp add: batch_keys_def)
        next
          case False
          then have "fold_io (register_name os kb files) names (apps(n \<mapsto> app')) w2 = (r, w')"
            using Cons.prems(2) Some reg r1 fl cl by (cases r2) (simp_all add: register_name_def [of os kb files n apps])
          then obtain k where "k \<le> length names" "cl_Applications (view w2) \<subseteq>\<^sub>m cl_Applications (view w')"
            "dom (cl_Applications (view w')) = dom (cl_Applications (view w2)) \<union> batch_keys kb apps (take k names)"
            "(\<exists>x. r = Ok x) \<longrightarrow> k = length names"
            using Cons.IH Cons.prems(1) batch_keys_upd [of n _ kb apps app']
            by (metis distinct.simps(2) in_set_takeD)
          with st(1) st(2) [OF r1] v2 Some show ?thesis
            by (intro exI [of _ "Suc k"]) (auto simp: batch_keys_Cons intro: map_le_trans)
        qed
      qed
    qed
  qed
qed

text \<open>
  C12. Registration follows the order the dependencies determine: once a batch has passed
  validation, a run of \<open>RegisterAll\<close> registers the first \<open>k\<close> applications of that
  order, whatever error or panic ends it; all of them if it succeeds, and then it returns one
  application for each. Applications registered before are never removed or changed.
\<close>

theorem RegisterAll_prefix:
  assumes law: "serves_Get (kb_Applications kb) view cl_Applications"
      "atomic_Create (kb_Applications kb) view cl_Applications"
    and close: "\<And>h u. view (snd (os_Close os h u)) = view u"
    and read: "fold_io (read_bundle os bundleSource ns) refs
        \<lparr>ba_entries = [], ba_files = Map.empty, ba_apps = Map.empty, ba_list = []\<rparr> w = (Ok b, w1)"
    and valid: "validateDependencies kb ns (ba_list b) w1 = (Ok (), w2)"
    and layers: "kb_LayeredTopologicalSort kb (ba_entries b) = Some layers" "distinct (concat layers)"
    and run: "RegisterAll os kb refs bundleSource ns w = (r, w')"
  shows "\<exists>k\<le>length (concat layers).
    cl_Applications (view w2) \<subseteq>\<^sub>m cl_Applications (view w') \<and>
    dom (cl_Applications (view w')) =
      dom (cl_Applications (view w2)) \<union> batch_keys kb (ba_apps b) (take k (concat layers)) \<and>
    (\<forall>apps. r = Ok apps \<longrightarrow> k = length (concat layers) \<and> length apps = k)"
proof -
  obtain rs w3 where f: "fold_io (register_name os kb (ba_files b)) (concat layers) (ba_apps b) w2 = (rs, w3)"
    by fastforce
  have r: "w' = w3 \<and> (\<forall>apps. r = Ok apps \<longrightarrow> (\<exists>x. rs = Ok x) \<and> length apps = length (concat layers))"
    using run read valid layers(1) f by (cases rs) (auto simp: RegisterAll_def)
  from register_names_prefix [OF law close layers(2) f] r show ?thesis by metis
qed


subsection \<open>Examples\<close>

text \<open>Two bundles: \<open>db\<close>, and \<open>web\<close> (whose name has three letters) requiring it.\<close>

definition example_apps :: "fd \<Rightarrow> Application" where
  "example_apps h = (if h = 2 then app_named ''db''
     else zero_application\<lparr>app_Spec := (app_Spec (app_named ''web''))\<lparr>as_Requires :=
       [\<lparr>rl_Name = ''db'', rl_Suffix = [], rl_Parameters = []\<rparr>]\<rparr>\<rparr>)"

definition ref_named :: "string \<Rightarrow> BundleRef" where
  "ref_named n = \<lparr>br_Name = n, br_Version = Latest\<rparr>"

text \<open>A sort that puts what requires nothing first.\<close>

definition two_layers :: "(string \<times> string list) list \<Rightarrow> string list list option" where
  "two_layers es = Some [map fst (filter (\<lambda>e. snd e = []) es), map fst (filter (\<lambda>e. snd e \<noteq> []) es)]"

lemma mem_client_atomic_applications:
  "atomic_Create (kb_Applications mem_client) cluster_of cl_Applications"
  by (auto simp: atomic_Create_def mem_client_def mem_kind_def Let_def cluster_of_def key_of_def update_conv'
      split: option.splits result.splits)

theorem validateDependencies_accepts_witness:
  "validateDependencies mem_client ''default'' [example_apps 3, example_apps 2] empty_memory = (Ok (), empty_memory)"
  by (subst validateDependencies_accepts)
     (simp add: mem_client_def mem_kind_def Let_def empty_memory_def example_apps_def app_named_def zero_application_def)

definition sorting_client :: "memory KBClient" where
  "sorting_client = mem_client\<lparr>kb_LayeredTopologicalSort := two_layers\<rparr>"

lemma sorting_client_sel [simp]:
  "kb_Applications sorting_client = kb_Applications mem_client"
  "kb_LayeredTopologicalSort sorting_client = two_layers"
  by (simp_all add: sorting_client_def)

theorem RegisterAll_prefix_witness:
  "\<exists>(b :: batch) r w' k. RegisterAll (still_os example_apps) sorting_client [ref_named ''web'', ref_named ''db''] still_source
       ''default'' empty_memory = (r, w') \<and> k \<le> 2 \<and>
     dom (cl_Applications (cluster_of w')) = batch_keys sorting_client (ba_apps b) (take k [''db'', ''web'']) \<and>
     (\<forall>apps. r = Ok apps \<longrightarrow> k = 2)"
proof -
  obtain b where b: "fold_io (read_bundle (still_os example_apps) still_source ''default'') [ref_named ''web'', ref_named ''db'']
     \<lparr>ba_entries = [], ba_files = Map.empty, ba_apps = Map.empty, ba_list = []\<rparr> empty_memory = (Ok b, empty_memory)"
    "ba_entries b = [(''web'', [''db'']), (''db'', [])]"
    and l: "ba_list b = [the (ba_apps b ''web''), the (ba_apps b ''db'')]"
    "as_Name (app_Spec (the (ba_apps b ''web''))) = ''web''" "as_Name (app_Spec (the (ba_apps b ''db''))) = ''db''"
    "map rl_Name (as_Requires (app_Spec (the (ba_apps b ''web'')))) = [''db'']"
    "as_Requires (app_Spec (the (ba_apps b ''db''))) = []"
    by (simp add: read_bundle_def still_source_def ref_named_def still_application normalize_application_def
      Let_def example_apps_def app_named_def zero_application_def)
  have valid: "validateDependencies sorting_client ''default'' (ba_list b) empty_memory = (Ok (), empty_memory)"
    using l by (auto simp: validateDependencies_def check_apps_None check_requires_None rm_List_def
      mem_client_def mem_kind_def Let_def empty_memory_def split: option.splits)
  have law: "serves_Get (kb_Applications sorting_client) cluster_of cl_Applications"
    "atomic_Create (kb_Applications sorting_client) cluster_of cl_Applications"
    by (simp_all add: mem_client_applications mem_client_atomic_applications)
  have close: "cluster_of (snd (os_Close (still_os example_apps) h u)) = cluster_of u" for h u
    by (simp add: still_os_def)
  have layers: "kb_LayeredTopologicalSort sorting_client (ba_entries b) = Some [[''db''], [''web'']]"
    by (simp add: b(2) two_layers_def)
  obtain r w' where run: "RegisterAll (still_os example_apps) sorting_client [ref_named ''web'', ref_named ''db'']
      still_source ''default'' empty_memory = (r, w')"
    by fastforce
  have none: "cl_Applications (cluster_of empty_memory) = Map.empty"
    by (simp add: cluster_of_def empty_memory_def)
  from RegisterAll_prefix [OF law close b(1) valid layers _ run] obtain k where "k \<le> 2"
    "dom (cl_Applications (cluster_of w')) = batch_keys sorting_client (ba_apps b) (take k [''db'', ''web''])"
    "\<forall>apps. r = Ok apps \<longrightarrow> k = 2"
    by (auto simp: none numeral_2_eq_2)
  with run show ?thesis
    by (intro exI [of _ b] exI [of _ r] exI [of _ w'] exI [of _ k]) simp
qed


end
