(* ===== verification/Installs.thy ===== *)
theory Installs
  imports Register
begin

text \<open>
  managers/install.go: the \<open>InstallManager\<close>, which records an application as installed and
  describes the installs of a namespace with the values of their parameters.
\<close>

section \<open>Operations\<close>

record InstallDescription =
  id_Name :: string
  id_Application :: string
  id_Version :: string
  id_Parameters :: "string \<rightharpoonup> ParameterDesc"

definition install_name :: "string \<Rightarrow> string \<Rightarrow> string \<Rightarrow> string" where
  "install_name appName name sfx =
     (let base = (if name \<noteq> [] then name else appName)
      in if sfx \<noteq> [] then base @ ''-'' @ sfx else base)"

definition build_install ::
    "string \<Rightarrow> string \<Rightarrow> string \<Rightarrow> string \<Rightarrow> string \<Rightarrow> string \<Rightarrow> string \<Rightarrow> ParameterSpec list \<Rightarrow> Install" where
  "build_install appName installName namespace version sfx flavor dockerRegistry parameters =
     \<lparr>in_TypeMeta = \<lparr>tm_Kind = ''Install'', tm_APIVersion = path_Join [''bundle.splunk.com'', ''v1alpha1'']\<rparr>,
      in_ObjectMeta = \<lparr>om_Name = installName, om_Namespace = namespace\<rparr>,
      in_Spec = (in_Spec zero_install)\<lparr>is_Application := appName, is_Version := version, is_Suffix := sfx,
        is_Flavor := flavor, is_DockerRegistry := dockerRegistry, is_Parameters := parameters\<rparr>\<rparr>"

text \<open>
  The install is sent to the server-side apply of the client. Only exactly one existing install is
  taken as found. The conversions through JSON of the install cannot fail and are left out.
\<close>

definition Install_Install ::
    "'w KBClient \<Rightarrow> string \<Rightarrow> string \<Rightarrow> string \<Rightarrow> string \<Rightarrow> string \<Rightarrow> string \<Rightarrow> string \<Rightarrow> bool \<Rightarrow>
     ParameterSpec list \<Rightarrow> ('w, Install) io" where
  "Install_Install kb appName name namespace version sfx flavor dockerRegistry force parameters =
     check (verifyNodeRequirements kb flavor namespace) () (\<lambda>err _.
       if err \<noteq> None \<and> \<not> force
       then fail (Wrapf (the err) ''Insufficient nodes for install'' [])
       else
         let installName = install_name appName name sfx;
             opts = [MatchingFields [(''metadata.name'', installName), (''metadata.namespace'', namespace)]] in
         try_do (rm_List (kb_Installs kb) namespace opts)
           (\<lambda>err. Wrapf err ''couldn't list existing installs'' [])
           (\<lambda>installs.
             let install = build_install appName installName namespace version sfx flavor dockerRegistry
               (case installs of [i] \<Rightarrow> is_Parameters (in_Spec i) | _ \<Rightarrow> parameters) in
             try_do (rm_Apply (kb_Installs kb) install) (\<lambda>err. Wrapf err ''couldn't apply install'' [])
               (\<lambda>_. ret install)))"

definition describe_install :: "'w KBClient \<Rightarrow> Install \<Rightarrow> ('w, InstallDescription) io" where
  "describe_install kb install =
     try_do (rm_Get (kb_Applications kb) (application_name (in_Spec install)) defaultNamespace zero_application)
       (\<lambda>err. Wrapf err ''couldn't get application'' [])
       (\<lambda>app. ret \<lparr>id_Name = om_Name (in_ObjectMeta install), id_Application = is_Application (in_Spec install),
          id_Version = is_Version (in_Spec install),
          id_Parameters = GetParameterDesc (NewParameterManager kb (om_Name (in_ObjectMeta install))
            (as_ParameterDefinitions (app_Spec app)) (is_Parameters (in_Spec install)))\<rparr>)"

definition Install_Describe :: "'w KBClient \<Rightarrow> string list \<Rightarrow> ('w, InstallDescription list) io" where
  "Install_Describe kb installs =
     andthen
       (case installs of
          [] \<Rightarrow> try_do (rm_List (kb_Installs kb) defaultNamespace []) (\<lambda>err. Wrapf err ''couldn't list installs'' []) ret
        | n # _ \<Rightarrow> try_do (rm_Get (kb_Installs kb) n defaultNamespace zero_install)
            (\<lambda>err. Wrapf err ''couldn't get installs'' []) (\<lambda>i. ret [i]))
       (\<lambda>items. fold_io (\<lambda>install descriptions.
            andthen (describe_install kb install) (\<lambda>d. ret (descriptions @ [d]))) items [])"

section \<open>Properties\<close>

text \<open>What \<open>Install\<close> relies on: the field selector finds the one install of that name, and
  the server-side apply stores the object.\<close>

definition serves_installs :: "'w KBClient \<Rightarrow> ('w \<Rightarrow> cluster) \<Rightarrow> bool" where
  "serves_installs kb view \<longleftrightarrow> kc_ObjectMeta (kb_Installs kb) = in_ObjectMeta \<and>
     (\<forall>n ns w. kc_List (kb_Installs kb)
        [MatchingFields [(''metadata.name'', n), (''metadata.namespace'', ns)], InNamespace ns] w =
        (Ok (case cl_Installs (view w) (n, ns) of None \<Rightarrow> [] | Some i \<Rightarrow> [i]), w)) \<and>
     (\<forall>ob w. \<exists>x w'. kc_Apply (kb_Installs kb) ob w = (Ok x, w') \<and>
        view w' = (view w)\<lparr>cl_Installs := (cl_Installs (view w))
          ((om_Name (in_ObjectMeta ob), om_Namespace (in_ObjectMeta ob)) \<mapsto> ob)\<rparr>)"

text \<open>
  C23. Installing stores the install under its name (the given name or the application's, with the
  suffix) and returns it: with the given parameters when there was none of that name, and with the
  parameters of the existing install, whatever was given, when there was one.
\<close>

theorem Install_preserves_parameters:
  assumes srv: "serves_installs kb view"
    and nodes: "verifyNodeRequirements kb flavor ns w = (Ok (), w1)"
    and n_def: "n = install_name appName name sfx"
    and i_def: "i = build_install appName n ns version sfx flavor reg
     (case cl_Installs (view w1) (n, ns) of None \<Rightarrow> params | Some old \<Rightarrow> is_Parameters (in_Spec old))"
  shows "\<exists>w'. Install_Install kb appName name ns version sfx flavor reg force params w = (Ok i, w') \<and>
    cl_Installs (view w') = (cl_Installs (view w1))((n, ns) \<mapsto> i)"
proof -
  have l: "rm_List (kb_Installs kb) ns [MatchingFields [(''metadata.name'', n), (''metadata.namespace'', ns)]] w1 =
      (Ok (case cl_Installs (view w1) (n, ns) of None \<Rightarrow> [] | Some i \<Rightarrow> [i]), w1)"
    using srv by (simp add: rm_List_def serves_installs_def)
  obtain x w' where a: "kc_Apply (kb_Installs kb) i w1 = (Ok x, w')"
    and v: "view w' = (view w1)\<lparr>cl_Installs := (cl_Installs (view w1))
          ((om_Name (in_ObjectMeta i), om_Namespace (in_ObjectMeta i)) \<mapsto> i)\<rparr>"
    using srv unfolding serves_installs_def by metis
  have "om_Name (in_ObjectMeta i) = n" "om_Namespace (in_ObjectMeta i) = ns"
    by (simp_all add: i_def build_install_def)
  then show ?thesis
    using l a v nodes unfolding Install_Install_def n_def [symmetric] Let_def
    by (intro exI [of _ w']) (cases "cl_Installs (view w1) (n, ns)"; simp add: i_def rm_Apply_def)
qed

text \<open>
  A failed node check (too few nodes, an unknown flavor, an unreachable cluster) stops an
  install before anything is written, unless it is forced, and then does not matter at all.
\<close>

lemma Install_node_check:
  assumes "verifyNodeRequirements kb flavor ns w = (Err e, w1)"
  shows "Install_Install kb appName name ns version sfx flavor reg False params w =
      (Err (Wrapf e ''Insufficient nodes for install'' []), w1)
    \<and> (verifyNodeRequirements kb' flavor ns w = (Ok (), w1) \<longrightarrow> kb_Installs kb' = kb_Installs kb \<longrightarrow>
        Install_Install kb appName name ns version sfx flavor reg True params w =
        Install_Install kb' appName name ns version sfx flavor reg force params w)"
  using assms by (simp add: Install_Install_def)

lemma foldl_desc_value:
  "map_option pdesc_Value (foldl (\<lambda>m p.
         let desc = (case m (ps_Name p) of None \<Rightarrow> zero_desc | Some d \<Rightarrow> d)
         in m(ps_Name p \<mapsto> desc\<lparr>pdesc_Value := ps_Value p\<rparr>)) m ps n) =
   (case map_of (rev (map (\<lambda>p. (ps_Name p, ps_Value p)) ps)) n of
      None \<Rightarrow> map_option pdesc_Value (m n) | Some v \<Rightarrow> Some v)"
  by (induction ps arbitrary: m rule: rev_induct) (auto simp: Let_def)

text \<open>
  The description of a parameter shows the last value the install sets for it, or else the
  default of its last definition; a parameter without a definition is described as well.
\<close>

lemma GetParameterDesc_values:
  "map_option pdesc_Value (GetParameterDesc pm n) =
     (case map_of (rev (map (\<lambda>p. (ps_Name p, ps_Value p)) (pm_parameters pm))) n of
        Some v \<Rightarrow> Some v
      | None \<Rightarrow> map_of (rev (map (\<lambda>d. (pd_Name d, pd_Default d)) (pm_definitions pm))) n)"
proof -
  have "map_option pdesc_Value (foldl (\<lambda>m d. m(pd_Name d \<mapsto>
      \<lparr>pdesc_Value = pd_Default d, pdesc_Default = pd_Default d, pdesc_Description = pd_Description d\<rparr>)) Map.empty ds n)
    = map_of (rev (map (\<lambda>d. (pd_Name d, pd_Default d)) ds)) n" for ds :: "ParameterDefinitionSpec list"
    by (induction ds rule: rev_induct) auto
  then show ?thesis
    unfolding GetParameterDesc_def foldl_desc_value by (simp split: option.splits)
qed

subsection \<open>Examples\<close>

lemma mem_client_serves_installs: "serves_installs mem_client cluster_of"
proof -
  have sel: "map snd (filter (\<lambda>(k, _). list_all (opt_matches k)
        [MatchingFields [(''metadata.name'', n), (''metadata.namespace'', ns)], InNamespace ns]) (AList.clearjunk l))
      = (case map_of l (n, ns) of None \<Rightarrow> [] | Some i \<Rightarrow> [i])" for n ns and l :: "(key \<times> Install) list"
  proof -
    have "filter (\<lambda>(k, _). k = (n, ns)) l' = (case map_of l' (n, ns) of None \<Rightarrow> [] | Some i \<Rightarrow> [((n, ns), i)])"
      if "distinct (map fst l')" for l' :: "(key \<times> Install) list"
      using that
    proof (induction l')
      case (Cons e l')
      have "filter (\<lambda>(k, _). k = (n, ns)) l' = []" if "fst e = (n, ns)"
        using Cons.prems that by (force simp: filter_empty_conv)
      with Cons show ?case by (cases e) (auto split: option.splits)
    qed simp
    from this [OF distinct_clearjunk, of l] show ?thesis
      by (simp add: opt_matches_def prod_eq_iff conj_ac case_prod_unfold map_of_clearjunk split: option.splits)
  qed
  show ?thesis
    unfolding serves_installs_def
    by (simp add: mem_client_def mem_kind_def Let_def cluster_of_def update_conv' sel [simplified])
qed

lemma sample_flavor_check:
  "verifyNodeRequirements (mem_client\<lparr>kb_Flavors := kb_Flavors mem_client\<lparr>kc_Get := (\<lambda>n ns ob. ret zero_flavor)\<rparr>\<rparr>)
     f ns sample_memory = (Ok (), sample_memory)"
  by (simp add: verifyNodeRequirements_Ok) (simp add: mem_client_def mem_clientset_def zero_flavor_def)

theorem Install_preserves_parameters_witness:
  "\<exists>i w'. Install_Install (mem_client\<lparr>kb_Flavors := kb_Flavors mem_client\<lparr>kc_Get := (\<lambda>n ns ob. ret zero_flavor)\<rparr>\<rparr>)
     ''nginx'' ''web'' ''default'' ''2'' [] ''small'' [] False [plain_param ''color'' ''pink''] sample_memory = (Ok i, w') \<and>
   is_Version (in_Spec i) = ''2'' \<and> is_Parameters (in_Spec i) = [plain_param ''color'' ''blue'']"
proof -
  let ?kb = "mem_client\<lparr>kb_Flavors := kb_Flavors mem_client\<lparr>kc_Get := (\<lambda>n ns ob. ret zero_flavor)\<rparr>\<rparr>"
  have srv: "serves_installs ?kb cluster_of"
    using mem_client_serves_installs by (simp add: serves_installs_def)
  have old: "cl_Installs (cluster_of sample_memory) (''web'', ''default'') = Some sample_install"
    by (simp add: cluster_of_def sample_memory_def)
  have ps: "is_Parameters (in_Spec sample_install) = [plain_param ''color'' ''blue'']"
    by (simp add: sample_install_def zero_install_def)
  show ?thesis
    using Install_preserves_parameters [OF srv sample_flavor_check refl refl,
        where appName = "''nginx''" and name = "''web''" and sfx = "[]" and version = "''2''" and reg = "[]" and flavor = "''small''" and ns = "''default''"
          and params = "[plain_param ''color'' ''pink'']" and force = False]
    by (auto simp: install_name_def old ps build_install_def)
qed

theorem Install_node_check_witness:
  "\<exists>e. fst (Install_Install mem_client ''nginx'' ''web'' ''default'' ''2'' [] ''small'' [] False [] empty_memory) =
     Err (Wrapf e ''Insufficient nodes for install'' [])"
proof -
  have "\<exists>e. verifyNodeRequirements mem_client ''small'' ''default'' empty_memory = (Err e, empty_memory)"
    by (simp add: verifyNodeRequirements_def rm_Get_def mem_client_def mem_kind_def Let_def empty_memory_def)
  then obtain e where "verifyNodeRequirements mem_client ''small'' ''default'' empty_memory = (Err e, empty_memory)" ..
  from Install_node_check [OF this] show ?thesis by auto
qed

end
