(* ===== verification/Rollout_Status.thy ===== *)
theory Rollout_Status
  imports Kube_Types
begin

text \<open>
  helpers/rolloutstatus and helpers/deploymentutil: deciding from the status of a deployment, a
  daemon set or a stateful set whether its rollout is done. The counters are 32-bit signed integers;
  the difference of two of them wraps around.
\<close>

section \<open>Deployment helpers\<close>

definition RevisionAnnotation :: string where
  "RevisionAnnotation = ''deployment.kubernetes.io/revision''"

definition TimedOutReason :: string where
  "TimedOutReason = ''ProgressDeadlineExceeded''"

definition GetDeploymentCondition ::
    "DeploymentCondition list \<Rightarrow> string \<Rightarrow> DeploymentCondition option" where
  "GetDeploymentCondition conditions condType = find (\<lambda>c. dc_Type c = condType) conditions"

text \<open>\<open>strconv.ParseInt(v, 10, 64)\<close>: a sign, at least one digit, nothing else, in range.\<close>

fun digits_value :: "int \<Rightarrow> string \<Rightarrow> int option" where
  "digits_value acc [] = Some acc"
| "digits_value acc (c # cs) =
     (if c \<in> set ''0123456789'' then digits_value (10 * acc + (of_char c - 48)) cs else None)"

definition ParseInt64 :: "string \<Rightarrow> int result" where
  "ParseInt64 v =
     (let (neg, ds) = (case v of
            c # cs \<Rightarrow> if c = CHR ''-'' then (True, cs) else if c = CHR ''+'' then (False, cs) else (False, v)
          | [] \<Rightarrow> (False, v));
          bad = Err (Foreign (''strconv.ParseInt: parsing '' @ v)) in
      if ds = [] then bad
      else case digits_value 0 ds of
             None \<Rightarrow> bad
           | Some n \<Rightarrow>
               let i = (if neg then - n else n) in
               if - (2 ^ 63) \<le> i \<and> i < 2 ^ 63 then Ok i else bad)"

definition Revision :: "Deployment \<Rightarrow> int result" where
  "Revision d = (case dep_Annotations d RevisionAnnotation of None \<Rightarrow> Ok 0 | Some v \<Rightarrow> ParseInt64 v)"

section \<open>The status viewers\<close>

text \<open>A viewer returns a message (a format with its arguments), whether the rollout is done, and an error.\<close>

type_synonym rollout_status = "(string \<times> fmt_arg list) \<times> bool \<times> gerror option"

abbreviation lt32 :: "int32 \<Rightarrow> int32 \<Rightarrow> bool" where
  "lt32 a b \<equiv> sint a < sint b"

abbreviation num32 :: "int32 \<Rightarrow> fmt_arg" where
  "num32 a \<equiv> Num (sint a)"

definition deployment_progress :: "Deployment \<Rightarrow> rollout_status" where
  "deployment_progress d =
     (if (case dep_Replicas d of None \<Rightarrow> False | Some r \<Rightarrow> lt32 (dep_UpdatedReplicas d) r)
      then ((''Waiting for deployment %q rollout to finish: %d out of %d new replicas have been updated...'',
             [Str (dep_Name d), num32 (dep_UpdatedReplicas d), num32 (the (dep_Replicas d))]), False, None)
      else if lt32 (dep_UpdatedReplicas d) (dep_StatusReplicas d)
      then ((''Waiting for deployment %q rollout to finish: %d old replicas are pending termination...'',
             [Str (dep_Name d), num32 (dep_StatusReplicas d - dep_UpdatedReplicas d)]), False, None)
      else if lt32 (dep_AvailableReplicas d) (dep_UpdatedReplicas d)
      then ((''Waiting for deployment %q rollout to finish: %d of %d updated replicas are available...'',
             [Str (dep_Name d), num32 (dep_AvailableReplicas d), num32 (dep_UpdatedReplicas d)]), False, None)
      else ((''deployment %q successfully rolled out'', [Str (dep_Name d)]), True, None))"

definition timed_out :: "Deployment \<Rightarrow> bool" where
  "timed_out d = (case GetDeploymentCondition (dep_Conditions d) ''Progressing'' of
     None \<Rightarrow> False | Some cond \<Rightarrow> dc_Reason cond = TimedOutReason)"

definition Deployment_Viewer_Status :: "Deployment \<Rightarrow> int \<Rightarrow> rollout_status" where
  "Deployment_Viewer_Status d revision =
     (let observe =
        (if dep_Generation d \<le> dep_ObservedGeneration d then
           (if timed_out d
            then (([], []), False, Some (Errorf ''deployment %q exceeded its progress deadline'' [Str (dep_Name d)]))
            else deployment_progress d)
         else ((''Waiting for deployment spec update to be observed...'', []), False, None)) in
      if revision > 0 then
        (case Revision d of
           Ok deploymentRev \<Rightarrow>
             if revision \<noteq> deploymentRev
             then (([], []), False, Some (Errorf ''desired revision (%d) is different from the running revision (%d)''
                     [Num revision, Num deploymentRev]))
             else observe
         | _ \<Rightarrow> (([], []), False, Some (Errorf ''cannot get the revision of deployment %q: %v'' [Str (dep_Name d)])))
      else observe)"

definition RollingUpdateType :: string where
  "RollingUpdateType = ''RollingUpdate''"

definition DaemonSet_Viewer_Status :: "DaemonSet \<Rightarrow> rollout_status" where
  "DaemonSet_Viewer_Status d =
     (if ds_UpdateStrategyType d \<noteq> RollingUpdateType
      then (([], []), True, Some (Errorf ''rollout status is only available for %s strategy type'' [Str RollingUpdateType]))
      else if ds_Generation d \<le> ds_ObservedGeneration d then
        (if lt32 (ds_UpdatedNumberScheduled d) (ds_DesiredNumberScheduled d)
         then ((''Waiting for daemon set %q rollout to finish: %d out of %d new pods have been updated...'',
                [Str (ds_Name d), num32 (ds_UpdatedNumberScheduled d), num32 (ds_DesiredNumberScheduled d)]), False, None)
         else if lt32 (ds_NumberAvailable d) (ds_DesiredNumberScheduled d)
         then ((''Waiting for daemon set %q rollout to finish: %d of %d updated pods are available...'',
                [Str (ds_Name d), num32 (ds_NumberAvailable d), num32 (ds_DesiredNumberScheduled d)]), False, None)
         else ((''daemon set %q successfully rolled out'', [Str (ds_Name d)]), True, None))
      else ((''Waiting for daemon set spec update to be observed...'', []), False, None))"

definition partition_pending :: "StatefulSet \<Rightarrow> RollingUpdate \<Rightarrow> bool" where
  "partition_pending s ru = (case (sts_Replicas s, ru_Partition ru) of
     (Some r, Some p) \<Rightarrow> lt32 (sts_UpdatedReplicas s) (r - p) | _ \<Rightarrow> False)"

definition StatefulSet_Viewer_Status :: "StatefulSet \<Rightarrow> rollout_status" where
  "StatefulSet_Viewer_Status s =
     (if sts_UpdateStrategyType s \<noteq> RollingUpdateType
      then (([], []), True, Some (Errorf ''rollout status is only available for %s strategy type'' [Str RollingUpdateType]))
      else if sts_ObservedGeneration s = 0 \<or> sts_Generation s > sts_ObservedGeneration s
      then ((''Waiting for statefulset spec update to be observed...'', []), False, None)
      else if (case sts_Replicas s of None \<Rightarrow> False | Some r \<Rightarrow> lt32 (sts_ReadyReplicas s) r)
      then ((''Waiting for %d pods to be ready...'', [num32 (the (sts_Replicas s) - sts_ReadyReplicas s)]), False, None)
      else
        (case sts_RollingUpdate s of
           Some ru \<Rightarrow>
             if partition_pending s ru
             then ((''Waiting for partitioned roll out to finish: %d out of %d new pods have been updated...'',
                    [num32 (sts_UpdatedReplicas s), num32 (the (sts_Replicas s) - the (ru_Partition ru))]), False, None)
             else ((''partitioned roll out complete: %d new pods have been updated...'',
                    [num32 (sts_UpdatedReplicas s)]), True, None)
         | None \<Rightarrow>
             if sts_UpdateRevision s \<noteq> sts_CurrentRevision s
             then ((''waiting for statefulset rolling update to complete %d pods at revision %s...'',
                    [num32 (sts_UpdatedReplicas s), Str (sts_UpdateRevision s)]), False, None)
             else ((''statefulset rolling update complete %d pods at revision %s...'',
                    [num32 (sts_CurrentReplicas s), Str (sts_CurrentRevision s)]), True, None)))"

section \<open>Properties\<close>

text \<open>A status that says the rollout is done, without an error.\<close>

definition rollout_done :: "rollout_status \<Rightarrow> bool" where
  "rollout_done st = (case st of (msg, finished, err) \<Rightarrow> finished \<and> err = None)"

text \<open>
  A deployment (looked at without a revision) is reported as rolled out exactly when its latest
  specification has been observed, its progress deadline has not passed, at least the wanted number
  of replicas is updated, no replica of an older version is left, and every updated one is available.
\<close>

lemma Deployment_rolled_out_iff:
  "rollout_done (Deployment_Viewer_Status d 0) \<longleftrightarrow>
     dep_Generation d \<le> dep_ObservedGeneration d \<and> \<not> timed_out d
     \<and> (\<forall>r. dep_Replicas d = Some r \<longrightarrow> sint r \<le> sint (dep_UpdatedReplicas d))
     \<and> sint (dep_StatusReplicas d) \<le> sint (dep_UpdatedReplicas d)
     \<and> sint (dep_UpdatedReplicas d) \<le> sint (dep_AvailableReplicas d)"
  by (auto simp: Deployment_Viewer_Status_def deployment_progress_def rollout_done_def Let_def not_less
      split: option.splits if_splits)

text \<open>
  A daemon set is reported as rolled out exactly when it uses rolling updates, its latest
  specification has been observed, and the wanted number of pods is updated and available.
\<close>

lemma DaemonSet_rolled_out_iff:
  "rollout_done (DaemonSet_Viewer_Status d) \<longleftrightarrow>
     ds_UpdateStrategyType d = RollingUpdateType \<and> ds_Generation d \<le> ds_ObservedGeneration d
     \<and> sint (ds_DesiredNumberScheduled d) \<le> sint (ds_UpdatedNumberScheduled d)
     \<and> sint (ds_DesiredNumberScheduled d) \<le> sint (ds_NumberAvailable d)"
  by (auto simp: DaemonSet_Viewer_Status_def rollout_done_def not_less)

text \<open>
  A stateful set with a rolling-update section, which the API server always fills in, is
  reported as rolled out once the wanted number of pods is ready and, if there is a partition, the
  number of pods above it is updated; without a partition no updated pod is needed. Only without the
  section do the revisions have to agree.
\<close>

lemma StatefulSet_rolled_out_iff:
  "rollout_done (StatefulSet_Viewer_Status s) \<longleftrightarrow>
     sts_UpdateStrategyType s = RollingUpdateType
     \<and> sts_ObservedGeneration s \<noteq> 0 \<and> sts_Generation s \<le> sts_ObservedGeneration s
     \<and> (\<forall>r. sts_Replicas s = Some r \<longrightarrow> sint r \<le> sint (sts_ReadyReplicas s))
     \<and> (case sts_RollingUpdate s of
          Some ru \<Rightarrow> (\<forall>r p. sts_Replicas s = Some r \<longrightarrow> ru_Partition ru = Some p \<longrightarrow>
             sint (r - p) \<le> sint (sts_UpdatedReplicas s))
        | None \<Rightarrow> sts_UpdateRevision s = sts_CurrentRevision s)"
  by (auto simp: StatefulSet_Viewer_Status_def rollout_done_def partition_pending_def not_less
      split: option.splits if_splits)

subsection \<open>Examples\<close>

definition sample_deployment :: Deployment where
  "sample_deployment = \<lparr>dep_Name = ''web'', dep_Annotations = Map.empty, dep_Generation = 3,
     dep_MatchLabels = [], dep_Replicas = Some 2, dep_ObservedGeneration = 3, dep_StatusReplicas = 2,
     dep_UpdatedReplicas = 2, dep_AvailableReplicas = 2, dep_ReadyReplicas = 2, dep_Conditions = []\<rparr>"

theorem Deployment_rolled_out_iff_witness:
  "rollout_done (Deployment_Viewer_Status sample_deployment 0) \<and>
   \<not> rollout_done (Deployment_Viewer_Status (sample_deployment\<lparr>dep_AvailableReplicas := 1\<rparr>) 0)"
  by (simp add: Deployment_rolled_out_iff sample_deployment_def timed_out_def GetDeploymentCondition_def)

definition sample_daemonset :: DaemonSet where
  "sample_daemonset = \<lparr>ds_Name = ''agent'', ds_Generation = 1, ds_MatchLabels = [],
     ds_UpdateStrategyType = RollingUpdateType, ds_ObservedGeneration = 1, ds_UpdatedNumberScheduled = 3,
     ds_DesiredNumberScheduled = 3, ds_NumberAvailable = 3, ds_NumberReady = 3\<rparr>"

definition sample_statefulset :: StatefulSet where
  "sample_statefulset = \<lparr>sts_Name = ''db'', sts_Namespace = ''default'', sts_Generation = 2, sts_MatchLabels = [],
     sts_Replicas = Some 3, sts_UpdateStrategyType = RollingUpdateType,
     sts_RollingUpdate = Some \<lparr>ru_Partition = None\<rparr>, sts_ObservedGeneration = 2, sts_ReadyReplicas = 3,
     sts_UpdatedReplicas = 0, sts_CurrentReplicas = 3, sts_UpdateRevision = ''b'', sts_CurrentRevision = ''a''\<rparr>"

theorem StatefulSet_rolled_out_iff_witness:
  "rollout_done (StatefulSet_Viewer_Status sample_statefulset) \<and>
   \<not> rollout_done (StatefulSet_Viewer_Status (sample_statefulset\<lparr>sts_RollingUpdate := Some \<lparr>ru_Partition = Some 1\<rparr>\<rparr>))"
  by (simp add: StatefulSet_rolled_out_iff sample_statefulset_def RollingUpdateType_def)

end
