(* ===== verification/Deployables.thy ===== *)
theory Deployables
  imports Rollout_Status
begin

text \<open>
  resources/: the \<open>DeployableResource\<close> interface over the kinds of workload (deployments,
  stateful sets, daemon sets, jobs, cron jobs, kubegres clusters), with its operations fetch,
  restart, scale, delete, logs, status and wait. All the Go structs have the same fields; the record
  \<open>workload\<close> has a tag for the struct in addition.
\<close>

section \<open>The resource and its containers\<close>

datatype kind = Deployment_kind | StatefulSet_kind | DaemonSet_kind | Job_kind | CronJob_kind | Kubegres_kind

record workload =
  wk_kind :: kind
  wk_category :: string
  wk_serviceName :: string
  wk_name :: string
  wk_namespace :: string
  wk_availableReplicas :: int
  wk_totalReplicas :: int

definition new_workload :: "kind \<Rightarrow> string \<Rightarrow> string \<Rightarrow> string \<Rightarrow> string \<Rightarrow> workload" where
  "new_workload k category serviceName name namespace =
     \<lparr>wk_kind = k, wk_category = category, wk_serviceName = serviceName, wk_name = name,
      wk_namespace = namespace, wk_availableReplicas = 0, wk_totalReplicas = 0\<rparr>"

definition with_replicas :: "int \<Rightarrow> int \<Rightarrow> workload \<Rightarrow> workload" where
  "with_replicas available desired r = r\<lparr>wk_availableReplicas := available, wk_totalReplicas := desired\<rparr>"

definition NeedsQuorum :: "workload \<Rightarrow> bool" where
  "NeedsQuorum r = (wk_kind r = StatefulSet_kind)"

record LogOpts =
  lo_Lines :: int
  lo_Follow :: bool
  lo_InitOnly :: bool

record LogInfo =
  li_Service :: string
  li_Pod :: string
  li_Container :: string
  li_Logs :: nat

record StatusInfo =
  st_Service :: string
  st_Pod :: string
  st_Container :: string
  st_NodeName :: string
  st_ContainerType :: string
  st_ContainerState :: string
  st_Restarts :: int

definition crashLoopBackOff :: string where "crashLoopBackOff = ''CrashLoopBackOff''"
definition completed :: string where "completed = ''Completed''"

definition init_unfinished :: "ContainerStatus \<Rightarrow> bool" where
  "init_unfinished s =
     (if (case cst_Waiting (cs_State s) of None \<Rightarrow> False | Some w \<Rightarrow> wt_Reason w = crashLoopBackOff)
      then True
      else (case cst_Terminated (cs_State s) of None \<Rightarrow> False | Some t \<Rightarrow> tr_ExitCode t \<noteq> 0))"

definition getContainerNames :: "bool \<Rightarrow> Pod \<Rightarrow> string list" where
  "getContainerNames initOnly pod =
     (let initContainers = map cs_Name (pod_InitContainerStatuses pod);
          failedOrInProgressInitContainers = list_ex init_unfinished (pod_InitContainerStatuses pod) in
      if failedOrInProgressInitContainers then initContainers
      else if initOnly then initContainers
      else map cs_Name (pod_ContainerStatuses pod))"

definition getContainerState :: "ContainerStatus \<Rightarrow> string" where
  "getContainerState s =
     (if cst_Running (cs_State s) \<noteq> None then ''Running''
      else case cst_Waiting (cs_State s) of
        Some waiting \<Rightarrow> if wt_Reason waiting = crashLoopBackOff then crashLoopBackOff else ''Pending''
      | None \<Rightarrow>
          (case cst_Terminated (cs_State s) of
             Some terminated \<Rightarrow>
               if tr_Reason terminated = completed then completed
               else ''Terminated (exit code '' @ Itoa (sint (tr_ExitCode terminated)) @ '')''
           | None \<Rightarrow> ''Unknown''))"

section \<open>Logs and status of the pods of a workload\<close>

text \<open>
  The Go methods build a map from a key to an entry; it is an association list here, with one entry
  per key. The loops over the pods are the same text in every resource.
\<close>

definition log_options :: "LogOpts \<Rightarrow> string \<Rightarrow> PodLogOptions" where
  "log_options opts containerName =
     \<lparr>plo_Container = containerName, plo_Follow = lo_Follow opts,
      plo_TailLines = (if lo_Lines opts \<noteq> -1 then Some (lo_Lines opts) else None)\<rparr>"

definition log_key :: "string \<Rightarrow> string \<Rightarrow> string \<Rightarrow> string" where
  "log_key service pod container = ''['' @ service @ ''.'' @ pod @ ''.'' @ container @ '']''"

definition pod_name :: "Pod \<Rightarrow> string" where
  "pod_name pod = om_Name (pod_ObjectMeta pod)"

definition open_log ::
    "'w clientset \<Rightarrow> workload \<Rightarrow> LogOpts \<Rightarrow> Pod \<Rightarrow> string \<Rightarrow> (string \<times> LogInfo) list \<Rightarrow>
     ('w, (string \<times> LogInfo) list) io" where
  "open_log cs r opts pod containerName m =
     try_do (cs_Pods_GetLogs cs (wk_namespace r) (pod_name pod) (log_options opts containerName))
       (\<lambda>err. Wrapf err ''error opening stream for pod %s container %s'' [Str (pod_name pod), Str containerName])
       (\<lambda>podLogs. ret (AList.update (log_key (wk_serviceName r) (pod_name pod) containerName)
          \<lparr>li_Service = wk_serviceName r, li_Pod = pod_name pod, li_Container = containerName, li_Logs = podLogs\<rparr> m))"

definition pods_logs ::
    "'w clientset \<Rightarrow> workload \<Rightarrow> labels \<Rightarrow> LogOpts \<Rightarrow> ('w, (string \<times> LogInfo) list) io" where
  "pods_logs cs r matchLabels opts =
     try_do (cs_Pods_List cs (wk_namespace r) matchLabels) (\<lambda>err. Wrapf err ''error initializing pod interface'' [])
       (\<lambda>pods. fold_io (\<lambda>pod. fold_io (open_log cs r opts pod) (getContainerNames (lo_InitOnly opts) pod)) pods [])"

definition status_info :: "workload \<Rightarrow> Pod \<Rightarrow> string \<Rightarrow> ContainerStatus \<Rightarrow> StatusInfo" where
  "status_info r pod ctype s =
     \<lparr>st_Service = wk_serviceName r, st_Pod = pod_name pod, st_Container = cs_Name s,
      st_NodeName = psp_NodeName (pod_Spec pod), st_ContainerType = ctype,
      st_ContainerState = getContainerState s, st_Restarts = sint (cs_RestartCount s)\<rparr>"

definition status_key :: "string \<Rightarrow> string \<Rightarrow> string \<Rightarrow> string \<Rightarrow> string" where
  "status_key n service pod container =
     ''['' @ n @ ''.'' @ service @ ''.'' @ pod @ ''.'' @ container @ '']''"

definition pod_status :: "workload \<Rightarrow> Pod \<Rightarrow> (string \<times> StatusInfo) list \<Rightarrow> (string \<times> StatusInfo) list" where
  "pod_status r pod m =
     foldl (\<lambda>m s. AList.update (status_key ''1'' (wk_serviceName r) (pod_name pod) (cs_Name s))
                    (status_info r pod ''app'' s) m)
       (foldl (\<lambda>m s. AList.update (status_key ''0'' (wk_serviceName r) (pod_name pod) (cs_Name s))
                       (status_info r pod ''init'' s) m)
          m (pod_InitContainerStatuses pod))
       (pod_ContainerStatuses pod)"

definition pods_status ::
    "'w clientset \<Rightarrow> workload \<Rightarrow> labels \<Rightarrow> string \<Rightarrow> ('w, (string \<times> StatusInfo) list) io" where
  "pods_status cs r matchLabels errorText =
     try_do (cs_Pods_List cs (wk_namespace r) matchLabels) (\<lambda>err. Wrapf err errorText [])
       (\<lambda>pods. ret (foldl (\<lambda>m pod. pod_status r pod m) [] pods))"

section \<open>Polling\<close>

text \<open>
  \<open>for start := time.Now(); time.Since(start) < timeout; { ... time.Sleep(5 * time.Second) }\<close>,
  where the body says whether to return nil. The loop ends in the code only because time passes, so
  it takes fuel.
\<close>

fun poll_loop :: "nat \<Rightarrow> 'w runtime \<Rightarrow> int \<Rightarrow> int \<Rightarrow> ('w, bool) io \<Rightarrow> gerror \<Rightarrow> ('w, unit) io" where
  "poll_loop 0 rt start timeout body expired = out_of_fuel"
| "poll_loop (Suc n) rt start timeout body expired =
     andthen (now rt) (\<lambda>t.
       if t - start < timeout
       then andthen body (\<lambda>ready. if ready then ret ()
              else andthen (sleep rt (5 * second)) (\<lambda>_. poll_loop n rt start timeout body expired))
       else fail expired)"

definition poll_until :: "'w runtime \<Rightarrow> int \<Rightarrow> ('w, bool) io \<Rightarrow> gerror \<Rightarrow> ('w, unit) io" where
  "poll_until rt timeout body expired =
     andthen (now rt) (\<lambda>start. poll_loop (rt_fuel rt) rt start timeout body expired)"

section \<open>Common parts of the workload operations\<close>

text \<open>\<open>*p\<close> for a pointer field: a nil pointer panics.\<close>

definition deref :: "'a option \<Rightarrow> ('a \<Rightarrow> ('w, 'b) io) \<Rightarrow> ('w, 'b) io" where
  "deref p k = (case p of None \<Rightarrow> panic nil_dereference | Some a \<Rightarrow> k a)"

text \<open>
  \<open>Restart\<close>: forced, the pods are deleted without a grace period; otherwise the template is
  annotated with the time in seconds (RFC 3339).
\<close>

definition restart_workload ::
    "'w clientset \<Rightarrow> ('o, 'w) workload_client \<Rightarrow> workload \<Rightarrow> ('o \<Rightarrow> labels) \<Rightarrow> string \<Rightarrow> bool \<Rightarrow> ('w, unit) io" where
  "restart_workload cs c r matchLabels what force =
     try_do (wl_Get c (wk_namespace r) (wk_name r)) (\<lambda>err. Wrapf err (''couldn't fetch '' @ what @ '' '' @ wk_name r) [])
       (\<lambda>ob.
         if force then
           try_do (cs_Pods_DeleteCollection cs (wk_namespace r) 0 (matchLabels ob))
             (\<lambda>err. Wrapf err (''Couldn't delete pods for the '' @ what @ '': '' @ wk_name r) []) ret
         else
           andthen (now (cs_rt cs))
             (\<lambda>currTime. wl_Patch c (wk_namespace r) (wk_name r) (RestartedAt (currTime div second))))"

definition delete_workload :: "('o, 'w) workload_client \<Rightarrow> workload \<Rightarrow> string \<Rightarrow> ('w, unit) io" where
  "delete_workload c r what =
     try_do (wl_Get c (wk_namespace r) (wk_name r)) (\<lambda>err. Wrapf err (''couldn't fetch '' @ what @ '' '' @ wk_name r) [])
       (\<lambda>_. try_do (wl_Delete c (wk_namespace r) (wk_name r))
          (\<lambda>err. Wrapf err (''error deleting '' @ what @ '' '' @ wk_name r) []) ret)"

definition logs_workload ::
    "'w clientset \<Rightarrow> ('o, 'w) workload_client \<Rightarrow> workload \<Rightarrow> ('o \<Rightarrow> labels) \<Rightarrow> string \<Rightarrow> LogOpts \<Rightarrow>
     ('w, (string \<times> LogInfo) list) io" where
  "logs_workload cs c r matchLabels what opts =
     try_do (wl_Get c (wk_namespace r) (wk_name r)) (\<lambda>err. Wrapf err (''couldn't fetch '' @ what @ '' '' @ wk_name r) [])
       (\<lambda>ob. pods_logs cs r (matchLabels ob) opts)"

definition status_workload ::
    "'w clientset \<Rightarrow> ('o, 'w) workload_client \<Rightarrow> workload \<Rightarrow> ('o \<Rightarrow> labels) \<Rightarrow> string \<Rightarrow> string \<Rightarrow>
     ('w, (string \<times> StatusInfo) list) io" where
  "status_workload cs c r matchLabels what listError =
     try_do (wl_Get c (wk_namespace r) (wk_name r)) (\<lambda>err. Wrapf err (''couldn't fetch '' @ what @ '' '' @ wk_name r) [])
       (\<lambda>ob. pods_status cs r (matchLabels ob) listError)"

text \<open>The body of a wait loop that asks a rollout viewer; its message is printed.\<close>

definition viewer_ready :: "string \<Rightarrow> rollout_status \<Rightarrow> ('w, bool) io" where
  "viewer_ready failed st = (case st of (msg, finished, err) \<Rightarrow>
     (case err of Some e \<Rightarrow> fail (Wrapf e failed []) | None \<Rightarrow> ret finished))"

section \<open>Deployments (deployment\_resource.go)\<close>

definition Deployment_Fetch :: "'w clientset \<Rightarrow> workload \<Rightarrow> ('w, workload) io" where
  "Deployment_Fetch cs d =
     try_do (wl_Get (cs_Deployments cs) (wk_namespace d) (wk_name d)) (\<lambda>err. Wrapf err ''Couldn't get deployment'' [])
       (\<lambda>deploy. deref (dep_Replicas deploy)
          (\<lambda>replicas. ret (with_replicas (sint (dep_ReadyReplicas deploy)) (sint replicas) d)))"

definition Deployment_Restart :: "'w clientset \<Rightarrow> workload \<Rightarrow> bool \<Rightarrow> ('w, unit) io" where
  "Deployment_Restart cs d force = restart_workload cs (cs_Deployments cs) d dep_MatchLabels ''deployment'' force"

definition Deployment_Scale :: "'w clientset \<Rightarrow> workload \<Rightarrow> int \<Rightarrow> ('w, unit) io" where
  "Deployment_Scale cs d replicas =
     try_do (wl_GetScale (cs_Deployments cs) (wk_namespace d) (wk_name d))
       (\<lambda>err. Wrapf err (''Failed to get latest status of Deployment: %q'' @ [CHR 0x0A]) [Str (wk_name d)])
       (\<lambda>deployScale.
         try_do (wl_UpdateScale (cs_Deployments cs) (wk_namespace d) (wk_name d)
                   (deployScale\<lparr>scale_Replicas := word_of_int replicas\<rparr>))
           (\<lambda>err. Wrapf err ''Failed to update replica count of Deployment'' []) ret)"

definition Deployment_Delete :: "'w clientset \<Rightarrow> workload \<Rightarrow> ('w, unit) io" where
  "Deployment_Delete cs d = delete_workload (cs_Deployments cs) d ''deployment''"

definition Deployment_Logs :: "'w clientset \<Rightarrow> workload \<Rightarrow> LogOpts \<Rightarrow> ('w, (string \<times> LogInfo) list) io" where
  "Deployment_Logs cs d opts = logs_workload cs (cs_Deployments cs) d dep_MatchLabels ''deployment'' opts"

definition Deployment_Status :: "'w clientset \<Rightarrow> workload \<Rightarrow> ('w, (string \<times> StatusInfo) list) io" where
  "Deployment_Status cs d = status_workload cs (cs_Deployments cs) d dep_MatchLabels ''deployment''
     (''couldn't fetch podlist for deployment '' @ wk_name d)"

definition deployment_ready :: "'w clientset \<Rightarrow> workload \<Rightarrow> ('w, bool) io" where
  "deployment_ready cs d =
     try_do (wl_Get (cs_Deployments cs) (wk_namespace d) (wk_name d))
       (\<lambda>err. Wrapf err ''Failed to get latest status of Deployment: %q'' [Str (wk_name d)])
       (\<lambda>deploy. viewer_ready ''Failed to get deployment status'' (Deployment_Viewer_Status deploy 0))"

definition Deployment_Wait :: "'w clientset \<Rightarrow> workload \<Rightarrow> int \<Rightarrow> ('w, unit) io" where
  "Deployment_Wait cs d timeout =
     poll_until (cs_rt cs) timeout (deployment_ready cs d)
       (Errorf ''timeout expired waiting for deployment'' [])"

section \<open>Stateful sets (statefulset\_resource.go)\<close>

definition StatefulSet_Fetch :: "'w clientset \<Rightarrow> workload \<Rightarrow> ('w, workload) io" where
  "StatefulSet_Fetch cs s =
     try_do (wl_Get (cs_StatefulSets cs) (wk_namespace s) (wk_name s)) (\<lambda>err. Wrapf err ''Couldn't get statefulset'' [])
       (\<lambda>statefulSet. deref (sts_Replicas statefulSet)
          (\<lambda>replicas. ret (with_replicas (sint (sts_ReadyReplicas statefulSet)) (sint replicas) s)))"

definition StatefulSet_Restart :: "'w clientset \<Rightarrow> workload \<Rightarrow> bool \<Rightarrow> ('w, unit) io" where
  "StatefulSet_Restart cs s force = restart_workload cs (cs_StatefulSets cs) s sts_MatchLabels ''statefulset'' force"

definition StatefulSet_Scale :: "'w clientset \<Rightarrow> workload \<Rightarrow> int \<Rightarrow> ('w, unit) io" where
  "StatefulSet_Scale cs s replicas =
     try_do (wl_GetScale (cs_StatefulSets cs) (wk_namespace s) (wk_name s))
       (\<lambda>err. Wrapf err ''couldn't fetch statefulset scale'' [])
       (\<lambda>statefulset.
         try_do (wl_UpdateScale (cs_StatefulSets cs) (wk_namespace s) (wk_name s)
                   (statefulset\<lparr>scale_Replicas := word_of_int replicas\<rparr>))
           (\<lambda>err. Wrapf err ''couldn't update statefulset scale'' []) ret)"

definition StatefulSet_Delete :: "'w clientset \<Rightarrow> workload \<Rightarrow> ('w, unit) io" where
  "StatefulSet_Delete cs s = delete_workload (cs_StatefulSets cs) s ''statefulset''"

definition StatefulSet_Logs :: "'w clientset \<Rightarrow> workload \<Rightarrow> LogOpts \<Rightarrow> ('w, (string \<times> LogInfo) list) io" where
  "StatefulSet_Logs cs s opts = logs_workload cs (cs_StatefulSets cs) s sts_MatchLabels ''statefulset'' opts"

definition StatefulSet_Status :: "'w clientset \<Rightarrow> workload \<Rightarrow> ('w, (string \<times> StatusInfo) list) io" where
  "StatefulSet_Status cs s = status_workload cs (cs_StatefulSets cs) s sts_MatchLabels ''statefulset''
     (''couldn't fetch podlist for statefulset '' @ wk_name s)"

definition statefulset_ready :: "'w clientset \<Rightarrow> workload \<Rightarrow> ('w, bool) io" where
  "statefulset_ready cs s =
     try_do (wl_Get (cs_StatefulSets cs) (wk_namespace s) (wk_name s))
       (\<lambda>err. Wrapf err ''Failed to get statefulset'' [])
       (\<lambda>statefulSet. viewer_ready ''Failed to get statefulset status'' (StatefulSet_Viewer_Status statefulSet))"

definition StatefulSet_Wait :: "'w clientset \<Rightarrow> workload \<Rightarrow> int \<Rightarrow> ('w, unit) io" where
  "StatefulSet_Wait cs s timeout =
     poll_until (cs_rt cs) timeout (statefulset_ready cs s)
       (Errorf ''timeout expired waiting for statefulset'' [])"

section \<open>Daemon sets (daemonset\_resource.go)\<close>

definition DaemonSet_Fetch :: "'w clientset \<Rightarrow> workload \<Rightarrow> ('w, workload) io" where
  "DaemonSet_Fetch cs d =
     try_do (wl_Get (cs_DaemonSets cs) (wk_namespace d) (wk_name d)) (\<lambda>err. Wrapf err ''Couldn't get daemonset'' [])
       (\<lambda>daemonSet. ret (with_replicas (sint (ds_NumberReady daemonSet)) (sint (ds_DesiredNumberScheduled daemonSet)) d))"

definition DaemonSet_Restart :: "'w clientset \<Rightarrow> workload \<Rightarrow> bool \<Rightarrow> ('w, unit) io" where
  "DaemonSet_Restart cs d force = restart_workload cs (cs_DaemonSets cs) d ds_MatchLabels ''daemonset'' force"

text \<open>A daemon set is scaled to none by a node selector no node has; a negative number does nothing.\<close>

definition DaemonSet_Scale :: "'w clientset \<Rightarrow> workload \<Rightarrow> int \<Rightarrow> ('w, unit) io" where
  "DaemonSet_Scale cs d replicas =
     (if replicas = 0 then
        try_do (wl_Patch (cs_DaemonSets cs) (wk_namespace d) (wk_name d) NodeSelectorNonExisting)
          (\<lambda>err. Wrapf err ''Failed to scale daemonset'' []) ret
      else if replicas > 0 then
        try_do (wl_Patch (cs_DaemonSets cs) (wk_namespace d) (wk_name d) RemoveNodeSelectorNonExisting)
          (\<lambda>err. Wrapf err ''Failed to scale daemonset'' []) ret
      else ret ())"

definition DaemonSet_Delete :: "'w clientset \<Rightarrow> workload \<Rightarrow> ('w, unit) io" where
  "DaemonSet_Delete cs d = delete_workload (cs_DaemonSets cs) d ''daemonset''"

definition DaemonSet_Logs :: "'w clientset \<Rightarrow> workload \<Rightarrow> LogOpts \<Rightarrow> ('w, (string \<times> LogInfo) list) io" where
  "DaemonSet_Logs cs d opts = logs_workload cs (cs_DaemonSets cs) d ds_MatchLabels ''daemonset'' opts"

definition DaemonSet_Status :: "'w clientset \<Rightarrow> workload \<Rightarrow> ('w, (string \<times> StatusInfo) list) io" where
  "DaemonSet_Status cs d = status_workload cs (cs_DaemonSets cs) d ds_MatchLabels ''daemonset''
     (''couldn't fetch podlist for '' @ wk_name d)"

definition daemonset_ready :: "'w clientset \<Rightarrow> workload \<Rightarrow> ('w, bool) io" where
  "daemonset_ready cs d =
     try_do (wl_Get (cs_DaemonSets cs) (wk_namespace d) (wk_name d))
       (\<lambda>err. Wrapf err ''Failed to get latest status of Daemonset: %q'' [Str (wk_name d)])
       (\<lambda>daemonSet. viewer_ready ''Failed to get daemonset status'' (DaemonSet_Viewer_Status daemonSet))"

definition DaemonSet_Wait :: "'w clientset \<Rightarrow> workload \<Rightarrow> int \<Rightarrow> ('w, unit) io" where
  "DaemonSet_Wait cs d timeout =
     poll_until (cs_rt cs) timeout (daemonset_ready cs d)
       (Errorf ''timeout expired waiting for daemonset'' [])"

section \<open>Jobs (job\_resource.go)\<close>

definition Job_Fetch :: "'w clientset \<Rightarrow> workload \<Rightarrow> ('w, workload) io" where
  "Job_Fetch cs j =
     try_do (wl_Get (cs_Jobs cs) (wk_namespace j) (wk_name j)) (\<lambda>err. Wrapf err ''Couldn't get job'' [])
       (\<lambda>job. deref (js_Completions (job_Spec job)) (\<lambda>completions.
          deref (js_Parallelism (job_Spec job)) (\<lambda>parallelism.
            ret (with_replicas (sint completions) (sint parallelism) j))))"

definition Job_Restart :: "'w clientset \<Rightarrow> workload \<Rightarrow> bool \<Rightarrow> ('w, unit) io" where
  "Job_Restart cs j force = ret ()"

definition Job_Scale :: "'w clientset \<Rightarrow> workload \<Rightarrow> int \<Rightarrow> ('w, unit) io" where
  "Job_Scale cs j replicas = ret ()"

definition Job_Delete :: "'w clientset \<Rightarrow> workload \<Rightarrow> ('w, unit) io" where
  "Job_Delete cs j = ret ()"

abbreviation job_labels :: "Job \<Rightarrow> labels" where
  "job_labels job \<equiv> js_MatchLabels (job_Spec job)"

definition Job_Logs :: "'w clientset \<Rightarrow> workload \<Rightarrow> LogOpts \<Rightarrow> ('w, (string \<times> LogInfo) list) io" where
  "Job_Logs cs j opts = logs_workload cs (cs_Jobs cs) j job_labels ''job'' opts"

definition Job_Status :: "'w clientset \<Rightarrow> workload \<Rightarrow> ('w, (string \<times> StatusInfo) list) io" where
  "Job_Status cs j = status_workload cs (cs_Jobs cs) j job_labels ''job''
     (''couldn't fetch podlist for job '' @ wk_name j)"

definition JobComplete :: string where "JobComplete = ''Complete''"
definition JobFailed :: string where "JobFailed = ''Failed''"

text \<open>A failed lookup is only logged, and a job that has failed is waited for like a running one.\<close>

definition job_ready :: "'w clientset \<Rightarrow> workload \<Rightarrow> ('w, bool) io" where
  "job_ready cs j =
     handle (wl_Get (cs_Jobs cs) (wk_namespace j) (wk_name j))
       (\<lambda>job. ret (job_Conditions job \<noteq> [] \<and> last (job_Conditions job) = JobComplete))
       (\<lambda>err. ret False)"

definition Job_Wait :: "'w clientset \<Rightarrow> workload \<Rightarrow> int \<Rightarrow> ('w, unit) io" where
  "Job_Wait cs j timeout =
     poll_until (cs_rt cs) timeout (job_ready cs j) (Errorf ''timeout expired waiting for job'' [])"

section \<open>Cron jobs (cronjob\_resource.go)\<close>

definition CronJob_Fetch :: "'w clientset \<Rightarrow> workload \<Rightarrow> ('w, workload) io" where
  "CronJob_Fetch cs c =
     try_do (wl_Get (cs_CronJobs cs) (wk_namespace c) (wk_name c)) (\<lambda>err. Wrapf err ''Couldn't get cronjob'' [])
       (\<lambda>cronJob. deref (cj_Suspend cronJob)
          (\<lambda>suspend. ret (if \<not> suspend then with_replicas 1 1 c else with_replicas 0 0 c)))"

definition CronJob_Restart :: "'w clientset \<Rightarrow> workload \<Rightarrow> bool \<Rightarrow> ('w, unit) io" where
  "CronJob_Restart cs c force = ret ()"

definition CronJob_Scale :: "'w clientset \<Rightarrow> workload \<Rightarrow> int \<Rightarrow> ('w, unit) io" where
  "CronJob_Scale cs c replicas =
     (if replicas = 0 then
        try_do (wl_Patch (cs_CronJobs cs) (wk_namespace c) (wk_name c) (Suspend True))
          (\<lambda>err. Wrapf err ''Failed to suspend cronJob'' []) ret
      else if replicas > 0 then
        try_do (wl_Patch (cs_CronJobs cs) (wk_namespace c) (wk_name c) (Suspend False))
          (\<lambda>err. Wrapf err ''Failed to unsuspend cronJob'' []) ret
      else ret ())"

definition CronJob_Delete :: "'w clientset \<Rightarrow> workload \<Rightarrow> ('w, unit) io" where
  "CronJob_Delete cs c = delete_workload (cs_CronJobs cs) c ''cronJob''"

text \<open>
  The latest job of the history: the first after a stable sort by creation time, the latest first.
  \<open>with_latest_job\<close> runs the rest for it, or gives \<open>d\<close> when the history is empty.
\<close>

definition latest_job :: "Job list \<Rightarrow> Job" where
  "latest_job jobs = hd (sort_key (\<lambda>j. - job_CreationTimestamp j) jobs)"

definition with_latest_job :: "'w clientset \<Rightarrow> workload \<Rightarrow> 'a \<Rightarrow> (Job \<Rightarrow> ('w, 'a) io) \<Rightarrow> ('w, 'a) io" where
  "with_latest_job cs c d k =
     try_do (wl_Get (cs_CronJobs cs) (wk_namespace c) (wk_name c)) (\<lambda>err. Wrapf err (''couldn't fetch cronJob '' @ wk_name c) [])
       (\<lambda>cronJob. try_do (wl_List (cs_Jobs cs) (wk_namespace c) (cj_JobTemplateLabels cronJob))
          (\<lambda>err. Wrapf err ''error initializing job interface'' [])
          (\<lambda>jobs. if jobs = [] then ret d else k (latest_job jobs)))"

definition CronJob_Logs :: "'w clientset \<Rightarrow> workload \<Rightarrow> LogOpts \<Rightarrow> ('w, (string \<times> LogInfo) list) io" where
  "CronJob_Logs cs c opts = with_latest_job cs c [] (\<lambda>job. pods_logs cs c (job_labels job) opts)"

definition CronJob_Status :: "'w clientset \<Rightarrow> workload \<Rightarrow> ('w, (string \<times> StatusInfo) list) io" where
  "CronJob_Status cs c =
     with_latest_job cs c [] (\<lambda>job. pods_status cs c (job_labels job) ''error initializing pod interface'')"

definition cronjob_ready :: "'w clientset \<Rightarrow> workload \<Rightarrow> ('w, bool) io" where
  "cronjob_ready cs c =
     handle (wl_Get (cs_CronJobs cs) (wk_namespace c) (wk_name c))
       (\<lambda>cronJob. deref (cj_Suspend cronJob) (\<lambda>cronJobSuspended. ret (\<not> cronJobSuspended)))
       (\<lambda>err. ret False)"

definition CronJob_Wait :: "'w clientset \<Rightarrow> workload \<Rightarrow> int \<Rightarrow> ('w, unit) io" where
  "CronJob_Wait cs c timeout =
     poll_until (cs_rt cs) timeout (cronjob_ready cs c)
       (Errorf ''timeout expired waiting for cronJob'' [])"

section \<open>Kubegres clusters (kubegres\_resource.go)\<close>

definition getKubegresStatefulSets :: "'w clientset \<Rightarrow> workload \<Rightarrow> ('w, workload list) io" where
  "getKubegresStatefulSets cs k =
     try_do (wl_List (cs_StatefulSets cs) (wk_namespace k) [(''app'', wk_name k)])
       (\<lambda>err. Wrapf err ''couldn't list stateful sets'' [])
       (\<lambda>statefulSets. ret (map (\<lambda>sts. new_workload StatefulSet_kind (wk_category k) (wk_serviceName k)
                                          (sts_Name sts) (sts_Namespace sts)) statefulSets))"

definition getKubegresClient :: "'w clientset \<Rightarrow> ('w, (Kubegres, 'w) workload_client) io" where
  "getKubegresClient cs =
     try_do (cs_GetConfig cs) (\<lambda>err. Wrapf err ''couldn't get kubeconfig'' []) (\<lambda>_. ret (cs_Kubegres cs))"

definition with_kubegres_sets ::
    "'w clientset \<Rightarrow> workload \<Rightarrow> (workload list \<Rightarrow> ('w, 'a) io) \<Rightarrow> ('w, 'a) io" where
  "with_kubegres_sets cs k f =
     try_do (getKubegresStatefulSets cs k)
       (\<lambda>err. Wrapf err ''couldn't get stateful sets in kubegres %s'' [Str (wk_name k)]) f"

definition Kubegres_Fetch :: "'w clientset \<Rightarrow> workload \<Rightarrow> ('w, workload) io" where
  "Kubegres_Fetch cs k =
     try_do (getKubegresClient cs) (\<lambda>err. Wrapf err ''couldn't get kubegres client'' [])
       (\<lambda>client. try_do (wl_Get client (wk_namespace k) (wk_name k))
         (\<lambda>err. Wrapf err ''couldn't get kubegres %s'' [Str (wk_name k)])
         (\<lambda>kg. with_kubegres_sets cs k
           (\<lambda>stsList. ret (with_replicas (int (length stsList)) (kg_Replicas kg) k))))"

text \<open>
  \<open>errOccurred\<close> remembers any failure, but \<open>err\<close> is assigned in every round: what is
  wrapped at the end is the outcome of the last stateful set.
\<close>

definition restart_set ::
    "'w clientset \<Rightarrow> bool \<Rightarrow> workload \<Rightarrow> bool \<times> gerror option \<Rightarrow> ('w, bool \<times> gerror option) io" where
  "restart_set cs force sts st =
     handle (StatefulSet_Restart cs sts force) (\<lambda>_. ret (fst st, None)) (\<lambda>err. ret (True, Some err))"

definition return_error :: "gerror option \<Rightarrow> ('w, unit) io" where
  "return_error e = (case e of None \<Rightarrow> ret () | Some e \<Rightarrow> fail e)"

definition Kubegres_Restart :: "'w clientset \<Rightarrow> workload \<Rightarrow> bool \<Rightarrow> ('w, unit) io" where
  "Kubegres_Restart cs k force =
     with_kubegres_sets cs k
       (\<lambda>stsList. andthen (fold_io (restart_set cs force) stsList (False, None))
         (\<lambda>(errOccurred, err).
           if errOccurred
           then return_error (wrapf_opt err ''failed to restart every stateful set in kubegres %s'' [Str (wk_name k)])
           else ret ()))"

definition Kubegres_Scale :: "'w clientset \<Rightarrow> workload \<Rightarrow> int \<Rightarrow> ('w, unit) io" where
  "Kubegres_Scale cs k replicas =
     try_do (getKubegresClient cs) (\<lambda>err. Wrapf err ''couldn't get kubegres client'' [])
       (\<lambda>client. try_do (wl_Get client (wk_namespace k) (wk_name k))
         (\<lambda>err. Wrapf err ''couldn't get kubegres %s'' [Str (wk_name k)])
         (\<lambda>kg. try_do (wl_Update client (wk_namespace k)
                  (kg\<lparr>kg_Replicas := sint (word_of_int replicas :: int32)\<rparr>))
           (\<lambda>err. Wrapf err ''couldn't scale kubegres %s'' [Str (wk_name k)]) ret))"

definition Kubegres_Delete :: "'w clientset \<Rightarrow> workload \<Rightarrow> ('w, unit) io" where
  "Kubegres_Delete cs k =
     try_do (getKubegresClient cs) (\<lambda>err. Wrapf err ''couldn't get kubegres client'' [])
       (\<lambda>client. try_do (wl_Delete client (wk_namespace k) (wk_name k))
         (\<lambda>err. Wrapf err ''couldn't delete kubegres %s'' [Str (wk_name k)]) ret)"

text \<open>
  In \<open>Logs\<close> and \<open>Status\<close> the error of a stateful set is a variable of the loop body that
  hides the outer one, so the error wrapped at the end is the outer, nil one: both return without an
  error what the stateful sets that answered gave.
\<close>

definition merge_maps :: "(string \<times> 'v) list \<Rightarrow> (string \<times> 'v) list \<Rightarrow> (string \<times> 'v) list" where
  "merge_maps m m' = foldl (\<lambda>m (k, v). AList.update k v m) m m'"

definition gather_sets ::
    "(workload \<Rightarrow> ('w, (string \<times> 'v) list) io) \<Rightarrow> workload list \<Rightarrow>
     ('w, bool \<times> (string \<times> 'v) list) io" where
  "gather_sets f stsList =
     fold_io (\<lambda>sts st. handle (f sts) (\<lambda>m. ret (fst st, merge_maps (snd st) m)) (\<lambda>err. ret (True, snd st)))
       stsList (False, [])"

definition gathered ::
    "string \<Rightarrow> string \<Rightarrow> bool \<times> (string \<times> 'v) list \<Rightarrow> ('w, (string \<times> 'v) list) io" where
  "gathered msg name st =
     (if fst st then (case wrapf_opt None msg [Str name] of None \<Rightarrow> ret (snd st) | Some e \<Rightarrow> fail e)
      else ret (snd st))"

definition Kubegres_Logs :: "'w clientset \<Rightarrow> workload \<Rightarrow> LogOpts \<Rightarrow> ('w, (string \<times> LogInfo) list) io" where
  "Kubegres_Logs cs k opts =
     with_kubegres_sets cs k
       (\<lambda>stsList. andthen (gather_sets (\<lambda>sts. StatefulSet_Logs cs sts opts) stsList)
          (gathered ''failed to get logs for every stateful set in kubegres %s'' (wk_name k)))"

definition Kubegres_Status :: "'w clientset \<Rightarrow> workload \<Rightarrow> ('w, (string \<times> StatusInfo) list) io" where
  "Kubegres_Status cs k =
     with_kubegres_sets cs k
       (\<lambda>stsList. andthen (gather_sets (StatefulSet_Status cs) stsList)
          (gathered ''failed to get status for every stateful set in kubegres %s'' (wk_name k)))"

definition Kubegres_Wait :: "'w clientset \<Rightarrow> workload \<Rightarrow> int \<Rightarrow> ('w, unit) io" where
  "Kubegres_Wait cs k timeout =
     with_kubegres_sets cs k
       (for_each (\<lambda>sts. try_do (StatefulSet_Wait cs sts timeout)
          (\<lambda>err. Wrapf err ''failed to wait on stateful set %s in kubegres %s'' [Str (wk_name sts), Str (wk_name k)]) ret))"

section \<open>The interface\<close>

text \<open>Calling a method of a \<open>DeployableResource\<close>: the struct behind it decides.\<close>

definition Fetch :: "'w clientset \<Rightarrow> workload \<Rightarrow> ('w, workload) io" where
  "Fetch cs r = (case wk_kind r of Deployment_kind \<Rightarrow> Deployment_Fetch cs r | StatefulSet_kind \<Rightarrow> StatefulSet_Fetch cs r
     | DaemonSet_kind \<Rightarrow> DaemonSet_Fetch cs r | Job_kind \<Rightarrow> Job_Fetch cs r | CronJob_kind \<Rightarrow> CronJob_Fetch cs r
     | Kubegres_kind \<Rightarrow> Kubegres_Fetch cs r)"

definition Restart :: "'w clientset \<Rightarrow> workload \<Rightarrow> bool \<Rightarrow> ('w, unit) io" where
  "Restart cs r = (case wk_kind r of Deployment_kind \<Rightarrow> Deployment_Restart cs r | StatefulSet_kind \<Rightarrow> StatefulSet_Restart cs r
     | DaemonSet_kind \<Rightarrow> DaemonSet_Restart cs r | Job_kind \<Rightarrow> Job_Restart cs r | CronJob_kind \<Rightarrow> CronJob_Restart cs r
     | Kubegres_kind \<Rightarrow> Kubegres_Restart cs r)"

definition Scale_workload :: "'w clientset \<Rightarrow> workload \<Rightarrow> int \<Rightarrow> ('w, unit) io" where
  "Scale_workload cs r = (case wk_kind r of Deployment_kind \<Rightarrow> Deployment_Scale cs r | StatefulSet_kind \<Rightarrow> StatefulSet_Scale cs r
     | DaemonSet_kind \<Rightarrow> DaemonSet_Scale cs r | Job_kind \<Rightarrow> Job_Scale cs r | CronJob_kind \<Rightarrow> CronJob_Scale cs r
     | Kubegres_kind \<Rightarrow> Kubegres_Scale cs r)"

definition Delete_workload :: "'w clientset \<Rightarrow> workload \<Rightarrow> ('w, unit) io" where
  "Delete_workload cs r = (case wk_kind r of Deployment_kind \<Rightarrow> Deployment_Delete cs r | StatefulSet_kind \<Rightarrow> StatefulSet_Delete cs r
     | DaemonSet_kind \<Rightarrow> DaemonSet_Delete cs r | Job_kind \<Rightarrow> Job_Delete cs r | CronJob_kind \<Rightarrow> CronJob_Delete cs r
     | Kubegres_kind \<Rightarrow> Kubegres_Delete cs r)"

definition Logs :: "'w clientset \<Rightarrow> workload \<Rightarrow> LogOpts \<Rightarrow> ('w, (string \<times> LogInfo) list) io" where
  "Logs cs r = (case wk_kind r of Deployment_kind \<Rightarrow> Deployment_Logs cs r | StatefulSet_kind \<Rightarrow> StatefulSet_Logs cs r
     | DaemonSet_kind \<Rightarrow> DaemonSet_Logs cs r | Job_kind \<Rightarrow> Job_Logs cs r | CronJob_kind \<Rightarrow> CronJob_Logs cs r
     | Kubegres_kind \<Rightarrow> Kubegres_Logs cs r)"

definition Status :: "'w clientset \<Rightarrow> workload \<Rightarrow> ('w, (string \<times> StatusInfo) list) io" where
  "Status cs r = (case wk_kind r of Deployment_kind \<Rightarrow> Deployment_Status cs r | StatefulSet_kind \<Rightarrow> StatefulSet_Status cs r
     | DaemonSet_kind \<Rightarrow> DaemonSet_Status cs r | Job_kind \<Rightarrow> Job_Status cs r | CronJob_kind \<Rightarrow> CronJob_Status cs r
     | Kubegres_kind \<Rightarrow> Kubegres_Status cs r)"

definition Wait :: "'w clientset \<Rightarrow> workload \<Rightarrow> int \<Rightarrow> ('w, unit) io" where
  "Wait cs r = (case wk_kind r of Deployment_kind \<Rightarrow> Deployment_Wait cs r | StatefulSet_kind \<Rightarrow> StatefulSet_Wait cs r
     | DaemonSet_kind \<Rightarrow> DaemonSet_Wait cs r | Job_kind \<Rightarrow> Job_Wait cs r | CronJob_kind \<Rightarrow> CronJob_Wait cs r
     | Kubegres_kind \<Rightarrow> Kubegres_Wait cs r)"

end
