(* ===== verification/Loops.thy ===== *)
theory Loops
  imports Prelude
begin

text \<open>
  Loops that wait: actions that do not turn the clock back, and the contract of a loop that sleeps
  between its turns and ends at a point in time (the locale \<open>ticking\<close>).
\<close>

section \<open>Actions and the clock\<close>

text \<open>An action that never turns the clock back.\<close>

definition forward :: "'w runtime \<Rightarrow> ('w, 'a) io \<Rightarrow> bool" where
  "forward rt m \<longleftrightarrow> (\<forall>t. keeps (\<lambda>w. t \<le> rt_now rt w) m)"

lemma forward_le: "forward rt m \<Longrightarrow> rt_now rt w \<le> rt_now rt (snd (m w))"
  by (auto simp: forward_def keeps_def)

text \<open>A lookup that returns and does not turn the clock back.\<close>

definition steady_lookup :: "'w runtime \<Rightarrow> ('w, 'a) io \<Rightarrow> bool" where
  "steady_lookup rt m \<longleftrightarrow> forward rt m \<and> (\<forall>w. fst (m w) \<noteq> OutOfFuel)"

lemma steady_lookupD:
  "steady_lookup rt m \<Longrightarrow> m w = (r, w') \<Longrightarrow> r \<noteq> OutOfFuel \<and> rt_now rt w \<le> rt_now rt w'"
  using forward_le [of rt m w] by (auto simp: steady_lookup_def) (metis fst_conv)

lemma steady_handle:
  assumes "steady_lookup rt m" and "\<And>a. steady_lookup rt (k a)" and "\<And>e. steady_lookup rt (h e)"
  shows "steady_lookup rt (handle m k h)"
proof -
  have "forward rt (handle m k h)"
    using assms by (simp add: forward_def steady_lookup_def keeps_handle)
  moreover have "fst (handle m k h w) \<noteq> OutOfFuel" for w
    using assms by (cases "m w"; cases "fst (m w)") (auto simp: steady_lookup_def, (metis fst_conv)+)
  ultimately show ?thesis by (simp add: steady_lookup_def)
qed

lemma steady_try_do:
  "steady_lookup rt m \<Longrightarrow> (\<And>a. steady_lookup rt (k a)) \<Longrightarrow> steady_lookup rt (try_do m f k)"
  unfolding try_do_def by (erule steady_handle) (simp_all add: steady_lookup_def forward_def)

lemma steady_simple [simp]:
  "steady_lookup rt (ret a)" "steady_lookup rt (fail e)" "steady_lookup rt (panic s)"
  by (simp_all add: steady_lookup_def forward_def)

lemma steady_andthen:
  "steady_lookup rt m \<Longrightarrow> (\<And>a. steady_lookup rt (k a)) \<Longrightarrow> steady_lookup rt (andthen m k)"
  unfolding andthen_def by (rule steady_try_do)

lemma steady_check:
  "steady_lookup rt m \<Longrightarrow> (\<And>e a. steady_lookup rt (k e a)) \<Longrightarrow> steady_lookup rt (check m d k)"
  unfolding check_def by (rule steady_handle)

lemma steady_if:
  "(b \<Longrightarrow> steady_lookup rt m) \<Longrightarrow> (\<not> b \<Longrightarrow> steady_lookup rt n) \<Longrightarrow> steady_lookup rt (if b then m else n)"
  by simp

lemma steady_prod:
  "(\<And>a b. steady_lookup rt (f a b)) \<Longrightarrow> steady_lookup rt (case p of (a, b) \<Rightarrow> f a b)"
  by (cases p) simp

lemmas steady_rules = steady_handle steady_try_do steady_andthen steady_check steady_if steady_prod

section \<open>Loops that sleep\<close>

text \<open>
  A loop that starts again, with one unit of fuel less and after sleeping for a second or more, only as
  long as the clock is not past \<open>expiry\<close>.
\<close>

locale ticking =
  fixes rt :: "'w runtime" and loop :: "nat \<Rightarrow> ('w, 'a) io" and expiry :: int and steady :: bool
  assumes tick: "steady \<Longrightarrow> 0 \<le> d \<Longrightarrow> rt_now rt w + d \<le> rt_now rt (rt_sleep rt d w)"
    and turn: "steady \<Longrightarrow> fst (loop (Suc n) w) \<noteq> OutOfFuel \<or>
      (\<exists>u d. rt_now rt w \<le> rt_now rt u \<and> rt_now rt w \<le> expiry \<and> second \<le> d \<and>
         loop (Suc n) w = loop n (rt_sleep rt d u))"
begin

lemma loop_returns:
  assumes "steady" and "expiry - rt_now rt w < int n * second"
  shows "fst (loop (Suc n) w) \<noteq> OutOfFuel"
  using assms(2)
proof (induction n arbitrary: w)
  case 0
  with turn [OF assms(1), of 0 w] show ?case by auto
next
  case (Suc n)
  from turn [OF assms(1), of "Suc n" w] show ?case
  proof
    assume "\<exists>u d. rt_now rt w \<le> rt_now rt u \<and> rt_now rt w \<le> expiry \<and> second \<le> d \<and>
        loop (Suc (Suc n)) w = loop (Suc n) (rt_sleep rt d u)"
    then obtain u d where u: "rt_now rt w \<le> rt_now rt u" and d: "second \<le> d"
      and next_turn: "loop (Suc (Suc n)) w = loop (Suc n) (rt_sleep rt d u)" by blast
    have "rt_now rt u + d \<le> rt_now rt (rt_sleep rt d u)"
      using d by (intro tick [OF assms(1)]) (simp add: second_def)
    with u d Suc.prems have "expiry - rt_now rt (rt_sleep rt d u) < int n * second"
      by (simp add: algebra_simps)
    from Suc.IH [OF this] show ?thesis by (simp add: next_turn)
  qed
qed

text \<open>A loop that has \<open>period\<close> nanoseconds to go needs no more than a turn for each second of them.\<close>

lemma loop_returns_period:
  assumes "steady" and "expiry \<le> rt_now rt w + period" and "0 < fuel" and "period < int (fuel - 1) * second"
  shows "fst (loop fuel w) \<noteq> OutOfFuel"
  using loop_returns [OF assms(1), of w "fuel - 1"] assms(2-4) by simp

end

end
