(* ===== verification/Deployable_Laws.thy ===== *)
theory Deployable_Laws
  imports Deployables Cluster Loops
begin

text \<open>
  What holds of the workload operations of resources/: the contract of \<open>Fetch\<close>, the waiting
  loops (they end, and they end well only when the workload is ready), the container names and the
  errors a kubegres cluster hides. The two contracts are locales, interpreted for every kind of
  workload.
\<close>

section \<open>Fetching\<close>

text \<open>Fetching a workload changes nothing of it but its two counters, whatever the kind.\<close>

locale deployable =
  fixes fetch :: "workload \<Rightarrow> ('w, workload) io"
  assumes fetch_counts: "fetch r w = (Ok r', w') \<Longrightarrow> \<exists>a t. r' = with_replicas a t r"
begin

lemma fetch_identity:
  assumes "fetch r w = (Ok r', w')"
  shows "wk_kind r' = wk_kind r \<and> wk_category r' = wk_category r \<and> wk_serviceName r' = wk_serviceName r
    \<and> wk_name r' = wk_name r \<and> wk_namespace r' = wk_namespace r \<and> NeedsQuorum r' = NeedsQuorum r"
  using fetch_counts [OF assms] by (auto simp: with_replicas_def NeedsQuorum_def)

text \<open>A workload fetched twice has the counters of the second fetch only.\<close>

lemma fetch_twice:
  assumes "fetch r w = (Ok r1, w1)" and "fetch r1 w1 = (Ok r2, w2)"
  shows "\<exists>a t. r2 = with_replicas a t r"
proof -
  obtain a t a' t' where "r1 = with_replicas a t r" "r2 = with_replicas a' t' r1"
    using fetch_counts [OF assms(1)] fetch_counts [OF assms(2)] by blast
  then have "r2 = with_replicas a' t' r" by (simp add: with_replicas_def)
  then show ?thesis by blast
qed

end

lemma deref_Ok [io_ok]: "deref p k w = (Ok b, w') \<longleftrightarrow> (\<exists>a. p = Some a \<and> k a w = (Ok b, w'))"
  by (cases p) (auto simp: deref_def)

lemma keeps_deref [keeps_rule]: "(\<And>a. keeps P (k a)) \<Longrightarrow> keeps P (deref p k)"
  by (cases p) (simp_all add: deref_def)

lemma keeps_option [keeps_rule]:
  "keeps P m \<Longrightarrow> (\<And>a. keeps P (k a)) \<Longrightarrow> keeps P (case p of None \<Rightarrow> m | Some a \<Rightarrow> k a)"
  by (cases p) simp_all

interpretation deployment: deployable "Deployment_Fetch cs" for cs
  by unfold_locales (auto simp: Deployment_Fetch_def io_ok)

interpretation statefulset: deployable "StatefulSet_Fetch cs" for cs
  by unfold_locales (auto simp: StatefulSet_Fetch_def io_ok)

interpretation daemonset: deployable "DaemonSet_Fetch cs" for cs
  by unfold_locales (auto simp: DaemonSet_Fetch_def io_ok)

interpretation job: deployable "Job_Fetch cs" for cs
  by unfold_locales (auto simp: Job_Fetch_def io_ok)

interpretation cronjob: deployable "CronJob_Fetch cs" for cs
  by unfold_locales (auto simp: CronJob_Fetch_def io_ok split: if_splits)

interpretation kubegres: deployable "Kubegres_Fetch cs" for cs
  by unfold_locales (auto simp: Kubegres_Fetch_def with_kubegres_sets_def io_ok)

lemmas fetch_counts_kinds =
  deployment.fetch_counts statefulset.fetch_counts daemonset.fetch_counts job.fetch_counts
  cronjob.fetch_counts kubegres.fetch_counts

interpretation any_workload: deployable "Fetch cs" for cs
  by unfold_locales (auto simp: Fetch_def split: kind.splits dest: fetch_counts_kinds)

section \<open>Waiting\<close>

text \<open>
  A polling loop: the clock advances while it sleeps, and its body returns and does not turn the
  clock back, under the assumption \<open>steady\<close> about the client it uses.
\<close>

locale polling =
  fixes rt :: "'w runtime" and body :: "('w, bool) io" and steady :: bool
  assumes sleeps: "steady \<Longrightarrow> 0 \<le> d \<Longrightarrow> rt_now rt w + d \<le> rt_now rt (rt_sleep rt d w)"
    and body_forward: "steady \<Longrightarrow> forward rt body"
    and body_returns: "steady \<Longrightarrow> fst (body w) \<noteq> OutOfFuel"
begin

lemma poll_loop_returns:
  assumes "steady" and "start + timeout - rt_now rt w \<le> int n * (5 * second)"
  shows "fst (poll_loop (Suc n) rt start timeout body expired w) \<noteq> OutOfFuel"
  using assms(2)
proof (induction n arbitrary: w)
  case 0
  then show ?case by simp
next
  case (Suc n)
  obtain r w1 where b: "body w = (r, w1)" by fastforce
  have ret: "r \<noteq> OutOfFuel" using body_returns [OF assms(1), of w] b by simp
  have "rt_now rt w \<le> rt_now rt w1" using forward_le [OF body_forward [OF assms(1)], of w] b by simp
  moreover have "rt_now rt w1 + 5 * second \<le> rt_now rt (rt_sleep rt (5 * second) w1)"
    using sleeps [OF assms(1)] by (simp add: second_def)
  ultimately have "fst (poll_loop (Suc n) rt start timeout body expired (rt_sleep rt (5 * second) w1)) \<noteq> OutOfFuel"
    using Suc.prems by (intro Suc.IH) (simp add: algebra_simps)
  then show ?case
    using b ret by (cases r) (simp_all del: poll_loop.simps add: poll_loop.simps(2) [where n = "Suc n"])
qed

lemma poll_until_returns:
  assumes "steady" and "0 < rt_fuel rt" and "timeout \<le> int (rt_fuel rt - 1) * (5 * second)"
  shows "fst (poll_until rt timeout body expired w) \<noteq> OutOfFuel"
  using poll_loop_returns [OF assms(1), of "rt_now rt w" timeout w "rt_fuel rt - 1"] assms(2,3)
  by (simp add: poll_until_def)

lemma poll_loop_ready:
  "poll_loop n rt start timeout body expired w = (Ok (), w') \<Longrightarrow> \<exists>u. body u = (Ok True, w') \<and> rt_now rt u - start < timeout"
  by (induction n arbitrary: w) (auto simp: io_ok split: if_splits)

lemma poll_until_ready:
  "poll_until rt timeout body expired w = (Ok (), w') \<Longrightarrow>
     \<exists>u. body u = (Ok True, w') \<and> rt_now rt u - rt_now rt w < timeout"
  by (auto simp: poll_until_def io_ok dest: poll_loop_ready)

end

text \<open>
  A client whose clock advances while it sleeps and whose lookups return, without turning the clock
  back.
\<close>

definition steady_client :: "'w clientset \<Rightarrow> bool" where
  "steady_client cs \<longleftrightarrow>
     (\<forall>d w. 0 \<le> d \<longrightarrow> rt_now (cs_rt cs) w + d \<le> rt_now (cs_rt cs) (rt_sleep (cs_rt cs) d w)) \<and>
     (\<forall>ns n. steady_lookup (cs_rt cs) (wl_Get (cs_Deployments cs) ns n) \<and>
        steady_lookup (cs_rt cs) (wl_Get (cs_StatefulSets cs) ns n) \<and>
        steady_lookup (cs_rt cs) (wl_Get (cs_DaemonSets cs) ns n) \<and>
        steady_lookup (cs_rt cs) (wl_Get (cs_Jobs cs) ns n) \<and>
        steady_lookup (cs_rt cs) (wl_Get (cs_CronJobs cs) ns n)) \<and>
     (\<forall>ns l. steady_lookup (cs_rt cs) (wl_List (cs_StatefulSets cs) ns l))"

lemma steady_deref: "(\<And>a. steady_lookup rt (k a)) \<Longrightarrow> steady_lookup rt (deref p k)"
  by (cases p) (simp_all add: deref_def)

lemma steady_viewer: "steady_lookup rt (viewer_ready f st)"
  by (simp add: viewer_ready_def split: prod.splits option.splits)

lemma steady_bodies:
  assumes "steady_client cs"
  shows "steady_lookup (cs_rt cs) (deployment_ready cs r)" "steady_lookup (cs_rt cs) (statefulset_ready cs r)"
    "steady_lookup (cs_rt cs) (daemonset_ready cs r)" "steady_lookup (cs_rt cs) (job_ready cs r)"
    "steady_lookup (cs_rt cs) (cronjob_ready cs r)"
  using assms unfolding steady_client_def deployment_ready_def statefulset_ready_def daemonset_ready_def
    job_ready_def cronjob_ready_def
  by (simp_all add: steady_try_do steady_handle steady_viewer steady_deref)

lemma polling_intro:
  assumes "steady_client cs \<Longrightarrow> steady_lookup (cs_rt cs) body"
  shows "polling (cs_rt cs) body (steady_client cs)"
  using assms by unfold_locales (auto simp: steady_client_def steady_lookup_def)

interpretation deployment_wait: polling "cs_rt cs" "deployment_ready cs r" "steady_client cs" for cs r
  by (rule polling_intro) (rule steady_bodies)

interpretation statefulset_wait: polling "cs_rt cs" "statefulset_ready cs r" "steady_client cs" for cs r
  by (rule polling_intro) (rule steady_bodies)

interpretation daemonset_wait: polling "cs_rt cs" "daemonset_ready cs r" "steady_client cs" for cs r
  by (rule polling_intro) (rule steady_bodies)

interpretation job_wait: polling "cs_rt cs" "job_ready cs r" "steady_client cs" for cs r
  by (rule polling_intro) (rule steady_bodies)

interpretation cronjob_wait: polling "cs_rt cs" "cronjob_ready cs r" "steady_client cs" for cs r
  by (rule polling_intro) (rule steady_bodies)

lemma for_each_returns:
  assumes "\<And>x w. x \<in> set xs \<Longrightarrow> fst (f x w) \<noteq> OutOfFuel"
  shows "fst (for_each f xs w) \<noteq> OutOfFuel"
  using assms
proof (induction xs arbitrary: w)
  case (Cons x xs)
  obtain r w1 where f: "f x w = (r, w1)" by fastforce
  have "r \<noteq> OutOfFuel" using Cons.prems [of x w] f by auto
  with f Cons show ?case by (cases r) simp_all
qed simp

lemmas poll_until_returns_kinds =
  deployment_wait.poll_until_returns statefulset_wait.poll_until_returns daemonset_wait.poll_until_returns
  job_wait.poll_until_returns cronjob_wait.poll_until_returns

lemma Kubegres_Wait_returns:
  assumes "steady_client cs" and "0 < rt_fuel (cs_rt cs)"
    and "timeout \<le> int (rt_fuel (cs_rt cs) - 1) * (5 * second)"
  shows "fst (Kubegres_Wait cs k timeout w) \<noteq> OutOfFuel"
proof -
  obtain r w1 where l: "getKubegresStatefulSets cs k w = (r, w1)" by fastforce
  have "steady_lookup (cs_rt cs) (getKubegresStatefulSets cs k)"
    using assms(1) by (simp add: getKubegresStatefulSets_def steady_client_def steady_try_do)
  then have "r \<noteq> OutOfFuel" using l by (metis fst_conv steady_lookup_def)
  moreover have "fst (for_each (\<lambda>sts. try_do (StatefulSet_Wait cs sts timeout)
     (\<lambda>err. Wrapf err ''failed to wait on stateful set %s in kubegres %s'' [Str (wk_name sts), Str (wk_name k)]) ret) sets w1) \<noteq> OutOfFuel" for sets
  proof (rule for_each_returns)
    fix s u
    obtain r u' where s: "StatefulSet_Wait cs s timeout u = (r, u')" by fastforce
    have "r \<noteq> OutOfFuel"
      using statefulset_wait.poll_until_returns [OF assms] s by (metis StatefulSet_Wait_def fst_conv)
    with s show "fst (try_do (StatefulSet_Wait cs s timeout)
     (\<lambda>err. Wrapf err ''failed to wait on stateful set %s in kubegres %s'' [Str (wk_name s), Str (wk_name k)]) ret u) \<noteq> OutOfFuel"
      by (cases r) simp_all
  qed
  ultimately show ?thesis
    using l by (cases r) (simp_all add: Kubegres_Wait_def with_kubegres_sets_def)
qed

text \<open>
  Waiting for a workload of any kind returns: with a clock that advances while the code sleeps,
  a loop bound of one more than the timeout divided by the five seconds between two polls is enough,
  so the unbounded loop of the code ends after that many polls at most.
\<close>

lemma Wait_bound:
  assumes "steady_client cs" and "0 < rt_fuel (cs_rt cs)"
    and "timeout \<le> int (rt_fuel (cs_rt cs) - 1) * (5 * second)"
  shows "fst (Wait cs r timeout w) \<noteq> OutOfFuel"
  using poll_until_returns_kinds [OF assms] Kubegres_Wait_returns [OF assms]
  by (simp add: Wait_def Deployment_Wait_def StatefulSet_Wait_def DaemonSet_Wait_def Job_Wait_def
      CronJob_Wait_def split: kind.split)

text \<open>
  What has been seen of a workload when waiting for it ended well: the last lookup, in the final
  state of the world, found it ready; for a kubegres cluster, each of its stateful sets was found
  ready in turn.
\<close>

definition seen_ready :: "'w clientset \<Rightarrow> workload \<Rightarrow> 'w \<Rightarrow> bool" where
  "seen_ready cs r w' = (case wk_kind r of
     Deployment_kind \<Rightarrow> \<exists>u d. wl_Get (cs_Deployments cs) (wk_namespace r) (wk_name r) u = (Ok d, w') \<and>
       rollout_done (Deployment_Viewer_Status d 0)
   | StatefulSet_kind \<Rightarrow> \<exists>u s. wl_Get (cs_StatefulSets cs) (wk_namespace r) (wk_name r) u = (Ok s, w') \<and>
       rollout_done (StatefulSet_Viewer_Status s)
   | DaemonSet_kind \<Rightarrow> \<exists>u d. wl_Get (cs_DaemonSets cs) (wk_namespace r) (wk_name r) u = (Ok d, w') \<and>
       rollout_done (DaemonSet_Viewer_Status d)
   | Job_kind \<Rightarrow> \<exists>u j. wl_Get (cs_Jobs cs) (wk_namespace r) (wk_name r) u = (Ok j, w') \<and>
       job_Conditions j \<noteq> [] \<and> last (job_Conditions j) = JobComplete
   | CronJob_kind \<Rightarrow> \<exists>u c. wl_Get (cs_CronJobs cs) (wk_namespace r) (wk_name r) u = (Ok c, w') \<and>
       cj_Suspend c = Some False
   | Kubegres_kind \<Rightarrow> \<exists>u sets u'. getKubegresStatefulSets cs r u = (Ok sets, u') \<and>
       (\<forall>s \<in> set sets. \<exists>v d v'. wl_Get (cs_StatefulSets cs) (wk_namespace s) (wk_name s) v = (Ok d, v') \<and>
          rollout_done (StatefulSet_Viewer_Status d)))"

lemma viewer_ready_Ok [io_ok]:
  "viewer_ready f st w = (Ok b, w') \<longleftrightarrow> w' = w \<and> snd (snd st) = None \<and> b = fst (snd st)"
  by (auto simp: viewer_ready_def split: prod.splits option.splits)

lemma rollout_done_alt: "rollout_done st \<longleftrightarrow> fst (snd st) \<and> snd (snd st) = None"
  by (auto simp: rollout_done_def split: prod.splits)

text \<open>
  Waiting for a deployment, a stateful set, a daemon set, a job or a cron job ends without an
  error only in a state in which its rollout was seen to be done (the viewer's verdict, a complete
  job, a cron job that is not suspended).
\<close>

lemma Wait_ready:
  assumes "Wait cs r timeout w = (Ok (), w')"
  shows "seen_ready cs r w'"
proof (cases "wk_kind r")
  case Deployment_kind
  with assms deployment_wait.poll_until_ready obtain u where "deployment_ready cs r u = (Ok True, w')"
    unfolding Wait_def Deployment_Wait_def by fastforce
  with Deployment_kind show ?thesis
    by (auto simp: seen_ready_def deployment_ready_def io_ok rollout_done_alt)
next
  case StatefulSet_kind
  with assms statefulset_wait.poll_until_ready obtain u where "statefulset_ready cs r u = (Ok True, w')"
    unfolding Wait_def StatefulSet_Wait_def by fastforce
  with StatefulSet_kind show ?thesis
    by (auto simp: seen_ready_def statefulset_ready_def io_ok rollout_done_alt)
next
  case DaemonSet_kind
  with assms daemonset_wait.poll_until_ready obtain u where "daemonset_ready cs r u = (Ok True, w')"
    unfolding Wait_def DaemonSet_Wait_def by fastforce
  with DaemonSet_kind show ?thesis
    by (auto simp: seen_ready_def daemonset_ready_def io_ok rollout_done_alt)
next
  case Job_kind
  with assms job_wait.poll_until_ready obtain u where "job_ready cs r u = (Ok True, w')"
    unfolding Wait_def Job_Wait_def by fastforce
  with Job_kind show ?thesis by (auto simp: seen_ready_def job_ready_def io_ok)
next
  case CronJob_kind
  with assms cronjob_wait.poll_until_ready obtain u where "cronjob_ready cs r u = (Ok True, w')"
    unfolding Wait_def CronJob_Wait_def by fastforce
  with CronJob_kind show ?thesis by (fastforce simp: seen_ready_def cronjob_ready_def io_ok)
next
  case Kubegres_kind
  with assms obtain sets u where sets: "getKubegresStatefulSets cs r w = (Ok sets, u)"
    and each: "for_each (\<lambda>sts. try_do (StatefulSet_Wait cs sts timeout)
       (\<lambda>err. Wrapf err ''failed to wait on stateful set %s in kubegres %s'' [Str (wk_name sts), Str (wk_name r)]) ret) sets u = (Ok (), w')"
    by (auto simp: Wait_def Kubegres_Wait_def with_kubegres_sets_def io_ok)
  have "\<exists>v d v'. wl_Get (cs_StatefulSets cs) (wk_namespace s) (wk_name s) v = (Ok d, v') \<and>
      rollout_done (StatefulSet_Viewer_Status d)" if "s \<in> set sets" for s
  proof -
    from for_each_Ok_body [OF each that] obtain v v' where "StatefulSet_Wait cs s timeout v = (Ok (), v')"
      by (auto simp: io_ok)
    with statefulset_wait.poll_until_ready obtain u where "statefulset_ready cs s u = (Ok True, v')"
      unfolding StatefulSet_Wait_def by fastforce
    then show ?thesis by (auto simp: statefulset_ready_def io_ok rollout_done_alt)
  qed
  note ready = this
  show ?thesis
    unfolding seen_ready_def Kubegres_kind kind.case
    by (rule exI [of _ w], rule exI [of _ sets], rule exI [of _ u], rule conjI, rule sets, rule ballI, erule ready)
qed

section \<open>Kubegres\<close>

text \<open>
  Restarting a kubegres cluster reports only the outcome of its last stateful set: when that one
  restarts, the failures of the others are dropped and the call succeeds.
\<close>

lemma Kubegres_Restart_last:
  assumes "getKubegresStatefulSets cs k w = (Ok (xs @ [s]), w1)"
    and "fold_io (restart_set cs force) xs (False, None) w1 = (Ok st, w2)"
    and "StatefulSet_Restart cs s force w2 = (r, w3)"
  shows "(r = Ok () \<longrightarrow> Kubegres_Restart cs k force w = (Ok (), w3)) \<and>
    (\<forall>e. r = Err e \<longrightarrow> Kubegres_Restart cs k force w =
      (Err (Wrapf e ''failed to restart every stateful set in kubegres %s'' [Str (wk_name k)]), w3))"
  using assms
  by (simp_all add: Kubegres_Restart_def with_kubegres_sets_def fold_io_append restart_set_def [of cs force s]
      return_error_def wrapf_opt_def)

lemma gather_sets_no_error: "fst (gather_sets f sets w) \<noteq> Err e"
proof -
  have "fst (fold_io (\<lambda>sts st. handle (f sts) (\<lambda>m. ret (fst st, merge_maps (snd st) m)) (\<lambda>err. ret (True, snd st)))
      sets st w) \<noteq> Err e" for st w
  proof (induction sets arbitrary: st w)
    case (Cons s sets)
    obtain r w1 where "f s w = (r, w1)" by fastforce
    with Cons.IH show ?case by (cases r) simp_all
  qed simp
  then show ?thesis by (simp add: gather_sets_def)
qed

text \<open>
  The status of a kubegres cluster whose stateful sets can be listed never reports an error,
  whatever fails for each of them.
\<close>

lemma Kubegres_Status_no_error:
  assumes "getKubegresStatefulSets cs k w = (Ok sets, w1)"
  shows "fst (Kubegres_Status cs k w) \<noteq> Err e \<and> fst (Kubegres_Logs cs k opts w) \<noteq> Err e"
proof -
  have g: "fst (andthen (gather_sets f sets) (gathered msg n) w1) \<noteq> Err e"
    for f :: "workload \<Rightarrow> ('a, (string \<times> 'v) list) io" and msg n
  proof -
    obtain r w2 where r: "gather_sets f sets w1 = (r, w2)" by fastforce
    then have "r \<noteq> Err e" using gather_sets_no_error by (metis fst_conv)
    with r show ?thesis by (cases r) (simp_all add: gathered_def wrapf_opt_def)
  qed
  show ?thesis
    using assms by (simp add: Kubegres_Status_def Kubegres_Logs_def with_kubegres_sets_def g)
qed

section \<open>Container names and states\<close>

text \<open>
  The containers whose logs are shown are the init containers exactly when they are asked for
  or one of them is crash-looping or has ended with a nonzero code. An init container that is still
  running does not count as unfinished: the regular containers of such a pod are returned.
\<close>

lemma getContainerNames_cases:
  "getContainerNames initOnly pod =
     (if initOnly \<or> (\<exists>s\<in>set (pod_InitContainerStatuses pod).
           (\<exists>w. cst_Waiting (cs_State s) = Some w \<and> wt_Reason w = crashLoopBackOff) \<or>
           (\<exists>t. cst_Terminated (cs_State s) = Some t \<and> tr_ExitCode t \<noteq> 0))
      then map cs_Name (pod_InitContainerStatuses pod) else map cs_Name (pod_ContainerStatuses pod))"
proof -
  have "init_unfinished s \<longleftrightarrow> (\<exists>w. cst_Waiting (cs_State s) = Some w \<and> wt_Reason w = crashLoopBackOff) \<or>
      (\<exists>t. cst_Terminated (cs_State s) = Some t \<and> tr_ExitCode t \<noteq> 0)" for s
    by (auto simp: init_unfinished_def split: option.splits)
  then show ?thesis by (simp add: getContainerNames_def Let_def list_ex_iff) blast
qed

text \<open>
  Each container of the pods of a workload has one entry in the status map at most, and the keys
  put the init containers before the regular ones of every pod.
\<close>

lemma status_keys_ordered:
  "distinct (map fst (foldl (\<lambda>m pod. pod_status r pod m) [] pods)) \<and>
   (\<forall>p c p' c'. (status_key ''0'' (wk_serviceName r) p c, status_key ''1'' (wk_serviceName r) p' c')
      \<in> lexord {(a, b). of_char a < (of_char b :: nat)})"
proof -
  have upd: "distinct (map fst m) \<Longrightarrow> distinct (map fst (foldl (\<lambda>m s. AList.update (k s) (v s) m) m xs))"
    for m :: "(string \<times> StatusInfo) list" and xs :: "ContainerStatus list" and k v
    by (induction xs arbitrary: m) (auto intro: distinct_update)
  have one: "distinct (map fst m) \<Longrightarrow> distinct (map fst (pod_status r pod m))" for pod m
    by (simp add: pod_status_def upd)
  have "distinct (map fst m) \<Longrightarrow> distinct (map fst (foldl (\<lambda>m pod. pod_status r pod m) m pods))" for m
    by (induction pods arbitrary: m) (simp_all add: one)
  then show ?thesis by (simp add: status_key_def)
qed

section \<open>Examples\<close>

lemma mem_clientset_steady: "steady_client mem_clientset"
  by (simp add: steady_client_def mem_clientset_def mem_runtime_def no_workloads_def steady_lookup_def
      forward_def)

text \<open>A client that finds one kind of object, whatever the name.\<close>

definition finds :: "'o \<Rightarrow> ('o, 'w) workload_client" where
  "finds ob = no_workloads\<lparr>wl_Get := (\<lambda>ns n. ret ob), wl_List := (\<lambda>ns l. ret [ob])\<rparr>"

lemma sample_deployment_wait:
  "Wait (mem_clientset\<lparr>cs_Deployments := finds sample_deployment\<rparr>)
     (new_workload Deployment_kind c s n ns) second w = (Ok (), w)"
  by (simp add: Wait_def new_workload_def Deployment_Wait_def poll_until_def mem_clientset_def mem_runtime_def
      deployment_ready_def finds_def viewer_ready_def Deployment_Viewer_Status_def deployment_progress_def
      sample_deployment_def timed_out_def GetDeploymentCondition_def second_def Let_def numeral_eq_Suc)

theorem Kubegres_Status_no_error_witness:
  "\<exists>m. Kubegres_Status (mem_clientset\<lparr>cs_StatefulSets := no_workloads\<lparr>wl_List := (\<lambda>ns l. ret [sample_statefulset])\<rparr>\<rparr>)
     (new_workload Kubegres_kind ''db'' ''pg'' ''pg'' ''default'') empty_memory = (Ok m, empty_memory)"
proof -
  let ?cs = "mem_clientset\<lparr>cs_StatefulSets := no_workloads\<lparr>wl_List := (\<lambda>ns l. ret [sample_statefulset])\<rparr>\<rparr>"
  let ?k = "new_workload Kubegres_kind ''db'' ''pg'' ''pg'' ''default''"
  have "getKubegresStatefulSets ?cs ?k empty_memory =
     (Ok [new_workload StatefulSet_kind ''db'' ''pg'' (sts_Name sample_statefulset) (sts_Namespace sample_statefulset)], empty_memory)"
    by (simp add: getKubegresStatefulSets_def new_workload_def)
  from Kubegres_Status_no_error [OF this] have "fst (Kubegres_Status ?cs ?k empty_memory) \<noteq> Err e" for e by blast
  then show ?thesis
    by (simp add: Kubegres_Status_def with_kubegres_sets_def getKubegresStatefulSets_def new_workload_def
        gather_sets_def StatefulSet_Status_def status_workload_def no_workloads_def gathered_def wrapf_opt_def)
qed

definition failing_first :: "(StatefulSet, memory) workload_client" where
  "failing_first = no_workloads\<lparr>wl_List := (\<lambda>ns l. ret [sample_statefulset\<lparr>sts_Name := ''a''\<rparr>, sample_statefulset]),
     wl_Get := (\<lambda>ns n. if n = ''a'' then fail (ApiError ReasonNotFound) else ret sample_statefulset),
     wl_Patch := (\<lambda>ns n p. ret ())\<rparr>"

theorem Kubegres_Restart_last_witness:
  "Kubegres_Restart (mem_clientset\<lparr>cs_StatefulSets := failing_first\<rparr>)
     (new_workload Kubegres_kind ''db'' ''pg'' ''pg'' ''default'') False empty_memory = (Ok (), empty_memory)"
proof -
  let ?cs = "mem_clientset\<lparr>cs_StatefulSets := failing_first\<rparr>"
  let ?k = "new_workload Kubegres_kind ''db'' ''pg'' ''pg'' ''default''"
  let ?s = "\<lambda>n. new_workload StatefulSet_kind ''db'' ''pg'' n ''default''"
  have l: "getKubegresStatefulSets ?cs ?k empty_memory = (Ok ([?s ''a''] @ [?s ''db'']), empty_memory)"
    by (simp add: getKubegresStatefulSets_def new_workload_def failing_first_def sample_statefulset_def)
  have "StatefulSet_Restart ?cs (?s ''a'') False empty_memory =
      (Err (Wrapf (ApiError ReasonNotFound) (''couldn't fetch '' @ ''statefulset'' @ '' '' @ ''a'') []), empty_memory)"
    by (simp add: StatefulSet_Restart_def restart_workload_def failing_first_def new_workload_def)
  then have f: "\<exists>st. fold_io (restart_set ?cs False) [?s ''a''] (False, None) empty_memory = (Ok st, empty_memory)"
    by (auto simp: restart_set_def intro: exI [of _ True])
  have r: "StatefulSet_Restart ?cs (?s ''db'') False empty_memory = (Ok (), empty_memory)"
    by (simp add: StatefulSet_Restart_def restart_workload_def failing_first_def new_workload_def mem_clientset_def)
  show ?thesis using Kubegres_Restart_last [OF l _ r] f by auto
qed

theorem getContainerNames_cases_witness:
  "getContainerNames False \<lparr>pod_ObjectMeta = no_meta, pod_Spec = \<lparr>psp_ActiveDeadlineSeconds = None,
       psp_TerminationGracePeriodSeconds = None, psp_RestartPolicy = [], psp_NodeName = [], psp_Containers = [],
       psp_Volumes = []\<rparr>, pod_Phase = ''Pending'', pod_HostIP = [],
     pod_InitContainerStatuses = [\<lparr>cs_Name = ''init'', cs_State = \<lparr>cst_Waiting = None, cst_Running = Some (),
       cst_Terminated = None\<rparr>, cs_RestartCount = 0\<rparr>],
     pod_ContainerStatuses = [\<lparr>cs_Name = ''main'', cs_State = \<lparr>cst_Waiting = Some \<lparr>wt_Reason = ''PodInitializing''\<rparr>,
       cst_Running = None, cst_Terminated = None\<rparr>, cs_RestartCount = 0\<rparr>]\<rparr> = [''main'']"
  by (simp add: getContainerNames_cases)

theorem status_keys_ordered_witness:
  "(status_key ''0'' ''s'' ''zz'' ''z'', status_key ''1'' ''s'' ''a'' ''a'') \<in> lexord {(a, b). of_char a < (of_char b :: nat)}"
  using status_keys_ordered [of "new_workload Job_kind ''c'' ''s'' ''n'' ''ns''"] by (simp add: new_workload_def)

end
