(* ===== verification/Rollout.thy ===== *)
theory Rollout
  imports Installs Deployable_Laws
begin

text \<open>
  managers/rollout.go: waiting for the resources an application lists, in their order.
\<close>

section \<open>Operations\<close>

definition rollout_kind :: "string \<Rightarrow> kind option" where
  "rollout_kind type =
     (if type = ''deployment'' then Some Deployment_kind
      else if type = ''statefulset'' then Some StatefulSet_kind
      else if type = ''job'' then Some Job_kind
      else if type = ''daemonset'' then Some DaemonSet_kind
      else if type = ''kubegres'' then Some Kubegres_kind
      else if type = ''cronjob'' then Some CronJob_kind
      else None)"

definition ServiceType :: string where "ServiceType = ''service''"

fun wait_resources ::
    "'w clientset \<Rightarrow> InstallReference \<Rightarrow> string \<Rightarrow> string \<Rightarrow> int \<Rightarrow> Resource list \<Rightarrow> ('w, unit) io" where
  "wait_resources cs installRef sfx namespace timeout [] = ret ()"
| "wait_resources cs installRef sfx namespace timeout (r # rs) =
     (case rollout_kind (rs_Type r) of
        Some k \<Rightarrow>
          try_do (Wait cs (new_workload k (rs_Category r) (ir_Name installRef) (rs_Name r @ sfx) namespace) timeout)
            (\<lambda>err. Wrapf err ''error waiting on resource category %q'' [Str (rs_Category r)])
            (\<lambda>_. wait_resources cs installRef sfx namespace timeout rs)
      | None \<Rightarrow>
          if rs_Type r = ServiceType then ret ()
          else fail (Errorf ''unrecognized resource rollout type: %q'' [Str (rs_Type r)]))"

definition resource_suffix :: "InstallSpec \<Rightarrow> string" where
  "resource_suffix spec = (if is_Suffix spec \<noteq> [] then ''-'' @ is_Suffix spec else is_Suffix spec)"

definition Rollout_Wait :: "'w KBClient \<Rightarrow> InstallReference \<Rightarrow> int \<Rightarrow> ('w, unit) io" where
  "Rollout_Wait kb installRef timeout =
     try_do (rm_Get (kb_Installs kb) (ir_Name installRef) (ir_Namespace installRef) zero_install)
       (\<lambda>err. Wrapf err ''couldn't get install %q'' [Str (ir_Name installRef)])
       (\<lambda>install.
         let appName = application_name (in_Spec install) in
         try_do (rm_Get (kb_Applications kb) appName (ir_Namespace installRef) zero_application)
           (\<lambda>err. Wrapf err ''couldn't get Application %q'' [Str appName])
           (\<lambda>app.
             try_do (GetMergedMap (NewParameterManager kb (ir_Name installRef)
                       (as_ParameterDefinitions (app_Spec app)) (is_Parameters (in_Spec install))))
               (\<lambda>err. Wrapf err ''couldn't get merged map'' [])
               (\<lambda>m.
                 let resourceNamespace = (case m ''namespace'' of None \<Rightarrow> [] | Some v \<Rightarrow> v) in
                 wait_resources (kb_Interface kb) installRef (resource_suffix (in_Spec install)) resourceNamespace timeout
                   (as_Resources (app_Spec app)))))"

section \<open>Properties\<close>

text \<open>
  C13. The resources after the first \<open>service\<close> in an application's list are never waited for:
  meeting a service ends the whole wait successfully, as if the list stopped there.
\<close>

theorem wait_resources_until_service:
  "wait_resources cs ref sfx ns timeout rs =
     wait_resources cs ref sfx ns timeout (takeWhile (\<lambda>r. rs_Type r \<noteq> ServiceType) rs)"
  by (induction rs) (auto simp: rollout_kind_def ServiceType_def split: option.splits)

text \<open>
  When the wait succeeds, every resource listed before the first service has a known type and
  was seen ready (rolled out, complete, not suspended) at some moment of the wait.
\<close>

lemma wait_resources_seen:
  assumes "wait_resources cs ref sfx ns timeout rs w = (Ok (), w')"
    and "r \<in> set (takeWhile (\<lambda>r. rs_Type r \<noteq> ServiceType) rs)"
  shows "\<exists>k u. rollout_kind (rs_Type r) = Some k \<and>
    seen_ready cs (new_workload k (rs_Category r) (ir_Name ref) (rs_Name r @ sfx) ns) u"
  using assms
proof (induction rs arbitrary: w)
  case (Cons s rs)
  show ?case
  proof (cases "r = s")
    case True
    with Cons.prems obtain k u where k: "rollout_kind (rs_Type r) = Some k"
      and u: "Wait cs (new_workload k (rs_Category r) (ir_Name ref) (rs_Name r @ sfx) ns) timeout w = (Ok (), u)"
      by (auto simp: io_ok split: option.splits if_splits)
    show ?thesis by (intro exI [of _ k] exI [of _ u]) (simp add: k Wait_ready [OF u])
  next
    case False
    with Cons show ?thesis by (auto simp: io_ok split: option.splits if_splits)
  qed
qed simp

text \<open>
  C29. Waiting for all resources of an application returns: the bound on one wait loop that the
  timeout gives is enough for each of them.
\<close>

theorem wait_resources_returns:
  assumes "steady_client cs" and "0 < rt_fuel (cs_rt cs)"
    and "timeout \<le> int (rt_fuel (cs_rt cs) - 1) * (5 * second)"
  shows "fst (wait_resources cs ref sfx ns timeout rs w) \<noteq> OutOfFuel"
proof (induction rs arbitrary: w)
  case (Cons r rs)
  show ?case
  proof (cases "rollout_kind (rs_Type r)")
    case (Some k)
    obtain a u where a: "Wait cs (new_workload k (rs_Category r) (ir_Name ref) (rs_Name r @ sfx) ns) timeout w = (a, u)"
      by fastforce
    have "a \<noteq> OutOfFuel" using Wait_bound [OF assms] a by (metis fst_conv)
    with a Some Cons.IH show ?thesis by (cases a) simp_all
  qed simp
qed simp

subsection \<open>Examples\<close>

definition sample_resources :: "Resource list" where
  "sample_resources = [\<lparr>rs_Name = ''web'', rs_Category = ''app'', rs_Type = ''deployment''\<rparr>,
     \<lparr>rs_Name = ''web'', rs_Category = ''app'', rs_Type = ''service''\<rparr>,
     \<lparr>rs_Name = ''db'', rs_Category = ''storage'', rs_Type = ''statefulset''\<rparr>]"

theorem wait_resources_returns_witness:
  "fst (wait_resources mem_clientset sample_ref [] ''default'' (45 * second) sample_resources empty_memory) \<noteq> OutOfFuel"
  by (rule wait_resources_returns [OF mem_clientset_steady])
     (simp_all add: mem_clientset_def mem_runtime_def second_def)

end
