(* ===== verification/Deploy.thy ===== *)
theory Deploy
  imports Rollout
begin

text \<open>
  managers/deploy.go, managers/smoketest.go and managers/deploysmoketest.go: running an action
  (apply, delete, diff, smoketest) of an install as a Kubernetes job. The job's image gets the
  parameters through a config map; the manager follows its logs, polls its outcome and waits for
  the resources of the application. The commands call it with a context that has no deadline.
\<close>

section \<open>The deployment of an install\<close>

record DeployInfo =
  di_Name :: string
  di_Namespace :: string
  di_Action :: string
  di_Timeout :: int
  di_configMap :: string
  di_image :: string
  di_dockerRegistry :: string
  di_parameters :: "ParameterSpec list"
  di_definitions :: "ParameterDefinitionSpec list"
  di_requires :: "RequiresList list"
  di_installSpec :: InstallSpec
  di_flavorSpec :: FlavorSpec

record DeployOpts =
  do_Action :: string
  do_Timeout :: int

definition validateRequiredParameters ::
    "'w KBClient \<Rightarrow> string \<Rightarrow> ParameterDefinitionSpec list \<Rightarrow> ParameterSpec list \<Rightarrow> gerror option" where
  "validateRequiredParameters kb installName definitions parameters =
     Parameter_Validate (NewParameterManager kb installName definitions parameters)"

text \<open>The image and the registry to pull it from.\<close>

definition resolve_image :: "'w KBClient \<Rightarrow> InstallSpec \<Rightarrow> ApplicationSpec \<Rightarrow> ('w, string \<times> string) io" where
  "resolve_image kb spec app =
     (if is_DockerRegistry spec \<noteq> [] then
        try_do (lift_result (kb_UrlPath kb (''https://'' @ as_DeployImage app)))
          (\<lambda>err. Wrapf err (''couldn't parse docker image URL for deployImage '' @ apo @ ''%s'' @ apo)
             [Str (as_DeployImage app)])
          (\<lambda>path. ret (path_Join [is_DockerRegistry spec, path], is_DockerRegistry spec))
      else ret (as_DeployImage app, as_DockerRegistry app))"

text \<open>The install spec as the deploy image sees it, with the registry and the image in effect.\<close>

definition exposed_spec :: "InstallSpec \<Rightarrow> string \<Rightarrow> string \<Rightarrow> InstallSpec" where
  "exposed_spec spec img registry =
     spec\<lparr>is_DockerRegistry := registry,
       is_DeployImage := (if is_DeployImage spec = [] then img else is_DeployImage spec)\<rparr>"

definition deploy_info ::
    "InstallReference \<Rightarrow> DeployOpts \<Rightarrow> InstallSpec \<Rightarrow> ApplicationSpec \<Rightarrow> FlavorSpec \<Rightarrow> string \<Rightarrow> string \<Rightarrow> DeployInfo" where
  "deploy_info installRef opts spec app flavor img registry =
     \<lparr>di_Name = ir_Name installRef, di_Namespace = ir_Namespace installRef,
      di_Action = do_Action opts, di_Timeout = do_Timeout opts,
      di_configMap = getResourceName (ir_Name installRef) [] @ ''-config'',
      di_image = img, di_dockerRegistry = registry,
      di_parameters = is_Parameters spec, di_definitions = as_ParameterDefinitions app,
      di_requires = as_Requires app, di_installSpec = exposed_spec spec img registry,
      di_flavorSpec = flavor\<rparr>"

text \<open>The first part of \<open>Deploy\<close>: looking everything up and validating it.\<close>

definition gather_info ::
    "'w KBClient \<Rightarrow> InstallReference \<Rightarrow> DeployOpts \<Rightarrow> ('w, DeployInfo) io" where
  "gather_info kb installRef opts =
     try_do (rm_Get (kb_Installs kb) (ir_Name installRef) (ir_Namespace installRef) zero_install)
       (\<lambda>err. Wrapf err ''couldn't get install %q'' [Str (ir_Name installRef)])
       (\<lambda>install. let spec = in_Spec install in
         try_do (rm_Get (kb_Flavors kb) (is_Flavor spec) ''default'' zero_flavor)
           (\<lambda>err. Wrapf err ''couldn't get flavor %q'' [Str (is_Flavor spec)])
           (\<lambda>flavor. let appName = application_name spec in
             try_do (rm_Get (kb_Applications kb) appName (ir_Namespace installRef) zero_application)
               (\<lambda>err. Wrapf err ''couldn't get Application %q'' [Str appName])
               (\<lambda>app.
                 case validateRequiredParameters kb (ir_Name installRef)
                        (as_ParameterDefinitions (app_Spec app)) (is_Parameters spec) of
                   Some err \<Rightarrow> fail (Wrapf err ''couldn't validate parameters for %q'' [Str (ir_Name installRef)])
                 | None \<Rightarrow>
                     andthen (resolve_image kb spec (app_Spec app))
                       (\<lambda>(img, registry).
                         ret (deploy_info installRef opts spec (app_Spec app) (fl_Spec flavor) img registry)))))"

section \<open>The job\<close>

definition zero_job :: Job where
  "zero_job = \<lparr>job_ObjectMeta = no_meta, job_CreationTimestamp = 0,
     job_Spec = \<lparr>js_BackoffLimit = None, js_ActiveDeadlineSeconds = None, js_Completions = None,
       js_Parallelism = None, js_MatchLabels = [],
       js_Template = \<lparr>psp_ActiveDeadlineSeconds = None, psp_TerminationGracePeriodSeconds = None,
         psp_RestartPolicy = [], psp_NodeName = [], psp_Containers = [], psp_Volumes = []\<rparr>\<rparr>,
     job_Conditions = []\<rparr>"

definition DeleteJob :: "'w KBClient \<Rightarrow> InstallReference \<Rightarrow> string \<Rightarrow> ('w, unit) io" where
  "DeleteJob kb installRef action =
     (let jobName = (if action = ActionSmoketest then ir_Name installRef @ ''-smoketest'' else ir_Name installRef) in
      try_do (rm_Delete (kb_rt kb) (kb_Jobs kb) jobName (ir_Namespace installRef) zero_job)
        (\<lambda>err. Wrapf err ''couldn't delete job'' []) ret)"

definition Deploy_Delete :: "'w KBClient \<Rightarrow> InstallReference \<Rightarrow> ('w, unit) io" where
  "Deploy_Delete kb installRef =
     andthen (DeleteJob kb installRef ActionApply) (\<lambda>_.
       andthen (DeleteJob kb installRef ActionSmoketest) (\<lambda>_.
         try_do (rm_Delete (kb_rt kb) (kb_Installs kb) (ir_Name installRef) (ir_Namespace installRef) zero_install)
           (\<lambda>err. Wrapf err ''couldn't delete install'' []) ret))"

definition ParametersFile :: string where "ParametersFile = ''parameters.json''"
definition InstallFile :: string where "InstallFile = ''install.json''"
definition RequiresFile :: string where "RequiresFile = ''requires.json''"
definition FlavorFile :: string where "FlavorFile = ''flavor.json''"

definition zero_configmap :: ConfigMap where
  "zero_configmap = \<lparr>cm_ObjectMeta = no_meta, cm_Data = None\<rparr>"

definition fill_configmap :: "DeployInfo \<Rightarrow> (string \<rightharpoonup> string) \<Rightarrow> ConfigMap \<Rightarrow> ConfigMap" where
  "fill_configmap deployInfo m cm =
     cm\<lparr>cm_Data := Some ((case cm_Data cm of None \<Rightarrow> Map.empty | Some d \<Rightarrow> d)
       (ParametersFile \<mapsto> Json_parameters m, InstallFile \<mapsto> Json_install (di_installSpec deployInfo),
        RequiresFile \<mapsto> Json_requires (di_requires deployInfo),
        FlavorFile \<mapsto> Json_flavor (di_flavorSpec deployInfo)))\<rparr>"

definition createOrPatchConfigmap :: "'w KBClient \<Rightarrow> DeployInfo \<Rightarrow> ('w, unit) io" where
  "createOrPatchConfigmap kb deployInfo =
     try_do (GetMergedMap (NewParameterManager kb (di_Name deployInfo) (di_definitions deployInfo) (di_parameters deployInfo)))
       (\<lambda>err. Wrapf err ''couldn't get merged map'' [])
       (\<lambda>m. try_do (rm_CreateOrPatch (kb_ConfigMaps kb) (di_configMap deployInfo) (di_Namespace deployInfo)
                     zero_configmap (fill_configmap deployInfo m))
         (\<lambda>err. Wrapf err ''couldn't create or update configmap'' []) ret)"

text \<open>
  The job: one container with the action's words as arguments, the config map of the install
  mounted on \<open>/config\<close> and those of the applications it requires below
  \<open>/config/inputs\<close>.
\<close>

definition required_name :: "RequiresList \<Rightarrow> string" where
  "required_name r = getResourceName (rl_Name r) (rl_Suffix r)"

definition job_mounts :: "DeployInfo \<Rightarrow> VolumeMount list" where
  "job_mounts info =
     \<lparr>vm_Name = getNameWithAction (di_Name info) (di_Action info) @ ''-config'', vm_MountPath = ''/config''\<rparr>
     # map (\<lambda>r. \<lparr>vm_Name = required_name r @ ''-config'', vm_MountPath = ''/config/inputs/'' @ required_name r\<rparr>)
         (di_requires info)"

definition job_volumes :: "DeployInfo \<Rightarrow> Volume list" where
  "job_volumes info =
     \<lparr>vol_Name = getNameWithAction (di_Name info) (di_Action info) @ ''-config'', vol_ConfigMapName = di_configMap info\<rparr>
     # map (\<lambda>r. \<lparr>vol_Name = required_name r @ ''-config'', vol_ConfigMapName = required_name r @ ''-config''\<rparr>)
         (di_requires info)"

definition build_job :: "DeployInfo \<Rightarrow> Job" where
  "build_job info =
     (let nameWithAction = getNameWithAction (di_Name info) (di_Action info);
          gracePeriod = 1;
          deadline = go_div (di_Timeout info) second + gracePeriod * 2 in
      zero_job\<lparr>job_ObjectMeta := \<lparr>om_Name = nameWithAction, om_Namespace = di_Namespace info\<rparr>,
        job_Spec := (job_Spec zero_job)\<lparr>js_BackoffLimit := Some 0, js_ActiveDeadlineSeconds := Some deadline,
          js_Template := \<lparr>psp_ActiveDeadlineSeconds = Some deadline,
            psp_TerminationGracePeriodSeconds = Some gracePeriod, psp_RestartPolicy = ''Never'', psp_NodeName = [],
            psp_Containers = [\<lparr>ctr_Name = nameWithAction, ctr_Image = di_image info,
              ctr_Args = split_char (CHR '' '') (di_Action info), ctr_RunAsNonRoot = Some False,
              ctr_VolumeMounts = job_mounts info\<rparr>],
            psp_Volumes = job_volumes info\<rparr>\<rparr>\<rparr>)"

definition createJob :: "'w KBClient \<Rightarrow> DeployInfo \<Rightarrow> ('w, unit) io" where
  "createJob kb deployInfo =
     try_do (rm_Create (kb_Jobs kb) (build_job deployInfo)) (\<lambda>err. Wrapf err ''couldn't create job'' [])
       (\<lambda>_. ret ())"

section \<open>Logs and outcome of the job\<close>

text \<open>
  The loop of \<open>GetLogs\<close>: until the last pod of the job is no longer pending, or the deadline
  of the context, if it has one, has passed. It ends only by what others do, so it takes fuel.
\<close>

fun await_pod :: "nat \<Rightarrow> 'w clientset \<Rightarrow> string \<Rightarrow> labels \<Rightarrow> int option \<Rightarrow> ('w, Pod) io" where
  "await_pod 0 cs namespace matchLabels expiry = out_of_fuel"
| "await_pod (Suc n) cs namespace matchLabels expiry =
     try_do (cs_Pods_List cs namespace matchLabels) (\<lambda>err. Wrapf err ''error list pods for job'' [])
       (\<lambda>pods.
         if pods \<noteq> [] \<and> pod_Phase (last pods) \<noteq> ''Pending'' then ret (last pods)
         else andthen (now (cs_rt cs)) (\<lambda>t.
           if (case expiry of None \<Rightarrow> False | Some e \<Rightarrow> e < t)
           then fail (Errorf (if pods = [] then ''timeout expired while waiting for job pods to be created''
                        else ''timeout expired while waiting for pod to become ready'') [])
           else andthen (sleep (cs_rt cs) second) (\<lambda>_. await_pod n cs namespace matchLabels expiry)))"

definition Deploy_GetLogs :: "'w KBClient \<Rightarrow> InstallReference \<Rightarrow> int option \<Rightarrow> ('w, nat) io" where
  "Deploy_GetLogs kb installRef expiry =
     (let cs = kb_Interface kb; namespace = ir_Namespace installRef in
      try_do (wl_Get (cs_Jobs cs) namespace (ir_Name installRef))
        (\<lambda>err. Wrapf err ''couldn't fetch job %q'' [Str (ir_Name installRef)])
        (\<lambda>job. andthen (await_pod (rt_fuel (cs_rt cs)) cs namespace (job_labels job) expiry)
          (\<lambda>pod. case psp_Containers (pod_Spec pod) of
             [] \<Rightarrow> panic ''index out of range''
           | c # _ \<Rightarrow>
               try_do (cs_Pods_GetLogs cs namespace (pod_name pod)
                   \<lparr>plo_Container = ctr_Name c, plo_Follow = True, plo_TailLines = None\<rparr>)
                 (\<lambda>err. Wrapf err ''error opening stream for pod %s container %s'' [Str (pod_name pod), Str (ctr_Name c)])
                 ret)))"

definition printLogs :: "'w KBClient \<Rightarrow> InstallReference \<Rightarrow> int option \<Rightarrow> ('w, unit) io" where
  "printLogs kb installRef expiry =
     try_do (Deploy_GetLogs kb installRef expiry) (\<lambda>err. Wrapf err ''couldn't get logs'' [])
       (\<lambda>out. deferring (cs_Logs_Close (kb_Interface kb) out)
         (try_do (cs_Logs_Copy (kb_Interface kb) out) (\<lambda>err. Wrapf err ''couldn't print logs from pod'' []) ret))"

text \<open>
  The loop of \<open>pollJob\<close> for the status: the type of the last condition, or the empty type when
  the time is over.
\<close>

fun poll_status :: "nat \<Rightarrow> 'w KBClient \<Rightarrow> DeployInfo \<Rightarrow> int \<Rightarrow> bool \<Rightarrow> ('w, string) io" where
  "poll_status 0 kb info start firstTry = out_of_fuel"
| "poll_status (Suc n) kb info start firstTry =
     andthen (now (kb_rt kb)) (\<lambda>t.
       if firstTry \<or> t - start < di_Timeout info then
         try_do (rm_Get (kb_Jobs kb) (di_Name info) (di_Namespace info) zero_job) (\<lambda>err. Wrapf err ''couldn't get job'' [])
           (\<lambda>job. if job_Conditions job \<noteq> [] then ret (last (job_Conditions job))
              else andthen (sleep (kb_rt kb) second) (\<lambda>_. poll_status n kb info start False))
       else ret [])"

definition ignoring :: "('w, unit) io \<Rightarrow> ('w, unit) io" where
  "ignoring m = handle m ret (\<lambda>_. ret ())"

definition pollJob :: "'w KBClient \<Rightarrow> DeployInfo \<Rightarrow> InstallReference \<Rightarrow> bool \<Rightarrow> ('w, unit) io" where
  "pollJob kb info installRef showLogs =
     andthen (now (kb_rt kb)) (\<lambda>start.
     andthen (ignoring (printLogs kb installRef (Some (start + di_Timeout info)))) (\<lambda>_.
     andthen (poll_status (rt_fuel (kb_rt kb)) kb info start True) (\<lambda>latestStatus.
       if latestStatus = JobComplete then ret ()
       else andthen (if \<not> showLogs then ignoring (printLogs kb installRef None) else ret ())
         (\<lambda>_. fail (Errorf (if latestStatus = JobFailed then ''deploy failed'' else ''timeout expired'') [])))))"

section \<open>Deploying and testing\<close>

definition Deploy :: "'w KBClient \<Rightarrow> InstallReference \<Rightarrow> DeployOpts \<Rightarrow> bool \<Rightarrow> ('w, unit) io" where
  "Deploy kb installRef opts showLogs =
     (let nm = [Str (ir_Name installRef)] in
      andthen (gather_info kb installRef opts) (\<lambda>info.
      try_do (DeleteJob kb installRef (di_Action info)) (\<lambda>err. Wrapf err ''couldn't delete job for %q'' nm) (\<lambda>_.
      try_do (createOrPatchConfigmap kb info) (\<lambda>err. Wrapf err ''couldn't create or update configmap for %q'' nm) (\<lambda>_.
      try_do (createJob kb info) (\<lambda>err. Wrapf err ''couldn't create job for %q'' nm) (\<lambda>_.
      try_do (pollJob kb info installRef showLogs) (\<lambda>err. Wrapf err ''couldn't poll job for %q'' nm) (\<lambda>_.
        if di_Action info \<noteq> ActionDelete then
          try_do (Rollout_Wait kb installRef (di_Timeout info))
            (\<lambda>err. Wrapf err ''failed waiting for resources for %q'' nm) ret
        else ret ()))))))"

definition Smoketest :: "'w KBClient \<Rightarrow> InstallReference \<Rightarrow> bool \<Rightarrow> int \<Rightarrow> ('w, unit) io" where
  "Smoketest kb installRef showLogs timeout =
     try_do (Deploy kb installRef \<lparr>do_Action = ActionSmoketest, do_Timeout = timeout\<rparr> showLogs)
       (\<lambda>err. Wrapf err (''smoketest failed for '' @ apo @ ''%s'' @ apo) [Str (ir_Name installRef)]) ret"

definition DeploySmoketest :: "'w KBClient \<Rightarrow> InstallReference \<Rightarrow> bool \<Rightarrow> int \<Rightarrow> ('w, unit) io" where
  "DeploySmoketest kb installRef showLogs timeout =
     try_do (Deploy kb installRef \<lparr>do_Action = ActionApplyOutputs, do_Timeout = timeout\<rparr> showLogs)
       (\<lambda>err. Wrapf err (''couldn't execute deploy for '' @ apo @ ''%s'' @ apo) [Str (ir_Name installRef)])
       (\<lambda>_. try_do (Smoketest kb installRef showLogs timeout)
         (\<lambda>err. Wrapf err ''couldn't run smoketest for %q'' [Str (ir_Name installRef)]) ret)"

end
