(* ===== verification/Manifests.thy ===== *)
theory Manifests
  imports Deploy Sources
begin

text \<open>
  managers/manifest.go: the \<open>ManifestManager\<close>, which registers and installs all bundles of a
  manifest and deploys them in the order of their dependencies. Go maps that the code iterates over
  are association lists with one entry per key, visited in the order the runtime picks.
\<close>

record ManifestReference =
  mr_Name :: string
  mr_Namespace :: string

definition with_manifest :: "'w KBClient \<Rightarrow> ManifestReference \<Rightarrow> (Manifest \<Rightarrow> ('w, 'a) io) \<Rightarrow> ('w, 'a) io" where
  "with_manifest kb manifestRef =
     try_do (rm_Get (kb_Manifests kb) (mr_Name manifestRef) (mr_Namespace manifestRef) zero_manifest)
       (\<lambda>err. Wrapf err ''couldn't get manifest %q'' [Str (mr_Name manifestRef)])"

section \<open>Installing a manifest\<close>

text \<open>What the first loop of \<open>Install\<close> collects from the bundles.\<close>

definition bundle_refs :: "BundleSpec list \<Rightarrow> BundleRef list" where
  "bundle_refs bundles = map (\<lambda>b. \<lparr>br_Name = bs_Name b, br_Version = bs_Version b\<rparr>) bundles"

definition bundle_parameters :: "BundleSpec list \<Rightarrow> string \<rightharpoonup> ParameterSpec list" where
  "bundle_parameters bundles = foldl (\<lambda>m b. m(bs_Name b \<mapsto> bs_Parameters b)) Map.empty bundles"

definition additional_parameters :: "BundleSpec list \<Rightarrow> string \<rightharpoonup> ParameterSpec list" where
  "additional_parameters bundles =
     foldl (\<lambda>m b. foldl (\<lambda>m r. if rl_Parameters r \<noteq> []
                              then m(getResourceName (rl_Name r) (rl_Suffix r) \<mapsto> rl_Parameters r) else m)
              m (bs_Requires b))
       Map.empty bundles"

definition entry_or_nil :: "(string \<rightharpoonup> 'a list) \<Rightarrow> string \<Rightarrow> 'a list" where
  "entry_or_nil m k = (case m k of None \<Rightarrow> [] | Some v \<Rightarrow> v)"

definition open_source :: "'w os \<Rightarrow> 'w KBClient \<Rightarrow> string \<Rightarrow> SourceInfo \<Rightarrow> ('w, 'w Source) io" where
  "open_source os kb namespace info =
     try_do (rm_Get (kb_Sources kb) (si_Name info) namespace zero_source)
       (\<lambda>err. Wrapf err (''couldn't get source '' @ apo @ ''%s'' @ apo) [Str (si_Name info)])
       (\<lambda>src. try_do (lift_result (NewSource os (ss_Type (src_Spec src)) (ss_Path (src_Spec src))
                        (ss_Options (src_Spec src)) (si_Section info) (si_Release info)))
         (\<lambda>err. Wrapf err ''couldn't create new source'' []) ret)"

definition open_sources :: "'w os \<Rightarrow> 'w KBClient \<Rightarrow> string \<Rightarrow> SourceInfo list \<Rightarrow> ('w, 'w Source list) io" where
  "open_sources os kb namespace infos =
     fold_io (\<lambda>info sources. andthen (open_source os kb namespace info) (\<lambda>s. ret (sources @ [s]))) infos []"

definition manifest_registry :: "'w KBClient \<Rightarrow> string \<Rightarrow> string \<Rightarrow> ('w, string) io" where
  "manifest_registry kb registry namespace =
     (if registry \<noteq> [] then
        try_do (rm_Get (kb_Registries kb) registry namespace zero_registry)
          (\<lambda>err. Wrapf err (''couldn't get registry '' @ apo @ ''%s'' @ apo) [Str registry])
          (\<lambda>r. ret (ClusterUrl r))
      else ret [])"

text \<open>For every required name, the suffix each application asks for.\<close>

definition add_suffix :: "string \<Rightarrow> RequiresList \<Rightarrow> (string \<rightharpoonup> (string \<times> string) list) \<Rightarrow> string \<rightharpoonup> (string \<times> string) list" where
  "add_suffix user r m = m(rl_Name r \<mapsto> AList.update user (rl_Suffix r) (entry_or_nil m (rl_Name r)))"

definition install_suffixes :: "Application list \<Rightarrow> string \<rightharpoonup> (string \<times> string) list" where
  "install_suffixes apps =
     foldl (\<lambda>m app. foldl (\<lambda>m r. add_suffix (as_Name (app_Spec app)) r m) m (as_Requires (app_Spec app)))
       Map.empty apps"

definition install_suffixed ::
    "'w KBClient \<Rightarrow> ManifestReference \<Rightarrow> Manifest \<Rightarrow> bool \<Rightarrow> string \<Rightarrow> Application \<Rightarrow> string \<Rightarrow>
     ParameterSpec list \<Rightarrow> ('w, unit) io" where
  "install_suffixed kb manifestRef manifest force dockerRegistry app sfx appParameters =
     try_do (Install_Install kb (as_Name (app_Spec app)) (as_Name (app_Spec app)) (mr_Namespace manifestRef)
              (as_Version (app_Spec app)) sfx (ms_Flavor (mf_Spec manifest)) dockerRegistry force appParameters)
       (\<lambda>err. Wrapf err ''couldn't install application %s'' [Str (as_Name (app_Spec app))])
       (\<lambda>_. ret ())"

definition install_app ::
    "'w KBClient \<Rightarrow> ManifestReference \<Rightarrow> Manifest \<Rightarrow> bool \<Rightarrow> string \<Rightarrow>
     (string \<rightharpoonup> (string \<times> string) list) \<Rightarrow> Application \<Rightarrow> ('w, unit) io" where
  "install_app kb manifestRef manifest force dockerRegistry sfxs app =
     (let name = as_Name (app_Spec app);
          bundles = ms_Bundles (mf_Spec manifest);
          parameters = entry_or_nil (bundle_parameters bundles) name;
          pm = NewParameterManager kb name (as_ParameterDefinitions (app_Spec app)) parameters;
          install = install_suffixed kb manifestRef manifest force dockerRegistry app in
      case sfxs name of
        Some users \<Rightarrow>
          andthen (range_keys (kb_rt kb) users)
            (for_each (\<lambda>user.
              let sfx = (case map_of users user of None \<Rightarrow> [] | Some s \<Rightarrow> s);
                  additional = entry_or_nil (additional_parameters bundles) (getResourceName name sfx) in
              install sfx (if additional \<noteq> [] then MergeAdditionalParameters pm additional else pm_parameters pm)))
      | None \<Rightarrow> install [] parameters)"

definition Manifest_Install :: "'w os \<Rightarrow> 'w KBClient \<Rightarrow> ManifestReference \<Rightarrow> bool \<Rightarrow> ('w, unit) io" where
  "Manifest_Install os kb manifestRef force =
     with_manifest kb manifestRef
       (\<lambda>manifest. check (verifyResourceRequirements kb manifest) () (\<lambda>err _.
          if err \<noteq> None \<and> \<not> force
          then fail (Wrapf (the err) ''Insufficient resources for install'' [])
          else
            andthen (open_sources os kb (mr_Namespace manifestRef) (ms_Sources (mf_Spec manifest))) (\<lambda>sources.
            try_do (RegisterAll os kb (bundle_refs (ms_Bundles (mf_Spec manifest))) (NewMultiSource sources)
                     (mr_Namespace manifestRef))
              (\<lambda>err. Wrapf err ''couldn't register bundles'' []) (\<lambda>apps.
            andthen (manifest_registry kb (ms_Registry (mf_Spec manifest)) (mr_Namespace manifestRef)) (\<lambda>dockerRegistry.
              for_each (install_app kb manifestRef manifest force dockerRegistry (install_suffixes apps)) apps)))))"

section \<open>Deploying a manifest\<close>

definition touch :: "string \<Rightarrow> (string \<rightharpoonup> 'a list) \<Rightarrow> string \<rightharpoonup> 'a list" where
  "touch k m = (case m k of None \<Rightarrow> m(k \<mapsto> []) | Some _ \<Rightarrow> m)"

definition set_key :: "string \<Rightarrow> string \<Rightarrow> (string \<rightharpoonup> (string \<times> bool) list) \<Rightarrow> string \<rightharpoonup> (string \<times> bool) list" where
  "set_key k x m = m(k \<mapsto> AList.update x True (entry_or_nil m k))"

definition deploy_suffixes :: "BundleSpec list \<Rightarrow> string \<rightharpoonup> (string \<times> bool) list" where
  "deploy_suffixes bundles =
     foldl (\<lambda>m b. foldl (\<lambda>m r. set_key (rl_Name r) (rl_Suffix r) m) (touch (bs_Name b) m) (bs_Requires b))
       Map.empty bundles"

definition deploy_dependencies :: "BundleSpec list \<Rightarrow> string \<rightharpoonup> (string \<times> bool) list" where
  "deploy_dependencies bundles =
     foldl (\<lambda>m b. foldl (\<lambda>m r. set_key (bs_Name b) (getResourceName (rl_Name r) (rl_Suffix r)) m) m (bs_Requires b))
       Map.empty bundles"

text \<open>The entries of the dependency solver and the installs, by name.\<close>

record plan =
  pl_entries :: "(string \<times> string list) list"
  pl_installs :: "string \<rightharpoonup> Install"

definition require_deps ::
    "'w KBClient \<Rightarrow> (string \<rightharpoonup> (string \<times> bool) list) \<Rightarrow> RequiresList \<Rightarrow> string list \<Rightarrow> ('w, string list) io" where
  "require_deps kb dependencies requirement deps =
     andthen (case dependencies (rl_Name requirement) of
                None \<Rightarrow> ret deps
              | Some depSuffixes \<Rightarrow> andthen (range_keys (kb_rt kb) depSuffixes) (\<lambda>ks. ret (deps @ ks)))
       (\<lambda>deps'. ret (deps' @ [getResourceName (rl_Name requirement) (rl_Suffix requirement)]))"

definition plan_suffix ::
    "'w KBClient \<Rightarrow> ManifestReference \<Rightarrow> (string \<rightharpoonup> (string \<times> bool) list) \<Rightarrow> BundleSpec \<Rightarrow> string \<Rightarrow> plan \<Rightarrow> ('w, plan) io" where
  "plan_suffix kb manifestRef dependencies bundle_spec sfx p =
     (let installName = getResourceName (bs_Name bundle_spec) sfx in
      try_do (rm_Get (kb_Installs kb) installName (mr_Namespace manifestRef) zero_install)
        (\<lambda>err. Wrapf err (''couldn't get install for bundle '' @ apo @ ''%s'' @ apo) [Str (bs_Name bundle_spec)])
        (\<lambda>install.
          try_do (rm_Get (kb_Applications kb) (application_name (in_Spec install)) (mr_Namespace manifestRef) zero_application)
            (\<lambda>err. Wrapf err (''couldn't get application for bundle '' @ apo @ ''%s'' @ apo) [Str (bs_Name bundle_spec)])
            (\<lambda>app. andthen (fold_io (require_deps kb dependencies) (as_Requires (app_Spec app)) [])
              (\<lambda>deps. ret \<lparr>pl_entries = pl_entries p @ [(installName, deps)],
                 pl_installs = (pl_installs p)(installName \<mapsto> install)\<rparr>))))"

definition or_empty_suffix :: "string \<Rightarrow> (string \<rightharpoonup> (string \<times> bool) list) \<Rightarrow> string \<rightharpoonup> (string \<times> bool) list" where
  "or_empty_suffix name sfxs = (if entry_or_nil sfxs name = [] then set_key name [] sfxs else sfxs)"

definition plan_bundle ::
    "'w KBClient \<Rightarrow> ManifestReference \<Rightarrow> (string \<rightharpoonup> (string \<times> bool) list) \<Rightarrow> BundleSpec \<Rightarrow>
     (string \<rightharpoonup> (string \<times> bool) list) \<times> plan \<Rightarrow> ('w, (string \<rightharpoonup> (string \<times> bool) list) \<times> plan) io" where
  "plan_bundle kb manifestRef dependencies bundle_spec st =
     (let sfxs = or_empty_suffix (bs_Name bundle_spec) (fst st) in
      andthen (range_keys (kb_rt kb) (entry_or_nil sfxs (bs_Name bundle_spec)))
        (\<lambda>ks. andthen (fold_io (plan_suffix kb manifestRef dependencies bundle_spec) ks (snd st))
          (\<lambda>p. ret (sfxs, p))))"

definition deploy_name ::
    "'w KBClient \<Rightarrow> (string \<rightharpoonup> Install) \<Rightarrow> bool \<Rightarrow> int \<Rightarrow> bool \<Rightarrow> string \<Rightarrow> ('w, unit) io" where
  "deploy_name kb installs showLogs timeout smoketest name =
     (case installs name of
        None \<Rightarrow> panic nil_dereference
      | Some install \<Rightarrow>
          let installRef = \<lparr>ir_Name = om_Name (in_ObjectMeta install), ir_Namespace = om_Namespace (in_ObjectMeta install)\<rparr> in
          try_do (if smoketest then DeploySmoketest kb installRef showLogs timeout
                  else Deploy kb installRef \<lparr>do_Action = ActionApplyOutputs, do_Timeout = timeout\<rparr> showLogs)
            (\<lambda>err. Wrapf err (''couldn't deploy '' @ apo @ ''%s'' @ apo) [Str (om_Name (in_ObjectMeta install))]) ret)"

definition manifest_deploy ::
    "'w KBClient \<Rightarrow> ManifestReference \<Rightarrow> bool \<Rightarrow> int \<Rightarrow> bool \<Rightarrow> ('w, unit) io" where
  "manifest_deploy kb manifestRef showLogs timeout smoketest =
     with_manifest kb manifestRef
       (\<lambda>manifest. let bundles = ms_Bundles (mf_Spec manifest) in
         andthen (fold_io (plan_bundle kb manifestRef (deploy_dependencies bundles)) bundles
                    (deploy_suffixes bundles, \<lparr>pl_entries = [], pl_installs = Map.empty\<rparr>))
           (\<lambda>(_, p).
             case kb_LayeredTopologicalSort kb (pl_entries p) of
               None \<Rightarrow> fail (Errorf ''can't resolve dependencies; may be circular or have missing relationships'' [])
             | Some layers \<Rightarrow>
                 for_each (deploy_name kb (pl_installs p) showLogs timeout smoketest) (concat layers)))"

definition Manifest_Deploy :: "'w KBClient \<Rightarrow> ManifestReference \<Rightarrow> bool \<Rightarrow> int \<Rightarrow> ('w, unit) io" where
  "Manifest_Deploy kb manifestRef showLogs timeout = manifest_deploy kb manifestRef showLogs timeout False"

definition Manifest_DeploySmoketest :: "'w KBClient \<Rightarrow> ManifestReference \<Rightarrow> bool \<Rightarrow> int \<Rightarrow> ('w, unit) io" where
  "Manifest_DeploySmoketest kb manifestRef showLogs timeout = manifest_deploy kb manifestRef showLogs timeout True"

definition bundle_install :: "ManifestReference \<Rightarrow> BundleSpec \<Rightarrow> InstallReference" where
  "bundle_install manifestRef b = \<lparr>ir_Name = bs_Name b, ir_Namespace = mr_Namespace manifestRef\<rparr>"

definition Manifest_Diff :: "'w KBClient \<Rightarrow> ManifestReference \<Rightarrow> int \<Rightarrow> ('w, unit) io" where
  "Manifest_Diff kb manifestRef timeout =
     with_manifest kb manifestRef (\<lambda>manifest.
       for_each (\<lambda>b. try_do (Deploy kb (bundle_install manifestRef b) \<lparr>do_Action = ActionDiff, do_Timeout = timeout\<rparr> True)
           (\<lambda>err. Wrapf err (''couldn't diff '' @ apo @ ''%s'' @ apo) [Str (bs_Name b)]) ret)
         (ms_Bundles (mf_Spec manifest)))"

definition Manifest_Smoketest :: "'w KBClient \<Rightarrow> ManifestReference \<Rightarrow> bool \<Rightarrow> int \<Rightarrow> ('w, unit) io" where
  "Manifest_Smoketest kb manifestRef showLogs timeout =
     with_manifest kb manifestRef (\<lambda>manifest.
       for_each (\<lambda>b. try_do (Smoketest kb (bundle_install manifestRef b) showLogs timeout)
           (\<lambda>err. Wrapf err (''couldn't deploy '' @ apo @ ''%s'' @ apo) [Str (bs_Name b)]) ret)
         (ms_Bundles (mf_Spec manifest)))"

end
