(* ===== verification/Deploy_Laws.thy ===== *)
theory Deploy_Laws
  imports Deploy
begin

text \<open>
  What holds of a deployment: the shape of its job, what a successful deployment has seen, what a
  refused one leaves alone, and when following the logs and polling the job end: both loops are
  instances of the locale \<open>ticking\<close>.
\<close>

section \<open>The job\<close>

lemma build_job_sel [simp]:
  "om_Name (job_ObjectMeta (build_job info)) = getNameWithAction (di_Name info) (di_Action info)"
  "js_ActiveDeadlineSeconds (job_Spec (build_job info)) = Some (go_div (di_Timeout info) second + 2)"
  "psp_ActiveDeadlineSeconds (js_Template (job_Spec (build_job info))) = Some (go_div (di_Timeout info) second + 2)"
  "psp_Volumes (js_Template (job_Spec (build_job info))) = job_volumes info"
  "map ctr_VolumeMounts (psp_Containers (js_Template (job_Spec (build_job info)))) = [job_mounts info]"
  by (simp_all add: build_job_def Let_def)

text \<open>
  C24. Every container of a deploy job mounts exactly the volumes of its pod, in their order, and the
  volumes have different names, as Kubernetes asks, exactly when the required applications have
  different names (with their suffixes) and none is named as the job itself.
\<close>

theorem build_job_volumes:
  "list_all (\<lambda>ms. map vm_Name ms = map vol_Name (psp_Volumes (js_Template (job_Spec (build_job info)))))
     (map ctr_VolumeMounts (psp_Containers (js_Template (job_Spec (build_job info))))) \<and>
   (distinct (map vol_Name (psp_Volumes (js_Template (job_Spec (build_job info))))) \<longleftrightarrow>
      distinct (map required_name (di_requires info)) \<and>
      om_Name (job_ObjectMeta (build_job info)) \<notin> required_name ` set (di_requires info))"
proof -
  have "inj (\<lambda>n :: string. n @ ''-config'')" by (simp add: inj_def)
  then have "distinct (map (\<lambda>r. required_name r @ ''-config'') rs) \<longleftrightarrow> distinct (map required_name rs)" for rs
    by (induction rs) (auto dest: injD)
  then show ?thesis by (auto simp: job_volumes_def job_mounts_def comp_def)
qed

text \<open>
  C25. The cluster gives a deploy job more time than the manager waits for it: its deadline is more
  than one second and at most two seconds after the manager's timeout, so a job that overruns is
  seen as expired first and ended by the cluster soon after.
\<close>

theorem build_job_deadline:
  assumes "0 \<le> di_Timeout info"
  shows "\<exists>d. js_ActiveDeadlineSeconds (job_Spec (build_job info)) = Some d \<and>
     psp_ActiveDeadlineSeconds (js_Template (job_Spec (build_job info))) = Some d \<and>
     di_Timeout info + second < d * second \<and> d * second \<le> di_Timeout info + 2 * second"
proof -
  define q where "q = di_Timeout info div second"
  define m where "m = di_Timeout info mod second"
  have "di_Timeout info = second * q + m" "0 \<le> m" "m < second"
    by (simp_all add: q_def m_def second_def)
  moreover have "go_div (di_Timeout info) second = q"
    using assms by (simp add: q_def second_def)
  ultimately show ?thesis by (simp add: second_def)
qed

lemma poll_status_action: "poll_status n kb (info\<lparr>di_Action := a\<rparr>) = poll_status n kb info"
proof -
  have "poll_status n kb (info\<lparr>di_Action := a\<rparr>) start f = poll_status n kb info start f" for start f
    by (induction n arbitrary: f) (simp_all cong: if_cong)
  then show ?thesis by (simp add: fun_eq_iff)
qed

text \<open>
  A smoketest is not polled on its own job: which action runs makes no difference to what
  \<open>pollJob\<close> looks at or answers, it always follows the job named after the install, while the job
  of a smoketest has another name.
\<close>

lemma pollJob_ignores_action:
  "pollJob kb (info\<lparr>di_Action := a\<rparr>) ref showLogs = pollJob kb info ref showLogs \<and>
   om_Name (job_ObjectMeta (build_job (info\<lparr>di_Action := ActionSmoketest\<rparr>))) = di_Name info @ ''-smoketest''"
  by (simp add: pollJob_def poll_status_action getNameWithAction_def)

section \<open>A refused deployment\<close>

text \<open>
  A deployment of an install whose parameters are not valid is refused with the validation's
  error and leaves the world as it was: no job is deleted and no config map written.
\<close>

lemma Deploy_invalid:
  assumes "serves_Get (kb_Installs kb) view cl_Installs" and "serves_Get (kb_Flavors kb) view cl_Flavors"
    and "serves_Get (kb_Applications kb) view cl_Applications"
    and "installed (view w) ref i a" and "cl_Flavors (view w) (is_Flavor (in_Spec i), ''default'') = Some f"
    and "Parameter_Validate (install_pm kb ref i a) = Some e"
  shows "Deploy kb ref opts showLogs w =
    (Err (Wrapf e ''couldn't validate parameters for %q'' [Str (ir_Name ref)]), w)"
  using assms
  by (simp add: Deploy_def gather_info_def rm_Get_def serves_Get_def installed_def Let_def
      validateRequiredParameters_def install_pm_def)

section \<open>A successful deployment\<close>

lemma poll_status_seen:
  "poll_status n kb info start b w = (Ok s, w') \<Longrightarrow> s \<noteq> [] \<Longrightarrow>
     \<exists>u j. kc_Get (kb_Jobs kb) (di_Name info) (di_Namespace info) zero_job u = (Ok j, w') \<and>
       job_Conditions j \<noteq> [] \<and> last (job_Conditions j) = s"
  by (induction n arbitrary: b w) (auto simp: io_ok split: if_splits)

lemma pollJob_Ok:
  assumes "pollJob kb info ref showLogs w = (Ok (), w')"
  shows "\<exists>u j. kc_Get (kb_Jobs kb) (di_Name info) (di_Namespace info) zero_job u = (Ok j, w') \<and>
    job_Conditions j \<noteq> [] \<and> last (job_Conditions j) = JobComplete"
  using assms poll_status_seen [of _ kb info _ _ _ JobComplete w']
  by (auto simp: pollJob_def io_ok JobComplete_def split: if_splits)

lemma gather_info_Ok:
  "gather_info kb ref opts w = (Ok info, w') \<Longrightarrow>
     di_Name info = ir_Name ref \<and> di_Namespace info = ir_Namespace ref \<and> di_Action info = do_Action opts"
  by (auto simp: gather_info_def io_ok Let_def deploy_info_def split: option.splits)

text \<open>The resources of an application up to the first service, each seen ready at some moment.\<close>

definition resources_seen :: "'w KBClient \<Rightarrow> InstallReference \<Rightarrow> Application \<Rightarrow> string \<Rightarrow> string \<Rightarrow> bool" where
  "resources_seen kb ref app sfx ns \<longleftrightarrow>
     (\<forall>r \<in> set (takeWhile (\<lambda>r. rs_Type r \<noteq> ServiceType) (as_Resources (app_Spec app))).
        \<exists>k u. rollout_kind (rs_Type r) = Some k \<and>
          seen_ready (kb_Interface kb) (new_workload k (rs_Category r) (ir_Name ref) (rs_Name r @ sfx) ns) u)"

lemma Rollout_Wait_Ok:
  assumes "Rollout_Wait kb ref timeout w = (Ok (), w')"
  shows "\<exists>u i u' v a v' ns. kc_Get (kb_Installs kb) (ir_Name ref) (ir_Namespace ref) zero_install u = (Ok i, u') \<and>
     kc_Get (kb_Applications kb) (application_name (in_Spec i)) (ir_Namespace ref) zero_application v = (Ok a, v') \<and>
     resources_seen kb ref a (resource_suffix (in_Spec i)) ns"
proof -
  from assms obtain i u' a v' ns v'' where *:
      "kc_Get (kb_Installs kb) (ir_Name ref) (ir_Namespace ref) zero_install w = (Ok i, u')"
      "kc_Get (kb_Applications kb) (application_name (in_Spec i)) (ir_Namespace ref) zero_application u' = (Ok a, v')"
      "wait_resources (kb_Interface kb) ref (resource_suffix (in_Spec i))
         ns timeout (as_Resources (app_Spec a)) v'' = (Ok (), w')"
    by (auto simp: Rollout_Wait_def io_ok Let_def)
  from wait_resources_seen [OF *(3)] have "resources_seen kb ref a
      (resource_suffix (in_Spec i)) ns"
    unfolding resources_seen_def by blast
  with *(1,2) show ?thesis by blast
qed


section \<open>Following a job\<close>

text \<open>
  What the code relies on from the clusters' clients for its waiting to end: the clock advances while
  it sleeps, and a request returns and does not turn the clock back.
\<close>

definition steady_logs :: "'w clientset \<Rightarrow> bool" where
  "steady_logs cs \<longleftrightarrow>
     (\<forall>d w. 0 \<le> d \<longrightarrow> rt_now (cs_rt cs) w + d \<le> rt_now (cs_rt cs) (rt_sleep (cs_rt cs) d w)) \<and>
     (\<forall>ns n. steady_lookup (cs_rt cs) (wl_Get (cs_Jobs cs) ns n)) \<and>
     (\<forall>ns l. steady_lookup (cs_rt cs) (cs_Pods_List cs ns l)) \<and>
     (\<forall>ns n opts. steady_lookup (cs_rt cs) (cs_Pods_GetLogs cs ns n opts)) \<and>
     (\<forall>h. steady_lookup (cs_rt cs) (cs_Logs_Copy cs h) \<and> steady_lookup (cs_rt cs) (cs_Logs_Close cs h))"

definition steady_jobs :: "'w KBClient \<Rightarrow> bool" where
  "steady_jobs kb \<longleftrightarrow> steady_logs (kb_Interface kb) \<and>
     (\<forall>n ns ob. steady_lookup (kb_rt kb) (kc_Get (kb_Jobs kb) n ns ob))"

interpretation pod_wait: ticking "cs_rt cs" "\<lambda>n. await_pod n cs ns ls (Some e)" e "steady_logs cs"
  for cs ns ls e
proof unfold_locales
  fix n w
  assume steady: "steady_logs cs"
  obtain r w1 where l: "cs_Pods_List cs ns ls w = (r, w1)" by fastforce
  with steady have "r \<noteq> OutOfFuel \<and> rt_now (cs_rt cs) w \<le> rt_now (cs_rt cs) w1"
    unfolding steady_logs_def by (blast dest: steady_lookupD)
  with l show "fst (await_pod (Suc n) cs ns ls (Some e) w) \<noteq> OutOfFuel \<or>
      (\<exists>u d. rt_now (cs_rt cs) w \<le> rt_now (cs_rt cs) u \<and> rt_now (cs_rt cs) w \<le> e \<and> second \<le> d \<and>
         await_pod (Suc n) cs ns ls (Some e) w = await_pod n cs ns ls (Some e) (rt_sleep (cs_rt cs) d u))"
    by (cases r) (auto intro!: exI [of _ w1] exI [of _ second])
qed (simp add: steady_logs_def)

interpretation status_poll: ticking "kb_rt kb" "\<lambda>n. poll_status n kb info start False"
    "start + di_Timeout info" "steady_jobs kb" for kb info start
proof unfold_locales
  fix n w
  assume steady: "steady_jobs kb"
  obtain r w1 where g: "kc_Get (kb_Jobs kb) (di_Name info) (di_Namespace info) zero_job w = (r, w1)" by fastforce
  with steady have "r \<noteq> OutOfFuel \<and> rt_now (kb_rt kb) w \<le> rt_now (kb_rt kb) w1"
    unfolding steady_jobs_def by (blast dest: steady_lookupD)
  with g show "fst (poll_status (Suc n) kb info start False w) \<noteq> OutOfFuel \<or>
      (\<exists>u d. rt_now (kb_rt kb) w \<le> rt_now (kb_rt kb) u \<and> rt_now (kb_rt kb) w \<le> start + di_Timeout info \<and>
         second \<le> d \<and>
         poll_status (Suc n) kb info start False w = poll_status n kb info start False (rt_sleep (kb_rt kb) d u))"
    by (cases r) (auto simp: rm_Get_def intro!: exI [of _ w1] exI [of _ second])
qed (simp add: steady_jobs_def steady_logs_def)

lemma forward_sleep:
  "steady_logs cs \<Longrightarrow> 0 \<le> d \<Longrightarrow> keeps (\<lambda>w. t \<le> rt_now (cs_rt cs) w) (sleep (cs_rt cs) d)"
proof (rule keepsI)
  fix w
  assume "steady_logs cs" and "0 \<le> d" and "t \<le> rt_now (cs_rt cs) w"
  then have "rt_now (cs_rt cs) w + d \<le> rt_now (cs_rt cs) (rt_sleep (cs_rt cs) d w)"
    unfolding steady_logs_def by blast
  with \<open>t \<le> rt_now (cs_rt cs) w\<close> \<open>0 \<le> d\<close> show "t \<le> rt_now (cs_rt cs) (snd (sleep (cs_rt cs) d w))" by simp
qed

lemma forward_now: "keeps P (now rt)"
  by (simp add: keeps_def)

lemma forward_steady: "steady_lookup rt m \<Longrightarrow> keeps (\<lambda>w. t \<le> rt_now rt w) m"
  by (simp add: steady_lookup_def forward_def)

lemma forward_await_pod:
  "steady_logs cs \<Longrightarrow> keeps (\<lambda>w. t \<le> rt_now (cs_rt cs) w) (await_pod n cs ns ls e)"
proof (induction n)
  case (Suc n)
  have "keeps (\<lambda>w. t \<le> rt_now (cs_rt cs) w) (sleep (cs_rt cs) second)"
    using Suc.prems by (rule forward_sleep) (simp add: second_def)
  moreover have "keeps (\<lambda>w. t \<le> rt_now (cs_rt cs) w) (cs_Pods_List cs ns ls)"
    using Suc.prems by (simp add: steady_logs_def forward_steady)
  ultimately show ?case
    unfolding await_pod.simps by (intro keeps_rule forward_now Suc.IH Suc.prems)
qed simp

lemma forward_printLogs:
  assumes "steady_logs (kb_Interface kb)"
  shows "keeps (\<lambda>w. t \<le> rt_now (kb_rt kb) w) (printLogs kb ref e)"
proof -
  have "keeps (\<lambda>w. t \<le> rt_now (kb_rt kb) w) (wl_Get (cs_Jobs (kb_Interface kb)) ns n)"
      "keeps (\<lambda>w. t \<le> rt_now (kb_rt kb) w) (cs_Pods_GetLogs (kb_Interface kb) ns n opts)"
      "keeps (\<lambda>w. t \<le> rt_now (kb_rt kb) w) (cs_Logs_Copy (kb_Interface kb) h)"
      "keeps (\<lambda>w. t \<le> rt_now (kb_rt kb) w) (cs_Logs_Close (kb_Interface kb) h)" for ns n opts h
    using assms by (simp_all add: steady_logs_def forward_steady)
  then show ?thesis
    unfolding printLogs_def Deploy_GetLogs_def Let_def
    by (intro keeps_rule forward_await_pod assms)
qed

lemma printLogs_returns:
  assumes steady: "steady_logs (kb_Interface kb)" and e: "e \<le> rt_now (kb_rt kb) w + period"
    and fuel: "0 < rt_fuel (kb_rt kb)" "period < int (rt_fuel (kb_rt kb) - 1) * second"
  shows "fst (printLogs kb ref (Some e) w) \<noteq> OutOfFuel"
proof -
  have "fst (Deploy_GetLogs kb ref (Some e) w) \<noteq> OutOfFuel"
    unfolding Deploy_GetLogs_def Let_def
  proof (rule try_do_returns)
    show "fst (wl_Get (cs_Jobs (kb_Interface kb)) (ir_Namespace ref) (ir_Name ref) w) \<noteq> OutOfFuel"
      using steady by (simp add: steady_logs_def steady_lookup_def)
  next
    fix job w1
    assume "wl_Get (cs_Jobs (kb_Interface kb)) (ir_Namespace ref) (ir_Name ref) w = (Ok job, w1)"
    with steady have "rt_now (kb_rt kb) w \<le> rt_now (kb_rt kb) w1"
      unfolding steady_logs_def by (blast dest: steady_lookupD)
    with e have "e \<le> rt_now (kb_rt kb) w1 + period" by simp
    note pod = pod_wait.loop_returns_period [OF steady this fuel]
    show "fst (andthen (await_pod (rt_fuel (kb_rt kb)) (kb_Interface kb) (ir_Namespace ref) (job_labels job) (Some e))
       (\<lambda>pod. case psp_Containers (pod_Spec pod) of [] \<Rightarrow> panic ''index out of range''
          | c # _ \<Rightarrow> try_do (cs_Pods_GetLogs (kb_Interface kb) (ir_Namespace ref) (pod_name pod)
                       \<lparr>plo_Container = ctr_Name c, plo_Follow = True, plo_TailLines = None\<rparr>)
                     (\<lambda>err. Wrapf err ''error opening stream for pod %s container %s'' [Str (pod_name pod), Str (ctr_Name c)])
                     ret) w1) \<noteq> OutOfFuel"
    proof (rule andthen_returns, rule pod)
      fix p :: Pod and u
      show "fst ((case psp_Containers (pod_Spec p) of [] \<Rightarrow> panic ''index out of range''
          | c # _ \<Rightarrow> try_do (cs_Pods_GetLogs (kb_Interface kb) (ir_Namespace ref) (pod_name p)
                       \<lparr>plo_Container = ctr_Name c, plo_Follow = True, plo_TailLines = None\<rparr>)
                     (\<lambda>err. Wrapf err ''error opening stream for pod %s container %s'' [Str (pod_name p), Str (ctr_Name c)])
                     ret) u) \<noteq> OutOfFuel"
      proof (cases "psp_Containers (pod_Spec p)")
        case (Cons c cs)
        have "fst (cs_Pods_GetLogs (kb_Interface kb) ns n opts u) \<noteq> OutOfFuel" for ns n opts
          using steady by (simp add: steady_logs_def steady_lookup_def)
        with Cons show ?thesis by (simp add: try_do_returns)
      qed simp
    qed
  qed
  then show ?thesis
    unfolding printLogs_def
  proof (rule try_do_returns)
    fix h u
    have "fst (cs_Logs_Copy (kb_Interface kb) h u) \<noteq> OutOfFuel"
      using steady by (simp add: steady_logs_def steady_lookup_def)
    then have "fst (try_do (cs_Logs_Copy (kb_Interface kb) h)
        (\<lambda>err. Wrapf err ''couldn't print logs from pod'' []) ret u) \<noteq> OutOfFuel"
      by (rule try_do_returns) simp
    then show "fst (deferring (cs_Logs_Close (kb_Interface kb) h) (try_do (cs_Logs_Copy (kb_Interface kb) h)
        (\<lambda>err. Wrapf err ''couldn't print logs from pod'' []) ret) u) \<noteq> OutOfFuel" by simp
  qed
qed


section \<open>A deployment that never returns\<close>

text \<open>The same client with another bound on the loops.\<close>

definition with_fuel :: "nat \<Rightarrow> 'w KBClient \<Rightarrow> 'w KBClient" where
  "with_fuel n kb = kb\<lparr>kb_Interface := (kb_Interface kb)\<lparr>cs_rt := (kb_rt kb)\<lparr>rt_fuel := n\<rparr>\<rparr>\<rparr>"

lemma with_fuel_sel [simp]:
  "rt_fuel (kb_rt (with_fuel n kb)) = n" "kb_Jobs (with_fuel n kb) = kb_Jobs kb"
  "cs_Jobs (kb_Interface (with_fuel n kb)) = cs_Jobs (kb_Interface kb)"
  "cs_Pods_List (kb_Interface (with_fuel n kb)) = cs_Pods_List (kb_Interface kb)"
  by (simp_all add: with_fuel_def)

lemma await_no_pods:
  assumes "\<forall>w. cs_Pods_List cs ns ls w = (Ok [], w)"
  shows "fst (await_pod n cs ns ls e w) = OutOfFuel \<or> (\<exists>err. fst (await_pod n cs ns ls e w) = Err err)"
    and "fst (await_pod n cs ns ls None w) = OutOfFuel"
  using assms by (induction n arbitrary: w) simp_all

lemma printLogs_no_pods:
  assumes "\<forall>w. wl_Get (cs_Jobs (kb_Interface kb)) (ir_Namespace ref) (ir_Name ref) w = (Ok j, w)"
    and "\<forall>w. cs_Pods_List (kb_Interface kb) (ir_Namespace ref) (job_labels j) w = (Ok [], w)"
  shows "fst (printLogs kb ref e w) = OutOfFuel \<or> (\<exists>err. fst (printLogs kb ref e w) = Err err)"
    and "fst (printLogs kb ref None w) = OutOfFuel"
proof -
  note pods = await_no_pods [OF assms(2), of "rt_fuel (kb_rt kb)"]
  obtain r u where r: "await_pod (rt_fuel (kb_rt kb)) (kb_Interface kb) (ir_Namespace ref) (job_labels j) e w = (r, u)"
    by fastforce
  with pods(1) [of e w] have "r = OutOfFuel \<or> (\<exists>err. r = Err err)" by simp
  with assms(1) r show "fst (printLogs kb ref e w) = OutOfFuel \<or> (\<exists>err. fst (printLogs kb ref e w) = Err err)"
    by (auto simp: printLogs_def Deploy_GetLogs_def Let_def)
  obtain r u where r: "await_pod (rt_fuel (kb_rt kb)) (kb_Interface kb) (ir_Namespace ref) (job_labels j) None w = (r, u)"
    by fastforce
  with pods(2) [of w] have "r = OutOfFuel" by simp
  with assms(1) r show "fst (printLogs kb ref None w) = OutOfFuel"
    by (simp add: printLogs_def Deploy_GetLogs_def Let_def)
qed

lemma poll_status_unfinished:
  assumes "\<forall>w. kc_Get (kb_Jobs kb) (di_Name info) (di_Namespace info) zero_job w = (Ok j, w)"
    and "job_Conditions j = [] \<or> last (job_Conditions j) \<noteq> JobComplete"
  shows "fst (poll_status n kb info start b w) = OutOfFuel \<or>
    (\<exists>s. fst (poll_status n kb info start b w) = Ok s \<and> s \<noteq> JobComplete)"
  using assms
proof (induction n arbitrary: b w)
  case (Suc n)
  then show ?case by (auto simp: rm_Get_def JobComplete_def)
qed simp

text \<open>
  C36. A deployment whose logs are not shown never returns when the pods of its job are gone, as they
  are once the cluster has ended a job at its deadline, and the job is not complete: whatever the
  timeout, no number of turns is enough, because the logs printed after a failure are waited for
  without a deadline.
\<close>

theorem pollJob_hangs:
  assumes job: "\<forall>w. wl_Get (cs_Jobs (kb_Interface kb)) (ir_Namespace ref) (ir_Name ref) w = (Ok j, w)"
    and no_pods: "\<forall>w. cs_Pods_List (kb_Interface kb) (ir_Namespace ref) (job_labels j) w = (Ok [], w)"
    and status: "\<forall>w. kc_Get (kb_Jobs kb) (di_Name info) (di_Namespace info) zero_job w = (Ok j, w)"
    and unfinished: "job_Conditions j = [] \<or> last (job_Conditions j) \<noteq> JobComplete"
  shows "fst (pollJob (with_fuel n kb) info ref False w) = OutOfFuel"
proof -
  let ?kb = "with_fuel n kb"
  let ?start = "rt_now (kb_rt ?kb) w"
  note logs = printLogs_no_pods [of ?kb ref j, simplified, OF job no_pods]
  obtain r u where r: "printLogs ?kb ref (Some (?start + di_Timeout info)) w = (r, u)" by fastforce
  with logs(1) [of "Some (?start + di_Timeout info)" w] have first: "r = OutOfFuel \<or> (\<exists>e. r = Err e)" by simp
  obtain s v where s: "poll_status n ?kb info ?start True u = (s, v)" by fastforce
  with poll_status_unfinished [of ?kb info j n ?start True u] status unfinished
  have outcome: "s = OutOfFuel \<or> (\<exists>x. s = Ok x \<and> x \<noteq> JobComplete)" by simp
  obtain q v' where q: "printLogs ?kb ref None v = (q, v')" by fastforce
  with logs(2) [of v] have "q = OutOfFuel" by simp
  with r first s outcome q show ?thesis
    by (auto simp: pollJob_def ignoring_def)
qed

subsection \<open>Examples\<close>

definition complete_job :: Job where
  "complete_job = zero_job\<lparr>job_Conditions := [JobComplete]\<rparr>"

definition deploy_kb :: "memory KBClient" where
  "deploy_kb = mem_client
     \<lparr>kb_Interface := mem_clientset\<lparr>cs_Deployments := finds sample_deployment\<rparr>,
      kb_Jobs := (no_kind job_ObjectMeta)\<lparr>kc_Get := (\<lambda>n ns ob. ret complete_job)\<rparr>\<rparr>"

definition web_app :: Application where
  "web_app = sample_app\<lparr>app_Spec := (app_Spec sample_app)\<lparr>as_Resources := sample_resources, as_DeployImage := ''img''\<rparr>\<rparr>"

definition deploy_memory :: memory where
  "deploy_memory = sample_memory\<lparr>m_Applications := [((''nginx-1'', ''default''), web_app)],
     m_Flavors := [(('''', ''default''), zero_flavor)]\<rparr>"

definition web_info :: DeployInfo where
  "web_info = deploy_info sample_ref \<lparr>do_Action = ActionApplyOutputs, do_Timeout = second\<rparr>
     (in_Spec sample_install) (app_Spec web_app) (fl_Spec zero_flavor) ''img'' []"

lemma deploy_memory_gets:
  "rm_Get (kb_Installs deploy_kb) ''web'' ''default'' zero_install (deploy_memory\<lparr>m_Clock := t\<rparr>) =
     (Ok sample_install, deploy_memory\<lparr>m_Clock := t\<rparr>)"
  "rm_Get (kb_Flavors deploy_kb) '''' ''default'' zero_flavor (deploy_memory\<lparr>m_Clock := t\<rparr>) =
     (Ok zero_flavor, deploy_memory\<lparr>m_Clock := t\<rparr>)"
  "rm_Get (kb_Applications deploy_kb) ''nginx-1'' ''default'' zero_application (deploy_memory\<lparr>m_Clock := t\<rparr>) =
     (Ok web_app, deploy_memory\<lparr>m_Clock := t\<rparr>)"
  by (simp_all add: rm_Get_def deploy_kb_def mem_client_def mem_kind_def deploy_memory_def Let_def sample_memory_def)

lemma sample_install_sel [simp]:
  "is_Flavor (in_Spec sample_install) = []" "application_name (in_Spec sample_install) = ''nginx-1''"
  "is_DockerRegistry (in_Spec sample_install) = []" "is_Suffix (in_Spec sample_install) = []"
  by (simp_all add: sample_install_def zero_install_def application_name_def)

lemma web_merge:
  "GetMergedMap (NewParameterManager kb n (as_ParameterDefinitions (app_Spec web_app)) (is_Parameters (in_Spec sample_install))) w =
    (Ok [''size'' \<mapsto> ''1'', ''color'' \<mapsto> ''blue''], w)"
  by (simp add: GetMergedMap_entries entries_def NewParameterManager_def web_app_def sample_app_def sample_install_def
      zero_application_def zero_install_def entry_step_pair parameter_value_def)

lemma web_valid:
  "Parameter_Validate (NewParameterManager kb n (as_ParameterDefinitions (app_Spec web_app)) (is_Parameters (in_Spec sample_install))) = None"
  by (simp add: Parameter_Validate_def NewParameterManager_def web_app_def sample_app_def zero_application_def Let_def)

lemma web_gather:
  "gather_info deploy_kb sample_ref \<lparr>do_Action = ActionApplyOutputs, do_Timeout = second\<rparr> (deploy_memory\<lparr>m_Clock := t\<rparr>)
     = (Ok web_info, deploy_memory\<lparr>m_Clock := t\<rparr>)"
  by (simp add: gather_info_def sample_ref_def deploy_memory_gets validateRequiredParameters_def web_valid
      resolve_image_def web_info_def Let_def)
     (simp add: web_app_def sample_app_def zero_application_def)


lemma web_DeleteJob:
  "DeleteJob deploy_kb sample_ref a (deploy_memory\<lparr>m_Clock := t\<rparr>) = (Ok (), deploy_memory\<lparr>m_Clock := t + second\<rparr>)"
  by (simp add: DeleteJob_def rm_Delete_def deploy_kb_def no_kind_def mem_client_def mem_clientset_def
     mem_runtime_def numeral_eq_Suc Let_def)

lemma web_createJob: "createJob deploy_kb info w = (Ok (), w)"
  by (simp add: createJob_def rm_Create_def deploy_kb_def no_kind_def)

lemma web_configmap: "createOrPatchConfigmap deploy_kb web_info w = (Ok (), w)"
  by (simp add: createOrPatchConfigmap_def web_info_def deploy_info_def web_merge rm_CreateOrPatch_def
      deploy_kb_def no_kind_def mem_client_def)

lemma web_pollJob: "pollJob deploy_kb web_info sample_ref b w = (Ok (), w)"
  by (simp add: pollJob_def ignoring_def printLogs_def Deploy_GetLogs_def rm_Get_def deploy_kb_def no_kind_def
      mem_clientset_def mem_runtime_def no_workloads_def complete_job_def numeral_eq_Suc Let_def)

lemma web_Rollout:
  "Rollout_Wait deploy_kb sample_ref second (deploy_memory\<lparr>m_Clock := t\<rparr>) = (Ok (), deploy_memory\<lparr>m_Clock := t\<rparr>)"
  by (simp add: Rollout_Wait_def sample_ref_def deploy_memory_gets web_merge resource_suffix_def Let_def)
    (simp add: web_app_def sample_resources_def rollout_kind_def ServiceType_def deploy_kb_def sample_deployment_wait)

text \<open>A deployment of the sample install that runs through.\<close>

lemma web_Deploy:
  "Deploy deploy_kb sample_ref \<lparr>do_Action = ActionApplyOutputs, do_Timeout = second\<rparr> False (deploy_memory\<lparr>m_Clock := 0\<rparr>) =
     (Ok (), deploy_memory\<lparr>m_Clock := second\<rparr>)"
  by (simp add: Deploy_def web_gather web_DeleteJob web_configmap web_createJob web_pollJob Let_def)
    (simp add: web_info_def deploy_info_def web_Rollout)


definition strict_app :: Application where
  "strict_app = sample_app\<lparr>app_Spec := (app_Spec sample_app)\<lparr>as_ParameterDefinitions :=
     [\<lparr>pd_Name = ''size'', pd_Default = [], pd_Description = [], pd_Required = True, pd_GenerateSecret = no_secret\<rparr>]\<rparr>\<rparr>"

definition strict_memory :: memory where
  "strict_memory = deploy_memory\<lparr>m_Applications := [((''nginx-1'', ''default''), strict_app)]\<rparr>"

theorem Deploy_invalid_witness:
  "\<exists>e. Deploy mem_client sample_ref \<lparr>do_Action = ActionApply, do_Timeout = second\<rparr> False strict_memory = (Err e, strict_memory)"
proof -
  have cl: "cl_Installs (cluster_of strict_memory) (''web'', ''default'') = Some sample_install"
    "cl_Applications (cluster_of strict_memory) (''nginx-1'', ''default'') = Some strict_app"
    "cl_Flavors (cluster_of strict_memory) ('''', ''default'') = Some zero_flavor"
    by (simp_all add: cluster_of_def strict_memory_def deploy_memory_def sample_memory_def)
  then have i: "installed (cluster_of strict_memory) sample_ref sample_install strict_app"
    by (simp add: installed_def sample_ref_def) (simp add: sample_install_def)
  have "Parameter_Validate (install_pm mem_client sample_ref sample_install strict_app) \<noteq> None"
    by (simp add: Parameter_Validate_def strict_app_def sample_install_def)
  then obtain e where "Parameter_Validate (install_pm mem_client sample_ref sample_install strict_app) = Some e" by blast
  from Deploy_invalid [OF mem_client_installs(1) mem_client_flavors(1) mem_client_applications(1) i _ this] cl(3)
  show ?thesis by simp
qed

theorem build_job_deadline_witness:
  "\<exists>d. js_ActiveDeadlineSeconds (job_Spec (build_job web_info)) = Some d \<and> 2 * second < d * second \<and> d * second \<le> 3 * second"
  using build_job_deadline [of web_info] by (simp add: web_info_def deploy_info_def second_def)

lemma deploy_kb_steady: "steady_jobs deploy_kb"
  by (simp add: steady_jobs_def steady_logs_def deploy_kb_def mem_clientset_def mem_runtime_def no_workloads_def
      no_kind_def steady_lookup_def forward_def)


definition failed_job :: Job where
  "failed_job = zero_job\<lparr>job_Conditions := [JobFailed]\<rparr>"

definition expired_kb :: "memory KBClient" where
  "expired_kb = mem_client
     \<lparr>kb_Interface := mem_clientset\<lparr>cs_Jobs := finds failed_job\<rparr>,
      kb_Jobs := (no_kind job_ObjectMeta)\<lparr>kc_Get := (\<lambda>n ns ob. ret failed_job)\<rparr>\<rparr>"

theorem pollJob_hangs_witness:
  "fst (pollJob (with_fuel 1000 expired_kb) web_info sample_ref False empty_memory) = OutOfFuel"
  by (rule pollJob_hangs [where j = failed_job])
    (simp_all add: expired_kb_def finds_def no_kind_def mem_clientset_def failed_job_def JobFailed_def JobComplete_def)

end
