(* ===== verification/Manifest_Laws.thy ===== *)
theory Manifest_Laws
  imports Manifests Deploy_Laws
begin

text \<open>
  What holds of manifests: installing and deploying one agree on the names of its installs when its
  bundles state the requirements of their applications, and a deployment goes through all of them in
  the order of their dependencies.
\<close>

section \<open>The names of the installs\<close>

text \<open>
  The names \<open>Manifest_Install\<close> gives the installs it makes for a list of applications, and the
  names \<open>manifest_deploy\<close> looks up for a list of bundles.
\<close>

definition install_targets :: "Application list \<Rightarrow> string set" where
  "install_targets apps = (\<Union>a\<in>set apps. case install_suffixes apps (as_Name (app_Spec a)) of
     None \<Rightarrow> {as_Name (app_Spec a)}
   | Some users \<Rightarrow> getResourceName (as_Name (app_Spec a)) ` snd ` set users)"

definition bundle_suffixes :: "BundleSpec list \<Rightarrow> string \<Rightarrow> string set" where
  "bundle_suffixes bundles n = fst ` set (entry_or_nil (deploy_suffixes bundles) n)"

definition deploy_targets :: "BundleSpec list \<Rightarrow> string set" where
  "deploy_targets bundles = (\<Union>b\<in>set bundles.
     getResourceName (bs_Name b) ` (if bundle_suffixes bundles (bs_Name b) = {} then {[]}
       else bundle_suffixes bundles (bs_Name b)))"

text \<open>The suffixes some list of requirements asks for.\<close>

definition wanted :: "RequiresList list \<Rightarrow> string \<Rightarrow> string set" where
  "wanted rs n = {rl_Suffix r | r. r \<in> set rs \<and> rl_Name r = n}"

lemma wanted_simps [simp]:
  "wanted [] n = {}"
  "wanted (r # rs) n = (if rl_Name r = n then insert (rl_Suffix r) (wanted rs n) else wanted rs n)"
  by (auto simp: wanted_def)

lemma set_key_suffixes:
  "fst ` set (entry_or_nil (set_key k x m) n) =
     (if n = k then insert x (fst ` set (entry_or_nil m n)) else fst ` set (entry_or_nil m n))"
  by (simp add: set_key_def entry_or_nil_def dom_update)

lemma touch_entry [simp]: "entry_or_nil (touch k m) n = entry_or_nil m n"
  by (simp add: touch_def entry_or_nil_def split: option.split)

lemma set_keys_suffixes:
  "fst ` set (entry_or_nil (foldl (\<lambda>m r. set_key (rl_Name r) (rl_Suffix r) m) m rs) n) =
     fst ` set (entry_or_nil m n) \<union> wanted rs n"
  by (induction rs arbitrary: m) (auto simp: set_key_suffixes)

lemma bundle_suffixes_wanted: "bundle_suffixes bundles n = (\<Union>b\<in>set bundles. wanted (bs_Requires b) n)"
proof -
  have "fst ` set (entry_or_nil (foldl (\<lambda>m b. foldl (\<lambda>m r. set_key (rl_Name r) (rl_Suffix r) m)
           (touch (bs_Name b) m) (bs_Requires b)) m bundles) n) =
      fst ` set (entry_or_nil m n) \<union> (\<Union>b\<in>set bundles. wanted (bs_Requires b) n)" for m
    by (induction bundles arbitrary: m) (auto simp: set_keys_suffixes)
  from this [of Map.empty] show ?thesis
    by (simp add: bundle_suffixes_def deploy_suffixes_def entry_or_nil_def)
qed

text \<open>The suffixes \<open>Install\<close> collects, one entry for each application that asks.\<close>

abbreviation add_suffixes ::
    "string \<Rightarrow> RequiresList list \<Rightarrow> (string \<rightharpoonup> (string \<times> string) list) \<Rightarrow> string \<rightharpoonup> (string \<times> string) list" where
  "add_suffixes k rs m \<equiv> foldl (\<lambda>m r. add_suffix k r m) m rs"

lemma add_suffix_entry:
  "entry_or_nil (add_suffix k r m) n =
     (if n = rl_Name r then AList.update k (rl_Suffix r) (entry_or_nil m n) else entry_or_nil m n)"
  by (simp add: add_suffix_def entry_or_nil_def)

lemma update_fresh: "k \<notin> fst ` set al \<Longrightarrow> AList.update k v al = al @ [(k, v)]"
  by (induction al) auto

lemma add_suffixes_entry:
  assumes "distinct (map rl_Name rs)" and "\<And>n. n \<in> rl_Name ` set rs \<Longrightarrow> k \<notin> fst ` set (entry_or_nil m n)"
  shows "set (entry_or_nil (add_suffixes k rs m) n) = set (entry_or_nil m n) \<union> Pair k ` wanted rs n"
  using assms
proof (induction rs arbitrary: m)
  case (Cons r rs)
  define m' where "m' = add_suffix k r m"
  note entry = add_suffix_entry [of k r m, folded m'_def]
  have "k \<notin> fst ` set (entry_or_nil m' i)" if "i \<in> rl_Name ` set rs" for i
    using Cons.prems that by (auto simp: entry image_iff)
  with Cons.IH [of m'] Cons.prems(1) have "set (entry_or_nil (add_suffixes k rs m') n) =
      set (entry_or_nil m' n) \<union> Pair k ` wanted rs n" by simp
  moreover have "wanted rs (rl_Name r) = {}" using Cons.prems(1) by (auto simp: wanted_def image_iff)
  moreover have "k \<notin> fst ` set (entry_or_nil m (rl_Name r))" using Cons.prems(2) by simp
  ultimately show ?case by (auto simp: entry update_fresh m'_def [symmetric])
qed simp

lemma add_suffixes_dom: "add_suffixes k rs m n = None \<longleftrightarrow> m n = None \<and> wanted rs n = {}"
  by (induction rs arbitrary: m) (auto simp: add_suffix_def)

lemma install_suffixes_snoc:
  "install_suffixes (apps @ [a]) = add_suffixes (as_Name (app_Spec a)) (as_Requires (app_Spec a)) (install_suffixes apps)"
  by (simp add: install_suffixes_def)

lemma install_suffixes_None:
  "install_suffixes apps n = None \<longleftrightarrow> (\<forall>a\<in>set apps. wanted (as_Requires (app_Spec a)) n = {})"
  by (induction apps rule: rev_induct) (auto simp: install_suffixes_snoc add_suffixes_dom, simp add: install_suffixes_def)

lemma install_suffixes_set:
  assumes "distinct (map (\<lambda>a. as_Name (app_Spec a)) apps)"
    and "\<And>a. a \<in> set apps \<Longrightarrow> distinct (map rl_Name (as_Requires (app_Spec a)))"
  shows "set (entry_or_nil (install_suffixes apps) n) =
    (\<Union>a\<in>set apps. Pair (as_Name (app_Spec a)) ` wanted (as_Requires (app_Spec a)) n)"
  using assms
proof (induction apps arbitrary: n rule: rev_induct)
  case Nil
  then show ?case by (simp add: install_suffixes_def entry_or_nil_def)
next
  case (snoc a apps)
  have IH: "set (entry_or_nil (install_suffixes apps) n) =
      (\<Union>a\<in>set apps. Pair (as_Name (app_Spec a)) ` wanted (as_Requires (app_Spec a)) n)" for n
    using snoc.IH snoc.prems by simp
  have "as_Name (app_Spec a) \<notin> fst ` set (entry_or_nil (install_suffixes apps) n)" for n
    using snoc.prems(1) unfolding IH by auto
  with add_suffixes_entry [of "as_Requires (app_Spec a)"] snoc.prems(2) [of a]
  show ?case by (simp add: install_suffixes_snoc IH) blast
qed

lemma install_targets_alt:
  assumes "distinct (map (\<lambda>a. as_Name (app_Spec a)) apps)"
    and "\<And>a. a \<in> set apps \<Longrightarrow> distinct (map rl_Name (as_Requires (app_Spec a)))"
  shows "install_targets apps = (\<Union>a\<in>set apps. getResourceName (as_Name (app_Spec a)) `
    (let s = \<Union>u\<in>set apps. wanted (as_Requires (app_Spec u)) (as_Name (app_Spec a)) in if s = {} then {[]} else s))"
proof -
  have "(case install_suffixes apps n of None \<Rightarrow> {n} | Some users \<Rightarrow> getResourceName n ` snd ` set users) =
      getResourceName n ` (let s = \<Union>u\<in>set apps. wanted (as_Requires (app_Spec u)) n in if s = {} then {[]} else s)" for n
  proof (cases "install_suffixes apps n")
    case None
    then have "(\<Union>u\<in>set apps. wanted (as_Requires (app_Spec u)) n) = {}"
      by (simp add: install_suffixes_None)
    with None show ?thesis by (simp add: getResourceName_def)
  next
    case (Some users)
    then have "(\<Union>u\<in>set apps. wanted (as_Requires (app_Spec u)) n) \<noteq> {}"
      using install_suffixes_None [of apps n] by auto
    moreover have "set users = (\<Union>a\<in>set apps. Pair (as_Name (app_Spec a)) ` wanted (as_Requires (app_Spec a)) n)"
      using install_suffixes_set [OF assms, of n] Some by (simp add: entry_or_nil_def)
    then have "snd ` set users = (\<Union>u\<in>set apps. wanted (as_Requires (app_Spec u)) n)"
      by (simp add: image_UN image_image)
    ultimately show ?thesis using Some by (simp add: Let_def)
  qed
  then show ?thesis by (simp add: install_targets_def)
qed

text \<open>Bundles that state the names and the requirements of the applications they stand for.\<close>

definition states_requirements :: "Application list \<Rightarrow> BundleSpec list \<Rightarrow> bool" where
  "states_requirements apps bundles \<longleftrightarrow>
     (\<lambda>a. (as_Name (app_Spec a), {(rl_Name r, rl_Suffix r) | r. r \<in> set (as_Requires (app_Spec a))})) ` set apps =
     (\<lambda>b. (bs_Name b, {(rl_Name r, rl_Suffix r) | r. r \<in> set (bs_Requires b)})) ` set bundles"


section \<open>The order of a deployment\<close>

definition before :: "'a list \<Rightarrow> 'a \<Rightarrow> 'a \<Rightarrow> bool" where
  "before xs x y \<longleftrightarrow> (\<exists>i j. i < j \<and> j < length xs \<and> xs ! i = x \<and> xs ! j = y)"

text \<open>
  What a layered topological sort promises: its layers hold the names of the entries, each after the
  names it depends on.
\<close>

definition solver_sound :: "((string \<times> string list) list \<Rightarrow> string list list option) \<Rightarrow> bool" where
  "solver_sound solve \<longleftrightarrow> (\<forall>es layers. solve es = Some layers \<longrightarrow>
     set (concat layers) = fst ` set es \<and>
     (\<forall>n ds d. (n, ds) \<in> set es \<longrightarrow> d \<in> set ds \<longrightarrow> before (concat layers) d n))"

text \<open>
  What planning relies on: lookups find what the cluster stores, and iterating over a map visits each
  of its keys and changes nothing of the cluster.
\<close>

definition quiet_reads :: "'w KBClient \<Rightarrow> ('w \<Rightarrow> cluster) \<Rightarrow> bool" where
  "quiet_reads kb view \<longleftrightarrow> serves_Get (kb_Installs kb) view cl_Installs
     \<and> serves_Get (kb_Applications kb) view cl_Applications
     \<and> fair_range (kb_rt kb) \<and> (\<forall>ks w. view (snd (rt_range (kb_rt kb) ks w)) = view w)"

text \<open>The application an install of the cluster is of.\<close>

definition installed_app :: "cluster \<Rightarrow> string \<Rightarrow> string \<Rightarrow> Application \<Rightarrow> bool" where
  "installed_app cl ns n a \<longleftrightarrow> (\<exists>i. cl_Installs cl (n, ns) = Some i \<and>
     cl_Applications cl (application_name (in_Spec i), ns) = Some a)"

text \<open>What holds of the plan while it is made.\<close>

definition plan_ok :: "cluster \<Rightarrow> string \<Rightarrow> plan \<Rightarrow> bool" where
  "plan_ok cl ns p \<longleftrightarrow>
     dom (pl_installs p) = fst ` set (pl_entries p) \<and>
     (\<forall>n i. pl_installs p n = Some i \<longrightarrow> in_ObjectMeta i = \<lparr>om_Name = n, om_Namespace = ns\<rparr>) \<and>
     (\<forall>e\<in>set (pl_entries p). \<exists>a. installed_app cl ns (fst e) a \<and>
        required_name ` set (as_Requires (app_Spec a)) \<subseteq> set (snd e))"

lemma range_keys_quiet:
  assumes "quiet_reads kb view" and "range_keys (kb_rt kb) m w = (Ok ks, w')"
  shows "set ks = fst ` set m \<and> view w' = view w"
proof -
  have k: "ks = fst (rt_range (kb_rt kb) (map fst m) w)" "w' = snd (rt_range (kb_rt kb) (map fst m) w)"
    using assms(2) by (simp_all add: range_keys_def split: prod.splits)
  with assms(1) have "mset ks = mset (map fst m)" by (simp add: quiet_reads_def fair_range_def)
  then have "set ks = fst ` set m" by (metis list.set_map set_mset_mset)
  with k(2) assms(1) show ?thesis by (simp add: quiet_reads_def)
qed

lemma require_deps_Ok:
  assumes "quiet_reads kb view"
  shows "fold_io (require_deps kb dependencies) rs deps w = (Ok ds, w') \<Longrightarrow>
     set deps \<union> required_name ` set rs \<subseteq> set ds \<and> view w' = view w"
proof (induction rs arbitrary: deps w)
  case (Cons r rs)
  then obtain d u where one: "require_deps kb dependencies r deps w = (Ok d, u)"
    and rest: "fold_io (require_deps kb dependencies) rs d u = (Ok ds, w')"
    by (auto simp: io_ok)
  have "insert (required_name r) (set deps) \<subseteq> set d \<and> view u = view w"
  proof (cases "dependencies (rl_Name r)")
    case None
    with one show ?thesis by (auto simp: require_deps_def io_ok required_name_def)
  next
    case (Some m)
    with one obtain ks where "range_keys (kb_rt kb) m w = (Ok ks, u)" "d = deps @ ks @ [required_name r]"
      by (auto simp: require_deps_def io_ok required_name_def)
    with range_keys_quiet [OF assms] show ?thesis by auto
  qed
  with Cons.IH [OF rest] show ?case by auto
qed simp

lemma plan_suffix_Ok:
  assumes reads: "quiet_reads kb view" and keyed: "keyed_installs (view w)"
    and "plan_suffix kb mref dependencies b s p w = (Ok p', w')" and "plan_ok (view w) (mr_Namespace mref) p"
  shows "plan_ok (view w) (mr_Namespace mref) p' \<and> view w' = view w \<and>
    fst ` set (pl_entries p') = insert (getResourceName (bs_Name b) s) (fst ` set (pl_entries p))"
proof -
  let ?n = "getResourceName (bs_Name b) s" and ?ns = "mr_Namespace mref"
  from assms(3) obtain i u a u' deps where
    i: "kc_Get (kb_Installs kb) ?n ?ns zero_install w = (Ok i, u)" and
    a: "kc_Get (kb_Applications kb) (application_name (in_Spec i)) ?ns zero_application u = (Ok a, u')" and
    deps: "fold_io (require_deps kb dependencies) (as_Requires (app_Spec a)) [] u' = (Ok deps, w')" and
    p': "p' = \<lparr>pl_entries = pl_entries p @ [(?n, deps)], pl_installs = (pl_installs p)(?n \<mapsto> i)\<rparr>"
    by (auto simp: plan_suffix_def io_ok Let_def)
  have i': "cl_Installs (view w) (?n, ?ns) = Some i" "u = w"
    using reads i by (auto simp: quiet_reads_def serves_Get_def split: option.splits)
  have a': "cl_Applications (view w) (application_name (in_Spec i), ?ns) = Some a" "u' = w"
    using reads a i'(2) by (auto simp: quiet_reads_def serves_Get_def split: option.splits)
  have "installed_app (view w) ?ns ?n a" using i' a' by (simp add: installed_app_def)
  moreover have "in_ObjectMeta i = \<lparr>om_Name = ?n, om_Namespace = ?ns\<rparr>"
    using keyed i' by (simp add: keyed_installs_def)
  moreover have "required_name ` set (as_Requires (app_Spec a)) \<subseteq> set deps \<and> view w' = view w"
    using require_deps_Ok [OF reads deps] a'(2) by auto
  ultimately show ?thesis using assms(4) unfolding plan_ok_def p' by auto
qed

lemma plan_suffixes_Ok:
  assumes reads: "quiet_reads kb view" and "keyed_installs (view w)"
    and "fold_io (plan_suffix kb mref dependencies b) ks p w = (Ok p', w')"
    and "plan_ok (view w) (mr_Namespace mref) p"
  shows "plan_ok (view w) (mr_Namespace mref) p' \<and> view w' = view w \<and>
    fst ` set (pl_entries p') = getResourceName (bs_Name b) ` set ks \<union> fst ` set (pl_entries p)"
  using assms(2-)
proof (induction ks arbitrary: p w)
  case (Cons k ks)
  then obtain q u where q: "plan_suffix kb mref dependencies b k p w = (Ok q, u)"
    and rest: "fold_io (plan_suffix kb mref dependencies b) ks q u = (Ok p', w')"
    by (auto simp: io_ok)
  note one = plan_suffix_Ok [OF reads Cons.prems(1) q Cons.prems(3)]
  then have "view u = view w" by simp
  from Cons.IH [OF _ rest] one Cons.prems(1) show ?case by (auto simp: \<open>view u = view w\<close>)
qed simp

text \<open>The suffixes the loop has for a bundle: those asked for, or just the empty one.\<close>

abbreviation suffixes_of :: "BundleSpec list \<Rightarrow> string \<Rightarrow> string set" where
  "suffixes_of bundles n \<equiv> if bundle_suffixes bundles n = {} then {[]} else bundle_suffixes bundles n"

definition suffix_state :: "BundleSpec list \<Rightarrow> (string \<rightharpoonup> (string \<times> bool) list) \<Rightarrow> bool" where
  "suffix_state bundles m \<longleftrightarrow> (\<forall>n. fst ` set (entry_or_nil m n) = bundle_suffixes bundles n \<or>
     bundle_suffixes bundles n = {} \<and> fst ` set (entry_or_nil m n) = {[]})"

lemma or_empty_suffix_state:
  assumes "suffix_state bundles m"
  shows "suffix_state bundles (or_empty_suffix n m) \<and>
    fst ` set (entry_or_nil (or_empty_suffix n m) n) = suffixes_of bundles n"
proof (cases "entry_or_nil m n = []")
  case True
  with assms have "bundle_suffixes bundles n = {}"
    by (simp add: suffix_state_def) (metis empty_not_insert image_empty empty_set)
  moreover have "fst ` set (entry_or_nil (or_empty_suffix n m) i) =
      (if i = n then {[]} else fst ` set (entry_or_nil m i))" for i
    using True by (simp add: or_empty_suffix_def set_key_suffixes)
  ultimately show ?thesis using assms unfolding suffix_state_def by metis
next
  case False
  then have "fst ` set (entry_or_nil m n) \<noteq> {}" by simp
  moreover have "or_empty_suffix n m = m" using False by (simp add: or_empty_suffix_def)
  ultimately show ?thesis using assms unfolding suffix_state_def by metis
qed

lemma plan_bundle_Ok:
  assumes reads: "quiet_reads kb view" and keyed: "keyed_installs (view w)"
    and "plan_bundle kb mref dependencies b (m, p) w = (Ok (m', p'), w')"
    and "suffix_state bundles m" and "plan_ok (view w) (mr_Namespace mref) p"
  shows "suffix_state bundles m' \<and> plan_ok (view w) (mr_Namespace mref) p' \<and> view w' = view w \<and>
    fst ` set (pl_entries p') = getResourceName (bs_Name b) ` suffixes_of bundles (bs_Name b) \<union> fst ` set (pl_entries p)"
proof -
  from assms(3) obtain ks u where m': "m' = or_empty_suffix (bs_Name b) m"
    and ks: "range_keys (kb_rt kb) (entry_or_nil m' (bs_Name b)) w = (Ok ks, u)"
    and p': "fold_io (plan_suffix kb mref dependencies b) ks p u = (Ok p', w')"
    by (auto simp: plan_bundle_def io_ok Let_def)
  note state = or_empty_suffix_state [OF assms(4), of "bs_Name b", folded m']
  from range_keys_quiet [OF reads ks] have u: "view u = view w" and keys: "set ks = fst ` set (entry_or_nil m' (bs_Name b))"
    by simp_all
  from plan_suffixes_Ok [OF reads _ p'] state keys keyed assms(5) show ?thesis by (simp add: u)
qed

lemma plan_bundles_Ok:
  assumes reads: "quiet_reads kb view" and "keyed_installs (view w)"
    and "fold_io (plan_bundle kb mref dependencies) bs (m, p) w = (Ok (m', p'), w')"
    and "suffix_state bundles m" and "plan_ok (view w) (mr_Namespace mref) p"
  shows "plan_ok (view w) (mr_Namespace mref) p' \<and> fst ` set (pl_entries p') =
    (\<Union>b\<in>set bs. getResourceName (bs_Name b) ` suffixes_of bundles (bs_Name b)) \<union> fst ` set (pl_entries p)"
  using assms(2-)
proof (induction bs arbitrary: m p w)
  case (Cons b bs)
  then obtain m1 p1 u where step: "plan_bundle kb mref dependencies b (m, p) w = (Ok (m1, p1), u)"
    and rest: "fold_io (plan_bundle kb mref dependencies) bs (m1, p1) u = (Ok (m', p'), w')"
    by (auto simp: io_ok)
  note one = plan_bundle_Ok [OF reads Cons.prems(1) step Cons.prems(3,4)]
  then have u: "view u = view w" by simp
  from Cons.IH [OF _ rest] one Cons.prems(1) show ?case by (auto simp: u)
qed simp

text \<open>
  C2. A manifest deployment that succeeds has deployed, one after the other, exactly the installs the
  manifest stands for, and each only after every install its application requires, given a solver that
  keeps its promise and a runtime that visits every key of a map.
\<close>

theorem Manifest_Deploy_order:
  assumes reads: "quiet_reads kb view" "serves_Get (kb_Manifests kb) view cl_Manifests"
    and keyed: "keyed_installs (view w)"
    and manifest: "cl_Manifests (view w) (mr_Name mref, mr_Namespace mref) = Some m"
    and solver: "solver_sound (kb_LayeredTopologicalSort kb)"
    and run: "Manifest_Deploy kb mref showLogs timeout w = (Ok (), w')"
  shows "\<exists>names us. set names = deploy_targets (ms_Bundles (mf_Spec m)) \<and>
    length us = Suc (length names) \<and> us ! length names = w' \<and>
    (\<forall>i<length names. Deploy kb \<lparr>ir_Name = names ! i, ir_Namespace = mr_Namespace mref\<rparr>
       \<lparr>do_Action = ActionApplyOutputs, do_Timeout = timeout\<rparr> showLogs (us ! i) = (Ok (), us ! Suc i)) \<and>
    (\<forall>n\<in>set names. \<exists>a. installed_app (view w) (mr_Namespace mref) n a \<and>
       (\<forall>r\<in>set (as_Requires (app_Spec a)). before names (required_name r) n))"
proof -
  let ?ns = "mr_Namespace mref" and ?bundles = "ms_Bundles (mf_Spec m)"
  have "kc_Get (kb_Manifests kb) (mr_Name mref) ?ns zero_manifest w = (Ok m, w)"
    using reads(2) manifest by (simp add: serves_Get_def)
  with run obtain sfxs p v layers where
    plan: "fold_io (plan_bundle kb mref (deploy_dependencies ?bundles)) ?bundles
       (deploy_suffixes ?bundles, \<lparr>pl_entries = [], pl_installs = Map.empty\<rparr>) w = (Ok (sfxs, p), v)" and
    layers: "kb_LayeredTopologicalSort kb (pl_entries p) = Some layers" and
    deploy: "for_each (deploy_name kb (pl_installs p) showLogs timeout False) (concat layers) v = (Ok (), w')"
    by (auto simp: Manifest_Deploy_def manifest_deploy_def with_manifest_def io_ok Let_def split: option.splits)
  have "suffix_state ?bundles (deploy_suffixes ?bundles)"
    by (simp add: suffix_state_def bundle_suffixes_def)
  from plan_bundles_Ok [OF reads(1) keyed plan this]
  have ok: "plan_ok (view w) ?ns p" and targets: "fst ` set (pl_entries p) = deploy_targets ?bundles"
    by (simp_all add: plan_ok_def deploy_targets_def)
  define names where "names = concat layers"
  have set_names: "set names = fst ` set (pl_entries p)"
    and sorted: "\<And>n ds d. (n, ds) \<in> set (pl_entries p) \<Longrightarrow> d \<in> set ds \<Longrightarrow> before names d n"
    using solver layers unfolding solver_sound_def names_def by blast+
  from for_each_runs [OF deploy, folded names_def] obtain us where us: "length us = Suc (length names)" "us ! length names = w'"
    "\<forall>i<length names. deploy_name kb (pl_installs p) showLogs timeout False (names ! i) (us ! i) = (Ok (), us ! Suc i)"
    by blast
  have one: "Deploy kb \<lparr>ir_Name = n, ir_Namespace = ?ns\<rparr> \<lparr>do_Action = ActionApplyOutputs, do_Timeout = timeout\<rparr> showLogs s = (Ok (), s')"
    if "deploy_name kb (pl_installs p) showLogs timeout False n s = (Ok (), s')" for n s s'
    using that ok by (auto simp: deploy_name_def plan_ok_def io_ok Let_def split: option.splits)
  have deps: "\<exists>a. installed_app (view w) ?ns n a \<and> (\<forall>r\<in>set (as_Requires (app_Spec a)). before names (required_name r) n)"
    if n: "n \<in> set names" for n
  proof -
    have "n \<in> fst ` set (pl_entries p)" using n unfolding set_names .
    then obtain ds where e: "(n, ds) \<in> set (pl_entries p)" by auto
    with ok obtain a where "installed_app (view w) ?ns n a" "required_name ` set (as_Requires (app_Spec a)) \<subseteq> set ds"
      by (auto simp: plan_ok_def)
    with sorted [OF e] show ?thesis by blast
  qed
  show ?thesis
    using us one deps set_names targets by (intro exI [of _ names] exI [of _ us]) auto
qed

subsection \<open>Examples\<close>

text \<open>Two applications, one requiring the other, installed under their own names.\<close>

definition plain_app :: "string \<Rightarrow> string list \<Rightarrow> Application" where
  "plain_app n rs = zero_application
     \<lparr>app_ObjectMeta := \<lparr>om_Name = n @ ''-1'', om_Namespace = ''default''\<rparr>,
      app_Spec := (app_Spec zero_application)\<lparr>as_Name := n, as_Version := ''1'', as_DeployImage := ''img'',
        as_Requires := map (\<lambda>r. \<lparr>rl_Name = r, rl_Suffix = [], rl_Parameters = []\<rparr>) rs\<rparr>\<rparr>"

definition plain_install :: "string \<Rightarrow> Install" where
  "plain_install n = zero_install
     \<lparr>in_ObjectMeta := \<lparr>om_Name = n, om_Namespace = ''default''\<rparr>,
      in_Spec := (in_Spec zero_install)\<lparr>is_Application := n, is_Version := ''1''\<rparr>\<rparr>"

definition plain_bundle :: "string \<Rightarrow> string list \<Rightarrow> BundleSpec" where
  "plain_bundle n rs = \<lparr>bs_Name = n, bs_Version = ''1'', bs_Parameters = [],
     bs_Requires = map (\<lambda>r. \<lparr>rl_Name = r, rl_Suffix = [], rl_Parameters = []\<rparr>) rs\<rparr>"

definition two_manifest :: Manifest where
  "two_manifest = zero_manifest
     \<lparr>mf_ObjectMeta := \<lparr>om_Name = ''all'', om_Namespace = ''default''\<rparr>,
      mf_Spec := (mf_Spec zero_manifest)\<lparr>ms_Bundles := [plain_bundle ''db'' [], plain_bundle ''web'' [''db'']]\<rparr>\<rparr>"

definition two_memory :: "int \<Rightarrow> memory" where
  "two_memory t = empty_memory\<lparr>m_Clock := t,
     m_Installs := [((''db'', ''default''), plain_install ''db''), ((''web'', ''default''), plain_install ''web'')],
     m_Applications := [((''db-1'', ''default''), plain_app ''db'' []), ((''web-1'', ''default''), plain_app ''web'' [''db''])],
     m_Flavors := [(('''', ''default''), zero_flavor)],
     m_Manifests := [((''all'', ''default''), two_manifest)]\<rparr>"

definition two_solver :: "(string \<times> string list) list \<Rightarrow> string list list option" where
  "two_solver es = (if es = [(''db'', []), (''web'', [''db''])] then Some [[''db''], [''web'']] else None)"

definition two_kb :: "memory KBClient" where
  "two_kb = deploy_kb\<lparr>kb_LayeredTopologicalSort := two_solver\<rparr>"

lemma plain_sel [simp]:
  "is_Flavor (in_Spec (plain_install n)) = []" "application_name (in_Spec (plain_install n)) = n @ ''-1''"
  "is_DockerRegistry (in_Spec (plain_install n)) = []" "is_Suffix (in_Spec (plain_install n)) = []"
  "is_Parameters (in_Spec (plain_install n)) = []" "as_ParameterDefinitions (app_Spec (plain_app n rs)) = []"
  "as_Resources (app_Spec (plain_app n rs)) = []"
  "in_ObjectMeta (plain_install n) = \<lparr>om_Name = n, om_Namespace = ''default''\<rparr>"
  "as_Requires (app_Spec (plain_app n rs)) = map (\<lambda>r. \<lparr>rl_Name = r, rl_Suffix = [], rl_Parameters = []\<rparr>) rs"
  by (simp_all add: plain_install_def plain_app_def zero_install_def zero_application_def application_name_def)

lemma two_gets:
  "rm_Get (kb_Installs two_kb) ''db'' ''default'' ob (two_memory t) = (Ok (plain_install ''db''), two_memory t)"
  "rm_Get (kb_Installs two_kb) ''web'' ''default'' ob (two_memory t) = (Ok (plain_install ''web''), two_memory t)"
  "rm_Get (kb_Applications two_kb) ''db-1'' ''default'' oa (two_memory t) = (Ok (plain_app ''db'' []), two_memory t)"
  "rm_Get (kb_Applications two_kb) ''web-1'' ''default'' oa (two_memory t) = (Ok (plain_app ''web'' [''db'']), two_memory t)"
  "rm_Get (kb_Flavors two_kb) '''' ''default'' fl (two_memory t) = (Ok zero_flavor, two_memory t)"
  "rm_Get (kb_Manifests two_kb) ''all'' ''default'' mf (two_memory t) = (Ok two_manifest, two_memory t)"
  by (simp_all add: rm_Get_def two_kb_def deploy_kb_def mem_client_def mem_kind_def two_memory_def Let_def)

lemma no_parameters: "GetMergedMap (NewParameterManager kb n [] []) w = (Ok Map.empty, w)"
  by (simp add: GetMergedMap_entries entries_def NewParameterManager_def)

lemma two_configmap: "di_definitions info = [] \<Longrightarrow> di_parameters info = [] \<Longrightarrow> createOrPatchConfigmap two_kb info w = (Ok (), w)"
  by (simp add: createOrPatchConfigmap_def no_parameters rm_CreateOrPatch_def two_kb_def deploy_kb_def no_kind_def mem_client_def)

lemma two_job:
  "createJob two_kb info w = (Ok (), w)"
  "pollJob two_kb info ref b w = (Ok (), w)"
  by (simp_all add: createJob_def rm_Create_def pollJob_def ignoring_def printLogs_def Deploy_GetLogs_def rm_Get_def
      two_kb_def deploy_kb_def no_kind_def mem_clientset_def mem_runtime_def no_workloads_def complete_job_def
      numeral_eq_Suc Let_def)

lemma two_DeleteJob: "DeleteJob two_kb ref a (two_memory t) = (Ok (), two_memory (t + second))"
  by (simp add: DeleteJob_def rm_Delete_def two_kb_def deploy_kb_def no_kind_def mem_client_def mem_clientset_def
     mem_runtime_def numeral_eq_Suc Let_def two_memory_def)

lemma two_Deploy:
  assumes "n = ''db'' \<or> n = ''web''"
  shows "Deploy two_kb \<lparr>ir_Name = n, ir_Namespace = ''default''\<rparr> \<lparr>do_Action = ActionApplyOutputs, do_Timeout = T\<rparr> False (two_memory t) =
     (Ok (), two_memory (t + second))"
  using assms
  by (auto simp: Deploy_def gather_info_def two_gets validateRequiredParameters_def Parameter_Validate_def
      NewParameterManager_def resolve_image_def two_DeleteJob two_configmap two_job deploy_info_def
      Rollout_Wait_def no_parameters[unfolded NewParameterManager_def] Let_def)

lemma two_range: "range_keys (kb_rt two_kb) m w = (Ok (map fst m), w)"
  by (simp add: range_keys_def two_kb_def deploy_kb_def mem_clientset_def mem_runtime_def)

lemma two_maps:
  "deploy_suffixes [plain_bundle ''db'' [], plain_bundle ''web'' [''db'']] =
     [''db'' \<mapsto> [([], True)], ''web'' \<mapsto> []]"
  "deploy_dependencies [plain_bundle ''db'' [], plain_bundle ''web'' [''db'']] = [''web'' \<mapsto> [(''db'', True)]]"
  by (auto simp: deploy_suffixes_def deploy_dependencies_def plain_bundle_def touch_def set_key_def entry_or_nil_def
      getResourceName_def)

lemma two_plan:
  "fold_io (plan_bundle two_kb \<lparr>mr_Name = ''all'', mr_Namespace = ''default''\<rparr> [''web'' \<mapsto> [(''db'', True)]])
     [plain_bundle ''db'' [], plain_bundle ''web'' [''db'']]
     ([''db'' \<mapsto> [([], True)], ''web'' \<mapsto> []], \<lparr>pl_entries = [], pl_installs = Map.empty\<rparr>) (two_memory t) =
   (Ok ([''db'' \<mapsto> [([], True)], ''web'' \<mapsto> [([], True)]],
      \<lparr>pl_entries = [(''db'', []), (''web'', [''db''])],
       pl_installs = [''db'' \<mapsto> plain_install ''db'', ''web'' \<mapsto> plain_install ''web'']\<rparr>), two_memory t)"
  by (simp add: plan_bundle_def plan_suffix_def or_empty_suffix_def entry_or_nil_def set_key_def plain_bundle_def
      two_range two_gets require_deps_def getResourceName_def Let_def)

lemma two_run:
  "Manifest_Deploy two_kb \<lparr>mr_Name = ''all'', mr_Namespace = ''default''\<rparr> False second (two_memory 0) =
     (Ok (), two_memory (second + second))"
proof -
  have m: "ms_Bundles (mf_Spec two_manifest) = [plain_bundle ''db'' [], plain_bundle ''web'' [''db'']]"
    by (simp add: two_manifest_def)
  have s: "kb_LayeredTopologicalSort two_kb [(''db'', []), (''web'', [''db''])] = Some [[''db''], [''web'']]"
    by (simp add: two_kb_def two_solver_def)
  show ?thesis
    by (simp add: Manifest_Deploy_def manifest_deploy_def with_manifest_def two_gets m two_maps two_plan s
        deploy_name_def two_Deploy Let_def del: fold_io.simps)
qed

lemma two_laws:
  "quiet_reads two_kb cluster_of" "serves_Get (kb_Manifests two_kb) cluster_of cl_Manifests"
  "keyed_installs (cluster_of (two_memory t))" "cl_Manifests (cluster_of (two_memory t)) (''all'', ''default'') = Some two_manifest"
proof -
  show "quiet_reads two_kb cluster_of"
    using mem_client_installs(1) mem_client_applications(1)
    by (simp add: quiet_reads_def two_kb_def deploy_kb_def fair_range_def mem_clientset_def mem_runtime_def)
  show "serves_Get (kb_Manifests two_kb) cluster_of cl_Manifests"
    unfolding two_kb_def deploy_kb_def mem_client_def
    by (simp, rule mem_kind_serves(1) [where upd' = cl_Manifests_update])
      (simp_all add: cluster_of_def update_conv' fun_upd_def)
  show "keyed_installs (cluster_of (two_memory t))"
    by (simp add: keyed_installs_def cluster_of_def two_memory_def)
  show "cl_Manifests (cluster_of (two_memory t)) (''all'', ''default'') = Some two_manifest"
    by (simp add: cluster_of_def two_memory_def)
qed

lemma two_bundles: "ms_Bundles (mf_Spec two_manifest) = [plain_bundle ''db'' [], plain_bundle ''web'' [''db'']]"
  by (simp add: two_manifest_def)

lemma two_targets: "deploy_targets (ms_Bundles (mf_Spec two_manifest)) = {''db'', ''web''}"
  unfolding two_bundles deploy_targets_def bundle_suffixes_def two_maps
  by (simp add: plain_bundle_def entry_or_nil_def getResourceName_def) blast

lemma two_solver_sound: "solver_sound two_solver"
proof -
  have "before [''db'', ''web''] ''db'' ''web''"
    unfolding before_def by (rule exI [of _ 0], rule exI [of _ "Suc 0"]) simp
  then show ?thesis by (auto simp: solver_sound_def two_solver_def split: if_splits)
qed

theorem Manifest_Deploy_order_witness:
  "\<exists>names us. set names = {''db'', ''web''} \<and> before names ''db'' ''web'' \<and> us ! length names = two_memory (second + second)"
proof -
  let ?ref = "\<lparr>mr_Name = ''all'', mr_Namespace = ''default''\<rparr>"
  have solver: "solver_sound (kb_LayeredTopologicalSort two_kb)"
    using two_solver_sound by (simp add: two_kb_def)
  have web: "installed_app (cluster_of (two_memory 0)) ''default'' ''web'' a \<Longrightarrow> a = plain_app ''web'' [''db'']" for a
    by (simp add: installed_app_def cluster_of_def two_memory_def)
  from Manifest_Deploy_order [of two_kb cluster_of "two_memory 0" ?ref two_manifest, OF two_laws(1-3) _ solver two_run]
    two_laws(4) obtain names us where names: "set names = {''db'', ''web''}" and
    us: "us ! length names = two_memory (second + second)" and
    deps: "\<forall>n\<in>set names. \<exists>a. installed_app (cluster_of (two_memory 0)) ''default'' n a \<and>
       (\<forall>r\<in>set (as_Requires (app_Spec a)). before names (required_name r) n)"
    by (auto simp: two_targets)
  from deps names obtain a where "installed_app (cluster_of (two_memory 0)) ''default'' ''web'' a"
    "\<forall>r\<in>set (as_Requires (app_Spec a)). before names (required_name r) ''web''" by auto
  with web [of a] have "before names ''db'' ''web''" by (simp add: required_name_def getResourceName_def)
  with names us show ?thesis by blast
qed


end
