(* ===== verification/Status.thy ===== *)
theory Status
  imports Config Rollout "HOL-Library.List_Lexorder" "HOL-Library.Char_ord"
begin

text \<open>
  The checks of the health-status server (managers/status\_app.go, managers/status\_node.go,
  managers/status\_resource.go) as single rounds, and the status command (cmd/kb/subcommands/status.go)
  that shows their results. The loops and goroutines around the checks are in the theory Trackers.
  The Prometheus gauges are not modelled.
\<close>

section \<open>Endpoints\<close>

text \<open>
  What the checks use of the standard library: parsing a URL into scheme and host, a template parsed
  (\<open>None\<close> for the nil template of a failed parse) and executed with its two fields, an HTTP request
  (the status code; the client for vault endpoints does not verify certificates) and a TCP connection.
\<close>

record 'w network =
  net_Parse :: "string \<Rightarrow> (string \<times> string) result"
  net_Template :: "string \<Rightarrow> (string \<Rightarrow> string \<Rightarrow> string result) option"
  net_Get :: "bool \<Rightarrow> string \<Rightarrow> ('w, int) io"
  net_Dial :: "string \<Rightarrow> ('w, unit) io"

definition endpointHealthCheck :: "'w network \<Rightarrow> string \<Rightarrow> string \<Rightarrow> ('w, unit) io" where
  "endpointHealthCheck net endpoint expectedCode =
     andthen (lift_result (net_Parse net endpoint)) (\<lambda>(scheme, host).
       if scheme = ''http'' \<or> scheme = ''https'' then
         andthen (net_Get net (contains endpoint ''vault'') endpoint) (\<lambda>code.
           if expectedCode \<noteq> [] then
             (if Itoa code \<noteq> expectedCode
              then fail (Errorf ''GET returned response: %s and the expectedCode is %s'' [Str (Itoa code), Str expectedCode])
              else ret ())
           else if \<not> (200 \<le> code \<and> code < 300)
           then fail (Errorf ''GET returned non-2XX response: %d'' [Num code])
           else ret ())
       else if scheme = ''tcp'' then net_Dial net host
       else fail (Errorf ''Endpoint scheme must be http/https/tcp'' []))"

section \<open>Applications\<close>

record EndpointStatus =
  ep_Endpoint :: string
  ep_Status :: int

record AppStatus =
  ast_App :: string
  ast_Endpoints :: "EndpointStatus list"
  ast_LastUpdated :: int

text \<open>The last default of a parameter definition with the given name, if there is one.\<close>

definition last_default :: "string \<Rightarrow> ParameterDefinitionSpec list \<Rightarrow> string option" where
  "last_default n ds = foldl (\<lambda>v d. if pd_Name d = n then Some (pd_Default d) else v) None ds"

definition default_or_empty :: "string \<Rightarrow> ParameterDefinitionSpec list \<Rightarrow> string" where
  "default_or_empty n ds = (case last_default n ds of None \<Rightarrow> [] | Some v \<Rightarrow> v)"

definition check_endpoint ::
    "'w network \<Rightarrow> string \<Rightarrow> string \<Rightarrow> StatusList \<Rightarrow> EndpointStatus list \<Rightarrow> ('w, EndpointStatus list) io" where
  "check_endpoint net sfx namespace status done =
     (if TrimSpace (sl_Endpoint status) = [] then ret done
      else case net_Template net (sl_Endpoint status) of
        None \<Rightarrow> panic nil_dereference
      | Some execute \<Rightarrow>
          handle (lift_result (execute sfx namespace))
            (\<lambda>endpoint.
              check (endpointHealthCheck net endpoint (sl_ExpectedCode status)) () (\<lambda>err _.
                ret (done @ [\<lparr>ep_Endpoint = endpoint, ep_Status = (if err = None then 1 else 0)\<rparr>])))
            (\<lambda>err. ret done))"

text \<open>One check of an application, what \<open>runApplicationCheck\<close> stores as its result.\<close>

definition check_application :: "'w runtime \<Rightarrow> 'w network \<Rightarrow> Application \<Rightarrow> ('w, AppStatus) io" where
  "check_application rt net app =
     andthen (now rt) (\<lambda>t.
       let definitions = as_ParameterDefinitions (app_Spec app) in
       andthen (fold_io (check_endpoint net (default_or_empty ''suffix'' definitions)
                  (default_or_empty ''namespace'' definitions)) (as_Status (app_Spec app)) [])
         (\<lambda>endpoints. ret \<lparr>ast_App = om_Name (app_ObjectMeta app), ast_Endpoints = endpoints, ast_LastUpdated = t\<rparr>))"

section \<open>Nodes\<close>

record NodeInfo =
  ni_Name :: string
  ni_IpAddress :: string
  ni_Role :: string

record DetailStatus =
  dt_Name :: string
  dt_Value :: string
  dt_Healthy :: string

record NodeStatus =
  ns_Node :: NodeInfo
  ns_Status :: string
  ns_Condition :: "DetailStatus list"
  ns_Network :: "DetailStatus list"
  ns_Preflight :: "DetailStatus list"

definition clusterChecks :: "string \<rightharpoonup> string" where
  "clusterChecks = [''MemoryPressure'' \<mapsto> ''False'', ''PIDPressure'' \<mapsto> ''False'', ''Ready'' \<mapsto> ''True'']"

definition checkNodeConditionStatus :: "(string \<rightharpoonup> Node) \<Rightarrow> string \<Rightarrow> DetailStatus list" where
  "checkNodeConditionStatus k0sNode nodeName =
     (case k0sNode nodeName of
        None \<Rightarrow> []
      | Some nodeData \<Rightarrow>
          List.map_filter (\<lambda>(type, status). map_option (\<lambda>val. \<lparr>dt_Name = type, dt_Value = status,
              dt_Healthy = (if status = val then ''true'' else ''false'')\<rparr>) (clusterChecks type))
            (node_Conditions nodeData))"

definition checkSshDaemonset :: "'w network \<Rightarrow> string \<Rightarrow> string \<Rightarrow> ('w, DetailStatus) io" where
  "checkSshDaemonset net sshPort nodeIp =
     check (endpointHealthCheck net (''tcp://'' @ nodeIp @ '':'' @ sshPort) []) () (\<lambda>err _.
       ret (if err \<noteq> None then \<lparr>dt_Name = ''sshDaemonset'', dt_Value = ''down'', dt_Healthy = ''false''\<rparr>
            else \<lparr>dt_Name = ''sshDaemonset'', dt_Value = ''up'', dt_Healthy = ''true''\<rparr>))"

text \<open>
  The status recorded for a node whose daemon could not be asked or understood (\<open>problem\<close> is the
  text of the error), and the one made of its answer.
\<close>

definition unavailable_node :: "Node \<Rightarrow> string \<Rightarrow> DetailStatus list \<Rightarrow> string \<Rightarrow> NodeStatus" where
  "unavailable_node node nodeIp conditions problem =
     \<lparr>ns_Node = \<lparr>ni_Name = node_Name node, ni_IpAddress = nodeIp,
        ni_Role = (case node_Labels node ''node.k0sproject.io/role'' of None \<Rightarrow> [] | Some r \<Rightarrow> r)\<rparr>,
      ns_Status = ''Not Available'',
      ns_Condition = conditions @ [\<lparr>dt_Name = ''GetStatus'', dt_Value = problem, dt_Healthy = ''false''\<rparr>],
      ns_Network = [], ns_Preflight = []\<rparr>"

definition available_node :: "NodeStatus \<Rightarrow> DetailStatus list \<Rightarrow> DetailStatus \<Rightarrow> NodeStatus" where
  "available_node answer conditions ssh =
     answer\<lparr>ns_Condition := conditions, ns_Preflight := ns_Preflight answer @ [ssh]\<rparr>"

section \<open>Resources\<close>

record ResourceStatus =
  rst_Category :: string
  rst_Service :: string
  rst_Name :: string
  rst_Type :: string
  rst_Status :: string
  rst_Error :: string
  rst_LastUpdated :: int

definition calculateStatus :: "int \<Rightarrow> int \<Rightarrow> bool \<Rightarrow> string" where
  "calculateStatus availableReplicas totalReplicas needsQuorum =
     (if totalReplicas = 0 then ''stopped''
      else if availableReplicas = 0 then ''down''
      else if availableReplicas = totalReplicas then ''up''
      else if needsQuorum then
        (if availableReplicas \<ge> go_div totalReplicas 2 then ''degraded'' else ''impacted'')
      else ''degraded'')"

text \<open>\<open>err.Error()\<close>, the text of an error, is a parameter of the round.\<close>

definition calculateError :: "(gerror \<Rightarrow> string) \<Rightarrow> gerror option \<Rightarrow> string" where
  "calculateError message err = (case err of None \<Rightarrow> ''-'' | Some e \<Rightarrow> message e)"

definition status_kind :: "string \<Rightarrow> kind option" where
  "status_kind type =
     (if type = ''cronjob'' then Some CronJob_kind
      else if type = ''daemonset'' then Some DaemonSet_kind
      else if type = ''deployment'' then Some Deployment_kind
      else if type = ''job'' then Some Job_kind
      else if type = ''kubegres'' then Some Kubegres_kind
      else if type = ''statefulset'' then Some StatefulSet_kind
      else None)"

definition resource_status ::
    "'w KBClient \<Rightarrow> (gerror \<Rightarrow> string) \<Rightarrow> string \<Rightarrow> string \<Rightarrow> string \<Rightarrow> Resource \<Rightarrow> kind \<Rightarrow> ('w, ResourceStatus) io" where
  "resource_status kb message service name ns r k =
     (let deployable = new_workload k (rs_Category r) service name ns in
      check (Fetch (kb_Interface kb) deployable) deployable (\<lambda>err fetched.
        andthen (now (kb_rt kb)) (\<lambda>t. ret
          \<lparr>rst_Category = rs_Category r, rst_Service = service, rst_Name = name, rst_Type = rs_Type r,
           rst_Status = calculateStatus (wk_availableReplicas fetched) (wk_totalReplicas fetched) (NeedsQuorum fetched),
           rst_Error = calculateError message err, rst_LastUpdated = t\<rparr>)))"

definition add_resource ::
    "'w KBClient \<Rightarrow> (gerror \<Rightarrow> string) \<Rightarrow> Install \<Rightarrow> Resource \<Rightarrow> ResourceStatus list \<Rightarrow> ('w, ResourceStatus list) io" where
  "add_resource kb message i r statuses =
     (let sfx = is_Suffix (in_Spec i);
          name = (if sfx \<noteq> [] then rs_Name r @ ''-'' @ sfx else rs_Name r);
          service = om_Name (in_ObjectMeta i) in
      handle (Config_Get \<lparr>cmg_kbClient = kb\<rparr> \<lparr>ir_Name = service, ir_Namespace = defaultNamespace\<rparr> ''namespace'')
        (\<lambda>ns. if ns = [] then ret statuses
          else case status_kind (rs_Type r) of
            None \<Rightarrow> ret statuses
          | Some k \<Rightarrow> andthen (resource_status kb message service name ns r k) (\<lambda>s. ret (statuses @ [s])))
        (\<lambda>err. ret statuses))"

text \<open>
  One round of \<open>updateResourceList\<close>: it gives the new value of \<open>resourceStatusResults\<close>, which
  stays as it was when the lists cannot be had.
\<close>

definition resource_round ::
    "'w KBClient \<Rightarrow> (gerror \<Rightarrow> string) \<Rightarrow> ResourceStatus list \<Rightarrow> ('w, ResourceStatus list) io" where
  "resource_round kb message results =
     (let retry = (\<lambda>_. andthen (sleep (kb_rt kb) (30 * second)) (\<lambda>_. ret results)) in
      handle (rm_List (kb_Applications kb) defaultNamespace []) (\<lambda>apps.
        handle (rm_List (kb_Installs kb) defaultNamespace []) (\<lambda>installs.
          let applicationMap = foldl (\<lambda>m a. m(as_Name (app_Spec a) \<mapsto> a)) Map.empty apps;
              resources = (\<lambda>i. case applicationMap (is_Application (in_Spec i)) of
                                 None \<Rightarrow> [] | Some a \<Rightarrow> as_Resources (app_Spec a)) in
          andthen (fold_io (\<lambda>i. fold_io (add_resource kb message i) (resources i)) installs [])
            (\<lambda>statuses. andthen (sleep (kb_rt kb) (60 * second)) (\<lambda>_. ret statuses)))
          retry) retry)"

section \<open>The status command\<close>

definition appStatusMap :: "int \<Rightarrow> string" where
  "appStatusMap s = (if s = 0 then ''down'' else if s = 1 then ''up'' else [])"

text \<open>The counts and error lines \<open>printStatus\<close> shows for the answers of the server.\<close>

definition app_summary :: "AppStatus list \<Rightarrow> nat \<times> nat \<times> string list" where
  "app_summary apps =
     foldl (\<lambda>(healthy, tot, errs) a.
         foldl (\<lambda>(healthy, tot, errs) e.
             if appStatusMap (ep_Status e) = ''down''
             then (healthy, tot, errs @ [''* application '' @ [CHR 0x22] @ ast_App a @ [CHR 0x22] @ '' is '' @ appStatusMap (ep_Status e)])
             else (Suc healthy, tot, errs))
           (healthy, tot + length (ast_Endpoints a), errs) (ast_Endpoints a))
       (0, 0, []) apps"

definition resource_summary :: "ResourceStatus list \<Rightarrow> nat \<times> nat \<times> string list" where
  "resource_summary rs =
     (let ups = foldl (\<lambda>(healthy, errs) r.
            if rst_Status r \<noteq> ''up''
            then (healthy, errs @ [''* resource '' @ [CHR 0x22] @ rst_Name r @ [CHR 0x22] @ '' is '' @ rst_Status r])
            else (Suc healthy, errs)) (0, []) rs
      in (fst ups, length rs, snd ups))"

text \<open>
  \<open>sort.Slice\<close> with the comparison of category, service and name. Go leaves open the order of
  elements that agree in all three; the model keeps them in their order.
\<close>

definition resource_key :: "ResourceStatus \<Rightarrow> string list" where
  "resource_key r = [rst_Category r, rst_Service r, rst_Name r]"

definition sortResourceStatus :: "ResourceStatus list \<Rightarrow> ResourceStatus list" where
  "sortResourceStatus rs = sort_key resource_key rs"

definition getUniqueResources :: "ResourceStatus list \<Rightarrow> ResourceStatus list" where
  "getUniqueResources rs =
     snd (foldl (\<lambda>(seen, out) r. if r \<in> seen then (seen, out) else (insert r seen, out @ [r])) ({}, []) rs)"

definition shown_resources :: "ResourceStatus list \<Rightarrow> ResourceStatus list" where
  "shown_resources rs = sortResourceStatus (getUniqueResources rs)"

section \<open>Properties\<close>

text \<open>
  For a resource that needs a quorum and has some, but not all, of its replicas available, the
  status is \<open>impacted\<close> below half of the replicas (rounded down) and \<open>degraded\<close> from there
  on: exactly half of an even number is no majority, and still passes for one.
\<close>

lemma calculateStatus_quorum:
  assumes "0 < a" and "a < n"
  shows "(calculateStatus a n True = ''impacted'' \<longleftrightarrow> a < n div 2) \<and>
    (calculateStatus a n True = ''degraded'' \<longleftrightarrow> n div 2 \<le> a) \<and>
    calculateStatus a (2 * a) True = ''degraded''"
  using assms by (auto simp: calculateStatus_def)

text \<open>
  A resource that cannot be fetched is reported as \<open>stopped\<close>, the status of a service that
  was turned off on purpose, with the error beside it, whatever its kind.
\<close>

lemma resource_status_unfetched:
  assumes "Fetch (kb_Interface kb) (new_workload k (rs_Category r) service name ns) w = (Err e, w')"
  shows "\<exists>s. resource_status kb message service name ns r k w = (Ok s, w') \<and>
    rst_Status s = ''stopped'' \<and> rst_Error s = message e"
  using assms
  by (simp add: resource_status_def new_workload_def calculateStatus_def calculateError_def Let_def)

lemma getUniqueResources_alt: "getUniqueResources rs = rev (remdups (rev rs))"
proof -
  have "foldl (\<lambda>(seen, out) r. if r \<in> seen then (seen, out) else (insert r seen, out @ [r])) ({}, []) rs =
      (set rs, rev (remdups (rev rs)))"
    by (induction rs rule: rev_induct) (auto simp: insert_absorb)
  then show ?thesis by (simp add: getUniqueResources_def)
qed

text \<open>
  The resources the status command shows are those it received, each once, in the order of
  category, service and name.
\<close>

lemma shown_resources_sorted:
  "set (shown_resources rs) = set rs \<and> distinct (shown_resources rs) \<and>
   sorted_wrt (\<lambda>r s. resource_key r \<le> resource_key s) (shown_resources rs)"
proof -
  have "sorted (map resource_key (shown_resources rs))"
    by (simp add: shown_resources_def sortResourceStatus_def)
  then show ?thesis
    by (simp add: shown_resources_def sortResourceStatus_def getUniqueResources_alt sorted_map)
qed

text \<open>
  The counts of the summary: the healthy ones and one error line for each of the others make up the
  total.
\<close>

lemma resource_summary_counts:
  "resource_summary rs = (h, n, errs) \<Longrightarrow>
     n = length rs \<and> h = length (filter (\<lambda>r. rst_Status r = ''up'') rs) \<and> h + length errs = n"
proof -
  define step where "step = (\<lambda>(healthy :: nat, errs :: string list) (r :: ResourceStatus). if rst_Status r \<noteq> ''up''
            then (healthy, errs @ [''* resource '' @ [CHR 0x22] @ rst_Name r @ [CHR 0x22] @ '' is '' @ rst_Status r])
            else (Suc healthy, errs))"
  have "fst (foldl step (0, []) rs) = length (filter (\<lambda>r. rst_Status r = ''up'') rs) \<and>
      fst (foldl step (0, []) rs) + length (snd (foldl step (0, []) rs)) = length rs"
    by (induction rs rule: rev_induct) (auto simp: step_def split: prod.splits)
  moreover assume "resource_summary rs = (h, n, errs)"
  ultimately show ?thesis by (auto simp: resource_summary_def step_def Let_def)
qed

text \<open>An endpoint that is not a valid template makes the check panic, and the server with it.\<close>

lemma check_application_bad_template:
  assumes "as_Status (app_Spec app) = s # ss" and "TrimSpace (sl_Endpoint s) \<noteq> []"
    and "net_Template net (sl_Endpoint s) = None"
  shows "fst (check_application rt net app w) = Panic nil_dereference"
  using assms by (simp add: check_application_def check_endpoint_def Let_def)

subsection \<open>Examples\<close>

theorem calculateStatus_quorum_witness: "calculateStatus 1 2 True = ''degraded'' \<and> calculateStatus 1 4 True = ''impacted''"
  using calculateStatus_quorum [of 1 4] calculateStatus_quorum [of 1 2] by simp

theorem resource_status_unfetched_witness:
  "\<exists>s. resource_status mem_client (\<lambda>e. ''error'') ''web'' ''web'' ''default''
       \<lparr>rs_Name = ''web'', rs_Category = ''app'', rs_Type = ''job''\<rparr> Job_kind empty_memory = (Ok s, empty_memory) \<and>
     rst_Status s = ''stopped''"
  using resource_status_unfetched [of mem_client Job_kind "\<lparr>rs_Name = ''web'', rs_Category = ''app'', rs_Type = ''job''\<rparr>"
      "''web''" "''web''" "''default''" empty_memory "Wrapf (ApiError ReasonNotFound) ''Couldn't get job'' []" empty_memory]
  by (auto simp: Fetch_def new_workload_def Job_Fetch_def mem_client_def mem_clientset_def no_workloads_def)

end
