(* ===== verification/Trackers.thy ===== *)
theory Trackers
  imports Status
begin

text \<open>
  The concurrent part of the health-status servers: here what the machines share and
  managers/status\_app.go, in the theory Node\_Trackers managers/status\_node.go (both in the server
  behind \<open>kb server health-status\<close>) and cmd/cluster-status/main.go (the daemon on every node). Each has
  an updater goroutine that lists the applications or nodes and starts and cancels one worker goroutine
  for each, through a shared
  \<open>sync.Map\<close>. The model is a step relation: a step is one operation of one goroutine on the
  shared maps, so that all interleavings are covered. A worker is known by a number, which stands for
  the context its cancel function belongs to. The outcome of a check (what the network answers) is
  left open by its step. Two operations of the updater that follow each other on the same name are one
  step: Load, Store and \<open>go\<close> of a new name, cancel and Delete of a gone one.
\<close>

section \<open>One worker for each tracked name\<close>

text \<open>
  What the three machines share: names are tracked with their worker, and a step either leaves that
  alone, starts a worker under a new number, cancels the worker of a name it stops tracking, or lets a
  cancelled worker end.
\<close>

definition cancel :: "nat \<Rightarrow> (nat \<rightharpoonup> string \<times> bool) \<Rightarrow> nat \<rightharpoonup> string \<times> bool" where
  "cancel g ws = (case ws g of None \<Rightarrow> ws | Some v \<Rightarrow> ws(g \<mapsto> (fst v, True)))"

locale tracking =
  fixes init :: "'s \<Rightarrow> bool" and step :: "'s \<Rightarrow> 's \<Rightarrow> bool"
    and tracked :: "'s \<Rightarrow> string \<rightharpoonup> nat" and workers :: "'s \<Rightarrow> nat \<rightharpoonup> string \<times> bool"
  assumes init_empty: "init s \<Longrightarrow> tracked s = Map.empty \<and> workers s = Map.empty"
    and step_kinds: "step s s' \<Longrightarrow>
      tracked s' = tracked s \<and> workers s' = workers s \<or>
      (\<exists>n g. tracked s n = None \<and> workers s g = None \<and>
         tracked s' = (tracked s)(n \<mapsto> g) \<and> workers s' = (workers s)(g \<mapsto> (n, False))) \<or>
      (\<exists>n g. tracked s n = Some g \<and> tracked s' = (tracked s)(n := None) \<and> workers s' = cancel g (workers s)) \<or>
      (\<exists>g n. workers s g = Some (n, True) \<and> tracked s' = tracked s \<and> workers s' = (workers s)(g := None))"
begin

definition one_worker :: "'s \<Rightarrow> bool" where
  "one_worker s \<longleftrightarrow> (\<forall>n g. tracked s n = Some g \<longleftrightarrow> workers s g = Some (n, False))"

lemma one_worker_init: "init s \<Longrightarrow> one_worker s"
  by (simp add: one_worker_def init_empty)

lemma one_worker_step:
  assumes inv: "one_worker s" and "step s s'"
  shows "one_worker s'"
proof -
  note iff = inv [unfolded one_worker_def, rule_format]
  from step_kinds [OF assms(2)] show ?thesis
  proof (elim disjE exE conjE)
    assume "tracked s' = tracked s" "workers s' = workers s"
    with inv show ?thesis by (simp add: one_worker_def)
  next
    fix n g
    assume new: "tracked s n = None" "workers s g = None"
      and s': "tracked s' = (tracked s)(n \<mapsto> g)" "workers s' = (workers s)(g \<mapsto> (n, False))"
    have "tracked s' m = Some h \<longleftrightarrow> workers s' h = Some (m, False)" for m h
      using new iff [of m h] iff [of n h] iff [of m g] by (cases "m = n"; cases "h = g") (simp_all add: s')
    then show ?thesis by (simp add: one_worker_def)
  next
    fix n g
    assume n: "tracked s n = Some g" and s': "tracked s' = (tracked s)(n := None)" "workers s' = cancel g (workers s)"
    then have "workers s g = Some (n, False)" using iff by simp
    then have "workers s' = (workers s)(g \<mapsto> (n, True))" by (simp add: s' cancel_def)
    then have "tracked s' m = Some h \<longleftrightarrow> workers s' h = Some (m, False)" for m h
      using n iff [of m h] iff [of n h] iff [of m g] by (cases "m = n"; cases "h = g") (simp_all add: s'(1))
    then show ?thesis by (simp add: one_worker_def)
  next
    fix n g
    assume "workers s g = Some (n, True)" "tracked s' = tracked s" "workers s' = (workers s)(g := None)"
    with iff show ?thesis unfolding one_worker_def by auto
  qed
qed

lemma one_worker_reachable:
  assumes "init s" and "step\<^sup>*\<^sup>* s s'"
  shows "one_worker s'"
  using assms(2) by (induction rule: rtranclp_induct) (auto intro: one_worker_init [OF assms(1)] one_worker_step)

text \<open>A number once given to a name is never given to another while its worker is there.\<close>

lemma worker_keeps_name:
  assumes "step s s'" and "workers s g = Some (n, c)" and "workers s' g = Some (m, d)"
  shows "m = n"
  using step_kinds [OF assms(1)] assms(2,3) by (auto simp: cancel_def split: option.splits if_splits)

end

text \<open>
  A worker goroutine: the name it was started for, where it is, and whether its context is done.
\<close>

record 'pc worker =
  wr_name :: string
  wr_pc :: 'pc
  wr_cancelled :: bool

definition cancel_worker :: "nat \<Rightarrow> (nat \<rightharpoonup> 'pc worker) \<Rightarrow> nat \<rightharpoonup> 'pc worker" where
  "cancel_worker g ws = (case ws g of None \<Rightarrow> ws | Some v \<Rightarrow> ws(g \<mapsto> v\<lparr>wr_cancelled := True\<rparr>))"

definition running :: "(nat \<rightharpoonup> 'pc worker) \<Rightarrow> nat \<rightharpoonup> string \<times> bool" where
  "running ws g = map_option (\<lambda>v. (wr_name v, wr_cancelled v)) (ws g)"

lemma cancel_worker_Some:
  "cancel_worker g ws h = Some v \<longleftrightarrow>
     (if h = g then \<exists>u. ws g = Some u \<and> v = u\<lparr>wr_cancelled := True\<rparr> else ws h = Some v)"
  by (auto simp: cancel_worker_def split: option.splits)

lemma running_simps [simp]:
  "running Map.empty = Map.empty"
  "running (ws(g \<mapsto> v)) = (running ws)(g \<mapsto> (wr_name v, wr_cancelled v))"
  "running (ws(g := None)) = (running ws)(g := None)"
  "running (cancel_worker g ws) = cancel g (running ws)"
  "running ws g = None \<longleftrightarrow> ws g = None"
  "running ws g = Some (n, c) \<longleftrightarrow> (\<exists>v. ws g = Some v \<and> wr_name v = n \<and> wr_cancelled v = c)"
  by (auto simp: running_def cancel_def cancel_worker_def fun_eq_iff split: option.splits)

lemma running_same:
  "ws g = Some v \<Longrightarrow> (running ws)(g \<mapsto> (wr_name v, wr_cancelled v)) = running ws"
  by (auto simp: running_def)

section \<open>The applications of the health-status server\<close>

datatype app_pc = App_start | App_checking Application | App_waiting

type_synonym app_worker = "app_pc worker"

text \<open>
  Where \<open>updateAppList\<close> is: the variables \<open>updatedList\<close> (with what is left of it) and
  \<open>updatedMap\<close>, and the keys \<open>Range\<close> has still to visit.
\<close>

datatype 'a updater =
    Listing
  | Adding "'a list" "'a list" "string set"
  | Pruning "'a list" "string list" "string set"
  | Sleeping

record app_server =
  ap_tracker :: "string \<rightharpoonup> Application \<times> nat"
  ap_results :: "string \<rightharpoonup> AppStatus"
  ap_workers :: "nat \<rightharpoonup> app_worker"
  ap_updater :: "Application updater"
  ap_sshPort :: string

definition app_init :: "app_server \<Rightarrow> bool" where
  "app_init s \<longleftrightarrow> s = \<lparr>ap_tracker = Map.empty, ap_results = Map.empty, ap_workers = Map.empty,
     ap_updater = Listing, ap_sshPort = ''2222''\<rparr>"

abbreviation app_name :: "Application \<Rightarrow> string" where
  "app_name a \<equiv> om_Name (app_ObjectMeta a)"

definition ssh_port_of :: "Application \<Rightarrow> string \<Rightarrow> string" where
  "ssh_port_of a port = (case last_default ''ssh_port'' (as_ParameterDefinitions (app_Spec a)) of None \<Rightarrow> port | Some p \<Rightarrow> p)"

inductive app_step :: "app_server \<Rightarrow> app_server \<Rightarrow> bool" where
  app_listed: "ap_updater s = Listing \<Longrightarrow> app_step s (s\<lparr>ap_updater := Adding items items {}\<rparr>)"
| app_list_failed: "ap_updater s = Listing \<Longrightarrow> app_step s (s\<lparr>ap_updater := Sleeping\<rparr>)"
| app_add_new: "ap_updater s = Adding items (a # as) upd \<Longrightarrow> ap_tracker s (app_name a) = None \<Longrightarrow> ap_workers s g = None \<Longrightarrow>
    app_step s (s\<lparr>ap_tracker := (ap_tracker s)(app_name a \<mapsto> (a, g)),
      ap_workers := (ap_workers s)(g \<mapsto> \<lparr>wr_name = app_name a, wr_pc = App_start, wr_cancelled = False\<rparr>),
      ap_updater := Adding items as (insert (app_name a) upd)\<rparr>)"
| app_add_known: "ap_updater s = Adding items (a # as) upd \<Longrightarrow> ap_tracker s (app_name a) = Some (b, g) \<Longrightarrow>
    app_step s (s\<lparr>ap_tracker := (ap_tracker s)(app_name a \<mapsto> (a, g)),
      ap_updater := Adding items as (insert (app_name a) upd)\<rparr>)"
| app_added: "ap_updater s = Adding items [] upd \<Longrightarrow> set ks = dom (ap_tracker s) \<Longrightarrow> distinct ks \<Longrightarrow>
    app_step s (s\<lparr>ap_updater := Pruning items ks upd\<rparr>)"
| app_prune_gone: "ap_updater s = Pruning items (n # ks) upd \<Longrightarrow> n \<notin> upd \<Longrightarrow> ap_tracker s n = Some (b, g) \<Longrightarrow>
    app_step s (s\<lparr>ap_tracker := (ap_tracker s)(n := None), ap_workers := cancel_worker g (ap_workers s),
      ap_updater := Pruning items ks upd\<rparr>)"
| app_prune_kept: "ap_updater s = Pruning items (n # ks) upd \<Longrightarrow> n \<in> upd \<Longrightarrow>
    app_step s (s\<lparr>ap_updater := Pruning items ks upd\<rparr>)"
| app_pruned: "ap_updater s = Pruning items [] upd \<Longrightarrow> app_step s (s\<lparr>ap_updater := Sleeping\<rparr>)"
| app_wake: "ap_updater s = Sleeping \<Longrightarrow> app_step s (s\<lparr>ap_updater := Listing\<rparr>)"
| app_load: "ap_workers s g = Some v \<Longrightarrow> wr_pc v = App_start \<Longrightarrow> ap_tracker s (wr_name v) = Some (a, g') \<Longrightarrow>
    app_step s (s\<lparr>ap_workers := (ap_workers s)(g \<mapsto> v\<lparr>wr_pc := App_checking a\<rparr>), ap_sshPort := ssh_port_of a (ap_sshPort s)\<rparr>)"
| app_load_none: "ap_workers s g = Some v \<Longrightarrow> wr_pc v = App_start \<Longrightarrow> ap_tracker s (wr_name v) = None \<Longrightarrow>
    app_step s (s\<lparr>ap_workers := (ap_workers s)(g \<mapsto> v\<lparr>wr_pc := App_waiting\<rparr>)\<rparr>)"
| app_store: "ap_workers s g = Some v \<Longrightarrow> wr_pc v = App_checking a \<Longrightarrow> ast_App st = app_name a \<Longrightarrow>
    app_step s (s\<lparr>ap_workers := (ap_workers s)(g \<mapsto> v\<lparr>wr_pc := App_waiting\<rparr>),
      ap_results := (ap_results s)(app_name a \<mapsto> st)\<rparr>)"
| app_timer: "ap_workers s g = Some v \<Longrightarrow> wr_pc v = App_waiting \<Longrightarrow>
    app_step s (s\<lparr>ap_workers := (ap_workers s)(g \<mapsto> v\<lparr>wr_pc := App_start\<rparr>)\<rparr>)"
| app_done: "ap_workers s g = Some v \<Longrightarrow> wr_pc v = App_waiting \<Longrightarrow> wr_cancelled v \<Longrightarrow>
    app_step s (s\<lparr>ap_workers := (ap_workers s)(g := None), ap_results := (ap_results s)(wr_name v := None)\<rparr>)"

definition app_tracked :: "app_server \<Rightarrow> string \<rightharpoonup> nat" where
  "app_tracked s n = map_option snd (ap_tracker s n)"

abbreviation app_running :: "app_server \<Rightarrow> nat \<rightharpoonup> string \<times> bool" where
  "app_running s \<equiv> running (ap_workers s)"

text \<open>The handler of \<open>/application-status\<close> answers with all results, in the order \<open>Range\<close> takes.\<close>

definition retrieveApplicationStatus :: "string list \<Rightarrow> app_server \<Rightarrow> AppStatus list" where
  "retrieveApplicationStatus ks s = List.map_filter (ap_results s) ks"

inductive_cases app_stepE: "app_step s s'"

lemma app_step_kinds:
  assumes "app_step s s'"
  shows "app_tracked s' = app_tracked s \<and> app_running s' = app_running s \<or>
    (\<exists>n g. app_tracked s n = None \<and> app_running s g = None \<and>
       app_tracked s' = (app_tracked s)(n \<mapsto> g) \<and> app_running s' = (app_running s)(g \<mapsto> (n, False))) \<or>
    (\<exists>n g. app_tracked s n = Some g \<and> app_tracked s' = (app_tracked s)(n := None) \<and> app_running s' = cancel g (app_running s)) \<or>
    (\<exists>g n. app_running s g = Some (n, True) \<and> app_tracked s' = app_tracked s \<and> app_running s' = (app_running s)(g := None))"
  using assms
proof (cases rule: app_step.cases)
  case (app_add_new items a as upd g)
  then have "app_tracked s (app_name a) = None \<and> app_running s g = None \<and>
     app_tracked s' = (app_tracked s)(app_name a \<mapsto> g) \<and> app_running s' = (app_running s)(g \<mapsto> (app_name a, False))"
    by (auto simp: app_tracked_def)
  then show ?thesis by blast
next
  case (app_prune_gone items n ks upd b g)
  then have "app_tracked s n = Some g \<and> app_tracked s' = (app_tracked s)(n := None) \<and> app_running s' = cancel g (app_running s)"
    by (auto simp: app_tracked_def)
  then show ?thesis by blast
next
  case (app_done g v)
  then have "app_running s g = Some (wr_name v, True) \<and> app_tracked s' = app_tracked s \<and> app_running s' = (app_running s)(g := None)"
    by (auto simp: app_tracked_def)
  then show ?thesis by blast
qed (auto simp: app_tracked_def fun_eq_iff running_same simp del: running_simps(5,6))

interpretation apps: tracking app_init app_step app_tracked app_running
proof unfold_locales
  show "app_tracked s = Map.empty \<and> app_running s = Map.empty" if "app_init s" for s
    using that by (auto simp: app_init_def app_tracked_def)
qed (rule app_step_kinds)

text \<open>What holds between the maps, and of the round the updater is in.\<close>

fun round_ok :: "('a \<Rightarrow> string) \<Rightarrow> string set \<Rightarrow> 'a updater \<Rightarrow> bool" where
  "round_ok name tracked (Adding items as upd) =
     ((\<exists>prev. items = prev @ as \<and> upd = name ` set prev) \<and> upd \<subseteq> tracked)"
| "round_ok name tracked (Pruning items ks upd) =
     (upd = name ` set items \<and> upd \<subseteq> tracked \<and> tracked \<subseteq> upd \<union> set ks)"
| "round_ok name tracked _ = True"

lemma round_ok_added:
  "round_ok name tracked (Adding items (a # as) upd) \<Longrightarrow>
     round_ok name (insert (name a) tracked) (Adding items as (insert (name a) upd))"
  by (auto intro!: exI [of _ "_ @ [a]"])

definition app_round_ok :: "app_server \<Rightarrow> bool" where
  "app_round_ok s \<longleftrightarrow> round_ok app_name (dom (ap_tracker s)) (ap_updater s)"

definition app_live :: "app_server \<Rightarrow> string \<Rightarrow> bool" where
  "app_live s n \<longleftrightarrow> (\<exists>g v. ap_workers s g = Some v \<and> wr_name v = n)"

definition app_inv :: "app_server \<Rightarrow> bool" where
  "app_inv s \<longleftrightarrow> (\<forall>n a g. ap_tracker s n = Some (a, g) \<longrightarrow> app_name a = n) \<and>
     (\<forall>g v a. ap_workers s g = Some v \<longrightarrow> wr_pc v = App_checking a \<longrightarrow> app_name a = wr_name v) \<and>
     (\<forall>n. ap_results s n \<noteq> None \<longrightarrow> app_live s n) \<and> app_round_ok s"

lemma app_live_step:
  assumes "app_step s s'" and "app_live s n"
  shows "app_live s' n \<or> ap_results s' n = None"
proof -
  from assms(2) obtain g v where v: "ap_workers s g = Some v" "wr_name v = n"
    by (auto simp: app_live_def)
  have "(\<exists>v'. ap_workers s' g = Some v' \<and> wr_name v' = n) \<or> ap_results s' n = None"
    using assms(1) v
  proof (cases rule: app_step.cases)
    case (app_prune_gone items m ks upd b h)
    with v show ?thesis by (cases "g = h") (auto simp: cancel_worker_Some)
  qed auto
  then show ?thesis by (auto simp: app_live_def)
qed

lemma app_results_step:
  assumes "app_step s s'" and "app_inv s" and "ap_results s' n \<noteq> None"
  shows "ap_results s n \<noteq> None \<or> app_live s n"
  using assms by (elim app_stepE) (auto simp: app_inv_def app_live_def split: if_splits)

lemma app_round_step:
  assumes "app_step s s'" and "app_round_ok s"
  shows "app_round_ok s'"
  using assms
proof (cases rule: app_step.cases)
  case (app_add_new items a as upd g)
  with assms(2) round_ok_added [of app_name "dom (ap_tracker s)" items a as upd] show ?thesis
    by (simp add: app_round_ok_def)
next
  case (app_add_known items a as upd b g)
  with assms(2) round_ok_added [of app_name "dom (ap_tracker s)" items a as upd] show ?thesis
    by (simp add: app_round_ok_def insert_absorb)
qed (auto simp: app_round_ok_def)

lemma app_inv_step:
  assumes "app_inv s" and "app_step s s'"
  shows "app_inv s'"
proof -
  have "ap_tracker s' n = Some (a, g) \<Longrightarrow> app_name a = n" for n a g
    using assms(2,1) by (elim app_stepE) (auto simp: app_inv_def split: if_splits)
  moreover have "ap_workers s' g = Some v \<Longrightarrow> wr_pc v = App_checking a \<Longrightarrow> app_name a = wr_name v" for g v a
    using assms(2,1) by (elim app_stepE) (auto simp: app_inv_def cancel_worker_Some split: if_splits)
  moreover have "app_live s' n" if "ap_results s' n \<noteq> None" for n
  proof -
    have "app_live s n"
      using app_results_step [OF assms(2,1) that] assms(1) by (auto simp: app_inv_def)
    from app_live_step [OF assms(2) this] that show ?thesis by simp
  qed
  moreover have "app_round_ok s'"
    using app_round_step [OF assms(2)] assms(1) by (simp add: app_inv_def)
  ultimately show ?thesis unfolding app_inv_def by blast
qed

lemma app_inv_reachable:
  assumes "app_init s0" and "app_step\<^sup>*\<^sup>* s0 s"
  shows "app_inv s"
  using assms(2)
proof (induction rule: rtranclp_induct)
  case base
  with assms(1) show ?case by (auto simp: app_init_def app_inv_def app_round_ok_def)
next
  case (step s s')
  then show ?case by (blast intro: app_inv_step)
qed

text \<open>The run of the server that lists one application and starts its worker.\<close>

definition app_server_with :: "Application \<Rightarrow> app_server" where
  "app_server_with a = \<lparr>ap_tracker = [app_name a \<mapsto> (a, 0)], ap_results = Map.empty,
     ap_workers = [0 \<mapsto> \<lparr>wr_name = app_name a, wr_pc = App_start, wr_cancelled = False\<rparr>],
     ap_updater = Pruning [a] [] {app_name a}, ap_sshPort = ''2222''\<rparr>"

definition app_server_start :: app_server where
  "app_server_start = \<lparr>ap_tracker = Map.empty, ap_results = Map.empty, ap_workers = Map.empty,
     ap_updater = Listing, ap_sshPort = ''2222''\<rparr>"

lemma app_server_with_reachable: "app_step\<^sup>*\<^sup>* app_server_start (app_server_with a)"
proof -
  let ?s1 = "app_server_start\<lparr>ap_updater := Adding [a] [a] {}\<rparr>"
  let ?s2 = "?s1\<lparr>ap_tracker := [app_name a \<mapsto> (a, 0)],
     ap_workers := [0 \<mapsto> \<lparr>wr_name = app_name a, wr_pc = App_start, wr_cancelled = False\<rparr>],
     ap_updater := Adding [a] [] {app_name a}\<rparr>"
  let ?s3 = "?s2\<lparr>ap_updater := Pruning [a] [app_name a] {app_name a}\<rparr>"
  have "app_step app_server_start ?s1"
    by (rule app_listed) (simp add: app_server_start_def)
  moreover have "app_step ?s1 ?s2"
    using app_add_new [of ?s1 "[a]" a "[]" "{}" 0] by (simp add: app_server_start_def)
  moreover have "app_step ?s2 ?s3"
    by (rule app_added) (simp_all add: app_server_start_def)
  moreover have "app_step ?s3 (app_server_with a)"
    using app_prune_kept [of ?s3 "[a]" "app_name a" "[]" "{app_name a}"]
    by (simp add: app_server_start_def app_server_with_def)
  ultimately show ?thesis by (meson converse_rtranclp_into_rtranclp rtranclp.rtrancl_refl)
qed

text \<open>
  C10. In every state the server can reach, each tracked application has exactly one worker whose
  context is not cancelled, each such worker belongs to a tracked application, and a stored result
  belongs to an application that still has a worker: results of removed applications do not stay.
\<close>

theorem app_workers_match:
  assumes "app_init s0" and "app_step\<^sup>*\<^sup>* s0 s"
  shows "(\<forall>n g. (\<exists>a. ap_tracker s n = Some (a, g)) \<longleftrightarrow>
      (\<exists>v. ap_workers s g = Some v \<and> wr_name v = n \<and> \<not> wr_cancelled v)) \<and>
    (\<forall>n. ap_results s n \<noteq> None \<longrightarrow> (\<exists>g v. ap_workers s g = Some v \<and> wr_name v = n))"
proof -
  have "app_tracked s n = Some g \<longleftrightarrow> app_running s g = Some (n, False)" for n g
    using apps.one_worker_reachable [OF assms] by (simp add: apps.one_worker_def)
  moreover have "app_tracked s n = Some g \<longleftrightarrow> (\<exists>a. ap_tracker s n = Some (a, g))" for n g
    by (auto simp: app_tracked_def)
  ultimately show ?thesis
    using app_inv_reachable [OF assms] by (auto simp: app_inv_def app_live_def)
qed

theorem app_workers_match_witness:
  "\<exists>v. ap_workers (app_server_with sample_app) 0 = Some v \<and> wr_name v = ''nginx-1'' \<and> \<not> wr_cancelled v"
  using app_workers_match [OF _ app_server_with_reachable [of sample_app]]
  by (simp add: app_init_def app_server_start_def app_server_with_def sample_app_def)

text \<open>
  C20. When a round of the updater is through, the names it tracks are exactly those of the
  applications it listed: the tracker refines the list of the cluster.
\<close>

theorem app_round_tracks_list:
  assumes "app_init s0" and "app_step\<^sup>*\<^sup>* s0 s" and "ap_updater s = Pruning items [] updated"
  shows "dom (ap_tracker s) = app_name ` set items"
  using app_inv_reachable [OF assms(1,2)] assms(3) by (auto simp: app_inv_def app_round_ok_def)

theorem app_round_tracks_list_witness: "dom (ap_tracker (app_server_with sample_app)) = {''nginx-1''}"
  using app_round_tracks_list [OF _ app_server_with_reachable [of sample_app]]
  by (simp add: app_init_def app_server_start_def app_server_with_def sample_app_def)

end
