(* ===== verification/Node_Trackers.thy ===== *)
theory Node_Trackers
  imports Trackers
begin

text \<open>
  The goroutines of managers/status\_node.go and of cmd/cluster-status/main.go as step relations, in the
  way of the theory Trackers, whose locale both interpret.
\<close>

section \<open>The nodes of the health-status server\<close>

datatype node_pc = Node_start | Node_loaded Node | Node_checking Node "DetailStatus list" | Node_waiting

record node_server =
  nd_tracker :: "string \<rightharpoonup> nat"
  nd_k0s :: "string \<rightharpoonup> Node"
  nd_results :: "string \<rightharpoonup> NodeStatus"
  nd_workers :: "nat \<rightharpoonup> node_pc worker"
  nd_updater :: "Node updater"
  nd_panicked :: bool

definition node_init :: "node_server \<Rightarrow> bool" where
  "node_init s \<longleftrightarrow> s = \<lparr>nd_tracker = Map.empty, nd_k0s = Map.empty, nd_results = Map.empty,
     nd_workers = Map.empty, nd_updater = Listing, nd_panicked = False\<rparr>"

text \<open>
  The value \<open>runNodeCheck\<close> loads must be a node, with an address: otherwise the type assertion
  on nil, or the index into the addresses, panics.
\<close>

definition loaded_node :: "(string \<rightharpoonup> Node) \<Rightarrow> string \<Rightarrow> Node option" where
  "loaded_node k0sNode n =
     (case k0sNode n of None \<Rightarrow> None | Some v \<Rightarrow> if node_Addresses v = [] then None else Some v)"

text \<open>
  The result of a check and the key it is stored under: the name of the node when its daemon could
  not be asked or understood, the name the daemon gives itself otherwise.
\<close>

inductive node_result :: "Node \<Rightarrow> DetailStatus list \<Rightarrow> string \<Rightarrow> NodeStatus \<Rightarrow> bool" where
  not_available: "node_result v conditions (node_Name v) (unavailable_node v (hd (node_Addresses v)) conditions problem)"
| available: "ssh \<in> {\<lparr>dt_Name = ''sshDaemonset'', dt_Value = ''down'', dt_Healthy = ''false''\<rparr>,
      \<lparr>dt_Name = ''sshDaemonset'', dt_Value = ''up'', dt_Healthy = ''true''\<rparr>} \<Longrightarrow>
    node_result v conditions (ni_Name (ns_Node answer)) (available_node answer conditions ssh)"

inductive node_step :: "node_server \<Rightarrow> node_server \<Rightarrow> bool" where
  node_listed: "\<not> nd_panicked s \<Longrightarrow> nd_updater s = Listing \<Longrightarrow> node_step s (s\<lparr>nd_updater := Adding items items {}\<rparr>)"
| node_list_failed: "\<not> nd_panicked s \<Longrightarrow> nd_updater s = Listing \<Longrightarrow> node_step s (s\<lparr>nd_updater := Sleeping\<rparr>)"
| node_add_new: "\<not> nd_panicked s \<Longrightarrow> nd_updater s = Adding items (v # vs) upd \<Longrightarrow> nd_tracker s (node_Name v) = None \<Longrightarrow> nd_workers s g = None \<Longrightarrow>
    node_step s (s\<lparr>nd_tracker := (nd_tracker s)(node_Name v \<mapsto> g), nd_k0s := (nd_k0s s)(node_Name v \<mapsto> v),
      nd_workers := (nd_workers s)(g \<mapsto> \<lparr>wr_name = node_Name v, wr_pc = Node_start, wr_cancelled = False\<rparr>),
      nd_updater := Adding items vs (insert (node_Name v) upd)\<rparr>)"
| node_add_known: "\<not> nd_panicked s \<Longrightarrow> nd_updater s = Adding items (v # vs) upd \<Longrightarrow> nd_tracker s (node_Name v) = Some g \<Longrightarrow>
    node_step s (s\<lparr>nd_k0s := (nd_k0s s)(node_Name v \<mapsto> v), nd_updater := Adding items vs (insert (node_Name v) upd)\<rparr>)"
| node_added: "\<not> nd_panicked s \<Longrightarrow> nd_updater s = Adding items [] upd \<Longrightarrow> set ks = dom (nd_tracker s) \<Longrightarrow> distinct ks \<Longrightarrow>
    node_step s (s\<lparr>nd_updater := Pruning items ks upd\<rparr>)"
| node_prune_gone: "\<not> nd_panicked s \<Longrightarrow> nd_updater s = Pruning items (n # ks) upd \<Longrightarrow> n \<notin> upd \<Longrightarrow> nd_tracker s n = Some g \<Longrightarrow>
    node_step s (s\<lparr>nd_tracker := (nd_tracker s)(n := None), nd_workers := cancel_worker g (nd_workers s),
      nd_k0s := (nd_k0s s)(n := None), nd_results := (nd_results s)(n := None), nd_updater := Pruning items ks upd\<rparr>)"
| node_prune_kept: "\<not> nd_panicked s \<Longrightarrow> nd_updater s = Pruning items (n # ks) upd \<Longrightarrow> n \<in> upd \<Longrightarrow>
    node_step s (s\<lparr>nd_updater := Pruning items ks upd\<rparr>)"
| node_pruned: "\<not> nd_panicked s \<Longrightarrow> nd_updater s = Pruning items [] upd \<Longrightarrow> node_step s (s\<lparr>nd_updater := Sleeping\<rparr>)"
| node_wake: "\<not> nd_panicked s \<Longrightarrow> nd_updater s = Sleeping \<Longrightarrow> node_step s (s\<lparr>nd_updater := Listing\<rparr>)"
| node_load: "\<not> nd_panicked s \<Longrightarrow> nd_workers s g = Some w \<Longrightarrow> wr_pc w = Node_start \<Longrightarrow> loaded_node (nd_k0s s) (wr_name w) = Some v \<Longrightarrow>
    node_step s (s\<lparr>nd_workers := (nd_workers s)
      (g \<mapsto> w\<lparr>wr_pc := Node_loaded v\<rparr>)\<rparr>)"
| node_conditions: "\<not> nd_panicked s \<Longrightarrow> nd_workers s g = Some w \<Longrightarrow> wr_pc w = Node_loaded v \<Longrightarrow>
    node_step s (s\<lparr>nd_workers := (nd_workers s)
      (g \<mapsto> w\<lparr>wr_pc := Node_checking v (checkNodeConditionStatus (nd_k0s s) (wr_name w))\<rparr>)\<rparr>)"
| node_load_panics: "\<not> nd_panicked s \<Longrightarrow> nd_workers s g = Some w \<Longrightarrow> wr_pc w = Node_start \<Longrightarrow> loaded_node (nd_k0s s) (wr_name w) = None \<Longrightarrow>
    node_step s (s\<lparr>nd_panicked := True\<rparr>)"
| node_store: "\<not> nd_panicked s \<Longrightarrow> nd_workers s g = Some w \<Longrightarrow> wr_pc w = Node_checking v conditions \<Longrightarrow> node_result v conditions k st \<Longrightarrow>
    node_step s (s\<lparr>nd_workers := (nd_workers s)(g \<mapsto> w\<lparr>wr_pc := Node_waiting\<rparr>), nd_results := (nd_results s)(k \<mapsto> st)\<rparr>)"
| node_timer: "\<not> nd_panicked s \<Longrightarrow> nd_workers s g = Some w \<Longrightarrow> wr_pc w = Node_waiting \<Longrightarrow>
    node_step s (s\<lparr>nd_workers := (nd_workers s)(g \<mapsto> w\<lparr>wr_pc := Node_start\<rparr>)\<rparr>)"
| node_done: "\<not> nd_panicked s \<Longrightarrow> nd_workers s g = Some w \<Longrightarrow> wr_pc w = Node_waiting \<Longrightarrow> wr_cancelled w \<Longrightarrow>
    node_step s (s\<lparr>nd_workers := (nd_workers s)(g := None), nd_k0s := (nd_k0s s)(wr_name w := None),
      nd_results := (nd_results s)(wr_name w := None)\<rparr>)"

text \<open>The handlers of \<open>/cluster-nodes\<close> and \<open>/cluster-status\<close>.\<close>

definition retrieveClusterNodes :: "string list \<Rightarrow> node_server \<Rightarrow> NodeInfo list" where
  "retrieveClusterNodes ks s = map ns_Node (List.map_filter (nd_results s) ks)"

definition retrieveClusterStatus :: "string list \<Rightarrow> node_server \<Rightarrow> NodeStatus list" where
  "retrieveClusterStatus ks s = List.map_filter (nd_results s) ks"

lemma node_step_kinds:
  assumes "node_step s s'"
  shows "nd_tracker s' = nd_tracker s \<and> running (nd_workers s') = running (nd_workers s) \<or>
    (\<exists>n g. nd_tracker s n = None \<and> running (nd_workers s) g = None \<and>
       nd_tracker s' = (nd_tracker s)(n \<mapsto> g) \<and> running (nd_workers s') = (running (nd_workers s))(g \<mapsto> (n, False))) \<or>
    (\<exists>n g. nd_tracker s n = Some g \<and> nd_tracker s' = (nd_tracker s)(n := None) \<and>
       running (nd_workers s') = cancel g (running (nd_workers s))) \<or>
    (\<exists>g n. running (nd_workers s) g = Some (n, True) \<and> nd_tracker s' = nd_tracker s \<and>
       running (nd_workers s') = (running (nd_workers s))(g := None))"
  using assms
proof (cases rule: node_step.cases)
  case (node_add_new items v vs upd g)
  then have "nd_tracker s (node_Name v) = None \<and> running (nd_workers s) g = None \<and>
     nd_tracker s' = (nd_tracker s)(node_Name v \<mapsto> g) \<and>
     running (nd_workers s') = (running (nd_workers s))(g \<mapsto> (node_Name v, False))"
    by simp
  then show ?thesis by blast
next
  case (node_prune_gone items n ks upd g)
  then have "nd_tracker s n = Some g \<and> nd_tracker s' = (nd_tracker s)(n := None) \<and>
      running (nd_workers s') = cancel g (running (nd_workers s))"
    by simp
  then show ?thesis by blast
next
  case (node_done g w)
  then have "running (nd_workers s) g = Some (wr_name w, True) \<and> nd_tracker s' = nd_tracker s \<and>
      running (nd_workers s') = (running (nd_workers s))(g := None)"
    by auto
  then show ?thesis by blast
qed (auto simp: running_same simp del: running_simps(5,6))

interpretation nodes: tracking node_init node_step nd_tracker "\<lambda>s. running (nd_workers s)"
proof unfold_locales
  show "nd_tracker s = Map.empty \<and> running (nd_workers s) = Map.empty" if "node_init s" for s
    using that by (auto simp: node_init_def)
qed (rule node_step_kinds)

text \<open>
  The workers of the nodes are matched with the tracker as those of the applications are.
\<close>

lemma node_workers_match:
  assumes "node_init s0" and "node_step\<^sup>*\<^sup>* s0 s"
  shows "nd_tracker s n = Some g \<longleftrightarrow> (\<exists>w. nd_workers s g = Some w \<and> wr_name w = n \<and> \<not> wr_cancelled w)"
  using nodes.one_worker_reachable [OF assms] by (auto simp: nodes.one_worker_def)

text \<open>The run that lists one node, checks it, and lists it no more.\<close>

abbreviation node_state ::
    "(string \<rightharpoonup> nat) \<Rightarrow> (string \<rightharpoonup> Node) \<Rightarrow> (string \<rightharpoonup> NodeStatus) \<Rightarrow> (nat \<rightharpoonup> node_pc worker) \<Rightarrow> Node updater \<Rightarrow>
     node_server" where
  "node_state tr k0s rs ws up \<equiv> \<lparr>nd_tracker = tr, nd_k0s = k0s, nd_results = rs, nd_workers = ws,
     nd_updater = up, nd_panicked = False\<rparr>"

definition node_worker :: "string \<Rightarrow> node_pc \<Rightarrow> bool \<Rightarrow> nat \<rightharpoonup> node_pc worker" where
  "node_worker n pc c = [0 \<mapsto> \<lparr>wr_name = n, wr_pc = pc, wr_cancelled = c\<rparr>]"

lemma node_worker_simps [simp]:
  "node_worker n pc c 0 = Some \<lparr>wr_name = n, wr_pc = pc, wr_cancelled = c\<rparr>"
  "(node_worker n pc c)(0 \<mapsto> \<lparr>wr_name = n', wr_pc = pc', wr_cancelled = c'\<rparr>) = node_worker n' pc' c'"
  "(node_worker n pc c)(0 := None) = Map.empty"
  "cancel_worker 0 (node_worker n pc c) = node_worker n pc True"
  by (simp_all add: node_worker_def cancel_worker_def)

lemmas run_trans [trans] = rtranclp.rtrancl_into_rtrancl

lemma node_run_checked:
  assumes "node_Addresses v \<noteq> []" and "node_result v (checkNodeConditionStatus [node_Name v \<mapsto> v] (node_Name v)) k st"
  shows "node_step\<^sup>*\<^sup>* (node_state Map.empty Map.empty Map.empty Map.empty Listing)
    (node_state [node_Name v \<mapsto> 0] [node_Name v \<mapsto> v] [k \<mapsto> st] (node_worker (node_Name v) Node_waiting False)
       (Pruning [] [node_Name v] {}))"
proof -
  let ?n = "node_Name v"
  let ?tr = "[?n \<mapsto> 0 :: nat]" and ?k0s = "[?n \<mapsto> v]" and ?ws = "\<lambda>pc. node_worker ?n pc False"
  let ?w = "\<lambda>pc. \<lparr>wr_name = ?n, wr_pc = pc, wr_cancelled = False\<rparr>"
  let ?conditions = "checkNodeConditionStatus ?k0s ?n"
  let ?e = "Map.empty" and ?r = "[k \<mapsto> st]"
  have "node_step\<^sup>*\<^sup>* (node_state ?e ?e ?e ?e Listing) (node_state ?e ?e ?e ?e Listing)"
    by simp
  also have "node_step \<dots> (node_state ?e ?e ?e ?e (Adding [v] [v] {}))"
    using node_listed [of "node_state ?e ?e ?e ?e Listing"] by simp
  also have "node_step \<dots> (node_state ?tr ?k0s ?e (?ws Node_start) (Adding [v] [] {?n}))"
    using node_add_new [of "node_state ?e ?e ?e ?e (Adding [v] [v] {})" "[v]" v "[]" "{}" 0]
    by (simp add: node_worker_def)
  also have "node_step \<dots> (node_state ?tr ?k0s ?e (?ws Node_start) (Pruning [v] [?n] {?n}))"
    using node_added [of "node_state ?tr ?k0s ?e (?ws Node_start) (Adding [v] [] {?n})" "[v]" "{?n}" "[?n]"] by simp
  also have "node_step \<dots> (node_state ?tr ?k0s ?e (?ws Node_start) (Pruning [v] [] {?n}))"
    using node_prune_kept [of "node_state ?tr ?k0s ?e (?ws Node_start) (Pruning [v] [?n] {?n})" "[v]" ?n "[]" "{?n}"] by simp
  also have "node_step \<dots> (node_state ?tr ?k0s ?e (?ws Node_start) Sleeping)"
    using node_pruned [of "node_state ?tr ?k0s ?e (?ws Node_start) (Pruning [v] [] {?n})" "[v]" "{?n}"] by simp
  also have "node_step \<dots> (node_state ?tr ?k0s ?e (?ws (Node_loaded v)) Sleeping)"
    using node_load [of "node_state ?tr ?k0s ?e (?ws Node_start) Sleeping" 0 "?w Node_start" v] assms(1) by (simp add: loaded_node_def)
  also have "node_step \<dots> (node_state ?tr ?k0s ?e (?ws (Node_checking v ?conditions)) Sleeping)"
    using node_conditions [of "node_state ?tr ?k0s ?e (?ws (Node_loaded v)) Sleeping" 0 "?w (Node_loaded v)" v] by simp
  also have "node_step \<dots> (node_state ?tr ?k0s ?r (?ws Node_waiting) Sleeping)"
    using node_store [of "node_state ?tr ?k0s ?e (?ws (Node_checking v ?conditions)) Sleeping" 0
        "?w (Node_checking v ?conditions)" v ?conditions] assms(2)
    by simp
  also have "node_step \<dots> (node_state ?tr ?k0s ?r (?ws Node_waiting) Listing)"
    using node_wake [of "node_state ?tr ?k0s ?r (?ws Node_waiting) Sleeping"] by simp
  also have "node_step \<dots> (node_state ?tr ?k0s ?r (?ws Node_waiting) (Adding [] [] {}))"
    using node_listed [of "node_state ?tr ?k0s ?r (?ws Node_waiting) Listing"] by simp
  also have "node_step \<dots> (node_state ?tr ?k0s ?r (?ws Node_waiting) (Pruning [] [?n] {}))"
    using node_added [of "node_state ?tr ?k0s ?r (?ws Node_waiting) (Adding [] [] {})" "[]" "{}" "[?n]"] by simp
  finally show ?thesis by simp
qed

lemma node_run_removed:
  assumes "node_Addresses v \<noteq> []" and "node_result v (checkNodeConditionStatus [node_Name v \<mapsto> v] (node_Name v)) k st"
    and "k \<noteq> node_Name v"
  shows "node_step\<^sup>*\<^sup>* (node_state Map.empty Map.empty Map.empty Map.empty Listing)
    (node_state Map.empty Map.empty [k \<mapsto> st] Map.empty (Pruning [] [] {}))"
proof -
  let ?n = "node_Name v"
  let ?tr = "[?n \<mapsto> 0 :: nat]" and ?k0s = "[?n \<mapsto> v]" and ?e = "Map.empty" and ?r = "[k \<mapsto> st]"
  note node_run_checked [OF assms(1,2)]
  also have "node_step (node_state ?tr ?k0s ?r (node_worker ?n Node_waiting False) (Pruning [] [?n] {}))
      (node_state ?e ?e ?r (node_worker ?n Node_waiting True) (Pruning [] [] {}))"
    using node_prune_gone [of "node_state ?tr ?k0s ?r (node_worker ?n Node_waiting False) (Pruning [] [?n] {})"
        "[]" ?n "[]" "{}" 0] assms(3) by (simp add: fun_upd_twist)
  also have "node_step \<dots> (node_state ?e ?e ?r ?e (Pruning [] [] {}))"
    using node_done [of "node_state ?e ?e ?r (node_worker ?n Node_waiting True) (Pruning [] [] {})" 0
        "\<lparr>wr_name = ?n, wr_pc = Node_waiting, wr_cancelled = True\<rparr>"] assms(3) by (simp add: fun_upd_twist)
  finally show ?thesis .
qed

lemma node_run_panics:
  fixes v :: Node
  assumes "node_Addresses v \<noteq> []"
  shows "\<exists>s. node_step\<^sup>*\<^sup>* (node_state Map.empty Map.empty Map.empty Map.empty Listing) s \<and> nd_panicked s"
proof -
  let ?n = "node_Name v" and ?st = "unavailable_node v (hd (node_Addresses v))
      (checkNodeConditionStatus [node_Name v \<mapsto> v] (node_Name v)) []"
  let ?tr = "[?n \<mapsto> 0 :: nat]" and ?k0s = "[?n \<mapsto> v]" and ?e = "Map.empty" and ?r = "[?n \<mapsto> ?st]"
  note node_run_checked [OF assms not_available]
  also have "node_step (node_state ?tr ?k0s ?r (node_worker ?n Node_waiting False) (Pruning [] [?n] {}))
      (node_state ?tr ?k0s ?r (node_worker ?n Node_start False) (Pruning [] [?n] {}))"
    using node_timer [of "node_state ?tr ?k0s ?r (node_worker ?n Node_waiting False) (Pruning [] [?n] {})" 0
        "\<lparr>wr_name = ?n, wr_pc = Node_waiting, wr_cancelled = False\<rparr>"] by simp
  also have "node_step \<dots> (node_state ?e ?e ?e (node_worker ?n Node_start True) (Pruning [] [] {}))"
    using node_prune_gone [of "node_state ?tr ?k0s ?r (node_worker ?n Node_start False) (Pruning [] [?n] {})"
        "[]" ?n "[]" "{}" 0] by simp
  also have "node_step \<dots> \<lparr>nd_tracker = ?e, nd_k0s = ?e, nd_results = ?e, nd_workers = node_worker ?n Node_start True,
      nd_updater = Pruning [] [] {}, nd_panicked = True\<rparr>"
    using node_load_panics [of "node_state ?e ?e ?e (node_worker ?n Node_start True) (Pruning [] [] {})" 0
        "\<lparr>wr_name = ?n, wr_pc = Node_start, wr_cancelled = True\<rparr>"] by (simp add: loaded_node_def)
  finally show ?thesis by (intro exI conjI) (assumption, simp)
qed


text \<open>
  The result of a node whose daemon reports another name than the cluster does stays when the
  node, and every worker, is gone, although the results of applications never do.
\<close>

lemma node_result_stays:
  fixes v :: Node and answer :: NodeStatus
  assumes "node_Addresses v \<noteq> []" and "ni_Name (ns_Node answer) \<noteq> node_Name v"
  shows "\<exists>s s'. node_init s \<and> node_step\<^sup>*\<^sup>* s s' \<and> nd_tracker s' = Map.empty \<and> nd_workers s' = Map.empty \<and>
    (\<exists>st. nd_results s' (ni_Name (ns_Node answer)) = Some st)"
proof -
  have "node_result v (checkNodeConditionStatus [node_Name v \<mapsto> v] (node_Name v)) (ni_Name (ns_Node answer))
     (available_node answer (checkNodeConditionStatus [node_Name v \<mapsto> v] (node_Name v)) \<lparr>dt_Name = ''sshDaemonset'', dt_Value = ''up'', dt_Healthy = ''true''\<rparr>)"
    by (rule available) simp
  from node_run_removed [OF assms(1) this assms(2)] show ?thesis
    by (intro exI conjI) (auto simp: node_init_def)
qed

theorem node_result_stays_witness:
  "\<exists>s s'. node_init s \<and> node_step\<^sup>*\<^sup>* s s' \<and> nd_tracker s' = Map.empty \<and> nd_workers s' = Map.empty \<and>
    (\<exists>st. nd_results s' ''host-1'' = Some st)"
  using node_result_stays [of "\<lparr>node_Name = ''node-1'', node_Labels = Map.empty, node_Allocatable_CPU = 0,
      node_Allocatable_Memory = 0, node_Addresses = [''10.0.0.1''], node_Conditions = []\<rparr>"
      "\<lparr>ns_Node = \<lparr>ni_Name = ''host-1'', ni_IpAddress = [], ni_Role = []\<rparr>, ns_Status = [],
        ns_Condition = [], ns_Network = [], ns_Preflight = []\<rparr>"]
  by simp

section \<open>The daemon of a node\<close>

text \<open>
  cmd/cluster-status/main.go: the worker of the daemon's own node collects what the workers of the
  other nodes found. \<open>Range\<close> over the network results is one step. The worker of the own node does
  not look at its context.
\<close>

datatype daemon_pc =
    Own_start NodeInfo
  | Own_collected NodeInfo "DetailStatus list"
  | Online_start NodeInfo
  | Online_waiting NodeInfo

record daemon =
  dm_tracker :: "string \<rightharpoonup> nat"
  dm_network :: "string \<rightharpoonup> DetailStatus"
  dm_results :: "string \<rightharpoonup> NodeStatus"
  dm_workers :: "nat \<rightharpoonup> daemon_pc worker"
  dm_updater :: "NodeInfo updater"

definition daemon_init :: "daemon \<Rightarrow> bool" where
  "daemon_init s \<longleftrightarrow> s = \<lparr>dm_tracker = Map.empty, dm_network = Map.empty, dm_results = Map.empty,
     dm_workers = Map.empty, dm_updater = Listing\<rparr>"

text \<open>What is recorded of a node for the answer of its \<open>/online\<close> endpoint.\<close>

definition online_status :: "string \<Rightarrow> int result \<Rightarrow> DetailStatus" where
  "online_status n answer =
     (if answer = Ok 200 then \<lparr>dt_Name = n, dt_Value = ''online'', dt_Healthy = ''true''\<rparr>
      else \<lparr>dt_Name = n, dt_Value = ''offline'', dt_Healthy = ''false''\<rparr>)"

definition getNetworkStatus :: "string list \<Rightarrow> (string \<rightharpoonup> DetailStatus) \<Rightarrow> string \<times> DetailStatus list" where
  "getNetworkStatus ks network =
     (let details = List.map_filter network ks in
      (if \<exists>d\<in>set details. dt_Healthy d = ''false'' then ''Not Healthy'' else ''Healthy'', details))"

definition own_status :: "NodeInfo \<Rightarrow> DetailStatus list \<Rightarrow> NodeStatus" where
  "own_status v network = \<lparr>ns_Node = v, ns_Status = [], ns_Condition = [], ns_Network = network, ns_Preflight = []\<rparr>"

inductive daemon_step :: "string \<Rightarrow> daemon \<Rightarrow> daemon \<Rightarrow> bool" for nodeName where
  daemon_listed: "dm_updater s = Listing \<Longrightarrow> daemon_step nodeName s (s\<lparr>dm_updater := Adding items items {}\<rparr>)"
| daemon_list_failed: "dm_updater s = Listing \<Longrightarrow> daemon_step nodeName s (s\<lparr>dm_updater := Sleeping\<rparr>)"
| daemon_add_new: "dm_updater s = Adding items (v # vs) upd \<Longrightarrow> dm_tracker s (ni_Name v) = None \<Longrightarrow> dm_workers s g = None \<Longrightarrow>
    daemon_step nodeName s (s\<lparr>dm_tracker := (dm_tracker s)(ni_Name v \<mapsto> g),
      dm_workers := (dm_workers s)(g \<mapsto> \<lparr>wr_name = ni_Name v,
        wr_pc = (if ni_Name v = nodeName then Own_start v else Online_start v), wr_cancelled = False\<rparr>),
      dm_updater := Adding items vs (insert (ni_Name v) upd)\<rparr>)"
| daemon_add_known: "dm_updater s = Adding items (v # vs) upd \<Longrightarrow> dm_tracker s (ni_Name v) = Some g \<Longrightarrow>
    daemon_step nodeName s (s\<lparr>dm_updater := Adding items vs (insert (ni_Name v) upd)\<rparr>)"
| daemon_added: "dm_updater s = Adding items [] upd \<Longrightarrow> set ks = dom (dm_tracker s) \<Longrightarrow> distinct ks \<Longrightarrow>
    daemon_step nodeName s (s\<lparr>dm_updater := Pruning items ks upd\<rparr>)"
| daemon_prune_gone: "dm_updater s = Pruning items (n # ks) upd \<Longrightarrow> n \<notin> upd \<Longrightarrow> dm_tracker s n = Some g \<Longrightarrow>
    daemon_step nodeName s (s\<lparr>dm_tracker := (dm_tracker s)(n := None), dm_workers := cancel_worker g (dm_workers s),
      dm_network := (dm_network s)(n := None), dm_updater := Pruning items ks upd\<rparr>)"
| daemon_prune_kept: "dm_updater s = Pruning items (n # ks) upd \<Longrightarrow> n \<in> upd \<Longrightarrow>
    daemon_step nodeName s (s\<lparr>dm_updater := Pruning items ks upd\<rparr>)"
| daemon_pruned: "dm_updater s = Pruning items [] upd \<Longrightarrow> daemon_step nodeName s (s\<lparr>dm_updater := Sleeping\<rparr>)"
| daemon_wake: "dm_updater s = Sleeping \<Longrightarrow> daemon_step nodeName s (s\<lparr>dm_updater := Listing\<rparr>)"
| own_collect: "dm_workers s g = Some w \<Longrightarrow> wr_pc w = Own_start v \<Longrightarrow> set ks = dom (dm_network s) \<Longrightarrow> distinct ks \<Longrightarrow>
    daemon_step nodeName s (s\<lparr>dm_workers := (dm_workers s)
      (g \<mapsto> w\<lparr>wr_pc := Own_collected v (snd (getNetworkStatus ks (dm_network s)))\<rparr>)\<rparr>)"
| own_store: "dm_workers s g = Some w \<Longrightarrow> wr_pc w = Own_collected v network \<Longrightarrow>
    daemon_step nodeName s (s\<lparr>dm_workers := (dm_workers s)(g \<mapsto> w\<lparr>wr_pc := Own_start v\<rparr>),
      dm_results := (dm_results s)(ni_Name v \<mapsto> own_status v network)\<rparr>)"
| online_store: "dm_workers s g = Some w \<Longrightarrow> wr_pc w = Online_start v \<Longrightarrow>
    daemon_step nodeName s (s\<lparr>dm_workers := (dm_workers s)(g \<mapsto> w\<lparr>wr_pc := Online_waiting v\<rparr>),
      dm_network := (dm_network s)(ni_Name v \<mapsto> online_status (ni_Name v) answer)\<rparr>)"
| online_timer: "dm_workers s g = Some w \<Longrightarrow> wr_pc w = Online_waiting v \<Longrightarrow>
    daemon_step nodeName s (s\<lparr>dm_workers := (dm_workers s)(g \<mapsto> w\<lparr>wr_pc := Online_start v\<rparr>)\<rparr>)"
| online_done: "dm_workers s g = Some w \<Longrightarrow> wr_pc w = Online_waiting v \<Longrightarrow> wr_cancelled w \<Longrightarrow>
    daemon_step nodeName s (s\<lparr>dm_workers := (dm_workers s)(g := None), dm_network := (dm_network s)(ni_Name v := None)\<rparr>)"

definition retrieveNodeStatus :: "string \<Rightarrow> daemon \<Rightarrow> NodeStatus option" where
  "retrieveNodeStatus nodeName s = dm_results s nodeName"

inductive_cases daemon_stepE: "daemon_step nodeName s s'"

lemma daemon_step_kinds:
  assumes "daemon_step nodeName s s'"
  shows "dm_tracker s' = dm_tracker s \<and> running (dm_workers s') = running (dm_workers s) \<or>
    (\<exists>n g. dm_tracker s n = None \<and> running (dm_workers s) g = None \<and>
       dm_tracker s' = (dm_tracker s)(n \<mapsto> g) \<and> running (dm_workers s') = (running (dm_workers s))(g \<mapsto> (n, False))) \<or>
    (\<exists>n g. dm_tracker s n = Some g \<and> dm_tracker s' = (dm_tracker s)(n := None) \<and>
       running (dm_workers s') = cancel g (running (dm_workers s))) \<or>
    (\<exists>g n. running (dm_workers s) g = Some (n, True) \<and> dm_tracker s' = dm_tracker s \<and>
       running (dm_workers s') = (running (dm_workers s))(g := None))"
  using assms
proof (cases rule: daemon_step.cases)
  case (daemon_add_new items v vs upd g)
  then have "dm_tracker s (ni_Name v) = None \<and> running (dm_workers s) g = None \<and>
     dm_tracker s' = (dm_tracker s)(ni_Name v \<mapsto> g) \<and>
     running (dm_workers s') = (running (dm_workers s))(g \<mapsto> (ni_Name v, False))"
    by simp
  then show ?thesis by blast
next
  case (daemon_prune_gone items n ks upd g)
  then have "dm_tracker s n = Some g \<and> dm_tracker s' = (dm_tracker s)(n := None) \<and>
      running (dm_workers s') = cancel g (running (dm_workers s))"
    by simp
  then show ?thesis by blast
next
  case (online_done g w v)
  then have "running (dm_workers s) g = Some (wr_name w, True) \<and> dm_tracker s' = dm_tracker s \<and>
      running (dm_workers s') = (running (dm_workers s))(g := None)"
    by auto
  then show ?thesis by blast
qed (auto simp: running_same simp del: running_simps(5,6))

interpretation daemon_nodes: tracking daemon_init "daemon_step nodeName" dm_tracker "\<lambda>s. running (dm_workers s)" for nodeName
proof unfold_locales
  show "dm_tracker s = Map.empty \<and> running (dm_workers s) = Map.empty" if "daemon_init s" for s
    using that by (auto simp: daemon_init_def)
qed (rule daemon_step_kinds)

text \<open>
  The worker of the own node is the only one that collects, and what is known of the network was
  found by a worker that is still there.
\<close>

fun pc_fits :: "string \<Rightarrow> string \<Rightarrow> daemon_pc \<Rightarrow> bool" where
  "pc_fits nodeName n (Own_start v) \<longleftrightarrow> n = nodeName \<and> ni_Name v = n"
| "pc_fits nodeName n (Own_collected v network) \<longleftrightarrow> n = nodeName \<and> ni_Name v = n"
| "pc_fits nodeName n (Online_start v) \<longleftrightarrow> n \<noteq> nodeName \<and> ni_Name v = n"
| "pc_fits nodeName n (Online_waiting v) \<longleftrightarrow> n \<noteq> nodeName \<and> ni_Name v = n"

definition daemon_live :: "daemon \<Rightarrow> string \<Rightarrow> bool" where
  "daemon_live s n \<longleftrightarrow> (\<exists>g w. dm_workers s g = Some w \<and> wr_name w = n)"

definition daemon_inv :: "string \<Rightarrow> daemon \<Rightarrow> bool" where
  "daemon_inv nodeName s \<longleftrightarrow>
     (\<forall>g w. dm_workers s g = Some w \<longrightarrow> pc_fits nodeName (wr_name w) (wr_pc w)) \<and>
     (\<forall>n d. dm_network s n = Some d \<longrightarrow> n \<noteq> nodeName \<and> daemon_live s n \<and> (\<exists>answer. d = online_status n answer)) \<and>
     (\<forall>n. dm_results s n \<noteq> None \<longrightarrow> n = nodeName)"

lemma daemon_live_step:
  assumes "daemon_step nodeName s s'" and "daemon_inv nodeName s" and "daemon_live s n"
  shows "daemon_live s' n \<or> dm_network s' n = None"
proof -
  from assms(3) obtain g w where w: "dm_workers s g = Some w" "wr_name w = n"
    by (auto simp: daemon_live_def)
  with assms(2) have fits: "pc_fits nodeName n (wr_pc w)" by (auto simp: daemon_inv_def)
  have "(\<exists>w'. dm_workers s' g = Some w' \<and> wr_name w' = n) \<or> dm_network s' n = None"
    using assms(1) w fits
  proof (cases rule: daemon_step.cases)
    case (daemon_prune_gone items m ks upd h)
    with w show ?thesis by (cases "g = h") (auto simp: cancel_worker_Some)
  qed auto
  then show ?thesis by (auto simp: daemon_live_def)
qed

lemma daemon_inv_step:
  assumes "daemon_inv nodeName s" and "daemon_step nodeName s s'"
  shows "daemon_inv nodeName s'"
proof -
  note inv = assms(1) [unfolded daemon_inv_def]
  have "dm_workers s' g = Some w \<Longrightarrow> pc_fits nodeName (wr_name w) (wr_pc w)" for g w
    using assms(2) inv
    by (elim daemon_stepE) (fastforce simp: cancel_worker_Some split: if_splits)+
  moreover have "n \<noteq> nodeName \<and> daemon_live s n \<and> (\<exists>answer. d = online_status n answer)"
    if "dm_network s' n = Some d" for n d
    using assms(2) inv that
    by (elim daemon_stepE) (fastforce simp: daemon_live_def split: if_splits)+
  moreover have "dm_results s' n \<noteq> None \<Longrightarrow> n = nodeName" for n
    using assms(2) inv by (elim daemon_stepE) (fastforce split: if_splits)+
  ultimately show ?thesis
    using daemon_live_step [OF assms(2,1)] unfolding daemon_inv_def by (metis option.distinct(1))
qed

lemma daemon_inv_reachable:
  assumes "daemon_init s0" and "(daemon_step nodeName)\<^sup>*\<^sup>* s0 s"
  shows "daemon_inv nodeName s"
  using assms(2)
proof (induction rule: rtranclp_induct)
  case base
  with assms(1) show ?case by (auto simp: daemon_init_def daemon_inv_def)
next
  case (step s s')
  then show ?case by (blast intro: daemon_inv_step)
qed

definition owns :: "daemon \<Rightarrow> nat \<Rightarrow> bool" where
  "owns s g \<longleftrightarrow> (\<exists>w v. dm_workers s g = Some w \<and> (wr_pc w = Own_start v \<or> (\<exists>network. wr_pc w = Own_collected v network)))"

lemma owns_step: "daemon_step nodeName s s' \<Longrightarrow> owns s g \<Longrightarrow> owns s' g"
proof (cases rule: daemon_step.cases, assumption)
  fix items n ks upd h
  assume "owns s g" and "s' = s\<lparr>dm_tracker := (dm_tracker s)(n := None), dm_workers := cancel_worker h (dm_workers s),
      dm_network := (dm_network s)(n := None), dm_updater := Pruning items ks upd\<rparr>"
  then show "owns s' g"
    by (cases "g = h") (auto simp: owns_def cancel_worker_Some)
qed (auto simp: owns_def)

lemma owns_forever:
  assumes "(daemon_step nodeName)\<^sup>*\<^sup>* s s'" and "owns s g"
  shows "owns s' g"
  using assms by (induction rule: rtranclp_induct) (auto intro: owns_step)

definition daemon_start :: daemon where
  "daemon_start = \<lparr>dm_tracker = Map.empty, dm_network = Map.empty, dm_results = Map.empty,
     dm_workers = Map.empty, dm_updater = Listing\<rparr>"

definition daemon_with :: "string \<Rightarrow> NodeInfo \<Rightarrow> daemon" where
  "daemon_with nodeName v = daemon_start\<lparr>dm_tracker := [ni_Name v \<mapsto> 0],
     dm_workers := [0 \<mapsto> \<lparr>wr_name = ni_Name v,
       wr_pc = (if ni_Name v = nodeName then Own_start v else Online_start v), wr_cancelled = False\<rparr>],
     dm_updater := Adding [v] [] {ni_Name v}\<rparr>"

lemma daemon_with_reachable: "(daemon_step nodeName)\<^sup>*\<^sup>* daemon_start (daemon_with nodeName v)"
proof -
  have "(daemon_step nodeName)\<^sup>*\<^sup>* daemon_start daemon_start" by simp
  also have "daemon_step nodeName \<dots> (daemon_start\<lparr>dm_updater := Adding [v] [v] {}\<rparr>)"
    by (rule daemon_listed) (simp add: daemon_start_def)
  also have "daemon_step nodeName \<dots> (daemon_with nodeName v)"
    using daemon_add_new [of "daemon_start\<lparr>dm_updater := Adding [v] [v] {}\<rparr>" "[v]" v "[]" "{}" 0]
    by (simp add: daemon_with_def daemon_start_def)
  finally show ?thesis .
qed

text \<open>
  C21. In every state the daemon can reach: a node is tracked exactly when it has a worker that is not
  cancelled; the network results are of other nodes that still have a worker and say online or offline
  of them; and the only status the daemon ever serves is that of its own node.
\<close>

theorem daemon_invariant:
  assumes "daemon_init s0" and "(daemon_step nodeName)\<^sup>*\<^sup>* s0 s"
  shows "(dm_tracker s n = Some g \<longleftrightarrow> (\<exists>w. dm_workers s g = Some w \<and> wr_name w = n \<and> \<not> wr_cancelled w)) \<and>
    (dm_network s n = Some d \<longrightarrow>
      n \<noteq> nodeName \<and> (\<exists>h w. dm_workers s h = Some w \<and> wr_name w = n) \<and> (\<exists>answer. d = online_status n answer)) \<and>
    (dm_results s n \<noteq> None \<longrightarrow> n = nodeName)"
proof -
  have "dm_tracker s n = Some g \<longleftrightarrow> running (dm_workers s) g = Some (n, False)"
    using daemon_nodes.one_worker_reachable [OF assms] by (simp add: daemon_nodes.one_worker_def)
  with daemon_inv_reachable [OF assms] show ?thesis by (auto simp: daemon_inv_def daemon_live_def)
qed

theorem daemon_invariant_witness:
  "\<exists>w. dm_workers (daemon_with ''a'' \<lparr>ni_Name = ''b'', ni_IpAddress = [], ni_Role = []\<rparr>) 0 = Some w \<and>
     wr_name w = ''b'' \<and> \<not> wr_cancelled w"
  using daemon_invariant [OF _ daemon_with_reachable
      [of "''a''" "\<lparr>ni_Name = ''b'', ni_IpAddress = [], ni_Role = []\<rparr>"], of "''b''" 0]
  by (simp add: daemon_init_def daemon_with_def daemon_start_def)

text \<open>
  The worker of the daemon's own node never ends, also when its context is cancelled: once it runs,
  it runs in every later state.
\<close>

lemma own_worker_never_ends:
  assumes "(daemon_step nodeName)\<^sup>*\<^sup>* s s'" and "dm_workers s g = Some w" and "wr_pc w = Own_start v"
  shows "\<exists>w'. dm_workers s' g = Some w' \<and>
    (\<exists>v'. wr_pc w' = Own_start v' \<or> (\<exists>network. wr_pc w' = Own_collected v' network))"
  using owns_forever [OF assms(1), of g] assms(2,3) by (auto simp: owns_def)

theorem own_worker_never_ends_witness:
  "\<exists>w'. dm_workers (daemon_with ''a'' \<lparr>ni_Name = ''a'', ni_IpAddress = [], ni_Role = []\<rparr>) 0 = Some w' \<and>
    (\<exists>v'. wr_pc w' = Own_start v' \<or> (\<exists>network. wr_pc w' = Own_collected v' network))"
  by (rule own_worker_never_ends [OF rtranclp.rtrancl_refl, where w = "\<lparr>wr_name = ''a'',
      wr_pc = Own_start \<lparr>ni_Name = ''a'', ni_IpAddress = [], ni_Role = []\<rparr>, wr_cancelled = False\<rparr>"])
    (simp_all add: daemon_with_def)

text \<open>The network is healthy exactly when every node that was asked is online.\<close>

lemma getNetworkStatus_healthy:
  assumes "daemon_inv nodeName s" and "set ks = dom (dm_network s)"
  shows "fst (getNetworkStatus ks (dm_network s)) = ''Healthy'' \<longleftrightarrow>
    (\<forall>n d. dm_network s n = Some d \<longrightarrow> d = online_status n (Ok 200))"
proof -
  have "dt_Healthy d = ''false'' \<longleftrightarrow> d \<noteq> online_status n (Ok 200)"
    if net: "dm_network s n = Some d" for n d
  proof -
    obtain answer where "d = online_status n answer"
      using assms(1) net unfolding daemon_inv_def by blast
    then show ?thesis by (simp add: online_status_def)
  qed
  moreover have "set (List.map_filter (dm_network s) ks) = ran (dm_network s)"
    using assms(2) by (force simp: List.map_filter_def ran_def dom_def)
  ultimately show ?thesis by (auto simp: getNetworkStatus_def Let_def ran_def)
qed

end
