(* ===== verification/Waitfor.thy ===== *)
theory Waitfor
  imports Status Loops
begin

text \<open>
  cmd/waitfor/main.go: the command that waits until every target answers, and its exit codes. The
  standard library's URL parser, HTTP client and TCP dialer are the record \<open>network\<close> of the theory
  Status. The elapsed time is compared in nanoseconds where the code compares it as a floating-point
  number of seconds: the two differ only beyond the 53 bits of its mantissa, after 104 days.
\<close>

section \<open>Targets\<close>

definition supported_scheme :: "string \<Rightarrow> bool" where
  "supported_scheme scheme \<longleftrightarrow> scheme = ''http'' \<or> scheme = ''https'' \<or> scheme = ''tcp''"

definition supportedTarget :: "'w network \<Rightarrow> string \<Rightarrow> bool" where
  "supportedTarget net target =
     (case net_Parse net target of Ok (scheme, host) \<Rightarrow> supported_scheme scheme | _ \<Rightarrow> False)"

definition connectHost :: "'w network \<Rightarrow> string \<Rightarrow> ('w, unit) io" where
  "connectHost net target =
     andthen (lift_result (net_Parse net target)) (\<lambda>(scheme, host).
       if scheme = ''http'' \<or> scheme = ''https'' then
         andthen (net_Get net False target) (\<lambda>code.
           if \<not> (200 \<le> code \<and> code < 300)
           then fail (Errorf ''GET returned non-2XX response: %d'' [Num code])
           else ret ())
       else if scheme = ''tcp'' then net_Dial net host
       else fail (Errorf ''unknown scheme: %v'' [Str scheme]))"

fun tryConnect :: "'w network \<Rightarrow> string list \<Rightarrow> ('w, bool) io" where
  "tryConnect net [] = ret True"
| "tryConnect net (target # targets) =
     check (connectHost net target) () (\<lambda>err _.
       if err \<noteq> None then ret False else tryConnect net targets)"

section \<open>The command\<close>

fun poll_targets :: "nat \<Rightarrow> 'w runtime \<Rightarrow> 'w network \<Rightarrow> int \<Rightarrow> string list \<Rightarrow> int \<Rightarrow> ('w, int) io" where
  "poll_targets 0 rt net timeoutArg targets start = out_of_fuel"
| "poll_targets (Suc n) rt net timeoutArg targets start =
     andthen (tryConnect net targets) (\<lambda>up.
       if up then ret 0
       else andthen (now rt) (\<lambda>t.
         if t - start \<ge> timeoutArg * second then ret 3
         else andthen (sleep rt (2 * second)) (\<lambda>_. poll_targets n rt net timeoutArg targets start)))"

text \<open>
  \<open>main\<close> after its flags are parsed; \<open>skip\<close> is whether WAITFOR\_SKIPCHECKS is \<open>true\<close>. The
  value is the exit code.
\<close>

definition waitfor :: "'w runtime \<Rightarrow> 'w network \<Rightarrow> int \<Rightarrow> bool \<Rightarrow> string list \<Rightarrow> ('w, int) io" where
  "waitfor rt net timeoutArg skip targets =
     (if skip then ret 0
      else if targets = [] then ret 1
      else if \<exists>t\<in>set targets. \<not> supportedTarget net t then ret 2
      else andthen (now rt) (\<lambda>start. poll_targets (rt_fuel rt) rt net timeoutArg targets start))"

section \<open>Properties\<close>

lemma tryConnect_True: "tryConnect net ts w = (Ok True, w') \<longleftrightarrow> for_each (connectHost net) ts w = (Ok (), w')"
  by (induction ts arbitrary: w) (auto simp: io_ok)

lemma tryConnect_False:
  "tryConnect net ts w = (Ok False, w') \<Longrightarrow> \<exists>t\<in>set ts. \<exists>u e. connectHost net t u = (Err e, w')"
  by (induction ts arbitrary: w) (auto simp: io_ok split: if_splits)

lemma poll_targets_Ok:
  "poll_targets n rt net timeout ts start w = (Ok c, w') \<Longrightarrow>
     c = 0 \<and> (\<exists>u. for_each (connectHost net) ts u = (Ok (), w')) \<or>
     c = 3 \<and> timeout * second \<le> rt_now rt w' - start \<and> (\<exists>t\<in>set ts. \<exists>u e. connectHost net t u = (Err e, w'))"
  by (induction n arbitrary: w)
    (auto simp: io_ok tryConnect_True dest: tryConnect_False split: if_splits)

text \<open>
  C27. The exit code of waitfor is 0, 1, 2 or 3: 1 without targets, 2 when a target has no supported
  scheme, 0 when the checks are skipped or when, in a last round, all targets answered one after the
  other, and 3 only when the timeout has passed and a target failed in the last round.
\<close>

theorem waitfor_exit_codes:
  assumes "waitfor rt net timeout skip targets w = (Ok c, w')"
  shows "c \<in> {0, 1, 2, 3} \<and>
    (c = 1 \<longleftrightarrow> \<not> skip \<and> targets = []) \<and>
    (c = 2 \<longleftrightarrow> \<not> skip \<and> (\<exists>t\<in>set targets. \<not> supportedTarget net t)) \<and>
    (c = 0 \<longrightarrow> skip \<or> (\<exists>u. for_each (connectHost net) targets u = (Ok (), w'))) \<and>
    (c = 3 \<longrightarrow> timeout * second \<le> rt_now rt w' - rt_now rt w \<and>
      (\<exists>t\<in>set targets. \<exists>u e. connectHost net t u = (Err e, w')))"
  using assms poll_targets_Ok [of "rt_fuel rt" rt net timeout targets "rt_now rt w" w c w']
  by (auto simp: waitfor_def split: if_splits)

text \<open>What the command relies on for its waiting to end.\<close>

definition steady_network :: "'w runtime \<Rightarrow> 'w network \<Rightarrow> bool" where
  "steady_network rt net \<longleftrightarrow>
     (\<forall>d w. 0 \<le> d \<longrightarrow> rt_now rt w + d \<le> rt_now rt (rt_sleep rt d w)) \<and>
     (\<forall>target. net_Parse net target \<noteq> OutOfFuel) \<and>
     (\<forall>b u. steady_lookup rt (net_Get net b u)) \<and> (\<forall>h. steady_lookup rt (net_Dial net h))"

lemma steady_connectHost:
  assumes "steady_network rt net"
  shows "steady_lookup rt (connectHost net t)"
proof -
  have "steady_lookup rt (lift_result (net_Parse net t))"
    using assms by (simp add: steady_network_def steady_lookup_def forward_def)
  then show ?thesis
    using assms unfolding connectHost_def steady_network_def
    by (intro steady_rules) simp_all
qed

lemma steady_tryConnect:
  assumes "steady_network rt net"
  shows "steady_lookup rt (tryConnect net ts)"
proof (induction ts)
  case Nil
  show ?case unfolding tryConnect.simps by (rule steady_simple)
next
  case (Cons t ts)
  then show ?case
    unfolding tryConnect.simps by (intro steady_rules steady_connectHost [OF assms]) simp_all
qed

interpretation target_poll: ticking rt "\<lambda>n. poll_targets n rt net timeout targets start"
    "start + timeout * second" "steady_network rt net" for rt net timeout targets start
proof unfold_locales
  fix n w
  assume steady: "steady_network rt net"
  obtain r w1 where t: "tryConnect net targets w = (r, w1)" by fastforce
  from steady_lookupD [OF steady_tryConnect [OF steady] t]
  have "r \<noteq> OutOfFuel" "rt_now rt w \<le> rt_now rt w1" by simp_all
  with t show "fst (poll_targets (Suc n) rt net timeout targets start w) \<noteq> OutOfFuel \<or>
      (\<exists>u d. rt_now rt w \<le> rt_now rt u \<and> rt_now rt w \<le> start + timeout * second \<and> second \<le> d \<and>
         poll_targets (Suc n) rt net timeout targets start w = poll_targets n rt net timeout targets start (rt_sleep rt d u))"
    by (cases r) (auto intro!: exI [of _ w1] exI [of _ "2 * second"] simp: second_def)
qed (simp add: steady_network_def)


text \<open>A network of one host that never answers, and a clock that only sleeping advances.\<close>

definition dead_network :: "int network" where
  "dead_network = \<lparr>net_Parse = (\<lambda>t. if t = ''tcp://db'' then Ok (''tcp'', ''db'') else Err OsNotExist),
     net_Template = (\<lambda>t. None), net_Get = (\<lambda>b u. fail OsNotExist), net_Dial = (\<lambda>h. fail OsNotExist)\<rparr>"

definition sleep_clock :: "int runtime" where
  "sleep_clock = \<lparr>rt_now = (\<lambda>w. w), rt_sleep = (\<lambda>d w. w + d), rt_range = (\<lambda>ks w. (ks, w)), rt_fuel = 4\<rparr>"

lemma sleep_clock_simps [simp]:
  "rt_now sleep_clock w = w" "rt_sleep sleep_clock d w = w + d" "rt_fuel sleep_clock = 4"
  by (simp_all add: sleep_clock_def)

lemma tryConnect_dead: "tryConnect dead_network [''tcp://db''] w = (Ok False, w)"
proof -
  have "connectHost dead_network ''tcp://db'' w = (Err OsNotExist, w)"
    by (simp add: connectHost_def dead_network_def)
  then show ?thesis by simp
qed

lemma waitfor_dead: "waitfor sleep_clock dead_network 2 False [''tcp://db''] 0 = (Ok 3, 2000000000)"
proof -
  have "poll_targets (Suc (Suc n)) sleep_clock dead_network 2 [''tcp://db''] 0 0 = (Ok 3, 2000000000)" for n
    by (simp add: andthen_simps(1) [OF tryConnect_dead] second_def del: tryConnect.simps)
  from this [of 2] have "poll_targets 4 sleep_clock dead_network 2 [''tcp://db''] 0 0 = (Ok 3, 2000000000)"
    by (simp add: numeral_eq_Suc del: poll_targets.simps)
  moreover have "supportedTarget dead_network ''tcp://db''"
    by (simp add: supportedTarget_def supported_scheme_def dead_network_def)
  ultimately show ?thesis by (simp add: waitfor_def)
qed

theorem waitfor_exit_codes_witness: "2 * second \<le> (2000000000 :: int)"
  using waitfor_exit_codes [OF waitfor_dead] by (simp add: sleep_clock_def)


end
