(* ===== verification/Registries.thy ===== *)
theory Registries
  imports Manifests
begin

text \<open>
  managers/registry.go and bootstrap.go: the \<open>RegistryManager\<close>, which deploys a registry, imports
  the images of bundles into it (through a pod, or straight into a directory of the host) and deletes
  it, and the \<open>BootstrapManager\<close>, which applies the embedded resources to a new cluster.
\<close>

section \<open>What the managers call\<close>

text \<open>
  The entries a tar reader yields, each with its contents (an error when reading them fails half way),
  and the file system of the host. \<open>hf_OpenExcl\<close> is \<open>os.OpenFile\<close> with the flags of the code,
  which include \<open>O\_EXCL\<close>; \<open>hf_Copy\<close> is \<open>io.Copy\<close> of an entry into an open file.
\<close>

datatype typeflag = TypeDir | TypeReg | TypeOther

record tar_entry =
  te_Name :: string
  te_Typeflag :: typeflag
  te_Size :: int
  te_ModTime :: int
  te_Contents :: "string result"

record file_info =
  fi_Size :: int
  fi_ModTime :: int

record 'w host_files =
  hf_Stat :: "string \<Rightarrow> ('w, file_info) io"
  hf_MkdirAll :: "string \<Rightarrow> ('w, unit) io"
  hf_OpenExcl :: "string \<Rightarrow> ('w, fd) io"
  hf_Copy :: "fd \<Rightarrow> string result \<Rightarrow> ('w, unit) io"
  hf_Close :: "fd \<Rightarrow> ('w, unit) io"

record RegistryRef =
  rr_Name :: string
  rr_Namespace :: string

record registryArgs =
  ra_RegistryName :: string
  ra_Image :: string
  ra_Replicas :: int
  ra_NodeSelector :: "(string \<times> string) list"
  ra_HostPath :: string

record GCRInfo =
  gcr_RegistryURL :: string
  gcr_ProjectID :: string

record Service =
  svc_ObjectMeta :: object_meta

record exec_options =
  ex_Command :: "string list"
  ex_Stdin :: bool

text \<open>
  The clients of the cluster, the embedded files (directories list their entries with whether they are
  directories; template execution and YAML decoding are pure), the executor behind \<open>kubectl exec\<close>,
  the tar reader (its entries and, unless it ends with io.EOF, its error) and \<open>retry.Do\<close> with its
  number of attempts.
\<close>

record ('u, 'w) registry_env =
  re_kb :: "'w KBClient"
  re_os :: "'w os"
  re_files :: "'w host_files"
  re_Deployments :: "(Deployment, 'w) kind_client"
  re_Services :: "(Service, 'w) kind_client"
  re_Unstructured :: "('u, 'w) kind_client"
  re_ParseFS :: "string \<Rightarrow> (string \<Rightarrow> registryArgs \<Rightarrow> string result) result"
  re_ReadDir :: "string \<Rightarrow> (string \<times> bool) list result"
  re_ReadFile :: "string \<Rightarrow> string result"
  re_Unmarshal :: "string \<Rightarrow> 'u result"
  re_ProxyConfig :: string
  re_ProxyDaemonset :: string
  re_NewExecutor :: "Pod \<Rightarrow> exec_options \<Rightarrow> ('w, nat) io"
  re_Stream :: "nat \<Rightarrow> string option \<Rightarrow> ('w, unit) io"
  re_ImageSize :: "string \<Rightarrow> int result"
  re_Tar :: "string \<Rightarrow> tar_entry list \<times> gerror option"
  re_Retry :: "nat \<Rightarrow> ('w, unit) io \<Rightarrow> ('w, unit) io"
  re_ZeroDeployment :: Deployment

definition podRegistryDir :: string where "podRegistryDir = ''/var/lib/registry''"
definition dockerDir :: string where "dockerDir = ''docker''"
definition defaultHostPathBase :: string where "defaultHostPathBase = ''/var/lib/registry''"

section \<open>YAML\<close>

definition loadYaml :: "('u, 'w) registry_env \<Rightarrow> string \<Rightarrow> 'u result" where
  "loadYaml env yamlText =
     (case re_Unmarshal env yamlText of Err err \<Rightarrow> Err (Wrapf err ''couldn't read yaml'' []) | r \<Rightarrow> r)"

definition applyUnstructured :: "('u, 'w) registry_env \<Rightarrow> 'u \<Rightarrow> ('w, unit) io" where
  "applyUnstructured env u =
     try_do (rm_Apply (re_Unstructured env) u) (\<lambda>err. Wrapf err ''couldn't apply yaml'' []) ret"

definition applyYaml :: "('u, 'w) registry_env \<Rightarrow> string \<Rightarrow> ('w, unit) io" where
  "applyYaml env yamlText = andthen (lift_result (loadYaml env yamlText)) (applyUnstructured env)"

section \<open>Deploying a registry\<close>

text \<open>One attempt of \<open>WaitForRunning\<close>.\<close>

definition check_running :: "('u, 'w) registry_env \<Rightarrow> string \<Rightarrow> ('w, unit) io" where
  "check_running env deployName =
     try_do (rm_List (kb_Pods (re_kb env)) defaultNamespace [MatchingLabels [(''name'', deployName)]])
       (\<lambda>err. Wrapf err ''couldn't list pods of deployment'' [])
       (\<lambda>pods.
         if pods = [] then fail (Errorf ''pods are not yet up for the deployment'' [])
         else if length (filter (\<lambda>p. pod_Phase p = ''Running'') pods) \<noteq> length pods
         then fail (Errorf ''timeout expired waiting for deployment'' [])
         else ret ())"

definition WaitForRunning :: "('u, 'w) registry_env \<Rightarrow> string \<Rightarrow> ('w, unit) io" where
  "WaitForRunning env deployName = re_Retry env 12 (check_running env deployName)"

definition registry_args :: "Registry \<Rightarrow> Flavor \<Rightarrow> registryArgs" where
  "registry_args registry flavor =
     \<lparr>ra_RegistryName = SanitizedRegistryName registry, ra_Image = rg_Image (reg_Spec registry),
      ra_Replicas = fs_StatefulQuorumReplicas (fl_Spec flavor), ra_NodeSelector = rg_NodeSelector (reg_Spec registry),
      ra_HostPath = (if TrimSpace (rg_HostPath (reg_Spec registry)) \<noteq> [] then rg_HostPath (reg_Spec registry)
                     else defaultHostPathBase)\<rparr>"

text \<open>The body of the loop over the template files, for a file that is no directory.\<close>

definition apply_template ::
    "('u, 'w) registry_env \<Rightarrow> (string \<Rightarrow> registryArgs \<Rightarrow> string result) \<Rightarrow> registryArgs \<Rightarrow> string \<Rightarrow> ('w, unit) io" where
  "apply_template env tmpl r file =
     try_do (lift_result (tmpl file r)) (\<lambda>err. Wrapf err (''couldn't execute template '' @ apo @ ''%s'' @ apo) [Str file])
       (\<lambda>yamlText. try_do (lift_result (loadYaml env yamlText))
         (\<lambda>err. Wrapf err (''couldn't load resource '' @ apo @ ''%s'' @ apo) [Str file])
         (\<lambda>resource. try_do (applyUnstructured env resource)
           (\<lambda>err. Wrapf err (''couldn't apply resource from '' @ apo @ ''%s'' @ apo) [Str file]) ret))"

definition Registry_Deploy :: "('u, 'w) registry_env \<Rightarrow> RegistryRef \<Rightarrow> ('w, unit) io" where
  "Registry_Deploy env registryRef =
     try_do (rm_Get (kb_Registries (re_kb env)) (rr_Name registryRef) (rr_Namespace registryRef) zero_registry)
       (\<lambda>err. Wrapf err ''couldn't get registry %q'' [Str (rr_Name registryRef)])
       (\<lambda>registry.
         let flavorName = (if rg_Flavor (reg_Spec registry) = [] then DefaultResourceName else rg_Flavor (reg_Spec registry)) in
         try_do (rm_Get (kb_Flavors (re_kb env)) flavorName defaultNamespace zero_flavor)
           (\<lambda>err. Wrapf err ''couldn't get flavor %q'' [Str flavorName])
           (\<lambda>flavor.
             let r = registry_args registry flavor; templatesDir = ''yaml/deployment'' in
             try_do (lift_result (re_ParseFS env (path_Join [templatesDir, ''*''])))
               (\<lambda>err. Wrapf err ''couldn't parse templates'' [])
               (\<lambda>tmpl. try_do (lift_result (re_ReadDir env templatesDir))
                 (\<lambda>err. Wrapf err ''couldn't read embedded templates directory'' [])
                 (\<lambda>tmplFiles. andthen
                   (for_each (\<lambda>(file, isDir). if isDir then ret () else apply_template env tmpl r file) tmplFiles)
                   (\<lambda>_. let deployName = ''registry-'' @ ra_RegistryName r in
                     try_do (WaitForRunning env deployName)
                       (\<lambda>err. Wrapf err ''error waiting on registry Deployment resource %q'' [Str deployName]) ret)))))"

section \<open>Deleting a registry\<close>

definition exec_in_pod :: "('u, 'w) registry_env \<Rightarrow> Pod \<Rightarrow> string \<Rightarrow> string option \<Rightarrow> (gerror \<Rightarrow> gerror) \<Rightarrow> ('w, unit) io" where
  "exec_in_pod env pod command stdin wrap =
     try_do (re_NewExecutor env pod \<lparr>ex_Command = [''/bin/sh'', ''-c'', command], ex_Stdin = (stdin \<noteq> None)\<rparr>)
       (\<lambda>err. Wrapf err ''couldn't create spdy executor'' [])
       (\<lambda>exec. try_do (re_Stream env exec stdin) wrap ret)"

definition deleteRegistryContents :: "('u, 'w) registry_env \<Rightarrow> Pod \<Rightarrow> string \<Rightarrow> ('w, unit) io" where
  "deleteRegistryContents env pod dstDir =
     exec_in_pod env pod (''rm -rf '' @ apo @ dstDir @ apo) None
       (\<lambda>err. Wrapf err (''couldn't delete files from '' @ apo @ ''%s'' @ apo) [Str dstDir])"

definition Registry_Delete :: "('u, 'w) registry_env \<Rightarrow> RegistryRef \<Rightarrow> ('w, unit) io" where
  "Registry_Delete env registryRef =
     (let kb = re_kb env; rt = kb_rt kb; ns = rr_Namespace registryRef; nm = [Str (rr_Name registryRef)] in
      try_do (rm_Get (kb_Registries kb) (rr_Name registryRef) ns zero_registry)
        (\<lambda>err. Wrapf err ''couldn't get registry %q'' nm)
        (\<lambda>registry.
          let resourceName = ''registry-'' @ SanitizedRegistryName registry in
          try_do (rm_List (kb_Pods kb) ns [MatchingLabels [(''name'', resourceName)]])
            (\<lambda>err. Wrapf err ''couldn't list pods of deployment'' [])
            (\<lambda>pods. andthen
              (for_each (\<lambda>pod. try_do (deleteRegistryContents env pod (path_Join [podRegistryDir, dockerDir]))
                 (\<lambda>err. Wrapf err ''couldn't delete registry contents in pod %q'' [Str (om_Name (pod_ObjectMeta pod))]) ret) pods)
              (\<lambda>_. try_do (rm_Delete rt (re_Deployments env) resourceName ns (re_ZeroDeployment env))
                (\<lambda>err. Wrapf err ''couldn't delete deployment for registry %q'' nm)
                (\<lambda>_. try_do (rm_Delete rt (re_Services env) resourceName ns \<lparr>svc_ObjectMeta = no_meta\<rparr>)
                  (\<lambda>err. Wrapf err ''couldn't delete service for registry %q'' nm)
                  (\<lambda>_. try_do (rm_Delete rt (kb_Registries kb) (rr_Name registryRef) ns registry)
                    (\<lambda>err. Wrapf err ''couldn't delete registry %q'' nm) ret))))))"

section \<open>Importing images\<close>

definition extractTarToPod :: "('u, 'w) registry_env \<Rightarrow> Pod \<Rightarrow> string \<Rightarrow> string \<Rightarrow> ('w, unit) io" where
  "extractTarToPod env pod dstDir tarContents =
     exec_in_pod env pod (''tar x -C '' @ dstDir @ '' -f -'') (Some tarContents)
       (\<lambda>err. Wrapf err (''couldn't extract files to '' @ apo @ ''%s'' @ apo) [Str dstDir])"

text \<open>
  A regular file that exists is left alone when its size is that of the entry, whatever the two
  modification times. With another size the code goes on with the nil file it was given, which
  \<open>io.Copy\<close> refuses. When only opening finds the file, the file information is nil.
\<close>

definition extract_file :: "'w host_files \<Rightarrow> string \<Rightarrow> tar_entry \<Rightarrow> ('w, unit) io" where
  "extract_file fs fullName header =
     (let copy_error = (\<lambda>err. Wrapf err (''couldn't copy file '' @ apo @ ''%s'' @ apo @ '' to destination'') [Str (te_Name header)]) in
      check (hf_Stat fs fullName) \<lparr>fi_Size = 0, fi_ModTime = 0\<rparr> (\<lambda>err fi.
        if err \<noteq> None \<and> err \<noteq> Some OsNotExist
        then fail (Wrapf (the err) (''couldn't stat existing file '' @ apo @ ''%s'' @ apo) [Str fullName])
        else handle (hf_OpenExcl fs fullName)
          (\<lambda>out. try_do (hf_Copy fs out (te_Contents header)) copy_error
            (\<lambda>_. try_do (hf_Close fs out)
              (\<lambda>err. Wrapf err (''couldn't close file '' @ apo @ ''%s'' @ apo) [Str (te_Name header)]) ret))
          (\<lambda>openErr.
            if openErr = OsExist then
              (if err \<noteq> None then panic nil_dereference
               else if fi_Size fi = te_Size header \<and> fi_ModTime fi = te_ModTime header then ret ()
               else if fi_Size fi = te_Size header then ret ()
               else fail (copy_error (Foreign ''invalid argument'')))
            else fail (Wrapf openErr (''couldn't create file '' @ apo @ ''%s'' @ apo) [Str fullName]))))"

definition extract_entry :: "'w host_files \<Rightarrow> string \<Rightarrow> tar_entry \<Rightarrow> ('w, unit) io" where
  "extract_entry fs dstDir header =
     (let fullName = path_Join [dstDir, te_Name header] in
      case te_Typeflag header of
        TypeDir \<Rightarrow> try_do (hf_MkdirAll fs fullName)
          (\<lambda>err. Wrapf err (''couldn't create dir '' @ apo @ ''%s'' @ apo) [Str fullName]) ret
      | TypeReg \<Rightarrow> extract_file fs fullName header
      | TypeOther \<Rightarrow> ret ())"

definition extractTarToDir ::
    "'w host_files \<Rightarrow> (string \<Rightarrow> tar_entry list \<times> gerror option) \<Rightarrow> string \<Rightarrow> string \<Rightarrow> ('w, unit) io" where
  "extractTarToDir fs tar dstDir tarContents =
     (case tar tarContents of (headers, end) \<Rightarrow>
        andthen (for_each (extract_entry fs dstDir) headers)
          (\<lambda>_. case end of None \<Rightarrow> ret () | Some err \<Rightarrow> fail (Wrapf err ''couldn't extract tar'' [])))"

text \<open>The bundles' files are opened here and never closed.\<close>

definition import_bundle ::
    "('u, 'w) registry_env \<Rightarrow> Pod \<Rightarrow> RegistryRef \<Rightarrow> 'w Source \<Rightarrow> string \<Rightarrow> BundleRef \<Rightarrow> ('w, unit) io" where
  "import_bundle env pod registryRef source destDir bundleRef =
     (let nm = [Str (br_Name bundleRef)];
          failed = (\<lambda>err. Wrapf err (''couldn't copy images.tar to registry for bundle file '' @ apo @ ''%s'' @ apo) nm) in
      try_do (src_Get source bundleRef) (\<lambda>err. Wrapf err (''couldn't get bundle file '' @ apo @ ''%s'' @ apo @ '' from source'') nm)
        (\<lambda>bundleFile. try_do (os_ZipOpen (re_os env) (bf_Contents bundleFile) (bf_Size bundleFile) DefaultImagesFile)
          (\<lambda>err. Wrapf err (''couldn't open zip reader to bundle file '' @ apo @ ''%s'' @ apo) nm)
          (\<lambda>opened. handle (lift_result opened)
            (\<lambda>tarContents. try_do (lift_result (re_ImageSize env tarContents))
              (\<lambda>err. Wrapf err (''couldn't stat images.tar from bundle file '' @ apo @ ''%s'' @ apo) nm)
              (\<lambda>size. if size = 0 then ret ()
                else if destDir \<noteq> []
                then try_do (extractTarToDir (re_files env) (re_Tar env) (path_Join [destDir, rr_Name registryRef]) tarContents) failed ret
                else try_do (extractTarToPod env pod podRegistryDir tarContents) failed ret))
            (\<lambda>err. if err = OsNotExist then ret ()
              else fail (Wrapf err (''couldn't open images.tar from bundle file '' @ apo @ ''%s'' @ apo) nm)))))"

definition ImportToPod ::
    "('u, 'w) registry_env \<Rightarrow> Pod \<Rightarrow> RegistryRef \<Rightarrow> 'w Source \<Rightarrow> BundleRef list \<Rightarrow> string \<Rightarrow> ('w, unit) io" where
  "ImportToPod env pod registryRef source bundles destDir =
     for_each (import_bundle env pod registryRef source destDir) bundles"

definition filtered_pods :: "string \<Rightarrow> Pod list \<Rightarrow> Pod list" where
  "filtered_pods hostArg pods =
     (if hostArg \<noteq> [] then take 1 (filter (\<lambda>pod. pod_HostIP pod = hostArg) pods) else pods)"

definition Import ::
    "('u, 'w) registry_env \<Rightarrow> RegistryRef \<Rightarrow> 'w Source \<Rightarrow> BundleRef list \<Rightarrow> string \<Rightarrow> string \<Rightarrow> ('w, unit) io" where
  "Import env registryRef source bundles destDir hostArg =
     try_do (rm_Get (kb_Registries (re_kb env)) (rr_Name registryRef) (rr_Namespace registryRef) zero_registry)
       (\<lambda>err. Wrapf err ''couldn't get registry %q'' [Str (rr_Name registryRef)])
       (\<lambda>registry. try_do
         (rm_List (kb_Pods (re_kb env)) (rr_Namespace registryRef)
            [MatchingLabels [(''name'', ''registry-'' @ SanitizedRegistryName registry)]])
         (\<lambda>err. Wrapf err ''couldn't list pods of deployment'' [])
         (\<lambda>pods. for_each (\<lambda>pod. try_do (ImportToPod env pod registryRef source bundles destDir)
            (\<lambda>err. Wrapf err ''couldn't import images to pod %s'' [Str (om_Name (pod_ObjectMeta pod))]) ret)
            (filtered_pods hostArg pods)))"

definition ImportManifest :: "('u, 'w) registry_env \<Rightarrow> ManifestReference \<Rightarrow> string \<Rightarrow> string \<Rightarrow> ('w, unit) io" where
  "ImportManifest env manifestRef destDir hostArg =
     with_manifest (re_kb env) manifestRef (\<lambda>manifest.
       andthen (open_sources (re_os env) (re_kb env) (mr_Namespace manifestRef) (ms_Sources (mf_Spec manifest)))
         (\<lambda>sources.
           try_do (Import env \<lparr>rr_Name = ms_Registry (mf_Spec manifest), rr_Namespace = mr_Namespace manifestRef\<rparr>
                     (NewMultiSource sources) (bundle_refs (ms_Bundles (mf_Spec manifest))) destDir hostArg)
             (\<lambda>err. Wrapf err ''couldn't import bundles from manifest'' []) ret))"

section \<open>The proxy\<close>

text \<open>
  \<open>strings.NewReplacer\<close>: at each position the first old string that matches is replaced; what was
  put in is not looked at again. (None of the old strings the code uses is empty.)
\<close>

function replacer :: "(string \<times> string) list \<Rightarrow> string \<Rightarrow> string" where
  "replacer pairs [] = []"
| "replacer pairs (x # xs) =
     (case find (\<lambda>(old, new). old \<noteq> [] \<and> prefix old (x # xs)) pairs of
        None \<Rightarrow> x # replacer pairs xs
      | Some (old, new) \<Rightarrow> new @ replacer pairs (drop (length old) (x # xs)))"
  by pat_completeness auto
termination
proof (relation "measure (\<lambda>(pairs, s). length s)", goal_cases)
  case (3 pairs x xs p old new)
  then have "old \<noteq> []" by (auto simp: find_Some_iff)
  then show ?case by (cases old) simp_all
qed simp_all

definition imagePath :: string where "imagePath = ''REGISTRY_URL/PROJECT_ID/IMAGE''"

definition buildGCRImageURL :: "GCRInfo \<Rightarrow> string" where
  "buildGCRImageURL gcrInfo =
     replacer [(''REGISTRY_URL'', gcr_RegistryURL gcrInfo), (''PROJECT_ID'', gcr_ProjectID gcrInfo),
               (''IMAGE'', ''nginx:1.22.0-alpine-11'')] imagePath"

definition GKE :: string where "GKE = ''gke''"

definition proxy_config :: "string \<Rightarrow> string" where
  "proxy_config registryProxyConfigYaml =
     replace_all ''__REGISTRY_NAMESPACE__'' ''default'' (replace_all ''__PORT__'' ''6000'' registryProxyConfigYaml)"

definition proxy_daemonset :: "string \<Rightarrow> GCRInfo \<Rightarrow> string \<Rightarrow> string" where
  "proxy_daemonset provider gcrInfo registryProxyDaemonsetYaml =
     (let registryProxyDaemonset = replace_all ''__PORT__'' ''6000'' registryProxyDaemonsetYaml in
      if provider = GKE
      then replace_all ''imagePullPolicy: Never'' []
             (replace_all ''nginx:1.22.0-alpine-11'' (buildGCRImageURL gcrInfo) registryProxyDaemonset)
      else registryProxyDaemonset)"

definition DeployProxy :: "('u, 'w) registry_env \<Rightarrow> string \<Rightarrow> GCRInfo \<Rightarrow> ('w, unit) io" where
  "DeployProxy env provider gcrInfo =
     try_do (applyYaml env (proxy_config (re_ProxyConfig env)))
       (\<lambda>err. Wrapf err ''couldn't apply registry nginx proxy configmap'' [])
       (\<lambda>_. try_do (applyYaml env (proxy_daemonset provider gcrInfo (re_ProxyDaemonset env)))
         (\<lambda>err. Wrapf err ''couldn't apply registry nginx proxy daemonset'' []) ret)"

section \<open>BootstrapManager\<close>

text \<open>The three functions that apply a directory differ in the directory and in one message.\<close>

definition apply_file :: "('u, 'w) registry_env \<Rightarrow> string \<Rightarrow> string \<Rightarrow> string \<Rightarrow> ('w, unit) io" where
  "apply_file env noun dir file =
     try_do (lift_result (re_ReadFile env (path_Join [dir, file]))) (\<lambda>err. Wrapf err noun [Str file])
       (\<lambda>b. try_do (lift_result (re_Unmarshal env b))
         (\<lambda>err. Wrapf err (''couldn't unmarshal yaml in file '' @ apo @ ''%s'' @ apo) [Str file])
         (\<lambda>u. try_do (rm_Apply (re_Unstructured env) u)
           (\<lambda>err. Wrapf err (''couldn't apply yaml from file '' @ apo @ ''%s'' @ apo) [Str file]) ret))"

definition deploy_directory :: "('u, 'w) registry_env \<Rightarrow> string \<Rightarrow> string \<Rightarrow> string \<Rightarrow> ('w, unit) io" where
  "deploy_directory env reading noun dir =
     try_do (lift_result (re_ReadDir env dir)) (\<lambda>err. Wrapf err reading [])
       (for_each (\<lambda>(file, isDir). if isDir then ret () else apply_file env noun dir file))"

definition crdDir :: string where "crdDir = ''resources/crds''"
definition bindingDir :: string where "bindingDir = ''resources/bindings''"
definition flavorDir :: string where "flavorDir = ''resources/flavors''"

definition DeployCRDs :: "('u, 'w) registry_env \<Rightarrow> ('w, unit) io" where
  "DeployCRDs env = deploy_directory env ''couldn't read embeded files'' ''couldn't read embeded file %q'' crdDir"

definition DeployBindings :: "('u, 'w) registry_env \<Rightarrow> ('w, unit) io" where
  "DeployBindings env = deploy_directory env ''couldn't read embeded files'' ''couldn't read embeded file %q'' bindingDir"

definition DeployFlavors :: "('u, 'w) registry_env \<Rightarrow> ('w, unit) io" where
  "DeployFlavors env = deploy_directory env ''couldn't read embedded flavor files'' ''couldn't read embedded file %q'' flavorDir"

definition DeployAll :: "('u, 'w) registry_env \<Rightarrow> bool \<Rightarrow> bool \<Rightarrow> bool \<Rightarrow> bool \<Rightarrow> string \<Rightarrow> GCRInfo \<Rightarrow> ('w, unit) io" where
  "DeployAll env skipCRDs skipBindings skipFlavors skipAirgap provider gcrInfo =
     andthen (if skipCRDs then ret () else try_do (DeployCRDs env) (\<lambda>err. Wrapf err ''couldn't deploy CRDs'' []) ret) (\<lambda>_.
     andthen (if skipBindings then ret ()
              else try_do (DeployBindings env) (\<lambda>err. Wrapf err ''couldn't deploy bindings'' []) ret) (\<lambda>_.
     andthen (if skipFlavors then ret ()
              else try_do (DeployFlavors env) (\<lambda>err. Wrapf err ''couldn't deploy flavors'' []) ret) (\<lambda>_.
     if skipAirgap then ret ()
     else try_do (DeployProxy env provider gcrInfo)
            (\<lambda>err. Wrapf err ''couldn't deploy registry nginx proxy required for airgap support'' []) ret)))"

end
