(* ===== verification/Registry_Laws.thy ===== *)
theory Registry_Laws
  imports Registries Deploy_Laws
begin

text \<open>
  What holds of registries: importing never changes a file that is there, when it skips one and when
  it fails, what a deployed registry has seen, and which spelling of the provider the bootstrap knows.
\<close>

section \<open>Extracting into a directory\<close>

text \<open>
  The contract of the host's file system, over the contents \<open>files\<close> of its regular files and the
  path each open handle was opened for: looking and making directories change no contents,
  opening with O\_EXCL succeeds only for a path without a file, and writing changes no file but that
  of its handle.
\<close>

definition exclusive_files ::
    "'w host_files \<Rightarrow> ('w \<Rightarrow> string \<rightharpoonup> string) \<Rightarrow> ('w \<Rightarrow> fd \<rightharpoonup> string) \<Rightarrow> bool" where
  "exclusive_files fs files opened \<longleftrightarrow>
     (\<forall>p w. files (snd (hf_Stat fs p w)) = files w) \<and> (\<forall>p w. files (snd (hf_MkdirAll fs p w)) = files w) \<and>
     (\<forall>p w h w'. hf_OpenExcl fs p w = (Ok h, w') \<longrightarrow>
        files w p = None \<and> opened w' h = Some p \<and> (\<forall>q. q \<noteq> p \<longrightarrow> files w' q = files w q)) \<and>
     (\<forall>p w r w'. hf_OpenExcl fs p w = (r, w') \<longrightarrow> (\<forall>h. r \<noteq> Ok h) \<longrightarrow> files w' = files w) \<and>
     (\<forall>h c w q. opened w h \<noteq> Some q \<longrightarrow> files (snd (hf_Copy fs h c w)) q = files w q) \<and>
     (\<forall>h w. files (snd (hf_Close fs h w)) = files w)"

lemma keeps_same: "(\<And>w. f (snd (m w)) = f w) \<Longrightarrow> keeps (\<lambda>w. f w q = c) m"
  by (simp add: keeps_def)

lemma keeps_open_excl:
  assumes fs: "exclusive_files fs files opened"
    and k: "\<And>h w. files w q = Some c \<Longrightarrow> opened w h \<noteq> Some q \<Longrightarrow> files (snd (k h w)) q = Some c"
    and e: "\<And>err. keeps (\<lambda>w. files w q = Some c) (e err)"
  shows "keeps (\<lambda>w. files w q = Some c) (handle (hf_OpenExcl fs p) k e)"
proof (rule keepsI)
  fix w assume w: "files w q = Some c"
  obtain r w' where r: "hf_OpenExcl fs p w = (r, w')" by fastforce
  show "files (snd (handle (hf_OpenExcl fs p) k e w)) q = Some c"
  proof (cases r)
    case (Ok h)
    with r fs have "files w p = None" "opened w' h = Some p" "q \<noteq> p \<Longrightarrow> files w' q = files w q"
      unfolding exclusive_files_def by blast+
    moreover from this w have "q \<noteq> p" by auto
    ultimately have "files w' q = Some c" "opened w' h \<noteq> Some q" using w by auto
    with r Ok k show ?thesis by simp
  next
    case (Err x)
    with r fs have "files w' = files w" unfolding exclusive_files_def by blast
    with w have "files w' q = Some c" by simp
    from keepsD [OF e this] r Err show ?thesis by simp
  next
    case (Panic x)
    with r fs have "files w' = files w" unfolding exclusive_files_def by blast
    with w r Panic show ?thesis by simp
  next
    case OutOfFuel
    with r fs have "files w' = files w" unfolding exclusive_files_def by blast
    with w r OutOfFuel show ?thesis by simp
  qed
qed

lemma keeps_extract_file:
  assumes fs: "exclusive_files fs files opened"
  shows "keeps (\<lambda>w. files w q = Some c) (extract_file fs p header)"
proof -
  let ?P = "\<lambda>w. files w q = Some c"
  have stat: "keeps ?P (hf_Stat fs p)" and close: "keeps ?P (hf_Close fs h)" for h
    using fs by (auto simp: exclusive_files_def intro!: keeps_same)
  have copy: "?P (snd (try_do (hf_Copy fs h s) f (\<lambda>_. try_do (hf_Close fs h) g ret) w))"
    if "?P w" "opened w h \<noteq> Some q" for h s f g w
  proof -
    obtain r w' where r: "hf_Copy fs h s w = (r, w')" by fastforce
    moreover from fs have "\<forall>h c w q. opened w h \<noteq> Some q \<longrightarrow> files (snd (hf_Copy fs h c w)) q = files w q"
      by (simp add: exclusive_files_def)
    ultimately have "?P w'" using that by (metis snd_conv)
    moreover have "keeps ?P (try_do (hf_Close fs h) g ret)"
      by (intro keeps_rule close)
    ultimately show ?thesis using r by (cases r) (auto dest: keepsD)
  qed
  show ?thesis
    unfolding extract_file_def Let_def
    by (intro keeps_rule stat keeps_open_excl [OF fs] copy) (assumption | simp)+
qed

lemma keeps_extract_entry:
  assumes "exclusive_files fs files opened"
  shows "keeps (\<lambda>w. files w q = Some c) (extract_entry fs dir header)"
proof -
  have "keeps (\<lambda>w. files w q = Some c) (hf_MkdirAll fs p)" for p
    using assms by (auto simp: exclusive_files_def intro!: keeps_same)
  then show ?thesis
    unfolding extract_entry_def Let_def
    by (cases "te_Typeflag header") (simp_all add: keeps_try_do keeps_extract_file [OF assms])
qed

text \<open>
  C16. However extracting images into a directory ends, every file that was there has the contents it had:
  the import adds files and never overwrites one, although a comment says that it does.
\<close>

theorem extractTarToDir_keeps_files:
  assumes "exclusive_files fs files opened" and "files w q = Some c"
  shows "files (snd (extractTarToDir fs tar dir contents w)) q = Some c"
proof -
  have "keeps (\<lambda>w. files w q = Some c) (for_each (extract_entry fs dir) headers)" for headers
    by (intro keeps_rule keeps_extract_entry [OF assms(1)])
  then have "keeps (\<lambda>w. files w q = Some c) (extractTarToDir fs tar dir contents)"
    unfolding extractTarToDir_def
    by (auto intro!: keeps_andthen keeps_simple split: prod.splits option.splits)
  then show ?thesis using assms(2) by (rule keepsD)
qed


text \<open>The path of an entry can leave the directory.\<close>

lemma extract_entry_outside:
  "te_Name header = ''../../etc/hosts'' \<Longrightarrow> te_Typeflag header = TypeReg \<Longrightarrow>
     extract_entry fs ''/data/reg'' header = extract_file fs ''/etc/hosts'' header"
  by (simp add: extract_entry_def Let_def path_Join_def path_Clean_def)

text \<open>A file system in memory, with the paths of the opened files in their order.\<close>

definition mem_files :: "((string \<rightharpoonup> string) \<times> string list) host_files" where
  "mem_files = \<lparr>hf_Stat = (\<lambda>p w. case fst w p of
        None \<Rightarrow> (Err OsNotExist, w) | Some s \<Rightarrow> (Ok \<lparr>fi_Size = int (length s), fi_ModTime = 0\<rparr>, w)),
     hf_MkdirAll = (\<lambda>p w. (Ok (), w)),
     hf_OpenExcl = (\<lambda>p w. case fst w p of
        None \<Rightarrow> (Ok (length (snd w)), ((fst w)(p \<mapsto> []), snd w @ [p])) | Some s \<Rightarrow> (Err OsExist, w)),
     hf_Copy = (\<lambda>h c w. case c of
        Ok s \<Rightarrow> (if h < length (snd w) then (Ok (), ((fst w)(snd w ! h \<mapsto> s), snd w)) else (Err OsNotExist, w))
      | Err e \<Rightarrow> (Err e, w) | Panic s \<Rightarrow> (Panic s, w) | OutOfFuel \<Rightarrow> (OutOfFuel, w)),
     hf_Close = (\<lambda>h w. (Ok (), w))\<rparr>"

definition mem_opened :: "(string \<rightharpoonup> string) \<times> string list \<Rightarrow> fd \<rightharpoonup> string" where
  "mem_opened w h = (if h < length (snd w) then Some (snd w ! h) else None)"

lemma exclusive_mem_files: "exclusive_files mem_files fst mem_opened"
  by (auto simp: exclusive_files_def mem_files_def mem_opened_def split: option.splits result.splits if_splits)

definition layer_entry :: tar_entry where
  "layer_entry = \<lparr>te_Name = ''a'', te_Typeflag = TypeReg, te_Size = 3, te_ModTime = 7, te_Contents = Ok ''new''\<rparr>"

theorem extractTarToDir_keeps_files_witness:
  "fst (snd (extractTarToDir mem_files (\<lambda>_. ([layer_entry], None)) ''/r'' [] ([''/r/a'' \<mapsto> ''old''], []))) ''/r/a'' = Some ''old''"
  by (rule extractTarToDir_keeps_files [OF exclusive_mem_files]) simp


section \<open>Importing into no pod\<close>

text \<open>
  When no pod of the registry runs on the host asked for, the import reports success, although it
  has not even opened a bundle.
\<close>

lemma Import_without_pod:
  assumes "kc_Get (kb_Registries (re_kb env)) (rr_Name ref) (rr_Namespace ref) zero_registry w = (Ok registry, w1)"
    and "kc_List (kb_Pods (re_kb env)) [MatchingLabels [(''name'', ''registry-'' @ SanitizedRegistryName registry)],
           InNamespace (rr_Namespace ref)] w1 = (Ok pods, w2)"
    and "host \<noteq> []" and "\<forall>pod\<in>set pods. pod_HostIP pod \<noteq> host"
  shows "Import env ref source bundles dest host w = (Ok (), w2)"
proof -
  have "filtered_pods host pods = []"
    using assms(3,4) by (simp add: filtered_pods_def filter_empty_conv)
  then show ?thesis
    using assms(1,2) by (simp add: Import_def rm_Get_def rm_List_def)
qed

section \<open>Deploying a registry\<close>

text \<open>
  What the code relies on from \<open>retry.Do\<close>: it succeeds only if its function did, after which it
  does nothing.
\<close>

definition retries :: "('u, 'w) registry_env \<Rightarrow> bool" where
  "retries env \<longleftrightarrow> (\<forall>n f w w'. re_Retry env n f w = (Ok (), w') \<longrightarrow> (\<exists>u. f u = (Ok (), w')))"

text \<open>The embedded template of a file was rendered, decoded and applied.\<close>

definition template_applied :: "('u, 'w) registry_env \<Rightarrow> (string \<Rightarrow> registryArgs \<Rightarrow> string result) \<Rightarrow> registryArgs \<Rightarrow> string \<Rightarrow> bool" where
  "template_applied env tmpl r file \<longleftrightarrow>
     (\<exists>yamlText u x v v'. tmpl file r = Ok yamlText \<and> re_Unmarshal env yamlText = Ok u \<and>
        kc_Apply (re_Unstructured env) u v = (Ok x, v'))"

lemma check_running_Ok:
  "check_running env name w = (Ok (), w') \<longleftrightarrow>
     (\<exists>pods. kc_List (kb_Pods (re_kb env)) [MatchingLabels [(''name'', name)], InNamespace defaultNamespace] w = (Ok pods, w') \<and>
        pods \<noteq> [] \<and> (\<forall>pod\<in>set pods. pod_Phase pod = ''Running''))"
proof -
  have "length (filter P xs) = length xs \<longleftrightarrow> (\<forall>x\<in>set xs. P x)" for P and xs :: "Pod list"
    by (metis filter_True filter_id_conv length_filter_less less_irrefl)
  then show ?thesis by (auto simp: check_running_def io_ok)
qed

lemma loadYaml_Ok [io_ok]: "loadYaml env s = Ok u \<longleftrightarrow> re_Unmarshal env s = Ok u"
  by (auto simp: loadYaml_def split: result.splits)

lemma apply_template_Ok: "apply_template env tmpl r file w = (Ok (), w') \<Longrightarrow> template_applied env tmpl r file"
  unfolding apply_template_def applyUnstructured_def template_applied_def
  by (auto simp: io_ok) blast

text \<open>
  C22. A registry whose deployment succeeds has had every template file rendered with the arguments of
  its resource and flavor and applied, and a list of its pods in the default namespace that was not
  empty and all running.
\<close>

theorem Registry_Deploy_Ok:
  assumes "retries env" and "Registry_Deploy env ref w = (Ok (), w')"
  shows "\<exists>registry flavor tmpl files u u' v v' pods x.
     kc_Get (kb_Registries (re_kb env)) (rr_Name ref) (rr_Namespace ref) zero_registry w = (Ok registry, u) \<and>
     kc_Get (kb_Flavors (re_kb env)) (if rg_Flavor (reg_Spec registry) = [] then DefaultResourceName
        else rg_Flavor (reg_Spec registry)) defaultNamespace zero_flavor u = (Ok flavor, u') \<and>
     re_ParseFS env ''yaml/deployment/*'' = Ok tmpl \<and> re_ReadDir env ''yaml/deployment'' = Ok files \<and>
     (\<forall>file. (file, False) \<in> set files \<longrightarrow> template_applied env tmpl (registry_args registry flavor) file) \<and>
     kc_List (kb_Pods (re_kb env)) [MatchingLabels [(''name'', ''registry-'' @ SanitizedRegistryName registry)],
        InNamespace defaultNamespace] x = (Ok pods, w') \<and>
     pods \<noteq> [] \<and> (\<forall>pod\<in>set pods. pod_Phase pod = ''Running'')"
proof -
  have glob: "path_Join [''yaml/deployment'', ''*''] = ''yaml/deployment/*''"
    by (simp add: path_Join_def path_Clean_def)
  from assms(2) obtain registry flavor tmpl files u u' v where
      reg: "kc_Get (kb_Registries (re_kb env)) (rr_Name ref) (rr_Namespace ref) zero_registry w = (Ok registry, u)"
    and flav: "kc_Get (kb_Flavors (re_kb env)) (if rg_Flavor (reg_Spec registry) = [] then DefaultResourceName
        else rg_Flavor (reg_Spec registry)) defaultNamespace zero_flavor u = (Ok flavor, u')"
    and tmpl: "re_ParseFS env ''yaml/deployment/*'' = Ok tmpl" "re_ReadDir env ''yaml/deployment'' = Ok files"
    and loop: "for_each (\<lambda>(file, isDir). if isDir then ret () else apply_template env tmpl (registry_args registry flavor) file)
        files u' = (Ok (), v)"
    and wait: "WaitForRunning env (''registry-'' @ ra_RegistryName (registry_args registry flavor)) v = (Ok (), w')"
    by (auto simp: Registry_Deploy_def io_ok Let_def glob)
  have applied: "template_applied env tmpl (registry_args registry flavor) f" if "(f, False) \<in> set files" for f
    using for_each_Ok_body [OF loop that] by (auto dest: apply_template_Ok)
  have name: "ra_RegistryName (registry_args registry flavor) = SanitizedRegistryName registry"
    by (simp add: registry_args_def)
  from wait assms(1) obtain x where "check_running env (''registry-'' @ SanitizedRegistryName registry) x = (Ok (), w')"
    unfolding WaitForRunning_def retries_def name by blast
  then obtain pods where "kc_List (kb_Pods (re_kb env)) [MatchingLabels [(''name'', ''registry-'' @ SanitizedRegistryName registry)],
        InNamespace defaultNamespace] x = (Ok pods, w')" "pods \<noteq> []" "\<forall>pod\<in>set pods. pod_Phase pod = ''Running''"
    unfolding check_running_Ok by blast
  with reg flav tmpl applied show ?thesis by blast
qed

section \<open>The proxy\<close>

lemma buildGCRImageURL_parts:
  "buildGCRImageURL info = gcr_RegistryURL info @ ''/'' @ gcr_ProjectID info @ ''/nginx:1.22.0-alpine-11''"
  by (simp add: buildGCRImageURL_def imagePath_def)

text \<open>
  The provider in the spelling the bootstrap command documents, GKE, is deployed like any other
  provider (the constant the code compares with is gke), while gke is the one whose proxy image comes
  from the registry and project given.
\<close>

lemma DeployAll_provider_spelling:
  "DeployAll env skipCRDs skipBindings skipFlavors skipAirgap ''GKE'' info =
     DeployAll env skipCRDs skipBindings skipFlavors skipAirgap ''K0S'' info' \<and>
   proxy_daemonset ''gke'' \<lparr>gcr_RegistryURL = ''gcr.io'', gcr_ProjectID = ''p''\<rparr> ''image: nginx:1.22.0-alpine-11'' =
     ''image: gcr.io/p/nginx:1.22.0-alpine-11''"
proof -
  have "proxy_daemonset ''GKE'' info y = proxy_daemonset ''K0S'' info' y" for y
    by (simp add: proxy_daemonset_def GKE_def)
  then have "DeployProxy env ''GKE'' info = DeployProxy env ''K0S'' info'"
    by (simp add: DeployProxy_def)
  moreover have "proxy_daemonset ''gke'' \<lparr>gcr_RegistryURL = ''gcr.io'', gcr_ProjectID = ''p''\<rparr>
      ''image: nginx:1.22.0-alpine-11'' = ''image: gcr.io/p/nginx:1.22.0-alpine-11''"
    by (simp add: proxy_daemonset_def GKE_def buildGCRImageURL_parts)
  ultimately show ?thesis by (simp add: DeployAll_def)
qed

section \<open>A cluster with one registry\<close>

definition registry_pod :: Pod where
  "registry_pod = \<lparr>pod_ObjectMeta = \<lparr>om_Name = ''registry-reg-0'', om_Namespace = ''default''\<rparr>,
     pod_Spec = \<lparr>psp_ActiveDeadlineSeconds = None, psp_TerminationGracePeriodSeconds = None, psp_RestartPolicy = [],
       psp_NodeName = [], psp_Containers = [], psp_Volumes = []\<rparr>,
     pod_Phase = ''Running'', pod_HostIP = ''10.0.0.1'', pod_InitContainerStatuses = [], pod_ContainerStatuses = []\<rparr>"

definition registry_client :: "memory KBClient" where
  "registry_client = mem_client\<lparr>kb_Pods := (no_kind pod_ObjectMeta)\<lparr>kc_List := (\<lambda>opts. ret [registry_pod])\<rparr>\<rparr>"

text \<open>The templates render to their own name and the decoder takes any text.\<close>

definition registry_sample :: "(string, memory) registry_env" where
  "registry_sample = \<lparr>re_kb = registry_client, re_os = still_os (\<lambda>h. zero_application),
     re_files = \<lparr>hf_Stat = (\<lambda>p. fail OsNotExist), hf_MkdirAll = (\<lambda>p. ret ()), hf_OpenExcl = (\<lambda>p. ret 0),
       hf_Copy = (\<lambda>h c. ret ()), hf_Close = (\<lambda>h. ret ())\<rparr>,
     re_Deployments = no_kind (\<lambda>d. \<lparr>om_Name = dep_Name d, om_Namespace = ''default''\<rparr>),
     re_Services = no_kind svc_ObjectMeta, re_Unstructured = no_kind (\<lambda>u. \<lparr>om_Name = u, om_Namespace = ''default''\<rparr>),
     re_ParseFS = (\<lambda>p. Ok (\<lambda>name args. Ok (name @ ra_RegistryName args))),
     re_ReadDir = (\<lambda>p. Ok [(''deployment.yaml'', False), (''service.yaml'', False)]),
     re_ReadFile = (\<lambda>p. Ok p), re_Unmarshal = Ok, re_ProxyConfig = [], re_ProxyDaemonset = [],
     re_NewExecutor = (\<lambda>p opts. ret 0), re_Stream = (\<lambda>e s. ret ()), re_ImageSize = (\<lambda>s. Ok (int (length s))),
     re_Tar = (\<lambda>s. ([], None)), re_Retry = (\<lambda>n f. f),
     re_ZeroDeployment = \<lparr>dep_Name = [], dep_Annotations = Map.empty, dep_Generation = 0, dep_MatchLabels = [],
       dep_Replicas = None, dep_ObservedGeneration = 0, dep_StatusReplicas = 0, dep_UpdatedReplicas = 0,
       dep_AvailableReplicas = 0, dep_ReadyReplicas = 0, dep_Conditions = []\<rparr>\<rparr>"

definition registry_memory :: memory where
  "registry_memory = empty_memory
     \<lparr>m_Registries := [((''reg'', ''default''), zero_registry\<lparr>reg_ObjectMeta := \<lparr>om_Name = ''reg'', om_Namespace = ''default''\<rparr>\<rparr>)],
      m_Flavors := [((''default'', ''default''), zero_flavor)]\<rparr>"

lemma registry_sample_Get:
  "kc_Get (kb_Registries (re_kb registry_sample)) ''reg'' ''default'' zero_registry registry_memory =
     (Ok (zero_registry\<lparr>reg_ObjectMeta := \<lparr>om_Name = ''reg'', om_Namespace = ''default''\<rparr>\<rparr>), registry_memory)"
  "kc_Get (kb_Flavors (re_kb registry_sample)) ''default'' ''default'' zero_flavor registry_memory =
     (Ok zero_flavor, registry_memory)"
  "kc_List (kb_Pods (re_kb registry_sample)) opts u = (Ok [registry_pod], u)"
  by (simp_all add: registry_sample_def registry_client_def mem_client_def mem_kind_def registry_memory_def Let_def)

theorem Import_without_pod_witness:
  "Import registry_sample \<lparr>rr_Name = ''reg'', rr_Namespace = ''default''\<rparr> (NewMultiSource []) [] [] ''10.0.0.2'' registry_memory =
     (Ok (), registry_memory)"
  by (rule Import_without_pod [where pods = "[registry_pod]"]) (simp_all add: registry_sample_Get registry_pod_def)

theorem Registry_Deploy_Ok_witness:
  "\<exists>tmpl files args. re_ReadDir registry_sample ''yaml/deployment'' = Ok files \<and> files \<noteq> [] \<and>
     (\<exists>file. (file, False) \<in> set files \<and> template_applied registry_sample tmpl args file)"
proof -
  have "retries registry_sample" by (auto simp: retries_def registry_sample_def)
  moreover have "Registry_Deploy registry_sample \<lparr>rr_Name = ''reg'', rr_Namespace = ''default''\<rparr> registry_memory =
      (Ok (), registry_memory)"
  proof -
    have "check_running registry_sample n registry_memory = (Ok (), registry_memory)" for n
      by (simp add: check_running_def rm_List_def registry_sample_Get registry_pod_def)
    moreover have "apply_template registry_sample (\<lambda>name args. Ok (name @ ra_RegistryName args)) r f registry_memory =
        (Ok (), registry_memory)" for r f
      by (simp add: apply_template_def loadYaml_def applyUnstructured_def rm_Apply_def registry_sample_def no_kind_def)
    moreover have "WaitForRunning registry_sample n = check_running registry_sample n" for n
      by (simp add: WaitForRunning_def registry_sample_def)
    moreover have "re_ParseFS registry_sample p = Ok (\<lambda>name args. Ok (name @ ra_RegistryName args))"
      "re_ReadDir registry_sample p = Ok [(''deployment.yaml'', False), (''service.yaml'', False)]" for p
      by (simp_all add: registry_sample_def)
    moreover have "rg_Flavor (reg_Spec zero_registry) = []" by (simp add: zero_registry_def)
    ultimately show ?thesis
      by (simp add: Registry_Deploy_def rm_Get_def registry_sample_Get Let_def
          DefaultResourceName_def defaultNamespace_def)
  qed
  ultimately show ?thesis
    using Registry_Deploy_Ok [of registry_sample "\<lparr>rr_Name = ''reg'', rr_Namespace = ''default''\<rparr>" registry_memory registry_memory]
    by (fastforce simp: registry_sample_def)
qed

end
