(* ===== verification/Build.thy ===== *)
theory Build
  imports Sources
begin

text \<open>
  managers/build.go and cmd/kb/subcommands/build.go: the \<open>BuildManager\<close>, which builds and uploads
  the deploy image of an application and packs its definition and its images, collected in a registry
  that it runs in a local container, into a bundle file.
\<close>

section \<open>What the manager calls\<close>

record AuthConfig =
  ac_Username :: string
  ac_Password :: string

text \<open>
  The registry auth of a request is the base64 of the JSON of an auth config, kept as the value that is
  encoded, or a literal.
\<close>

datatype registry_auth = Encoded AuthConfig | Literal string

text \<open>
  The docker client, the archive of a directory, the files and the zip writer. \<open>dk_ImageBuild\<close> gives
  the lines of the response as the scanner reads them, with the error of the scanner;
  \<open>bd_ErrorOf\<close> is the field \<open>error\<close> that \<open>json.Unmarshal\<close> finds in a line (empty when
  there is none or the line is no JSON); \<open>bd_UrlParse\<close> is the host and the path of a parsed URL.
\<close>

record 'w builder =
  bd_NewClient :: "('w, unit) io"
  bd_GetAllCredentials :: "('w, string \<rightharpoonup> AuthConfig) io"
  bd_UrlParse :: "string \<Rightarrow> (string \<times> string) result"
  bd_ErrorOf :: "string \<Rightarrow> string"
  bd_Open :: "string \<Rightarrow> ('w, fd) io"
  bd_DecodeApp :: "fd \<Rightarrow> ('w, Application) io"
  bd_Create :: "string \<Rightarrow> ('w, fd) io"
  bd_Close :: "fd \<Rightarrow> ('w, unit) io"
  bd_Copy :: "fd \<Rightarrow> fd \<Rightarrow> ('w, unit) io"
  zw_Create :: "fd \<Rightarrow> string \<Rightarrow> ('w, fd) io"
  zw_Close :: "fd \<Rightarrow> ('w, unit) io"
  dk_Tar :: "string \<Rightarrow> ('w, fd) io"
  dk_ImageBuild :: "fd \<Rightarrow> string \<Rightarrow> (string \<rightharpoonup> string) \<Rightarrow> (string \<rightharpoonup> AuthConfig) \<Rightarrow> ('w, string list \<times> gerror option) io"
  dk_ImagePull :: "string \<Rightarrow> registry_auth \<Rightarrow> ('w, fd) io"
  dk_ImageTag :: "string \<Rightarrow> string \<Rightarrow> ('w, unit) io"
  dk_ImagePush :: "string \<Rightarrow> bool \<Rightarrow> registry_auth \<Rightarrow> ('w, fd) io"
  dk_Progress :: "fd \<Rightarrow> ('w, unit) io"
  dk_ContainerCreate :: "string \<Rightarrow> ('w, string) io"
  dk_ContainerStart :: "string \<Rightarrow> ('w, unit) io"
  dk_ContainerStop :: "string \<Rightarrow> ('w, unit) io"
  dk_ContainerRemove :: "string \<Rightarrow> ('w, unit) io"
  dk_CopyFromContainer :: "string \<Rightarrow> string \<Rightarrow> ('w, fd) io"

text \<open>\<open>registryContainerId\<close> is passed from the function that sets it to those that use it.\<close>

record BuildManager =
  bm_authConfigs :: "string \<rightharpoonup> AuthConfig"
  bm_dir :: string
  bm_appFile :: string

definition NewBuildManager :: "'w builder \<Rightarrow> string \<Rightarrow> string \<Rightarrow> ('w, BuildManager) io" where
  "NewBuildManager bd dir appFile =
     try_do (bd_NewClient bd) (\<lambda>err. Wrapf err ''couldn't start docker client'' [])
       (\<lambda>_. try_do (bd_GetAllCredentials bd) (\<lambda>err. Wrapf err ''could not load docker credentials'' [])
         (\<lambda>authConfigs. ret \<lparr>bm_authConfigs = authConfigs, bm_dir = dir, bm_appFile = appFile\<rparr>))"

definition DefaultRegistryImage :: string where "DefaultRegistryImage = ''registry:2.8.1''"
definition HttpsScheme :: string where "HttpsScheme = ''https''"

section \<open>The application and its deploy image\<close>

definition loadApp :: "'w builder \<Rightarrow> BuildManager \<Rightarrow> ('w, Application) io" where
  "loadApp bd bm =
     try_do (bd_Open bd (path_Join [bm_dir bm, bm_appFile bm]))
       (\<lambda>err. Wrapf err ''couldn't open application definition file'' [])
       (\<lambda>f. deferring (bd_Close bd f)
         (try_do (bd_DecodeApp bd f) (\<lambda>err. Wrapf err ''couldn't decode app yaml'' [])
           (\<lambda>app. case Application_Validate app of
              Some err \<Rightarrow> fail (Wrapf err ''couldn't validate'' [])
            | None \<Rightarrow> ret app)))"

text \<open>Only the last line of the output of a build is looked at for an error.\<close>

definition printBuildLogs :: "'w builder \<Rightarrow> string list \<Rightarrow> gerror option \<Rightarrow> ('w, unit) io" where
  "printBuildLogs bd lines scannerErr =
     (let lastLine = (if lines = [] then [] else last lines) in
      if bd_ErrorOf bd lastLine \<noteq> [] then fail (Errorf (bd_ErrorOf bd lastLine) [])
      else case scannerErr of Some err \<Rightarrow> fail err | None \<Rightarrow> ret ())"

definition BuildDeployImage :: "'w builder \<Rightarrow> BuildManager \<Rightarrow> string \<Rightarrow> (string \<rightharpoonup> string) \<Rightarrow> ('w, unit) io" where
  "BuildDeployImage bd bm dir argsMap =
     try_do (loadApp bd bm) (\<lambda>err. Wrapf err ''couldn't build deploy image'' [])
       (\<lambda>app. andthen (dk_Tar bd dir)
         (\<lambda>tar. andthen (dk_ImageBuild bd tar (as_DeployImage (app_Spec app)) argsMap (bm_authConfigs bm))
           (\<lambda>(lines, scannerErr). printBuildLogs bd lines scannerErr)))"

text \<open>
  The credentials of a registry, under its name with the scheme or else without. Without an entry an
  anonymous pull goes on with empty credentials.
\<close>

definition registry_credentials :: "(string \<rightharpoonup> AuthConfig) \<Rightarrow> string \<Rightarrow> string \<Rightarrow> AuthConfig option" where
  "registry_credentials authConfigs scheme host =
     (case authConfigs (scheme @ ''://'' @ host) of Some a \<Rightarrow> Some a | None \<Rightarrow> authConfigs host)"

definition fetchRegAuth :: "'w builder \<Rightarrow> BuildManager \<Rightarrow> string \<Rightarrow> string \<Rightarrow> bool \<Rightarrow> registry_auth result" where
  "fetchRegAuth bd bm img scheme anonymousPull =
     (case bd_UrlParse bd img of
        Ok (host, path) \<Rightarrow>
          (case registry_credentials (bm_authConfigs bm) scheme host of
             Some auth \<Rightarrow> Ok (Encoded auth)
           | None \<Rightarrow>
               if anonymousPull then Ok (Encoded \<lparr>ac_Username = [], ac_Password = []\<rparr>)
               else Err (Errorf (''couldn't find auth token for host '' @ apo @ ''%s'' @ apo) [Str (scheme @ ''://'' @ host)]))
      | Err err \<Rightarrow> Err (Wrapf err ''couldn't parse docker image URL'' [])
      | Panic s \<Rightarrow> Panic s
      | OutOfFuel \<Rightarrow> OutOfFuel)"

text \<open>Printing the progress of a pull or a push; the stream is closed only when it could be printed.\<close>

definition print_progress :: "'w builder \<Rightarrow> string \<Rightarrow> fd \<Rightarrow> ('w, unit) io" where
  "print_progress bd message reader =
     try_do (dk_Progress bd reader) (\<lambda>err. Wrapf err message [])
       (\<lambda>_. check (bd_Close bd reader) () (\<lambda>_ _. ret ()))"

definition UploadDeployImage :: "'w builder \<Rightarrow> BuildManager \<Rightarrow> ('w, unit) io" where
  "UploadDeployImage bd bm =
     try_do (loadApp bd bm) (\<lambda>err. Wrapf err ''couldn't upload deploy image'' [])
       (\<lambda>app.
         let img = as_DeployImage (app_Spec app) in
         try_do (lift_result (fetchRegAuth bd bm (HttpsScheme @ ''://'' @ img) HttpsScheme False))
           (\<lambda>err. Wrapf err ''unable to fetch the registry authString'' [])
           (\<lambda>auth. try_do (dk_ImagePush bd img False auth)
             (\<lambda>err. Wrapf err (''couldn't push image '' @ apo @ ''%s'' @ apo @ '' to registry'') [Str img])
             (\<lambda>reader. print_progress bd ''couldn't print push progress'' reader)))"

section \<open>Packing the images\<close>

definition all_images :: "Application \<Rightarrow> ImageSpec list" where
  "all_images app = as_Images (app_Spec app) @ [\<lparr>img_Image = as_DeployImage (app_Spec app), img_Scheme = []\<rparr>]"

definition image_scheme :: "ImageSpec \<Rightarrow> string" where
  "image_scheme img = (if img_Scheme img = [] then HttpsScheme else img_Scheme img)"

definition pull_image :: "'w builder \<Rightarrow> BuildManager \<Rightarrow> bool \<Rightarrow> ImageSpec \<Rightarrow> ('w, unit) io" where
  "pull_image bd bm anonymousPull img =
     try_do (lift_result (fetchRegAuth bd bm (image_scheme img @ ''://'' @ img_Image img) (image_scheme img) anonymousPull))
       (\<lambda>err. Wrapf err ''unable to fetch the registry authString'' [])
       (\<lambda>auth. try_do (dk_ImagePull bd (img_Image img) auth)
         (\<lambda>err. Wrapf err ''couldn't pull image %s'' [Str (img_Image img)])
         (\<lambda>reader. print_progress bd ''couldn't print image pull progress'' reader))"

definition pullImages :: "'w builder \<Rightarrow> BuildManager \<Rightarrow> Application \<Rightarrow> bool \<Rightarrow> ('w, unit) io" where
  "pullImages bd bm app anonymousPull = for_each (pull_image bd bm anonymousPull) (all_images app)"

definition push_image :: "'w builder \<Rightarrow> ImageSpec \<Rightarrow> ('w, unit) io" where
  "push_image bd img =
     try_do (lift_result (bd_UrlParse bd (image_scheme img @ ''://'' @ img_Image img)))
       (\<lambda>err. Wrapf err ''couldn't parse docker image URL'' [])
       (\<lambda>(host, path).
         let targetImage = ''localhost:5000'' @ path in
         try_do (dk_ImageTag bd (img_Image img) targetImage)
           (\<lambda>err. Wrapf err (''couldn't tag image '' @ apo @ ''%s'' @ apo @ '' for local registry'') [Str targetImage])
           (\<lambda>_. try_do (dk_ImagePush bd targetImage True (Literal ''123''))
             (\<lambda>err. Wrapf err (''couldn't push image '' @ apo @ ''%s'' @ apo @ '' to local registry'') [Str targetImage])
             (\<lambda>reader. print_progress bd ''couldn't print push progress'' reader)))"

definition pushImages :: "'w builder \<Rightarrow> Application \<Rightarrow> ('w, unit) io" where
  "pushImages bd app = for_each (push_image bd) (all_images app)"

definition copyImages :: "'w builder \<Rightarrow> string \<Rightarrow> ('w, fd) io" where
  "copyImages bd registryContainerId =
     try_do (dk_CopyFromContainer bd registryContainerId ''/var/lib/registry/docker'')
       (\<lambda>err. Wrapf err ''couldn't copy docker layers from local registry'' []) ret"

definition launchLocalRegistry :: "'w builder \<Rightarrow> string \<Rightarrow> ('w, string) io" where
  "launchLocalRegistry bd registryImage =
     try_do (dk_ContainerCreate bd registryImage) (\<lambda>err. Wrapf err ''couldn't launch kb registry'' [])
       (\<lambda>cid. try_do (dk_ContainerStart bd cid) (\<lambda>err. Wrapf err ''couldn't start kb registry'' []) (\<lambda>_. ret cid))"

definition stopLocalRegistry :: "'w builder \<Rightarrow> string \<Rightarrow> ('w, unit) io" where
  "stopLocalRegistry bd cid =
     try_do (dk_ContainerStop bd cid) (\<lambda>err. Wrapf err ''couldn't stop local registry container'' [])
       (\<lambda>_. try_do (dk_ContainerRemove bd cid) (\<lambda>err. Wrapf err ''couldn't remove local registry container'' []) ret)"

text \<open>The errors of the deferred calls, among them that of closing the zip writer, are dropped.\<close>

definition createKbFile :: "'w builder \<Rightarrow> BuildManager \<Rightarrow> Application \<Rightarrow> fd \<Rightarrow> ('w, unit) io" where
  "createKbFile bd bm app images =
     (let packageFilename = as_Name (app_Spec app) @ ''-'' @ as_Version (app_Spec app) @ ''.kb'' in
      try_do (bd_Create bd (path_Join [bm_dir bm, packageFilename])) (\<lambda>err. Wrapf err ''couldn't create bundle'' [])
        (\<lambda>bundleFile. deferring (bd_Close bd bundleFile)
          (deferring (zw_Close bd bundleFile)
            (try_do (zw_Create bd bundleFile DefaultAppFile)
              (\<lambda>err. Wrapf err ''couldn't create application definition inside bundle'' [])
              (\<lambda>dstAppFile. try_do (bd_Open bd (path_Join [bm_dir bm, bm_appFile bm]))
                (\<lambda>err. Wrapf err ''couldn't open application definition file'' [])
                (\<lambda>srcAppFile. deferring (bd_Close bd srcAppFile)
                  (try_do (bd_Copy bd dstAppFile srcAppFile)
                    (\<lambda>err. Wrapf err ''couldn't copy from application definition to bundle'' [])
                    (\<lambda>_. try_do (zw_Create bd bundleFile DefaultImagesFile)
                      (\<lambda>err. Wrapf err ''couldn't open images file'' [])
                      (\<lambda>imagesFile. try_do (bd_Copy bd imagesFile images)
                        (\<lambda>err. Wrapf err ''couldn't copy from images file to bundle'' []) ret)))))))))"

text \<open>What \<open>Build\<close> does while its registry runs.\<close>

definition pack_images :: "'w builder \<Rightarrow> BuildManager \<Rightarrow> Application \<Rightarrow> bool \<Rightarrow> string \<Rightarrow> ('w, unit) io" where
  "pack_images bd bm app allowAnonymousPull cid =
     try_do (pullImages bd bm app allowAnonymousPull) (\<lambda>err. Wrapf err ''couldn't pull bundle images'' [])
       (\<lambda>_. try_do (pushImages bd app) (\<lambda>err. Wrapf err ''couldn't push bundle images'' [])
         (\<lambda>_. try_do (copyImages bd cid) (\<lambda>err. Wrapf err ''couldn't copy bundle images'' [])
           (\<lambda>tarContents. deferring (bd_Close bd tarContents)
             (try_do (createKbFile bd bm app tarContents) (\<lambda>err. Wrapf err ''couldn't create bundle'' []) ret))))"

definition Build_bundle :: "'w builder \<Rightarrow> BuildManager \<Rightarrow> string \<Rightarrow> bool \<Rightarrow> ('w, unit) io" where
  "Build_bundle bd bm registryImage allowAnonymousPull =
     try_do (loadApp bd bm) (\<lambda>err. Wrapf err ''couldn't create bundle'' [])
       (\<lambda>app. try_do (launchLocalRegistry bd registryImage) (\<lambda>err. Wrapf err ''couldn't launch local registry'' [])
         (\<lambda>cid. deferring (stopLocalRegistry bd cid) (pack_images bd bm app allowAnonymousPull cid)))"

section \<open>The command\<close>

text \<open>An argument without an equals sign makes the index panic; what follows a second one is dropped.\<close>

definition process_arg :: "(string \<rightharpoonup> string) \<Rightarrow> string \<Rightarrow> (string \<rightharpoonup> string) result" where
  "process_arg m str =
     (case split_char (CHR ''='') str of
        s0 # s1 # _ \<Rightarrow> Ok (m(TrimSpace s0 \<mapsto> TrimSpace s1))
      | _ \<Rightarrow> Panic ''index out of range'')"

definition processBuildArgs :: "string list \<Rightarrow> ('w, string \<rightharpoonup> string) io" where
  "processBuildArgs buildArg = fold_io (\<lambda>str m. lift_result (process_arg m str)) buildArg Map.empty"

definition build_command :: "'w builder \<Rightarrow> string list \<Rightarrow> string \<Rightarrow> bool \<Rightarrow> string \<Rightarrow> string \<Rightarrow> ('w, unit) io" where
  "build_command bd buildArg registryImage anonymousPull dir filename =
     try_do (NewBuildManager bd dir filename) (\<lambda>err. Wrapf err ''initialization failed for %s'' [Str (path_Join [dir, filename])])
       (\<lambda>bm. try_do (processBuildArgs buildArg) (\<lambda>err. Wrapf err ''Failed to process build args'' [])
         (\<lambda>argsMap. try_do (BuildDeployImage bd bm dir argsMap) (\<lambda>err. Wrapf err ''Failed to build/upload deployImage.'' [])
           (\<lambda>_. try_do (UploadDeployImage bd bm) (\<lambda>err. Wrapf err ''Failed to build/upload deployImage.'' [])
             (\<lambda>_. try_do (Build_bundle bd bm registryImage anonymousPull)
               (\<lambda>err. Wrapf err ''build failed for %s'' [Str (path_Join [dir, filename])]) ret))))"

end
