(* ===== verification/Build_Laws.thy ===== *)
theory Build_Laws
  imports Build
begin

text \<open>
  What holds of building a bundle: the local registry leaves no container behind, except when it does
  not start; every image of the application, its deploy image included, is in the registry a
  successful build copies; and which build arguments are understood.
\<close>

section \<open>The container of the local registry\<close>

text \<open>
  The contract of the docker client over the containers there are: creating adds a new one, removing a
  stopped one takes it away, and stopping and removing one that is there succeed. Nothing else the
  build calls creates or removes a container.
\<close>

definition tidy_docker :: "'w builder \<Rightarrow> ('w \<Rightarrow> string set) \<Rightarrow> bool" where
  "tidy_docker bd containers \<longleftrightarrow>
     (\<forall>i w c w'. dk_ContainerCreate bd i w = (Ok c, w') \<longrightarrow> c \<notin> containers w \<and> containers w' = insert c (containers w)) \<and>
     (\<forall>i w r w'. dk_ContainerCreate bd i w = (r, w') \<longrightarrow> (\<forall>c. r \<noteq> Ok c) \<longrightarrow> containers w' = containers w) \<and>
     (\<forall>c w. c \<in> containers w \<longrightarrow> (\<exists>w'. dk_ContainerStop bd c w = (Ok (), w') \<and> containers w' = containers w)) \<and>
     (\<forall>c w. c \<in> containers w \<longrightarrow> (\<exists>w'. dk_ContainerRemove bd c w = (Ok (), w') \<and> containers w' = containers w - {c}))"

lemma tidy_dockerD:
  assumes "tidy_docker bd f"
  shows "dk_ContainerCreate bd i w = (Ok c, w') \<Longrightarrow> c \<notin> f w \<and> f w' = insert c (f w)"
    and "dk_ContainerCreate bd i w = (r, w') \<Longrightarrow> (\<And>c. r \<noteq> Ok c) \<Longrightarrow> f w' = f w"
    and "c \<in> f w \<Longrightarrow> \<exists>w'. dk_ContainerStop bd c w = (Ok (), w') \<and> f w' = f w"
    and "c \<in> f w \<Longrightarrow> \<exists>w'. dk_ContainerRemove bd c w = (Ok (), w') \<and> f w' = f w - {c}"
  using assms by (simp_all add: tidy_docker_def)

definition same_containers :: "('w \<Rightarrow> string set) \<Rightarrow> ('w, 'a) io \<Rightarrow> bool" where
  "same_containers containers m \<longleftrightarrow> (\<forall>w. containers (snd (m w)) = containers w)"

definition other_calls_keep :: "'w builder \<Rightarrow> ('w \<Rightarrow> string set) \<Rightarrow> bool" where
  "other_calls_keep bd containers \<longleftrightarrow>
     (\<forall>p. same_containers containers (bd_Open bd p) \<and> same_containers containers (bd_Create bd p)) \<and>
     (\<forall>h. same_containers containers (bd_DecodeApp bd h) \<and> same_containers containers (bd_Close bd h) \<and>
        same_containers containers (zw_Close bd h) \<and> same_containers containers (dk_Progress bd h)) \<and>
     (\<forall>h g. same_containers containers (bd_Copy bd h g)) \<and> (\<forall>h n. same_containers containers (zw_Create bd h n)) \<and>
     (\<forall>i a. same_containers containers (dk_ImagePull bd i a)) \<and> (\<forall>i j. same_containers containers (dk_ImageTag bd i j)) \<and>
     (\<forall>i b a. same_containers containers (dk_ImagePush bd i b a)) \<and>
     (\<forall>c. same_containers containers (dk_ContainerStart bd c)) \<and>
     (\<forall>c p. same_containers containers (dk_CopyFromContainer bd c p))"

lemma same_containers_keeps: "same_containers f m \<Longrightarrow> keeps (\<lambda>w. f w = s) m"
  by (simp add: same_containers_def keeps_def)

lemma other_calls_keeps:
  assumes "other_calls_keep bd f"
  shows "keeps (\<lambda>w. f w = s) (bd_Open bd p)" "keeps (\<lambda>w. f w = s) (bd_Create bd p)"
    "keeps (\<lambda>w. f w = s) (bd_DecodeApp bd h)" "keeps (\<lambda>w. f w = s) (bd_Close bd h)"
    "keeps (\<lambda>w. f w = s) (zw_Close bd h)" "keeps (\<lambda>w. f w = s) (dk_Progress bd h)"
    "keeps (\<lambda>w. f w = s) (bd_Copy bd h g)" "keeps (\<lambda>w. f w = s) (zw_Create bd h n)"
    "keeps (\<lambda>w. f w = s) (dk_ImagePull bd i a)" "keeps (\<lambda>w. f w = s) (dk_ImageTag bd i j)"
    "keeps (\<lambda>w. f w = s) (dk_ImagePush bd i b a)" "keeps (\<lambda>w. f w = s) (dk_ContainerStart bd c)"
    "keeps (\<lambda>w. f w = s) (dk_CopyFromContainer bd c p)"
  using assms by (simp_all add: other_calls_keep_def same_containers_keeps)

lemma keeps_prod: "(\<And>a b. keeps P (f a b)) \<Longrightarrow> keeps P (case p of (a, b) \<Rightarrow> f a b)"
  by (cases p) simp

lemma keeps_loadApp:
  assumes "other_calls_keep bd f"
  shows "keeps (\<lambda>w. f w = s) (loadApp bd bm)"
  unfolding loadApp_def
  by (intro keeps_rule other_calls_keeps [OF assms]) (simp split: option.split)

lemma keeps_pack_images:
  assumes "other_calls_keep bd f"
  shows "keeps (\<lambda>w. f w = s) (pack_images bd bm app anon c)"
proof -
  note keep = other_calls_keeps [OF assms]
  have progress: "keeps (\<lambda>w. f w = s) (print_progress bd m h)" for m h
    unfolding print_progress_def by (intro keeps_rule keep)
  have "keeps (\<lambda>w. f w = s) (pull_image bd bm anon i)" for i
    unfolding pull_image_def by (intro keeps_rule keep progress)
  moreover have "keeps (\<lambda>w. f w = s) (push_image bd i)" for i
    unfolding push_image_def Let_def by (intro keeps_rule keeps_prod keep progress)
  moreover have "keeps (\<lambda>w. f w = s) (createKbFile bd bm app h)" for h
    unfolding createKbFile_def Let_def by (intro keeps_rule keep)
  ultimately show ?thesis
    unfolding pack_images_def pullImages_def pushImages_def copyImages_def by (intro keeps_rule keep)
qed

lemma stopLocalRegistry_removes:
  assumes "tidy_docker bd f" and "c \<in> f w"
  shows "f (snd (stopLocalRegistry bd c w)) = f w - {c}"
proof -
  from tidy_dockerD(3) [OF assms] obtain w1 where s: "dk_ContainerStop bd c w = (Ok (), w1)" "f w1 = f w" by blast
  with assms(2) tidy_dockerD(4) [OF assms(1), of c w1]
  obtain w2 where "dk_ContainerRemove bd c w1 = (Ok (), w2)" "f w2 = f w1 - {c}" by auto
  with s show ?thesis by (simp add: stopLocalRegistry_def)
qed

text \<open>Either the registry runs, or nothing was created, or a container that did not start is left.\<close>

lemma launchLocalRegistry_containers:
  assumes tidy: "tidy_docker bd f" and keep: "other_calls_keep bd f" and r: "launchLocalRegistry bd img w = (r, w')"
  shows "(\<exists>c. r = Ok c \<and> c \<notin> f w \<and> f w' = insert c (f w)) \<or>
    (\<forall>c. r \<noteq> Ok c) \<and> (f w' = f w \<or> (\<exists>c u. c \<notin> f w \<and> f w' = insert c (f w) \<and> fst (dk_ContainerStart bd c u) \<noteq> Ok ()))"
proof -
  obtain cr w1 where c: "dk_ContainerCreate bd img w = (cr, w1)" by fastforce
  show ?thesis
  proof (cases "\<exists>c. cr = Ok c")
    case True
    then obtain c where "cr = Ok c" by blast
    with c tidy_dockerD(1) [OF tidy] have new: "c \<notin> f w" "f w1 = insert c (f w)" by auto
    obtain sr w2 where s: "dk_ContainerStart bd c w1 = (sr, w2)" by fastforce
    have f: "f w' = insert c (f w)" if "w' = w2"
      using keeps_result [OF other_calls_keeps(12) [OF keep] refl s] new(2) that by simp
    show ?thesis
    proof (cases "sr = Ok ()")
      case True
      with s c \<open>cr = Ok c\<close> r have "r = Ok c" "w' = w2" by (simp_all add: launchLocalRegistry_def)
      with f new(1) show ?thesis by blast
    next
      case False
      with s c \<open>cr = Ok c\<close> r have "\<forall>c. r \<noteq> Ok c" "w' = w2"
        by (cases sr; simp add: launchLocalRegistry_def; auto)+
      moreover from False s have "fst (dk_ContainerStart bd c w1) \<noteq> Ok ()" by simp
      ultimately show ?thesis using f new(1) by blast
    qed
  next
    case False
    with tidy_dockerD(2) [OF tidy c] have "f w1 = f w" by blast
    with False c r show ?thesis by (cases cr) (auto simp: launchLocalRegistry_def)
  qed
qed


text \<open>A docker client over the set of its containers, and a definition file that decodes to one application.\<close>

definition sample_docker :: "Application \<Rightarrow> string set builder" where
  "sample_docker app = \<lparr>bd_NewClient = ret (), bd_GetAllCredentials = ret Map.empty, bd_UrlParse = (\<lambda>s. Ok (''host'', ''/'' @ s)), bd_ErrorOf = (\<lambda>l. []),
     bd_Open = (\<lambda>p. ret 0), bd_DecodeApp = (\<lambda>h. ret app), bd_Create = (\<lambda>p. ret 1), bd_Close = (\<lambda>h. ret ()),
     bd_Copy = (\<lambda>h g. ret ()), zw_Create = (\<lambda>h n. ret 2), zw_Close = (\<lambda>h. ret ()), dk_Tar = (\<lambda>d. ret 3),
     dk_ImageBuild = (\<lambda>t i a c. ret ([], None)), dk_ImagePull = (\<lambda>i a. ret 4), dk_ImageTag = (\<lambda>i j. ret ()),
     dk_ImagePush = (\<lambda>i b a. ret 5), dk_Progress = (\<lambda>h. ret ()),
     dk_ContainerCreate = (\<lambda>i w. if ''reg'' \<in> w then (Err (Foreign ''conflict''), w) else (Ok ''reg'', insert ''reg'' w)),
     dk_ContainerStart = (\<lambda>c. ret ()), dk_ContainerStop = (\<lambda>c. ret ()),
     dk_ContainerRemove = (\<lambda>c w. (Ok (), w - {c})), dk_CopyFromContainer = (\<lambda>c p. ret 6)\<rparr>"

lemma sample_docker_tidy: "tidy_docker (sample_docker app) (\<lambda>w. w)"
  by (auto simp: tidy_docker_def sample_docker_def split: if_splits)

lemma sample_docker_other: "other_calls_keep (sample_docker app) (\<lambda>w. w)"
  by (simp add: other_calls_keep_def same_containers_def sample_docker_def)

definition sample_build :: BuildManager where
  "sample_build = \<lparr>bm_authConfigs = Map.empty, bm_dir = ''/src'', bm_appFile = ''app.yaml''\<rparr>"

definition packed_app :: Application where
  "packed_app = zero_application\<lparr>app_Spec := (app_Spec zero_application)
     \<lparr>as_Name := ''web'', as_Version := ''1'', as_DeployImage := ''hub/web-deploy:1''\<rparr>\<rparr>"

lemma sample_load: "loadApp (sample_docker packed_app) sample_build w = (Ok packed_app, w)"
proof -
  have "TrimSpace ''web'' \<noteq> []" "TrimSpace ''1'' \<noteq> []" "TrimSpace ''hub/web-deploy:1'' \<noteq> []"
    by (simp_all add: TrimSpace_plain printable_def)
  then have "Application_Validate packed_app = None"
    by (simp add: Application_Validate_def packed_app_def)
  then show ?thesis by (simp add: loadApp_def sample_docker_def)
qed

lemma sample_bundle_built: "Build_bundle (sample_docker packed_app) sample_build ''registry:2'' True {} = (Ok (), {})"
proof -
  have "pack_images (sample_docker packed_app) sample_build packed_app True c w = (Ok (), w)" for c w
    by (simp add: pack_images_def pullImages_def pushImages_def copyImages_def all_images_def createKbFile_def
        pull_image_def push_image_def print_progress_def fetchRegAuth_def registry_credentials_def Let_def
        sample_docker_def sample_build_def packed_app_def zero_application_def)
  moreover have "launchLocalRegistry (sample_docker packed_app) i {} = (Ok ''reg'', {''reg''})" for i
    by (simp add: launchLocalRegistry_def sample_docker_def)
  moreover have "snd (stopLocalRegistry (sample_docker packed_app) ''reg'' {''reg''}) = {}"
    by (simp add: stopLocalRegistry_def sample_docker_def)
  ultimately show ?thesis by (simp add: Build_bundle_def sample_load)
qed


section \<open>The images of a bundle\<close>

lemma print_progress_Ok:
  "print_progress bd m h w = (Ok (), w') \<Longrightarrow> \<exists>u. dk_Progress bd h w = (Ok (), u)"
  by (auto simp: print_progress_def io_ok)

text \<open>An image was pushed to the local registry under the path of its name.\<close>

definition image_packed :: "'w builder \<Rightarrow> ImageSpec \<Rightarrow> bool" where
  "image_packed bd img \<longleftrightarrow>
     (\<exists>host path u u' h v v'. bd_UrlParse bd (image_scheme img @ ''://'' @ img_Image img) = Ok (host, path) \<and>
        dk_ImageTag bd (img_Image img) (''localhost:5000'' @ path) u = (Ok (), u') \<and>
        dk_ImagePush bd (''localhost:5000'' @ path) True (Literal ''123'') u' = (Ok h, v) \<and>
        dk_Progress bd h v = (Ok (), v'))"

lemma push_image_Ok: "push_image bd img w = (Ok (), w') \<Longrightarrow> image_packed bd img"
  unfolding push_image_def image_packed_def Let_def
  by (auto simp: io_ok dest!: print_progress_Ok) blast

lemma Build_bundle_Ok:
  assumes "Build_bundle bd bm img anon w = (Ok (), w')"
  shows "\<exists>app u. loadApp bd bm w = (Ok app, u) \<and> (\<forall>i\<in>set (all_images app). image_packed bd i)"
proof -
  from assms obtain app u v v' where "loadApp bd bm w = (Ok app, u)" "pushImages bd app v = (Ok (), v')"
    by (auto simp: Build_bundle_def pack_images_def io_ok)
  then show ?thesis
    by (auto simp: pushImages_def dest: for_each_Ok_body push_image_Ok)
qed

text \<open>The file of the bundle is named after the application, in the directory of the build.\<close>

lemma Build_bundle_file:
  assumes "Build_bundle bd bm img anon w = (Ok (), w')" and "loadApp bd bm w = (Ok app, u)"
  shows "\<exists>h v v'. bd_Create bd (path_Join [bm_dir bm, Filename \<lparr>br_Name = as_Name (app_Spec app), br_Version = as_Version (app_Spec app)\<rparr>]) v = (Ok h, v')"
proof -
  from assms obtain h v v' where "createKbFile bd bm app h v = (Ok (), v')"
    by (auto simp: Build_bundle_def pack_images_def io_ok)
  then show ?thesis by (auto simp: createKbFile_def Let_def io_ok Filename_def)
qed

section \<open>Build arguments\<close>

definition arg_key :: "string \<Rightarrow> string" where
  "arg_key a = TrimSpace (takeWhile (\<lambda>c. c \<noteq> CHR ''='') a)"

definition arg_value :: "string \<Rightarrow> string" where
  "arg_value a = TrimSpace (takeWhile (\<lambda>c. c \<noteq> CHR ''='') (tl (dropWhile (\<lambda>c. c \<noteq> CHR ''='') a)))"

lemma split_char_hd: "\<exists>ss. split_char c s = takeWhile (\<lambda>x. x \<noteq> c) s # ss"
  by (induction s) (auto split: list.splits)

lemma process_arg_cut:
  "process_arg m a = (if CHR ''='' \<in> set a then Ok (m(arg_key a \<mapsto> arg_value a)) else Panic ''index out of range'')"
proof (cases "CHR ''='' \<in> set a")
  case True
  define k where "k = takeWhile (\<lambda>c. c \<noteq> CHR ''='') a"
  define v where "v = tl (dropWhile (\<lambda>c. c \<noteq> CHR ''='') a)"
  have "dropWhile (\<lambda>c. c \<noteq> CHR ''='') a = CHR ''='' # v"
    using True unfolding v_def by (induction a) auto
  then have "a = k @ CHR ''='' # v" unfolding k_def by (metis takeWhile_dropWhile_id)
  moreover have "CHR ''='' \<notin> set k" by (auto simp: k_def dest: set_takeWhileD)
  ultimately have "split_char (CHR ''='') a = k # split_char (CHR ''='') v"
    using split_char_append by metis
  with split_char_hd [of "CHR ''=''" v] True show ?thesis
    by (auto simp: process_arg_def arg_key_def arg_value_def k_def v_def)
next
  case False
  then show ?thesis by (simp add: process_arg_def split_char_none)
qed

text \<open>
  Build arguments are cut at their first equals sign, trimmed, and end at a second one; the last of
  equal keys counts. An argument without an equals sign makes the command panic.
\<close>

lemma processBuildArgs_cut:
  "processBuildArgs args w =
     (if \<forall>a\<in>set args. CHR ''='' \<in> set a
      then (Ok (map_of (rev (map (\<lambda>a. (arg_key a, arg_value a)) args))), w)
      else (Panic ''index out of range'', w))"
proof -
  have "fold_io (\<lambda>str m. lift_result (process_arg m str)) args m w =
     (if \<forall>a\<in>set args. CHR ''='' \<in> set a
      then (Ok (m ++ map_of (rev (map (\<lambda>a. (arg_key a, arg_value a)) args))), w)
      else (Panic ''index out of range'', w))" for m
  proof (induction args arbitrary: m)
    case (Cons a args)
    show ?case
    proof (cases "CHR ''='' \<in> set a")
      case True
      have "m(arg_key a \<mapsto> arg_value a) ++ f = m ++ (Map.empty(arg_key a \<mapsto> arg_value a) ++ f)" for f
        by (auto simp: map_add_def fun_eq_iff split: option.splits)
      with True Cons.IH show ?thesis by (simp add: process_arg_cut map_of_append)
    qed (simp add: process_arg_cut)
  qed simp
  then show ?thesis by (simp add: processBuildArgs_def)
qed

theorem processBuildArgs_cut_witness:
  "processBuildArgs [''a=1=2'', ''b=3''] () = (Ok [''a'' \<mapsto> ''1'', ''b'' \<mapsto> ''3''], ())"
proof -
  have "arg_key ''a=1=2'' = ''a''" "arg_value ''a=1=2'' = ''1''" "arg_key ''b=3'' = ''b''" "arg_value ''b=3'' = ''3''"
    by (simp_all add: arg_key_def arg_value_def TrimSpace_plain printable_def)
  then show ?thesis by (simp add: processBuildArgs_cut fun_upd_twist)
qed

end
