(* ===== verification/Commands.thy ===== *)
theory Commands
  imports Installs Status Registries Build
begin

text \<open>
  cmd/kb/subcommands: the functions behind the commands of \<open>kb\<close>, over the managers of the other
  theories. Every function starts with \<open>setup\<close>, which makes the clients or ends the process; the
  clients it makes are part of the shell below.
\<close>

section \<open>The shell\<close>

text \<open>
  The variables of the package that flags write, one variable for all the commands that declare a flag
  for it (vars.go and the variable blocks of the files).
\<close>

record vars =
  v_appFile :: string
  v_force :: bool
  v_showLogs :: bool
  v_timeoutSeconds :: int
  v_skipSmoketests :: bool
  v_registryArg :: string
  v_hostArg :: string
  v_destDirArg :: string
  v_configFilename :: string
  v_destination :: string
  v_manifestFilename :: string
  v_section :: string
  v_release :: string

text \<open>
  Standard output (\<open>fmt.Printf\<close>, whose errors are dropped, and the rows of a tab writer at its
  flush), the YAML decoders, the proxied request to a service, and \<open>json.Unmarshal\<close> at the types of
  the answers.
\<close>

record ('u, 'w) shell =
  sh_env :: "('u, 'w) registry_env"
  sh_Printf :: "string \<Rightarrow> 'w \<Rightarrow> 'w"
  sh_Flush :: "string list list \<Rightarrow> ('w, unit) io"
  sh_DecodeSource :: "fd \<Rightarrow> ('w, SourceResource) io"
  sh_DecodeManifest :: "fd \<Rightarrow> ('w, Manifest) io"
  sh_ServiceProxy :: "string \<Rightarrow> string \<Rightarrow> string \<Rightarrow> int \<Rightarrow> ('w, string) io"
  sh_AppStatuses :: "string \<Rightarrow> AppStatus list result"
  sh_ResourceStatuses :: "string \<Rightarrow> ResourceStatus list result"

abbreviation sh_kb :: "('u, 'w) shell \<Rightarrow> 'w KBClient" where "sh_kb sh \<equiv> re_kb (sh_env sh)"
abbreviation sh_os :: "('u, 'w) shell \<Rightarrow> 'w os" where "sh_os sh \<equiv> re_os (sh_env sh)"
abbreviation sh_rt :: "('u, 'w) shell \<Rightarrow> 'w runtime" where "sh_rt sh \<equiv> kb_rt (sh_kb sh)"

definition printf :: "('u, 'w) shell \<Rightarrow> string \<Rightarrow> ('w, unit) io" where
  "printf sh s = (\<lambda>w. (Ok (), sh_Printf sh s w))"

lemma printf_apply [simp]: "printf sh s w = (Ok (), sh_Printf sh s w)"
  by (simp add: printf_def)

abbreviation newline :: string where "newline \<equiv> [CHR 0x0A]"

definition defaultFlavor :: string where "defaultFlavor = ''default''"

definition install_ref :: "string \<Rightarrow> InstallReference" where
  "install_ref n = \<lparr>ir_Name = n, ir_Namespace = defaultNamespace\<rparr>"

definition manifest_ref :: "string \<Rightarrow> ManifestReference" where
  "manifest_ref n = \<lparr>mr_Name = n, mr_Namespace = defaultNamespace\<rparr>"

definition registry_ref :: "string \<Rightarrow> RegistryRef" where
  "registry_ref n = \<lparr>rr_Name = n, rr_Namespace = defaultNamespace\<rparr>"

text \<open>\<open>time.Duration(timeoutSeconds) * time.Second\<close> wraps around in 64 bits.\<close>

definition seconds :: "int \<Rightarrow> int" where
  "seconds s = signed_take_bit 63 (s * second)"

definition timeout_of :: "vars \<Rightarrow> int" where
  "timeout_of v = seconds (v_timeoutSeconds v)"

section \<open>Flags\<close>

text \<open>
  \<open>IntVarP\<close> of the flag library gives the new value of the variable from its old value and the
  default of the flag. The \<open>init\<close> functions run when the package is initialised, in the order of
  their files; those listed are the ones that declare a flag for \<open>timeoutSeconds\<close>, each with its
  flags in their order.
\<close>

record pflag =
  pf_IntVarP :: "int \<Rightarrow> int \<Rightarrow> int"

definition timeout_flag :: "pflag \<Rightarrow> int \<Rightarrow> vars \<Rightarrow> vars" where
  "timeout_flag pf d v = v\<lparr>v_timeoutSeconds := pf_IntVarP pf (v_timeoutSeconds v) d\<rparr>"

definition init_deploy :: "pflag \<Rightarrow> vars \<Rightarrow> vars" where
  "init_deploy pf v = timeout_flag pf 90 (timeout_flag pf 90 v)"

definition init_diff :: "pflag \<Rightarrow> vars \<Rightarrow> vars" where
  "init_diff pf v = timeout_flag pf 60 (timeout_flag pf 90 v)"

definition init_install :: "pflag \<Rightarrow> vars \<Rightarrow> vars" where
  "init_install pf v = timeout_flag pf 90 (timeout_flag pf 90 v)"

definition init_smoketest :: "pflag \<Rightarrow> vars \<Rightarrow> vars" where
  "init_smoketest pf v = timeout_flag pf 300 (timeout_flag pf 300 v)"

definition init_uninstall :: "pflag \<Rightarrow> vars \<Rightarrow> vars" where
  "init_uninstall pf v = timeout_flag pf 90 v"

definition init_vars :: "pflag \<Rightarrow> vars \<Rightarrow> vars" where
  "init_vars pf v = init_uninstall pf (init_smoketest pf (init_install pf (init_diff pf (init_deploy pf v))))"

section \<open>Applications\<close>

definition listApplications :: "('u, 'w) shell \<Rightarrow> ('w, unit) io" where
  "listApplications sh =
     try_do (rm_List (kb_Applications (sh_kb sh)) defaultNamespace []) (\<lambda>err. Wrapf err ''couldn't list applications'' [])
       (\<lambda>items. sh_Flush sh ([''APPLICATION'', ''NAME'', ''VERSION''] #
          map (\<lambda>app. [om_Name (app_ObjectMeta app), as_Name (app_Spec app), as_Version (app_Spec app)]) items))"

definition print_application :: "('u, 'w) shell \<Rightarrow> Application \<Rightarrow> ('w, unit) io" where
  "print_application sh app =
     andthen (printf sh (''Application Name: '' @ om_Name (app_ObjectMeta app) @ newline)) (\<lambda>_.
     andthen (printf sh (''Version: '' @ as_Version (app_Spec app) @ newline)) (\<lambda>_.
     andthen (printf sh (newline @ ''Parameter Definitions'' @ newline @ ''=========='' @ newline)) (\<lambda>_.
     andthen (ignoring (sh_Flush sh ([''NAME'', ''DEFAULT'', ''DESCRIPTION''] #
        map (\<lambda>d. [pd_Name d, pd_Default d, pd_Description d]) (as_ParameterDefinitions (app_Spec app))))) (\<lambda>_.
     printf sh newline))))"

definition descApplications :: "('u, 'w) shell \<Rightarrow> string list \<Rightarrow> ('w, unit) io" where
  "descApplications sh applications =
     andthen
       (case applications of
          [] \<Rightarrow> try_do (rm_List (kb_Applications (sh_kb sh)) defaultNamespace [])
                  (\<lambda>err. Wrapf err ''couldn't list applications'' []) ret
        | n # _ \<Rightarrow> try_do (rm_Get (kb_Applications (sh_kb sh)) n defaultNamespace zero_application)
                  (\<lambda>err. Wrapf err ''couldn't get applications'' []) (\<lambda>app. ret [app]))
       (for_each (print_application sh))"

definition createApplication :: "('u, 'w) shell \<Rightarrow> ('w, unit) io" where
  "createApplication sh = printf sh (''Use '' @ apo @ ''kb register'' @ apo @ newline)"

definition deleteApplications :: "('u, 'w) shell \<Rightarrow> string list \<Rightarrow> ('w, unit) io" where
  "deleteApplications sh applications =
     for_each (\<lambda>n. try_do (rm_Delete (sh_rt sh) (kb_Applications (sh_kb sh)) n defaultNamespace zero_application)
       (\<lambda>err. Wrapf err ''couldn't delete application %q'' [Str n]) ret) applications"

section \<open>Configuration\<close>

abbreviation sh_config :: "('u, 'w) shell \<Rightarrow> 'w ConfigManager" where
  "sh_config sh \<equiv> \<lparr>cmg_kbClient = sh_kb sh\<rparr>"

definition getConfig :: "('u, 'w) shell \<Rightarrow> string \<Rightarrow> string \<Rightarrow> ('w, unit) io" where
  "getConfig sh installName key =
     try_do (Config_Get (sh_config sh) (install_ref installName) key) (\<lambda>err. Wrapf err ''couldn't get config value'' [])
       (\<lambda>value. printf sh (value @ newline))"

definition listConfig :: "('u, 'w) shell \<Rightarrow> string \<Rightarrow> ('w, unit) io" where
  "listConfig sh installName =
     try_do (Config_List (sh_config sh) (install_ref installName)) (\<lambda>err. Wrapf err ''couldn't list config values'' [])
       (\<lambda>values. for_each (\<lambda>key. printf sh (key @ ''='' @ the (values key) @ newline)) (sorted_list_of_set (dom values)))"

definition setConfig :: "('u, 'w) shell \<Rightarrow> string \<Rightarrow> string list \<Rightarrow> ('w, unit) io" where
  "setConfig sh installName keyValuePairs =
     for_each (\<lambda>keyValue.
       try_do (lift_result (splitKeyValue keyValue)) (\<lambda>err. Wrapf err ''couldn't split key/value'' [])
         (\<lambda>(key, value). try_do (Config_Set (sh_config sh) (install_ref installName) key value)
           (\<lambda>err. Wrapf err (''couldn't set config value '' @ apo @ ''%s'' @ apo) [Str key]) ret)) keyValuePairs"

definition removeConfig :: "('u, 'w) shell \<Rightarrow> string \<Rightarrow> string list \<Rightarrow> ('w, unit) io" where
  "removeConfig sh installName keys =
     for_each (\<lambda>key. try_do (Config_Remove (sh_config sh) (install_ref installName) key)
       (\<lambda>err. Wrapf err (''couldn't remove key '' @ apo @ ''%s'' @ apo) [Str key]) ret) keys"

section \<open>Bundles and manifests\<close>

text \<open>The references of the bundle files named on a command line. The files stay open.\<close>

definition load_bundles :: "('u, 'w) shell \<Rightarrow> string list \<Rightarrow> ('w, BundleRef list) io" where
  "load_bundles sh bundles =
     fold_io (\<lambda>bundle refs. try_do (NewBundleFromFile (sh_os sh) bundle)
       (\<lambda>err. Wrapf err (''couldn't load bundle '' @ apo @ ''%s'' @ apo) [Str bundle])
       (\<lambda>bf. ret (refs @ [bf_BundleRef bf]))) bundles []"

definition register_command :: "('u, 'w) shell \<Rightarrow> string list \<Rightarrow> ('w, unit) io" where
  "register_command sh bundles =
     andthen (load_bundles sh bundles) (\<lambda>refs.
       try_do (RegisterAll (sh_os sh) (sh_kb sh) refs (NewMultiFileSource (sh_os sh) bundles) defaultNamespace)
         (\<lambda>err. Wrapf err ''couldn't register bundles'' []) (\<lambda>_. ret ()))"

text \<open>One application of \<open>installBundle\<close>: the install has its name, and is deployed and tested.\<close>

definition install_deploy :: "('u, 'w) shell \<Rightarrow> vars \<Rightarrow> bool \<Rightarrow> string \<Rightarrow> Application \<Rightarrow> ('w, unit) io" where
  "install_deploy sh v force dockerUrl app =
     (let n = as_Name (app_Spec app) in
      try_do (Install_Install (sh_kb sh) n n defaultNamespace (as_Version (app_Spec app)) [] defaultFlavor dockerUrl force [])
        (\<lambda>err. Wrapf err ''could install application %s'' [Str n])
        (\<lambda>install. try_do (DeploySmoketest (sh_kb sh) (install_ref (om_Name (in_ObjectMeta install))) (v_showLogs v) (timeout_of v))
          (\<lambda>err. Wrapf err ''couldn't deploy install %s'' [Str (om_Name (in_ObjectMeta install))]) ret))"

definition docker_url :: "('u, 'w) shell \<Rightarrow> vars \<Rightarrow> ('w, string) io" where
  "docker_url sh v =
     (if v_registryArg v = [] then ret []
      else try_do (rm_Get (kb_Registries (sh_kb sh)) (v_registryArg v) defaultNamespace zero_registry)
        (\<lambda>err. Wrapf err ''couldn't get registry %q'' [Str (v_registryArg v)]) (\<lambda>r. ret (ClusterUrl r)))"

definition installBundle :: "('u, 'w) shell \<Rightarrow> vars \<Rightarrow> string list \<Rightarrow> bool \<Rightarrow> ('w, unit) io" where
  "installBundle sh v bundles force =
     andthen (docker_url sh v) (\<lambda>dockerUrl.
     andthen (load_bundles sh bundles) (\<lambda>refs.
       try_do (RegisterAll (sh_os sh) (sh_kb sh) refs (NewMultiFileSource (sh_os sh) bundles) defaultNamespace)
         (\<lambda>err. Wrapf err ''couldn't register bundles'' [])
         (\<lambda>apps. for_each (install_deploy sh v force dockerUrl) apps)))"

definition manifestInstall :: "('u, 'w) shell \<Rightarrow> vars \<Rightarrow> string list \<Rightarrow> bool \<Rightarrow> ('w, unit) io" where
  "manifestInstall sh v manifests force =
     for_each (\<lambda>manifest.
       try_do (Manifest_Install (sh_os sh) (sh_kb sh) (manifest_ref manifest) force)
         (\<lambda>err. Wrapf err (''couldn't install manifest '' @ apo @ ''%s'' @ apo) [Str manifest])
         (\<lambda>_. try_do
            (if \<not> v_skipSmoketests v
             then Manifest_DeploySmoketest (sh_kb sh) (manifest_ref manifest) (v_showLogs v) (timeout_of v)
             else Manifest_Deploy (sh_kb sh) (manifest_ref manifest) (v_showLogs v) (timeout_of v))
            (\<lambda>err. Wrapf err (''couldn't deploy manifest '' @ apo @ ''%s'' @ apo) [Str manifest]) ret)) manifests"

definition deployManifest :: "('u, 'w) shell \<Rightarrow> vars \<Rightarrow> string list \<Rightarrow> ('w, unit) io" where
  "deployManifest sh v manifests =
     for_each (\<lambda>manifest.
       try_do (Manifest_DeploySmoketest (sh_kb sh) (manifest_ref manifest) (v_showLogs v) (timeout_of v))
         (\<lambda>err. Wrapf err (''couldn't deploy manifest '' @ apo @ ''%s'' @ apo) [Str manifest]) ret) manifests"

definition deployBundle :: "('u, 'w) shell \<Rightarrow> vars \<Rightarrow> string list \<Rightarrow> ('w, unit) io" where
  "deployBundle sh v installs =
     for_each (\<lambda>n. DeploySmoketest (sh_kb sh) (install_ref n) (v_showLogs v) (timeout_of v)) installs"

definition deployRegistry :: "('u, 'w) shell \<Rightarrow> string list \<Rightarrow> ('w, unit) io" where
  "deployRegistry sh registries =
     for_each (\<lambda>n. try_do (Registry_Deploy (sh_env sh) (registry_ref n))
       (\<lambda>err. Wrapf err (''couldn't deploy registry '' @ apo @ ''%s'' @ apo) [Str n]) ret) registries"

definition deleteRegistry :: "('u, 'w) shell \<Rightarrow> string list \<Rightarrow> ('w, unit) io" where
  "deleteRegistry sh registries =
     for_each (\<lambda>n. try_do (Registry_Delete (sh_env sh) (registry_ref n))
       (\<lambda>err. Wrapf err (''couldn't delete registry '' @ apo @ ''%s'' @ apo) [Str n]) ret) registries"

definition diffManifest :: "('u, 'w) shell \<Rightarrow> vars \<Rightarrow> string list \<Rightarrow> ('w, unit) io" where
  "diffManifest sh v manifests =
     for_each (\<lambda>manifest. try_do (Manifest_Diff (sh_kb sh) (manifest_ref manifest) (timeout_of v))
       (\<lambda>err. Wrapf err (''couldn't diff manifest '' @ apo @ ''%s'' @ apo) [Str manifest]) ret) manifests"

text \<open>The stream of the logs is closed only after it could be copied, and its error is dropped.\<close>

definition diffBundle :: "('u, 'w) shell \<Rightarrow> vars \<Rightarrow> string list \<Rightarrow> ('w, unit) io" where
  "diffBundle sh v installs =
     for_each (\<lambda>n.
       try_do (Deploy (sh_kb sh) (install_ref n) \<lparr>do_Action = ActionDiff, do_Timeout = timeout_of v\<rparr> (v_showLogs v))
         (\<lambda>err. Wrapf err ''couldn't execute deploy for %q'' [Str n])
         (\<lambda>_. try_do (Deploy_GetLogs (sh_kb sh) (install_ref n) None) (\<lambda>err. Wrapf err ''couldn't get deploy logs'' [])
           (\<lambda>logs. try_do (cs_Logs_Copy (kb_Interface (sh_kb sh)) logs) (\<lambda>err. Wrapf err ''couldn't print deploy logs'' [])
             (\<lambda>_. ignoring (cs_Logs_Close (kb_Interface (sh_kb sh)) logs))))) installs"

definition smoketestManifest :: "('u, 'w) shell \<Rightarrow> vars \<Rightarrow> string list \<Rightarrow> ('w, unit) io" where
  "smoketestManifest sh v manifests =
     for_each (\<lambda>manifest. try_do (Manifest_Smoketest (sh_kb sh) (manifest_ref manifest) (v_showLogs v) (timeout_of v))
       (\<lambda>err. Wrapf err (''couldn't deploy manifest '' @ apo @ ''%s'' @ apo) [Str manifest]) ret) manifests"

definition smoketestBundle :: "('u, 'w) shell \<Rightarrow> vars \<Rightarrow> string list \<Rightarrow> ('w, unit) io" where
  "smoketestBundle sh v installs =
     andthen (for_each (\<lambda>n. try_do (Smoketest (sh_kb sh) (install_ref n) (v_showLogs v) (timeout_of v))
         (\<lambda>err. Wrapf err ''couldn't run smoketest for %q'' [Str n]) ret) installs)
       (\<lambda>_. printf sh (''Smoketests complete'' @ newline))"

definition delete_opts :: "vars \<Rightarrow> DeployOpts" where
  "delete_opts v = \<lparr>do_Action = ActionDelete, do_Timeout = timeout_of v\<rparr>"

definition uninstall_one :: "('u, 'w) shell \<Rightarrow> vars \<Rightarrow> string \<Rightarrow> ('w, unit) io" where
  "uninstall_one sh v n =
     check (Deploy (sh_kb sh) (install_ref n) (delete_opts v) (v_showLogs v)) () (\<lambda>err _.
       if err \<noteq> None \<and> \<not> v_force v then fail (Wrapf (the err) ''couldn't execute deploy for %q'' [Str n])
       else try_do (Deploy_Delete (sh_kb sh) (install_ref n)) (\<lambda>err. Wrapf err ''couldn't delete install for %q'' [Str n]) ret)"

definition uninstall :: "('u, 'w) shell \<Rightarrow> vars \<Rightarrow> string list \<Rightarrow> ('w, unit) io" where
  "uninstall sh v installs = for_each (uninstall_one sh v) installs"

section \<open>Import, copy and publish\<close>

definition importBundle :: "('u, 'w) shell \<Rightarrow> string \<Rightarrow> string \<Rightarrow> string \<Rightarrow> string list \<Rightarrow> ('w, unit) io" where
  "importBundle sh registryName destDir hostArg bundles =
     andthen (load_bundles sh bundles) (\<lambda>refs.
       try_do (Import (sh_env sh) (registry_ref registryName) (NewMultiFileSource (sh_os sh) bundles) refs destDir hostArg)
         (\<lambda>err. Wrapf err ''couldn't import bundles'' []) ret)"

definition importManifest :: "('u, 'w) shell \<Rightarrow> string \<Rightarrow> string \<Rightarrow> string list \<Rightarrow> ('w, unit) io" where
  "importManifest sh destDir hostArg manifestNames =
     for_each (\<lambda>n. try_do (ImportManifest (sh_env sh) (manifest_ref n) destDir hostArg)
       (\<lambda>err. Wrapf err (''couldn't import manifest '' @ apo @ ''%s'' @ apo) [Str n]) ret) manifestNames"

definition new_source :: "('u, 'w) shell \<Rightarrow> vars \<Rightarrow> string \<Rightarrow> SourceResource \<Rightarrow> ('w, 'w Source) io" where
  "new_source sh v message config =
     try_do (lift_result (NewSource (sh_os sh) (ss_Type (src_Spec config)) (ss_Path (src_Spec config))
         (ss_Options (src_Spec config)) (v_section v) (v_release v)))
       (\<lambda>err. Wrapf err message [Str (om_Name (src_ObjectMeta config))]) ret"

definition copyBundles :: "('u, 'w) shell \<Rightarrow> vars \<Rightarrow> string \<Rightarrow> string \<Rightarrow> BundleRef list \<Rightarrow> ('w, unit) io" where
  "copyBundles sh v configFilename destinationSourceFileName bundleRefs =
     try_do (os_Open (sh_os sh) configFilename) (\<lambda>err. Wrapf err ''couldn't open application definition file'' [])
       (\<lambda>f. deferring (os_Close (sh_os sh) f)
         (try_do (os_Open (sh_os sh) destinationSourceFileName) (\<lambda>err. Wrapf err ''couldn't open application definition file'' [])
           (\<lambda>df. deferring (os_Close (sh_os sh) df)
             (try_do (sh_DecodeSource sh f) (\<lambda>err. Wrapf err ''couldn't decode from source yaml'' [])
               (\<lambda>fromConfig. try_do (sh_DecodeSource sh df) (\<lambda>err. Wrapf err ''couldn't decode destination source yaml'' [])
                 (\<lambda>destinationConfig.
                   andthen (new_source sh v (''couldn't create source instance '' @ apo @ ''%s'' @ apo) fromConfig)
                     (\<lambda>fromSource. andthen (new_source sh v (''couldn't create destination instance '' @ apo @ ''%s'' @ apo) destinationConfig)
                       (\<lambda>destinationSource. try_do (Copy (sh_os sh) fromSource destinationSource bundleRefs)
                         (\<lambda>err. Wrapf err ''couldn't copy bundle'' []) ret))))))))"

definition copyBundle_command :: "('u, 'w) shell \<Rightarrow> vars \<Rightarrow> string list \<Rightarrow> ('w, unit) io" where
  "copyBundle_command sh v args =
     copyBundles sh v (v_configFilename v) (v_destination v) (map (\<lambda>n. \<lparr>br_Name = n, br_Version = Latest\<rparr>) args)"

definition copyManifest :: "('u, 'w) shell \<Rightarrow> vars \<Rightarrow> string \<Rightarrow> string \<Rightarrow> string \<Rightarrow> ('w, unit) io" where
  "copyManifest sh v configFilename destinationSourceFilename manifestFilename =
     try_do (os_Open (sh_os sh) manifestFilename) (\<lambda>err. Wrapf err ''couldn't open manifest file'' [])
       (\<lambda>f. deferring (os_Close (sh_os sh) f)
         (try_do (sh_DecodeManifest sh f) (\<lambda>err. Wrapf err ''couldn't decode manifest yaml'' [])
           (\<lambda>manifest. try_do (copyBundles sh v configFilename destinationSourceFilename (bundle_refs (ms_Bundles (mf_Spec manifest))))
             (\<lambda>err. Wrapf err ''couldn't copy bundles in the manifest file'' []) ret)))"

definition publish :: "('u, 'w) shell \<Rightarrow> vars \<Rightarrow> string \<Rightarrow> string list \<Rightarrow> ('w, unit) io" where
  "publish sh v configFilename filenames =
     try_do (os_Open (sh_os sh) configFilename) (\<lambda>err. Wrapf err ''couldn't open application definition file'' [])
       (\<lambda>f. deferring (os_Close (sh_os sh) f)
         (try_do (sh_DecodeSource sh f) (\<lambda>err. Wrapf err ''couldn't decode app yaml'' [])
           (\<lambda>config. andthen (new_source sh v (''couldn't create source instance '' @ apo @ ''%s'' @ apo) config)
             (\<lambda>source. try_do (Publish (sh_os sh) source filenames) (\<lambda>err. Wrapf err ''couldn't publish bundle'' []) ret))))"

section \<open>Installs, sources and bootstrapping\<close>

record InstallOpts =
  io_Name :: string
  io_Version :: string

definition listInstalls :: "('u, 'w) shell \<Rightarrow> ('w, unit) io" where
  "listInstalls sh =
     try_do (rm_List (kb_Installs (sh_kb sh)) defaultNamespace []) (\<lambda>err. Wrapf err ''couldn't list installs'' [])
       (\<lambda>items. sh_Flush sh ([''NAME'', ''APPLICATION'', ''VERSION''] #
          map (\<lambda>i. [om_Name (in_ObjectMeta i), is_Application (in_Spec i), is_Version (in_Spec i)]) items))"

definition parameter_row :: "(string \<rightharpoonup> ParameterDesc) \<Rightarrow> string \<Rightarrow> string list" where
  "parameter_row ps n = [n, pdesc_Value (the (ps n)), pdesc_Default (the (ps n)), pdesc_Description (the (ps n))]"

definition print_install :: "('u, 'w) shell \<Rightarrow> InstallDescription \<Rightarrow> ('w, unit) io" where
  "print_install sh desc =
     andthen (printf sh (''Install Name: '' @ id_Name desc @ newline)) (\<lambda>_.
     andthen (printf sh (''Application: '' @ id_Application desc @ newline)) (\<lambda>_.
     andthen (printf sh (''Version: '' @ id_Version desc @ newline)) (\<lambda>_.
     andthen (printf sh (newline @ ''Parameters'' @ newline @ ''=========='' @ newline)) (\<lambda>_.
     andthen (range_keys (sh_rt sh) (map (\<lambda>n. (n, ())) (sorted_list_of_set (dom (id_Parameters desc))))) (\<lambda>names.
     andthen (ignoring (sh_Flush sh ([''NAME'', ''CURRENT VALUE'', ''DEFAULT'', ''DESCRIPTION''] #
        map (parameter_row (id_Parameters desc)) names))) (\<lambda>_.
     printf sh newline))))))"

definition describeInstalls :: "('u, 'w) shell \<Rightarrow> string list \<Rightarrow> ('w, unit) io" where
  "describeInstalls sh installs =
     try_do (Install_Describe (sh_kb sh) installs) (\<lambda>err. Wrapf err ''failed to describe installs'' [])
       (for_each (print_install sh))"

definition createInstall :: "('u, 'w) shell \<Rightarrow> string \<Rightarrow> InstallOpts \<Rightarrow> ('w, unit) io" where
  "createInstall sh appName opts =
     try_do (Install_Install (sh_kb sh) appName (io_Name opts) defaultNamespace (io_Version opts) [] defaultFlavor [] False [])
       (\<lambda>err. Wrapf err ''couldn't create install'' []) (\<lambda>_. ret ())"

definition deleteInstalls :: "('u, 'w) shell \<Rightarrow> string list \<Rightarrow> ('w, unit) io" where
  "deleteInstalls sh installs =
     for_each (\<lambda>n. try_do (rm_Delete (sh_rt sh) (kb_Installs (sh_kb sh)) n defaultNamespace zero_install)
       (\<lambda>err. Wrapf err ''couldn't delete install %q'' [Str n]) ret) installs"

record SourceOpts =
  so_Name :: string
  so_Type :: string
  so_Path :: string

text \<open>\<open>%v\<close> of a map prints its entries in the order of their keys.\<close>

definition print_map :: "(string \<rightharpoonup> string) \<Rightarrow> string" where
  "print_map m = ''map['' @ join '' '' (map (\<lambda>k. k @ '':'' @ the (m k)) (sorted_list_of_set (dom m))) @ '']''"

definition listSources :: "('u, 'w) shell \<Rightarrow> ('w, unit) io" where
  "listSources sh =
     try_do (rm_List (kb_Sources (sh_kb sh)) defaultNamespace []) (\<lambda>err. Wrapf err ''couldn't list sources'' [])
       (\<lambda>items. sh_Flush sh ([''NAME'', ''TYPE'', ''PATH'', ''OPTIONS''] #
          map (\<lambda>s. [om_Name (src_ObjectMeta s), ss_Type (src_Spec s), ss_Path (src_Spec s), print_map (ss_Options (src_Spec s))]) items))"

definition createSource :: "('u, 'w) shell \<Rightarrow> SourceOpts \<Rightarrow> ('w, unit) io" where
  "createSource sh opts =
     try_do (rm_Create (kb_Sources (sh_kb sh))
         \<lparr>src_ObjectMeta = \<lparr>om_Name = so_Name opts, om_Namespace = defaultNamespace\<rparr>,
          src_Spec = \<lparr>ss_Type = so_Type opts, ss_Path = so_Path opts, ss_Options = Map.empty\<rparr>\<rparr>)
       (\<lambda>err. Wrapf err ''couldn't create source'' []) (\<lambda>_. ret ())"

definition createSource_command :: "('u, 'w) shell \<Rightarrow> SourceOpts \<Rightarrow> ('w, unit) io" where
  "createSource_command sh opts =
     (if so_Name opts = [] then fail (Errorf ''empty source name'' [])
      else if so_Type opts = [] then fail (Errorf ''empty source type'' [])
      else if so_Path opts = [] then fail (Errorf ''empty source path'' [])
      else createSource sh opts)"

definition deleteSources :: "('u, 'w) shell \<Rightarrow> string list \<Rightarrow> ('w, unit) io" where
  "deleteSources sh sources =
     for_each (\<lambda>n. try_do (rm_Delete (sh_rt sh) (kb_Sources (sh_kb sh)) n defaultNamespace zero_source)
       (\<lambda>err. Wrapf err ''couldn't delete source %q'' [Str n]) ret) sources"

record bootstrap_vars =
  bv_skipCRDs :: bool
  bv_skipBindings :: bool
  bv_skipFlavors :: bool
  bv_skipAirgap :: bool
  bv_provider :: string
  bv_registryURL :: string
  bv_projectID :: string

definition init_bootstrap :: bootstrap_vars where
  "init_bootstrap = \<lparr>bv_skipCRDs = False, bv_skipBindings = False, bv_skipFlavors = False, bv_skipAirgap = False,
     bv_provider = ''K0S'', bv_registryURL = ''gcr.io'', bv_projectID = ''dsp-streamlio''\<rparr>"

definition runBootstrap :: "('u, 'w) shell \<Rightarrow> bootstrap_vars \<Rightarrow> ('w, unit) io" where
  "runBootstrap sh b =
     try_do (DeployAll (sh_env sh) (bv_skipCRDs b) (bv_skipBindings b) (bv_skipFlavors b) (bv_skipAirgap b) (bv_provider b)
         \<lparr>gcr_RegistryURL = bv_registryURL b, gcr_ProjectID = bv_projectID b\<rparr>)
       (\<lambda>err. Wrapf err ''couldn't run bootstrap'' []) ret"

section \<open>Status\<close>

definition status_timeout :: int where "status_timeout = 30 * second"
definition healthStatusNS :: string where "healthStatusNS = ''monitoring''"
definition healthStatusService :: string where "healthStatusService = ''health-status:8080''"
definition appStatusEndpoint :: string where "appStatusEndpoint = ''application-status''"
definition resourceStatusEndpoint :: string where "resourceStatusEndpoint = ''resource-status''"

definition getHealthStatus :: "('u, 'w) shell \<Rightarrow> string \<Rightarrow> ('w, string) io" where
  "getHealthStatus sh endpoint =
     try_do (sh_ServiceProxy sh healthStatusNS healthStatusService endpoint status_timeout)
       (\<lambda>err. Wrapf err ''Failed to retrieve health status results'' []) ret"

definition getApplicationStatus :: "('u, 'w) shell \<Rightarrow> ('w, AppStatus list) io" where
  "getApplicationStatus sh =
     try_do (getHealthStatus sh appStatusEndpoint) (\<lambda>err. Wrapf err ''Failed to retrieve application status results'' [])
       (\<lambda>resp. try_do (lift_result (sh_AppStatuses sh resp))
         (\<lambda>err. Wrapf err ''Couldn't unmarshal application status results'' []) ret)"

definition getResourceStatus :: "('u, 'w) shell \<Rightarrow> ('w, ResourceStatus list) io" where
  "getResourceStatus sh =
     try_do (getHealthStatus sh resourceStatusEndpoint) (\<lambda>err. Wrapf err ''Failed to retrieve resource status results'' [])
       (\<lambda>resp. try_do (lift_result (sh_ResourceStatuses sh resp))
         (\<lambda>err. Wrapf err ''Couldn't unmarshal resource status results'' []) ret)"

definition ratio :: "nat \<Rightarrow> nat \<Rightarrow> string" where
  "ratio a b = Itoa (int a) @ ''/'' @ Itoa (int b)"

definition app_line :: "AppStatus list option \<Rightarrow> string \<times> string list" where
  "app_line apps = (case apps of None \<Rightarrow> (''error'', [])
     | Some as \<Rightarrow> (case app_summary as of (healthy, tot, errs) \<Rightarrow> (ratio healthy tot, errs)))"

definition resource_line :: "ResourceStatus list option \<Rightarrow> string \<times> string list" where
  "resource_line rs = (case rs of None \<Rightarrow> (''error'', [])
     | Some rs \<Rightarrow> (case resource_summary rs of (healthy, tot, errs) \<Rightarrow> (ratio healthy tot, errs)))"

text \<open>An answer that cannot be had is shown as an error of its line; the command succeeds all the same.\<close>

definition printStatus :: "('u, 'w) shell \<Rightarrow> ('w, unit) io" where
  "printStatus sh =
     check (getApplicationStatus sh) [] (\<lambda>err1 apps.
     check (getResourceStatus sh) [] (\<lambda>err2 resources.
       let (a, errs1) = app_line (if err1 = None then Some apps else None);
           (r, errs2) = resource_line (if err2 = None then Some resources else None);
           errList = errs1 @ errs2 in
       ignoring (sh_Flush sh ([[], [''STATUS CHECK'', ''READY''], [''applications'', a], [''resources'', r]] @
         (if errList = [] then [] else [[], [''STATUS DETAILS'']] @ map (\<lambda>e. [e]) errList)))))"

text \<open>\<open>Duration.Round(time.Second)\<close>, halves away from zero, and the text of whole seconds.\<close>

definition round_second :: "int \<Rightarrow> int" where
  "round_second d = sgn d * ((\<bar>d\<bar> + second div 2) div second)"

definition duration_text :: "int \<Rightarrow> string" where
  "duration_text s =
     (let u = \<bar>s\<bar>; h = u div 3600; m = u div 60 mod 60 in
      (if s < 0 then ''-'' else []) @ (if 0 < h then Itoa h @ ''h'' else []) @
      (if 0 < u div 60 then Itoa m @ ''m'' else []) @ Itoa (u mod 60) @ ''s'')"

definition age_text :: "int \<Rightarrow> int \<Rightarrow> string" where
  "age_text t updated = duration_text (round_second (t - updated))"

definition printApplicationStatus :: "('u, 'w) shell \<Rightarrow> ('w, unit) io" where
  "printApplicationStatus sh =
     try_do (getApplicationStatus sh) (\<lambda>err. Wrapf err ''Failed to print application status results'' [])
       (\<lambda>apps.
         andthen (fold_io (\<lambda>(a, e) rows. andthen (now (sh_rt sh)) (\<lambda>t.
             ret (rows @ [[ast_App a, ep_Endpoint e, appStatusMap (ep_Status e), age_text t (ast_LastUpdated a)]])))
           (concat (map (\<lambda>a. map (Pair a) (ast_Endpoints a)) (sort_key ast_App apps))) [])
         (\<lambda>rows. ignoring (sh_Flush sh ([] # [''APPLICATION'', ''ENDPOINT'', ''STATUS'', ''AGE''] # rows))))"

definition printResourceStatus :: "('u, 'w) shell \<Rightarrow> ResourceStatus list \<Rightarrow> ('w, unit) io" where
  "printResourceStatus sh resources =
     andthen (fold_io (\<lambda>r rows. andthen (now (sh_rt sh)) (\<lambda>t.
         ret (rows @ [[rst_Category r, rst_Service r, rst_Name r, rst_Type r, rst_Status r, rst_Error r, age_text t (rst_LastUpdated r)]])))
       (shown_resources resources) [])
     (\<lambda>rows. ignoring (sh_Flush sh ([] # [''CATEGORY'', ''SERVICE'', ''RESOURCE'', ''TYPE'', ''STATUS'', ''ERRORS'', ''AGE''] # rows)))"

definition resourceStatus_command :: "('u, 'w) shell \<Rightarrow> ('w, unit) io" where
  "resourceStatus_command sh = andthen (getResourceStatus sh) (printResourceStatus sh)"

end
