(* ===== verification/Commands_Laws.thy ===== *)
theory Commands_Laws
  imports Commands Deploy_Laws Registry_Laws
begin

text \<open>
  What holds of the commands: the timeouts their flags really give, what an uninstall leaves, and the
  chain of managers behind the installation of bundle files.
\<close>

section \<open>Timeouts\<close>

lemma signed_take_bit_fits: "- (2 ^ n) \<le> k \<Longrightarrow> k < 2 ^ n \<Longrightarrow> signed_take_bit n k = k" for k :: int
  by (simp add: signed_take_bit_int_eq_self_iff)

text \<open>
  A timeout of up to 9223372036 seconds, about 292 years, is the duration asked for, and no larger
  one is: the product wraps around in 64 bits, one second more being a negative duration.
\<close>

lemma seconds_wrap:
  "(seconds s = s * second \<longleftrightarrow> -9223372036 \<le> s \<and> s \<le> 9223372036) \<and> seconds 9223372037 < 0 \<and> \<bar>seconds s\<bar> \<le> 2 ^ 63"
proof (intro conjI)
  have "seconds s = s * second \<longleftrightarrow> - (2 ^ 63) \<le> s * second \<and> s * second < 2 ^ 63"
    unfolding seconds_def by (rule signed_take_bit_int_eq_self_iff)
  then show "seconds s = s * second \<longleftrightarrow> -9223372036 \<le> s \<and> s \<le> 9223372036"
    unfolding second_def by auto
  show "seconds 9223372037 < 0" by (simp add: seconds_def second_def signed_take_bit_def)
  show "\<bar>seconds s\<bar> \<le> 2 ^ 63"
    using signed_take_bit_int_greater_eq_minus_exp [of 63 "s * second"] signed_take_bit_int_less_exp [of 63 "s * second"]
    unfolding seconds_def by linarith
qed

lemma init_vars_timeout:
  assumes "\<forall>old d. pf_IntVarP pf old d = d"
  shows "init_vars pf v = v\<lparr>v_timeoutSeconds := 90\<rparr>"
  using assms by (simp add: init_vars_def init_uninstall_def init_smoketest_def init_install_def init_diff_def
      init_deploy_def timeout_flag_def)

lemma timeout_90: "timeout_of (v\<lparr>v_timeoutSeconds := 90\<rparr>) = 90 * second"
  by (simp add: timeout_of_def seconds_def second_def signed_take_bit_int_eq_self_iff)

text \<open>
  Without a timeout on the command line \<open>kb smoketest bundle\<close> waits 90 seconds for each test, not
  the 300 of its flag: all the timeout flags write one variable, each stores its default there when it is
  declared, and the last to do so is the flag of \<open>kb uninstall\<close>. For the same reason
  \<open>kb diff bundle\<close> waits 90 seconds, not the 60 of its flag.
\<close>

lemma default_timeouts:
  assumes "\<forall>old d. pf_IntVarP pf old d = d"
  shows "smoketestBundle sh (init_vars pf v) names =
     andthen (for_each (\<lambda>n. try_do (Smoketest (sh_kb sh) (install_ref n) (v_showLogs v) (90 * second))
         (\<lambda>err. Wrapf err ''couldn't run smoketest for %q'' [Str n]) ret) names)
       (\<lambda>_. printf sh (''Smoketests complete'' @ newline)) \<and>
    timeout_of (init_vars pf v) = 90 * second \<and>
    timeout_of (init_smoketest pf v) = 300 * second \<and> timeout_of (init_diff pf v) = 60 * second"
proof -
  note iv = init_vars_timeout [OF assms]
  have "timeout_of (init_vars pf v) = 90 * second" by (simp add: iv timeout_90)
  moreover from this have "smoketestBundle sh (init_vars pf v) names =
     andthen (for_each (\<lambda>n. try_do (Smoketest (sh_kb sh) (install_ref n) (v_showLogs v) (90 * second))
         (\<lambda>err. Wrapf err ''couldn't run smoketest for %q'' [Str n]) ret) names)
       (\<lambda>_. printf sh (''Smoketests complete'' @ newline))"
    by (simp add: smoketestBundle_def) (simp add: iv)
  moreover have "timeout_of (init_smoketest pf v) = 300 * second" "timeout_of (init_diff pf v) = 60 * second"
    using assms by (simp_all add: init_smoketest_def init_diff_def timeout_flag_def timeout_of_def seconds_def second_def
        signed_take_bit_int_eq_self_iff)
  ultimately show ?thesis by blast
qed

section \<open>Uninstalling\<close>

text \<open>
  A delete request for an install that succeeds, or finds nothing, leaves none of that name; reading
  installs and sleeping change no install.
\<close>

definition deletes_installs :: "'w KBClient \<Rightarrow> ('w \<Rightarrow> cluster) \<Rightarrow> bool" where
  "deletes_installs kb view \<longleftrightarrow>
     (\<forall>ns n w r w'. kc_DeleteAllOf (kb_Installs kb) ns n w = (r, w') \<longrightarrow>
        r = Ok () \<or> (\<exists>e. r = Err e \<and> is_not_found e) \<longrightarrow> cl_Installs (view w') (n, ns) = None) \<and>
     (\<forall>n ns i w. cl_Installs (view (snd (kc_Get (kb_Installs kb) n ns i w))) = cl_Installs (view w)) \<and>
     (\<forall>d w. cl_Installs (view (rt_sleep (kb_rt kb) d w)) = cl_Installs (view w))"

lemma delete_poll_keeps_installs:
  assumes "deletes_installs kb view"
  shows "keeps (\<lambda>w. cl_Installs (view w) = s) (delete_poll k (kb_rt kb) (kb_Installs kb) n ns i)"
proof (induction k arbitrary: i)
  case (Suc k)
  have "keeps (\<lambda>w. cl_Installs (view w) = s) (kc_Get (kb_Installs kb) n ns j)"
    "keeps (\<lambda>w. cl_Installs (view w) = s) (sleep (kb_rt kb) d)" for j d
    using assms by (auto simp: deletes_installs_def intro!: keepsI)
  with Suc show ?case
    by (auto intro!: keeps_rule split: option.splits)
qed simp

lemma Deploy_Delete_Ok:
  assumes del: "deletes_installs kb view" and ok: "Deploy_Delete kb ref w = (Ok (), w')"
  shows "cl_Installs (view w') (ir_Name ref, ir_Namespace ref) = None"
proof -
  let ?poll = "delete_poll (rt_fuel (kb_rt kb)) (kb_rt kb) (kb_Installs kb) (ir_Name ref) (ir_Namespace ref) zero_install"
  from ok obtain u where "rm_Delete (kb_rt kb) (kb_Installs kb) (ir_Name ref) (ir_Namespace ref) zero_install u = (Ok (), w')"
    by (auto simp: Deploy_Delete_def io_ok)
  then obtain r u1 u2 where d: "kc_DeleteAllOf (kb_Installs kb) (ir_Namespace ref) (ir_Name ref) u = (r, u1)"
    "r = Ok () \<or> (\<exists>e. r = Err e \<and> is_not_found e)" and p: "?poll u1 = (Ok (), u2)" and w': "w' = rt_sleep (kb_rt kb) second u2"
    by (auto simp: rm_Delete_def io_ok split: if_splits)
  have "cl_Installs (view u1) (ir_Name ref, ir_Namespace ref) = None"
    using del d by (auto simp: deletes_installs_def)
  moreover have "cl_Installs (view u2) = cl_Installs (view u1)"
    using keeps_result [OF delete_poll_keeps_installs [OF del] refl p] .
  ultimately show ?thesis using del w' by (simp add: deletes_installs_def)
qed

text \<open>
  When the delete job of an install fails and the uninstall is not forced, the command ends there:
  neither that install nor a later one is deleted.
\<close>

lemma uninstall_stops:
  assumes "uninstall sh v before w = (Ok (), u)"
    and d: "Deploy (sh_kb sh) (install_ref n) (delete_opts v) (v_showLogs v) u = (Err e, u')" "\<not> v_force v"
  shows "uninstall sh v (before @ n # after) w = (Err (Wrapf e ''couldn't execute deploy for %q'' [Str n]), u')"
proof -
  from d have "uninstall_one sh v n u = (Err (Wrapf e ''couldn't execute deploy for %q'' [Str n]), u')"
    by (simp add: uninstall_one_def)
  with assms(1) show ?thesis by (simp add: uninstall_def for_each_append)
qed


section \<open>Installing bundle files\<close>

lemma Install_Install_name:
  assumes "Install_Install kb appName name ns version sfx flavor reg force ps w = (Ok i, w')"
  shows "om_Name (in_ObjectMeta i) = install_name appName name sfx \<and> is_Application (in_Spec i) = appName \<and>
    is_Version (in_Spec i) = version \<and> is_DockerRegistry (in_Spec i) = reg"
  using assms by (auto simp: Install_Install_def Let_def io_ok build_install_def split: if_splits)

text \<open>What \<open>installBundle\<close> does for one registered application, with the states it goes through.\<close>

definition installed_and_tested :: "('u, 'w) shell \<Rightarrow> vars \<Rightarrow> bool \<Rightarrow> string \<Rightarrow> Application \<Rightarrow> 'w \<Rightarrow> 'w \<Rightarrow> bool" where
  "installed_and_tested sh v force url app w w' \<longleftrightarrow>
     (\<exists>i u u'. Install_Install (sh_kb sh) (as_Name (app_Spec app)) (as_Name (app_Spec app)) defaultNamespace
          (as_Version (app_Spec app)) [] defaultFlavor url force [] w = (Ok i, u) \<and>
        application_name (in_Spec i) = as_Name (app_Spec app) @ ''-'' @ as_Version (app_Spec app) \<and>
        is_DockerRegistry (in_Spec i) = url \<and>
        Deploy (sh_kb sh) (install_ref (as_Name (app_Spec app)))
          \<lparr>do_Action = ActionApplyOutputs, do_Timeout = timeout_of v\<rparr> (v_showLogs v) u = (Ok (), u') \<and>
        Deploy (sh_kb sh) (install_ref (as_Name (app_Spec app)))
          \<lparr>do_Action = ActionSmoketest, do_Timeout = timeout_of v\<rparr> (v_showLogs v) u' = (Ok (), w'))"

lemma install_deploy_Ok:
  assumes "install_deploy sh v force url app w = (Ok (), w')"
  shows "installed_and_tested sh v force url app w w'"
proof -
  let ?n = "as_Name (app_Spec app)"
  from assms obtain i u where i: "Install_Install (sh_kb sh) ?n ?n defaultNamespace (as_Version (app_Spec app)) []
      defaultFlavor url force [] w = (Ok i, u)"
    and d: "DeploySmoketest (sh_kb sh) (install_ref (om_Name (in_ObjectMeta i))) (v_showLogs v) (timeout_of v) u = (Ok (), w')"
    by (auto simp: install_deploy_def Let_def io_ok)
  have "om_Name (in_ObjectMeta i) = ?n"
    using Install_Install_name [OF i] by (simp add: install_name_def)
  with d Install_Install_name [OF i] i show ?thesis
    unfolding installed_and_tested_def application_name_def
    by (auto simp: DeploySmoketest_def Smoketest_def io_ok)
qed

text \<open>
  C3. When \<open>kb install bundle\<close> succeeds, every bundle file was registered before anything was
  installed, and then each registered application, in the order of the registration (dependencies first),
  was installed under its own name and version with the registry asked for, deployed, and smoke tested,
  the one finished before the next was begun.
\<close>

theorem installBundle_Ok:
  assumes "installBundle sh v bundles force w = (Ok (), w')"
  shows "\<exists>url refs apps u us. (\<exists>u0 u1. docker_url sh v w = (Ok url, u0) \<and> load_bundles sh bundles u0 = (Ok refs, u1) \<and>
      RegisterAll (sh_os sh) (sh_kb sh) refs (NewMultiFileSource (sh_os sh) bundles) defaultNamespace u1 = (Ok apps, u)) \<and>
    length us = Suc (length apps) \<and> us ! 0 = u \<and> us ! length apps = w' \<and>
    (\<forall>i<length apps. installed_and_tested sh v force url (apps ! i) (us ! i) (us ! Suc i))"
proof -
  from assms obtain url u0 refs u1 apps u where r: "docker_url sh v w = (Ok url, u0)" "load_bundles sh bundles u0 = (Ok refs, u1)"
    "RegisterAll (sh_os sh) (sh_kb sh) refs (NewMultiFileSource (sh_os sh) bundles) defaultNamespace u1 = (Ok apps, u)"
    and f: "for_each (install_deploy sh v force url) apps u = (Ok (), w')"
    by (auto simp: installBundle_def io_ok)
  from for_each_runs [OF f] obtain us where "length us = Suc (length apps)" "us ! 0 = u" "us ! length apps = w'"
    "\<forall>i<length apps. install_deploy sh v force url (apps ! i) (us ! i) = (Ok (), us ! Suc i)"
    by blast
  moreover from this have "\<forall>i<length apps. installed_and_tested sh v force url (apps ! i) (us ! i) (us ! Suc i)"
    using install_deploy_Ok by fast
  ultimately show ?thesis
    using r by (intro exI [of _ url] exI [of _ refs] exI [of _ apps] exI [of _ u] exI [of _ us]) simp
qed

text \<open>
  A bundle file is registered only under the name its contents give it: when the file that could be
  loaded is not called by the name and version of its application, the registration (of
  \<open>kb register\<close> and of \<open>kb install bundle\<close>) fails with not found, because the source made of
  the files looks a bundle up by its file name.
\<close>

lemma register_renamed:
  assumes load: "NewBundleFromFile (sh_os sh) f w = (Ok bf, u)"
    and renamed: "path_Base f \<noteq> Filename (bf_BundleRef bf)"
  shows "\<exists>e. register_command sh [f] w = (Err (Wrapf e ''couldn't register bundles'' []), u) \<and>
    e = Wrapf ErrNotFound (''couldn't find bundle file with name '%s'' @ apo)
      [Str (br_Name (bf_BundleRef bf)), Str (br_Version (bf_BundleRef bf))] \<and>
    (\<forall>v force. v_registryArg v = [] \<longrightarrow>
      installBundle sh v [f] force w = (Err (Wrapf e ''couldn't register bundles'' []), u))"
  using assms
  by (simp add: register_command_def installBundle_def docker_url_def load_bundles_def RegisterAll_def read_bundle_def
      NewMultiFileSource_def)

section \<open>Examples\<close>

definition zero_vars :: vars where
  "zero_vars = \<lparr>v_appFile = [], v_force = False, v_showLogs = False, v_timeoutSeconds = 0, v_skipSmoketests = False,
     v_registryArg = [], v_hostArg = [], v_destDirArg = [], v_configFilename = [], v_destination = [],
     v_manifestFilename = [], v_section = ''latest'', v_release = ''main''\<rparr>"

definition storing_flags :: pflag where
  "storing_flags = \<lparr>pf_IntVarP = (\<lambda>old d. d)\<rparr>"

definition sample_shell :: "memory KBClient \<Rightarrow> (fd \<Rightarrow> Application) \<Rightarrow> (string, memory) shell" where
  "sample_shell kb app_of = \<lparr>sh_env = registry_sample\<lparr>re_kb := kb, re_os := still_os app_of\<rparr>, sh_Printf = (\<lambda>s w. w),
     sh_Flush = (\<lambda>rows. ret ()), sh_DecodeSource = (\<lambda>f. ret zero_source), sh_DecodeManifest = (\<lambda>f. ret zero_manifest),
     sh_ServiceProxy = (\<lambda>ns n e t. fail (ApiError ReasonNotFound)), sh_AppStatuses = (\<lambda>s. Ok []),
     sh_ResourceStatuses = (\<lambda>s. Ok [])\<rparr>"

lemma sample_shell_sel [simp]:
  "sh_kb (sample_shell kb app_of) = kb" "sh_os (sample_shell kb app_of) = still_os app_of"
  "sh_Printf (sample_shell kb app_of) s w = w"
  by (simp_all add: sample_shell_def)

theorem default_timeouts_witness:
  "timeout_of (init_vars storing_flags zero_vars) = 90 * second \<and> timeout_of (init_smoketest storing_flags zero_vars) = 300 * second"
  using default_timeouts [of storing_flags "sample_shell mem_client example_apps" zero_vars "[]"] by (simp add: storing_flags_def)

lemma mem_client_deletes: "deletes_installs mem_client cluster_of"
  by (auto simp: deletes_installs_def mem_client_def mem_kind_def Let_def cluster_of_def mem_clientset_def mem_runtime_def
      delete_conv' split: option.splits)

text \<open>A forced uninstall of an install whose flavor is missing, so that its delete job is never made.\<close>

lemma forced_uninstall:
  "\<exists>w'. uninstall (sample_shell mem_client example_apps) (zero_vars\<lparr>v_force := True\<rparr>) [''web''] sample_memory = (Ok (), w')"
proof -
  have "\<exists>e. Deploy mem_client (install_ref ''web'') opts b sample_memory = (Err e, sample_memory)" for opts b
    by (simp add: Deploy_def gather_info_def install_ref_def defaultNamespace_def rm_Get_def mem_client_def mem_kind_def
        Let_def sample_memory_def empty_memory_def)
  then obtain e where "Deploy mem_client (install_ref ''web'') (delete_opts (zero_vars\<lparr>v_force := True\<rparr>)) False sample_memory
      = (Err e, sample_memory)" by blast
  moreover have "\<exists>w'. Deploy_Delete mem_client (install_ref ''web'') w = (Ok (), w')" for w
    by (simp add: Deploy_Delete_def DeleteJob_def install_ref_def rm_Delete_def mem_client_def mem_kind_def no_kind_def
        mem_clientset_def mem_runtime_def numeral_eq_Suc Let_def delete_conv')
  then obtain w' where "Deploy_Delete mem_client (install_ref ''web'') sample_memory = (Ok (), w')" by blast
  ultimately show ?thesis by (simp add: uninstall_def uninstall_one_def zero_vars_def)
qed


text \<open>A cluster in which one application without parameters and resources is installed at once.\<close>

definition quick_app :: Application where
  "quick_app = \<lparr>app_ObjectMeta = \<lparr>om_Name = ''web-1'', om_Namespace = ''default''\<rparr>,
     app_Spec = (app_Spec (app_named ''web''))\<lparr>as_Provides := [\<lparr>pl_Name = ''web'', pl_Outputs = []\<rparr>]\<rparr>\<rparr>"

definition quick_install :: Install where
  "quick_install = build_install ''web'' ''web'' ''default'' ''1'' [] ''default'' [] []"

definition quick_kb :: "memory KBClient" where
  "quick_kb = deploy_kb
     \<lparr>kb_Applications := (no_kind app_ObjectMeta)\<lparr>kc_Get := (\<lambda>n ns ob. ret quick_app)\<rparr>,
      kb_Flavors := (no_kind fl_ObjectMeta)\<lparr>kc_Get := (\<lambda>n ns ob. ret zero_flavor)\<rparr>,
      kb_Installs := (no_kind in_ObjectMeta)\<lparr>kc_Get := (\<lambda>n ns ob. ret quick_install)\<rparr>\<rparr>"

abbreviation quick_shell :: "(string, memory) shell" where
  "quick_shell \<equiv> sample_shell quick_kb (\<lambda>h. app_named ''web'')"

lemma quick_file:
  "NewBundleFromFile (still_os (\<lambda>h. app_named ''web'')) f w =
     (Ok \<lparr>bf_BundleRef = \<lparr>br_Name = ''web'', br_Version = ''1''\<rparr>, bf_Contents = length f, bf_Size = 0\<rparr>, w)"
  by (simp add: NewBundleFromFile_def BundleFile_Application_def still_os_def normalize_application_def app_named_def
      zero_application_def Let_def)

lemma quick_load:
  "load_bundles quick_shell [f] w = (Ok [\<lparr>br_Name = ''web'', br_Version = ''1''\<rparr>], w)"
  by (simp add: load_bundles_def quick_file)

lemma quick_kb_gets:
  "rm_Get (kb_Installs quick_kb) n ns i w = (Ok quick_install, w)"
  "rm_Get (kb_Flavors quick_kb) n ns f w = (Ok zero_flavor, w)"
  "rm_Get (kb_Applications quick_kb) n ns a w = (Ok quick_app, w)"
  by (simp_all add: rm_Get_def quick_kb_def)

lemma quick_register:
  "RegisterAll (still_os (\<lambda>h. app_named ''web'')) quick_kb [\<lparr>br_Name = ''web'', br_Version = ''1''\<rparr>]
     (NewMultiFileSource (still_os (\<lambda>h. app_named ''web'')) [''web-1.kb'']) ''default'' w = (Ok [quick_app], w)"
proof -
  have base: "path_Base ''web-1.kb'' = Filename \<lparr>br_Name = ''web'', br_Version = ''1''\<rparr>" by code_simp
  have app: "BundleFile_Application (still_os (\<lambda>h. app_named ''web'')) b ''default'' w = (Ok quick_app, w)" for b w
    by (simp add: BundleFile_Application_def still_os_def normalize_application_def quick_app_def app_named_def
        zero_application_def Let_def)
  have "rm_CreateIfNotExists (kb_Applications quick_kb) quick_app w = (Ok quick_app, w)" for w
    by (simp add: rm_CreateIfNotExists_def quick_kb_def Let_def)
  then have create: "register quick_kb quick_app w = (Ok quick_app, w)" for w
    by (simp add: register_def)
  have valid: "validateDependencies quick_kb ''default'' [quick_app] w = (Ok (), w)" for w
    by (simp add: validateDependencies_def rm_List_def quick_kb_def no_kind_def quick_app_def app_named_def zero_application_def)
  have close: "BundleFile_Close (still_os g) b w = (Ok (), w)" for g b w
    by (simp add: BundleFile_Close_def still_os_def)
  have "kb_LayeredTopologicalSort quick_kb es = Some (map (\<lambda>e. [fst e]) es)" for es
    by (simp add: quick_kb_def deploy_kb_def mem_client_def)
  moreover have "as_Name (app_Spec quick_app) = ''web''" "as_Provides (app_Spec quick_app) = [\<lparr>pl_Name = ''web'', pl_Outputs = []\<rparr>]"
    by (simp_all add: quick_app_def app_named_def)
  ultimately show ?thesis
    by (simp add: RegisterAll_def read_bundle_def register_name_def NewMultiFileSource_def base quick_file app valid create close Let_def)
qed

lemma quick_install_made:
  "Install_Install quick_kb ''web'' ''web'' ''default'' ''1'' [] ''default'' [] False [] w = (Ok quick_install, w)"
proof -
  have "verifyNodeRequirements quick_kb ''default'' ''default'' w = (Ok (), w)"
    by (simp add: verifyNodeRequirements_def quick_kb_gets)
      (simp add: quick_kb_def deploy_kb_def mem_client_def mem_clientset_def zero_flavor_def)
  then show ?thesis
    by (simp add: Install_Install_def Let_def rm_List_def rm_Apply_def quick_kb_def no_kind_def install_name_def quick_install_def)
qed

lemma quick_merge:
  "GetMergedMap (NewParameterManager kb n (as_ParameterDefinitions (app_Spec quick_app)) (is_Parameters (in_Spec quick_install))) w =
    (Ok Map.empty, w)"
  by (simp add: GetMergedMap_entries entries_def NewParameterManager_def quick_app_def app_named_def quick_install_def
      build_install_def zero_application_def)

lemma quick_gather:
  "gather_info quick_kb ref opts w = (Ok (deploy_info ref opts (in_Spec quick_install) (app_Spec quick_app) (fl_Spec zero_flavor) [] []), w)"
proof -
  have "Parameter_Validate (NewParameterManager quick_kb n (as_ParameterDefinitions (app_Spec quick_app))
      (is_Parameters (in_Spec quick_install))) = None" for n
    by (simp add: Parameter_Validate_def NewParameterManager_def quick_app_def app_named_def zero_application_def Let_def)
  moreover have "is_DockerRegistry (in_Spec quick_install) = []" by (simp add: quick_install_def build_install_def)
  moreover have "as_DeployImage (app_Spec quick_app) = []" "as_DockerRegistry (app_Spec quick_app) = []"
    by (simp_all add: quick_app_def app_named_def zero_application_def)
  ultimately show ?thesis
    by (simp add: gather_info_def quick_kb_gets validateRequiredParameters_def resolve_image_def Let_def)
qed

lemma quick_deploy:
  assumes "do_Action opts \<noteq> ActionDelete"
  shows "\<exists>w'. Deploy quick_kb ref opts b w = (Ok (), w')"
proof -
  let ?info = "deploy_info ref opts (in_Spec quick_install) (app_Spec quick_app) (fl_Spec zero_flavor) [] []"
  have "\<exists>w'. DeleteJob quick_kb ref a w = (Ok (), w')" for a
    by (simp add: DeleteJob_def rm_Delete_def quick_kb_def deploy_kb_def no_kind_def mem_client_def mem_clientset_def
        mem_runtime_def numeral_eq_Suc Let_def)
  then obtain w1 where "DeleteJob quick_kb ref (do_Action opts) w = (Ok (), w1)" by blast
  moreover have "createJob quick_kb i u = (Ok (), u)" for i u
    by (simp add: createJob_def rm_Create_def quick_kb_def deploy_kb_def no_kind_def)
  moreover have "createOrPatchConfigmap quick_kb ?info u = (Ok (), u)" for u
    by (simp add: createOrPatchConfigmap_def deploy_info_def quick_merge)
      (simp add: rm_CreateOrPatch_def quick_kb_def deploy_kb_def no_kind_def mem_client_def)
  moreover have "pollJob quick_kb i ref b u = (Ok (), u)" for i u
    by (simp add: pollJob_def ignoring_def printLogs_def Deploy_GetLogs_def rm_Get_def quick_kb_def deploy_kb_def no_kind_def
        mem_clientset_def mem_runtime_def no_workloads_def complete_job_def numeral_eq_Suc Let_def)
  moreover have "Rollout_Wait quick_kb ref t u = (Ok (), u)" for t u
    by (simp add: Rollout_Wait_def quick_kb_gets quick_merge Let_def)
      (simp add: quick_app_def app_named_def zero_application_def)
  moreover have "di_Action ?info = do_Action opts" by (simp add: deploy_info_def)
  ultimately show ?thesis using assms by (simp add: Deploy_def quick_gather Let_def)
qed

lemma quick_bundle:
  "\<exists>w'. installBundle quick_shell zero_vars [''web-1.kb''] False w = (Ok (), w')"
proof -
  have "\<exists>w'. DeploySmoketest quick_kb ref False t u = (Ok (), w')" for ref t u
  proof -
    have act: "ActionApplyOutputs \<noteq> ActionDelete" "ActionSmoketest \<noteq> ActionDelete" by (simp_all add: action_defs)
    obtain u1 where d: "Deploy quick_kb ref \<lparr>do_Action = ActionApplyOutputs, do_Timeout = t\<rparr> False u = (Ok (), u1)"
      using quick_deploy [of "\<lparr>do_Action = ActionApplyOutputs, do_Timeout = t\<rparr>" ref False u] act(1) by auto
    obtain u2 where "Deploy quick_kb ref \<lparr>do_Action = ActionSmoketest, do_Timeout = t\<rparr> False u1 = (Ok (), u2)"
      using quick_deploy [of "\<lparr>do_Action = ActionSmoketest, do_Timeout = t\<rparr>" ref False u1] act(2) by auto
    with d show ?thesis by (simp add: DeploySmoketest_def Smoketest_def)
  qed
  then obtain w' where "DeploySmoketest quick_kb (install_ref ''web'') False (timeout_of zero_vars) w = (Ok (), w')" by blast
  moreover have "as_Name (app_Spec quick_app) = ''web''" "as_Version (app_Spec quick_app) = ''1''"
    by (simp_all add: quick_app_def app_named_def)
  moreover have "om_Name (in_ObjectMeta quick_install) = ''web''" by (simp add: quick_install_def build_install_def)
  moreover have "v_registryArg zero_vars = []" "v_showLogs zero_vars = False" by (simp_all add: zero_vars_def)
  ultimately show ?thesis
    by (simp add: installBundle_def docker_url_def quick_load quick_register install_deploy_def quick_install_made
        defaultNamespace_def defaultFlavor_def Let_def)
qed

theorem installBundle_Ok_witness:
  "\<exists>w'. installBundle quick_shell zero_vars [''web-1.kb''] False empty_memory = (Ok (), w') \<and>
     installed_and_tested quick_shell zero_vars False [] quick_app empty_memory w'"
proof -
  from quick_bundle obtain w' where b: "installBundle quick_shell zero_vars [''web-1.kb''] False empty_memory = (Ok (), w')" ..
  have "v_registryArg zero_vars = []" by (simp add: zero_vars_def)
  with installBundle_Ok [OF b] quick_register [of empty_memory]
  have "installed_and_tested quick_shell zero_vars False [] quick_app empty_memory w'"
    by (auto simp: docker_url_def quick_load defaultNamespace_def)
  with b show ?thesis by blast
qed

theorem register_renamed_witness:
  "\<exists>e. register_command quick_shell [''old.kb''] empty_memory = (Err (Wrapf e ''couldn't register bundles'' []), empty_memory)"
proof -
  have "path_Base ''old.kb'' \<noteq> Filename \<lparr>br_Name = ''web'', br_Version = ''1''\<rparr>" by code_simp
  with register_renamed [of quick_shell "''old.kb''" empty_memory] show ?thesis by (auto simp: quick_file)
qed

end
