(* ===== verification/Services.thy ===== *)
theory Services
  imports Kube_Types Resource_Manager
begin

text \<open>
  resources/service\_resource.go: the \<open>ServiceResource\<close>, a reader of one Kubernetes service.
\<close>

section \<open>Operations\<close>

record service_object =
  so_NodePorts :: "32 word list"

text \<open>
  \<open>sr_service\<close> is a pointer, nil until the service was fetched. The get request of the client is
  given where it is used.
\<close>

record ServiceResource =
  sr_category :: string
  sr_name :: string
  sr_namespace :: string
  sr_service :: "service_object option"

definition NewService :: "string \<Rightarrow> string \<Rightarrow> string \<Rightarrow> ServiceResource" where
  "NewService category name namespace =
     \<lparr>sr_category = category, sr_name = name, sr_namespace = namespace, sr_service = None\<rparr>"

definition Service_NodePorts :: "ServiceResource \<Rightarrow> 32 word list result" where
  "Service_NodePorts d = (case sr_service d of None \<Rightarrow> Panic nil_dereference | Some s \<Rightarrow> Ok (so_NodePorts s))"

text \<open>
  The method changes its receiver also when the request fails: the client returns an empty service
  beside an error, so the result is the receiver after the call and the error.
\<close>

definition Service_Fetch ::
    "(string \<Rightarrow> string \<Rightarrow> ('w, service_object) io) \<Rightarrow> ServiceResource \<Rightarrow> ('w, ServiceResource \<times> gerror option) io" where
  "Service_Fetch services_Get d =
     check (services_Get (sr_namespace d) (sr_name d)) \<lparr>so_NodePorts = []\<rparr> (\<lambda>err s.
       ret (d\<lparr>sr_service := Some s\<rparr>, wrapf_opt err ''Couldn't get service %s'' [Str (sr_name d)]))"

definition Service_Category :: "ServiceResource \<Rightarrow> string" where "Service_Category d = sr_category d"
definition Service_Name :: "ServiceResource \<Rightarrow> string" where "Service_Name d = sr_name d"

section \<open>Properties\<close>

text \<open>
  The ports cannot be asked for before the first fetch; after one that failed they are none, which looks
  like a service without ports.
\<close>

lemma Service_NodePorts_before_fetch: "Service_NodePorts (NewService c n ns) = Panic nil_dereference"
  by (simp add: Service_NodePorts_def NewService_def)

lemma Service_NodePorts_failed_fetch:
  assumes "g (sr_namespace d) (sr_name d) w = (Err e, w')"
  shows "\<exists>d'. Service_Fetch g d w = (Ok (d', Some (Wrapf e ''Couldn't get service %s'' [Str (sr_name d)])), w') \<and>
    Service_NodePorts d' = Ok [] \<and> Service_Name d' = Service_Name d \<and> Service_Category d' = Service_Category d"
  using assms by (simp add: Service_Fetch_def Service_NodePorts_def Service_Name_def Service_Category_def wrapf_opt_def)

end
