(* ===== verification/Deep_Copy.thy ===== *)
theory Deep_Copy
  imports Prelude
begin

text \<open>
  The generated deep copies of the custom resources (api/v1alpha1/zz\_generated.deepcopy.go), over
  an explicit store. A Go value is a leaf (string, integer, boolean), a struct with its named
  fields inline, or a reference into the store: a slice (array, offset and length), a map or a
  pointer. The store is the list of its cells, an address is a position in it, and an allocation
  appends a cell. A \<open>DeepCopyInto\<close> is a function from the value that \<open>in\<close> points to and the store
  to the value it writes through \<open>out\<close> and the store it leaves; \<open>out\<close> is a location that nothing
  else refers to, as at every call in the code (a new object, an element of a new array or a field
  of one of these). The deep copies of \<open>ObjectMeta\<close> and \<open>ListMeta\<close>, which are apimachinery's, and
  the types they copy are parameters.
\<close>

section \<open>Go values and the store\<close>

datatype gval =
    VNil
  | VStr string
  | VInt int
  | VBool bool
  | VStruct "(string \<times> gval) list"
  | VSlice nat nat nat
  | VMap nat
  | VPtr nat

datatype gcell = Arr "gval list" | Mp "(string \<times> string) list"

type_synonym store = "gcell list"

type_synonym copier = "gval \<Rightarrow> store \<Rightarrow> gval \<times> store"

datatype gtype =
    TStr
  | TInt
  | TBool
  | TStruct "(string \<times> gtype) list"
  | TSlice gtype
  | TMap
  | TPtr gtype

definition is_array :: "store \<Rightarrow> nat \<Rightarrow> bool" where
  "is_array h a = (a < length h \<and> (case h ! a of Arr _ \<Rightarrow> True | Mp _ \<Rightarrow> False))"

definition array_at :: "store \<Rightarrow> nat \<Rightarrow> gval list" where
  "array_at h a = (case h ! a of Arr xs \<Rightarrow> xs | Mp _ \<Rightarrow> [])"

definition is_map :: "store \<Rightarrow> nat \<Rightarrow> bool" where
  "is_map h a = (a < length h \<and> (case h ! a of Arr _ \<Rightarrow> False | Mp m \<Rightarrow> distinct (List.map fst m)))"

definition map_at :: "store \<Rightarrow> nat \<Rightarrow> (string \<times> string) list" where
  "map_at h a = (case h ! a of Arr _ \<Rightarrow> [] | Mp m \<Rightarrow> m)"

abbreviation elems :: "store \<Rightarrow> nat \<Rightarrow> nat \<Rightarrow> nat \<Rightarrow> gval list" where
  "elems h a k n \<equiv> take n (drop k (array_at h a))"

section \<open>Types, contents and reachable addresses\<close>

lemma size_field:
  "(m, T) \<in> set fs \<Longrightarrow> size T < Suc (size_list (size_prod (\<lambda>_. 0) size) fs)"
  by (induction fs) auto

lemma size_zip_field:
  "((m, T), y) \<in> set (zip fs gs) \<Longrightarrow> size T < Suc (size_list (size_prod (\<lambda>_. 0) size) fs)"
  by (auto dest!: set_zip_leftD intro: size_field)

lemmas size_fields = size_field size_zip_field

text \<open>
  A value of a type in a store: its references point to cells of the right kind that hold values of
  the right types. Nothing here follows a cycle, and the types of the repository have none.
\<close>

function (sequential) typed :: "gtype \<Rightarrow> store \<Rightarrow> gval \<Rightarrow> bool" where
  "typed TStr h v = (case v of VStr _ \<Rightarrow> True | _ \<Rightarrow> False)"
| "typed TInt h v = (case v of VInt _ \<Rightarrow> True | _ \<Rightarrow> False)"
| "typed TBool h v = (case v of VBool _ \<Rightarrow> True | _ \<Rightarrow> False)"
| "typed (TStruct fs) h v = (case v of
      VStruct gs \<Rightarrow> List.map fst gs = List.map fst fs \<and>
        (\<forall>((m, T), (m', x)) \<in> set (zip fs gs). typed T h x)
    | _ \<Rightarrow> False)"
| "typed (TSlice T) h v = (case v of
      VNil \<Rightarrow> True
    | VSlice a k n \<Rightarrow> is_array h a \<and> k + n \<le> length (array_at h a) \<and>
        (\<forall>x \<in> set (elems h a k n). typed T h x)
    | _ \<Rightarrow> False)"
| "typed TMap h v = (case v of VNil \<Rightarrow> True | VMap a \<Rightarrow> is_map h a | _ \<Rightarrow> False)"
| "typed (TPtr T) h v = (case v of
      VNil \<Rightarrow> True
    | VPtr a \<Rightarrow> is_array h a \<and> length (array_at h a) = 1 \<and> typed T h (hd (array_at h a))
    | _ \<Rightarrow> False)"
  by pat_completeness auto

termination typed
  by (relation "measure (\<lambda>(T, h, v). size T)") (auto simp: size_fields)

text \<open>What a value means, whatever the addresses are: a nil slice is not an empty one.\<close>

datatype gcontent =
    CNil
  | CLeaf gval
  | CStruct "(string \<times> gcontent) list"
  | CSlice "gcontent list"
  | CMap "string \<rightharpoonup> string"
  | CPtr gcontent

function (sequential) content :: "gtype \<Rightarrow> store \<Rightarrow> gval \<Rightarrow> gcontent" where
  "content (TStruct fs) h v = (case v of
      VStruct gs \<Rightarrow> CStruct (List.map (\<lambda>((m, T), (m', x)). (m, content T h x)) (zip fs gs))
    | _ \<Rightarrow> CNil)"
| "content (TSlice T) h v = (case v of
      VSlice a k n \<Rightarrow> CSlice (List.map (content T h) (elems h a k n))
    | _ \<Rightarrow> CNil)"
| "content TMap h v = (case v of VMap a \<Rightarrow> CMap (map_of (map_at h a)) | _ \<Rightarrow> CNil)"
| "content (TPtr T) h v = (case v of VPtr a \<Rightarrow> CPtr (content T h (hd (array_at h a))) | _ \<Rightarrow> CNil)"
| "content _ h v = CLeaf v"
  by pat_completeness auto

termination content
  by (relation "measure (\<lambda>(T, h, v). size T)") (auto simp: size_fields)

text \<open>The addresses a value reaches, once for every way it reaches them.\<close>

function (sequential) refs :: "gtype \<Rightarrow> store \<Rightarrow> gval \<Rightarrow> nat list" where
  "refs (TStruct fs) h v = (case v of
      VStruct gs \<Rightarrow> concat (List.map (\<lambda>((m, T), (m', x)). refs T h x) (zip fs gs))
    | _ \<Rightarrow> [])"
| "refs (TSlice T) h v = (case v of
      VSlice a k n \<Rightarrow> a # concat (List.map (refs T h) (elems h a k n))
    | _ \<Rightarrow> [])"
| "refs TMap h v = (case v of VMap a \<Rightarrow> [a] | _ \<Rightarrow> [])"
| "refs (TPtr T) h v = (case v of VPtr a \<Rightarrow> a # refs T h (hd (array_at h a)) | _ \<Rightarrow> [])"
| "refs _ h v = []"
  by pat_completeness auto

termination refs
  by (relation "measure (\<lambda>(T, h, v). size T)") (auto simp: size_fields)

text \<open>The types whose values hold no reference, which an assignment copies whole.\<close>

function (sequential) flat :: "gtype \<Rightarrow> bool" where
  "flat (TStruct fs) = (\<forall>(m, T) \<in> set fs. flat T)"
| "flat (TSlice _) = False"
| "flat TMap = False"
| "flat (TPtr _) = False"
| "flat _ = True"
  by pat_completeness auto

termination flat
  by (relation "measure size") (auto simp: size_fields)

function (sequential) zero_of :: "gtype \<Rightarrow> gval" where
  "zero_of TStr = VStr []"
| "zero_of TInt = VInt 0"
| "zero_of TBool = VBool False"
| "zero_of (TStruct fs) = VStruct (List.map (\<lambda>(m, T). (m, zero_of T)) fs)"
| "zero_of _ = VNil"
  by pat_completeness auto

termination zero_of
  by (relation "measure size") (auto simp: size_fields)

section \<open>The statements of the generated code\<close>

text \<open>\<open>out.F = in.F\<close>, as part of \<open>*out = *in\<close> or on its own.\<close>

definition assign :: copier where
  "assign v h = (v, h)"

text \<open>
  \<open>make([]T, n)\<close>, \<open>new(T)\<close>, element reads and writes, Go's \<open>copy\<close> of two slices.
\<close>

definition make_slice :: "gtype \<Rightarrow> nat \<Rightarrow> store \<Rightarrow> gval \<times> store" where
  "make_slice T n h = (VSlice (length h) 0 n, h @ [Arr (replicate n (zero_of T))])"

definition new_object :: "gtype \<Rightarrow> store \<Rightarrow> gval \<times> store" where
  "new_object T h = (VPtr (length h), h @ [Arr [zero_of T]])"

definition slice_len :: "gval \<Rightarrow> nat" where
  "slice_len v = (case v of VSlice _ _ n \<Rightarrow> n | _ \<Rightarrow> 0)"

definition slice_get :: "gval \<Rightarrow> nat \<Rightarrow> store \<Rightarrow> gval" where
  "slice_get v i h = (case v of VSlice a k _ \<Rightarrow> array_at h a ! (k + i) | _ \<Rightarrow> VNil)"

definition slice_put :: "gval \<Rightarrow> nat \<Rightarrow> gval \<Rightarrow> store \<Rightarrow> store" where
  "slice_put v i x h = (case v of VSlice a k _ \<Rightarrow> h[a := Arr ((array_at h a)[k + i := x])] | _ \<Rightarrow> h)"

definition copy_elems :: "gval \<Rightarrow> gval \<Rightarrow> store \<Rightarrow> store" where
  "copy_elems out inn h =
     foldl (\<lambda>g i. slice_put out i (slice_get inn i h) g) h [0..<min (slice_len out) (slice_len inn)]"

definition pointee :: "gval \<Rightarrow> store \<Rightarrow> gval" where
  "pointee p h = (case p of VPtr a \<Rightarrow> hd (array_at h a) | _ \<Rightarrow> VNil)"

definition set_pointee :: "gval \<Rightarrow> gval \<Rightarrow> store \<Rightarrow> store" where
  "set_pointee p x h = (case p of VPtr a \<Rightarrow> h[a := Arr [x]] | _ \<Rightarrow> h)"

text \<open>
  The block of a slice of plain values (\<open>if in.F != nil \{ make; copy \}\<close>), of a slice
  whose elements are deep-copied in a loop, and of a map of strings.
\<close>

definition copy_slice :: "gtype \<Rightarrow> copier" where
  "copy_slice T v h =
     (if v = VNil then (v, h)
      else let (out, h1) = make_slice T (slice_len v) h in (out, copy_elems out v h1))"

definition copy_each :: "gtype \<Rightarrow> copier \<Rightarrow> copier" where
  "copy_each T into v h =
     (if v = VNil then (v, h)
      else let (out, h1) = make_slice T (slice_len v) h in
        (out, foldl (\<lambda>g i. let (x, g1) = into (slice_get v i g) g in slice_put out i x g1)
                h1 [0..<slice_len v]))"

definition copy_map :: copier where
  "copy_map v h = (case v of
      VMap a \<Rightarrow>
        (VMap (length h),
         foldl (\<lambda>g (key, val). g[length h := Mp (AList.update key val (map_at g (length h)))])
           (h @ [Mp []]) (map_at h a))
    | _ \<Rightarrow> (v, h))"

text \<open>
  The body of a \<open>DeepCopyInto\<close>: \<open>*out = *in\<close>, then one statement for each listed field, from the
  field of \<open>in\<close> to the field of \<open>out\<close>.
\<close>

definition get_field :: "string \<Rightarrow> gval \<Rightarrow> gval" where
  "get_field m v = (case v of VStruct gs \<Rightarrow> (case map_of gs m of Some x \<Rightarrow> x | None \<Rightarrow> VNil) | _ \<Rightarrow> VNil)"

definition set_field :: "string \<Rightarrow> gval \<Rightarrow> gval \<Rightarrow> gval" where
  "set_field m x v = (case v of VStruct gs \<Rightarrow> VStruct (AList.update m x gs) | _ \<Rightarrow> v)"

definition into_fields :: "(string \<times> copier) list \<Rightarrow> copier" where
  "into_fields cs inn h =
     foldl (\<lambda>(out, g) (m, c). let (x, g1) = c (get_field m inn) g in (set_field m x out, g1)) (inn, h) cs"

text \<open>The body of a \<open>DeepCopy\<close>, with nil for nil, and of a \<open>DeepCopyObject\<close>.\<close>

definition copy_pointer :: "gtype \<Rightarrow> copier \<Rightarrow> copier" where
  "copy_pointer T into inn h =
     (if inn = VNil then (VNil, h)
      else let (out, h1) = new_object T h; (x, h2) = into (pointee inn h1) h1
           in (out, set_pointee out x h2))"

definition copy_object :: "copier \<Rightarrow> copier" where
  "copy_object deep_copy inn h =
     (let (c, h1) = deep_copy inn h in if c \<noteq> VNil then (c, h1) else (VNil, h1))"

section \<open>The types (api/v1alpha1, *\_types.go)\<close>

definition TypeMetaT :: gtype where
  "TypeMetaT = TStruct [(''Kind'', TStr), (''APIVersion'', TStr)]"

definition GenerateSecretT :: gtype where
  "GenerateSecretT = TStruct [(''Format'', TStr), (''Bytes'', TInt), (''Bits'', TInt)]"

definition ParameterSpecT :: gtype where
  "ParameterSpecT = TStruct [(''Name'', TStr), (''Value'', TStr), (''GenerateSecret'', GenerateSecretT)]"

definition StatusListT :: gtype where
  "StatusListT = TStruct [(''Endpoint'', TStr), (''ExpectedCode'', TStr)]"

definition ImageSpecT :: gtype where
  "ImageSpecT = TStruct [(''Image'', TStr), (''Scheme'', TStr)]"

definition ParameterDefinitionSpecT :: gtype where
  "ParameterDefinitionSpecT = TStruct [(''Name'', TStr), (''Default'', TStr), (''Description'', TStr), (''Required'', TBool),
      (''GenerateSecret'', GenerateSecretT)]"

definition OutputDefinitionSpecT :: gtype where
  "OutputDefinitionSpecT = TStruct [(''Name'', TStr), (''Description'', TStr)]"

definition ResourceT :: gtype where
  "ResourceT = TStruct [(''Name'', TStr), (''Category'', TStr), (''Type'', TStr)]"

definition SourceInfoT :: gtype where
  "SourceInfoT = TStruct [(''Name'', TStr), (''Section'', TStr), (''Release'', TStr)]"

definition FlavorSpecT :: gtype where
  "FlavorSpecT = TStruct [(''Name'', TStr), (''StatefulQuorumReplicas'', TInt),
      (''StatefulReplicationReplicas'', TInt), (''StatelessReplicas'', TInt),
      (''AntiAffinity'', TStr), (''MinimumNodes'', TInt)]"

definition ApplicationStatusT :: gtype where
  "ApplicationStatusT = TStruct []"

definition FlavorStatusT :: gtype where
  "FlavorStatusT = TStruct []"

definition InstallStatusT :: gtype where
  "InstallStatusT = TStruct []"

definition ManifestStatusT :: gtype where
  "ManifestStatusT = TStruct []"

definition RegistryStatusT :: gtype where
  "RegistryStatusT = TStruct []"

definition SourceStatusT :: gtype where
  "SourceStatusT = TStruct []"

definition ProvidesListT :: gtype where
  "ProvidesListT = TStruct [(''Name'', TStr), (''Outputs'', TSlice OutputDefinitionSpecT)]"

definition RequiresListT :: gtype where
  "RequiresListT = TStruct [(''Name'', TStr), (''Suffix'', TStr), (''Parameters'', TSlice ParameterSpecT)]"

definition ApplicationSpecT :: gtype where
  "ApplicationSpecT = TStruct [(''Name'', TStr), (''Version'', TStr), (''DockerRegistry'', TStr),
      (''DeployImage'', TStr), (''Images'', TSlice ImageSpecT),
      (''ParameterDefinitions'', TSlice ParameterDefinitionSpecT),
      (''Provides'', TSlice ProvidesListT), (''Requires'', TSlice RequiresListT),
      (''Resources'', TSlice ResourceT), (''Status'', TSlice StatusListT)]"

definition InstallSpecT :: gtype where
  "InstallSpecT = TStruct [(''Application'', TStr), (''Version'', TStr), (''Suffix'', TStr),
      (''DeployImage'', TStr), (''Flavor'', TStr), (''DockerRegistry'', TStr),
      (''Parameters'', TSlice ParameterSpecT), (''Secrets'', TSlice ParameterSpecT)]"

definition BundleSpecT :: gtype where
  "BundleSpecT = TStruct [(''Name'', TStr), (''Version'', TStr), (''Parameters'', TSlice ParameterSpecT),
      (''Requires'', TSlice RequiresListT)]"

definition ManifestSpecT :: gtype where
  "ManifestSpecT = TStruct [(''Flavor'', TStr), (''Registry'', TStr), (''Sources'', TSlice SourceInfoT),
      (''Bundles'', TSlice BundleSpecT), (''CPU'', TStr), (''Memory'', TStr)]"

definition RegistrySpecT :: gtype where
  "RegistrySpecT = TStruct [(''Image'', TStr), (''Flavor'', TStr), (''NodeSelector'', TMap), (''HostPath'', TStr)]"

definition SourceSpecT :: gtype where
  "SourceSpecT = TStruct [(''Type'', TStr), (''Path'', TStr), (''Options'', TMap)]"

definition ResourceListT :: gtype where
  "ResourceListT = TSlice ResourceT"

definition ApplicationT :: "gtype \<Rightarrow> gtype" where
  "ApplicationT OM = TStruct [(''TypeMeta'', TypeMetaT), (''ObjectMeta'', OM), (''Spec'', ApplicationSpecT),
      (''Status'', ApplicationStatusT)]"

definition ApplicationListT :: "gtype \<Rightarrow> gtype \<Rightarrow> gtype" where
  "ApplicationListT OM LM = TStruct [(''TypeMeta'', TypeMetaT), (''ListMeta'', LM), (''Items'', TSlice (ApplicationT OM))]"

definition FlavorT :: "gtype \<Rightarrow> gtype" where
  "FlavorT OM = TStruct [(''TypeMeta'', TypeMetaT), (''ObjectMeta'', OM), (''Spec'', FlavorSpecT),
      (''Status'', FlavorStatusT)]"

definition FlavorListT :: "gtype \<Rightarrow> gtype \<Rightarrow> gtype" where
  "FlavorListT OM LM = TStruct [(''TypeMeta'', TypeMetaT), (''ListMeta'', LM), (''Items'', TSlice (FlavorT OM))]"

definition InstallT :: "gtype \<Rightarrow> gtype" where
  "InstallT OM = TStruct [(''TypeMeta'', TypeMetaT), (''ObjectMeta'', OM), (''Spec'', InstallSpecT),
      (''Status'', InstallStatusT)]"

definition InstallListT :: "gtype \<Rightarrow> gtype \<Rightarrow> gtype" where
  "InstallListT OM LM = TStruct [(''TypeMeta'', TypeMetaT), (''ListMeta'', LM), (''Items'', TSlice (InstallT OM))]"

definition ManifestT :: "gtype \<Rightarrow> gtype" where
  "ManifestT OM = TStruct [(''TypeMeta'', TypeMetaT), (''ObjectMeta'', OM), (''Spec'', ManifestSpecT),
      (''Status'', ManifestStatusT)]"

definition ManifestListT :: "gtype \<Rightarrow> gtype \<Rightarrow> gtype" where
  "ManifestListT OM LM = TStruct [(''TypeMeta'', TypeMetaT), (''ListMeta'', LM), (''Items'', TSlice (ManifestT OM))]"

definition RegistryT :: "gtype \<Rightarrow> gtype" where
  "RegistryT OM = TStruct [(''TypeMeta'', TypeMetaT), (''ObjectMeta'', OM), (''Spec'', RegistrySpecT),
      (''Status'', RegistryStatusT)]"

definition RegistryListT :: "gtype \<Rightarrow> gtype \<Rightarrow> gtype" where
  "RegistryListT OM LM = TStruct [(''TypeMeta'', TypeMetaT), (''ListMeta'', LM), (''Items'', TSlice (RegistryT OM))]"

definition SourceT :: "gtype \<Rightarrow> gtype" where
  "SourceT OM = TStruct [(''TypeMeta'', TypeMetaT), (''ObjectMeta'', OM), (''Spec'', SourceSpecT),
      (''Status'', SourceStatusT)]"

definition SourceListT :: "gtype \<Rightarrow> gtype \<Rightarrow> gtype" where
  "SourceListT OM LM = TStruct [(''TypeMeta'', TypeMetaT), (''ListMeta'', LM), (''Items'', TSlice (SourceT OM))]"

section \<open>The deep copies of the values\<close>

definition GenerateSecret_DeepCopyInto :: copier where
  "GenerateSecret_DeepCopyInto = into_fields []"

definition GenerateSecret_DeepCopy :: copier where
  "GenerateSecret_DeepCopy = copy_pointer GenerateSecretT GenerateSecret_DeepCopyInto"

definition ParameterSpec_DeepCopyInto :: copier where
  "ParameterSpec_DeepCopyInto = into_fields [(''GenerateSecret'', assign)]"

definition ParameterSpec_DeepCopy :: copier where
  "ParameterSpec_DeepCopy = copy_pointer ParameterSpecT ParameterSpec_DeepCopyInto"

definition StatusList_DeepCopyInto :: copier where
  "StatusList_DeepCopyInto = into_fields []"

definition StatusList_DeepCopy :: copier where
  "StatusList_DeepCopy = copy_pointer StatusListT StatusList_DeepCopyInto"

definition ImageSpec_DeepCopyInto :: copier where
  "ImageSpec_DeepCopyInto = into_fields []"

definition ImageSpec_DeepCopy :: copier where
  "ImageSpec_DeepCopy = copy_pointer ImageSpecT ImageSpec_DeepCopyInto"

definition ParameterDefinitionSpec_DeepCopyInto :: copier where
  "ParameterDefinitionSpec_DeepCopyInto = into_fields [(''GenerateSecret'', assign)]"

definition ParameterDefinitionSpec_DeepCopy :: copier where
  "ParameterDefinitionSpec_DeepCopy = copy_pointer ParameterDefinitionSpecT ParameterDefinitionSpec_DeepCopyInto"

definition OutputDefinitionSpec_DeepCopyInto :: copier where
  "OutputDefinitionSpec_DeepCopyInto = into_fields []"

definition OutputDefinitionSpec_DeepCopy :: copier where
  "OutputDefinitionSpec_DeepCopy = copy_pointer OutputDefinitionSpecT OutputDefinitionSpec_DeepCopyInto"

definition Resource_DeepCopyInto :: copier where
  "Resource_DeepCopyInto = into_fields []"

definition Resource_DeepCopy :: copier where
  "Resource_DeepCopy = copy_pointer ResourceT Resource_DeepCopyInto"

definition SourceInfo_DeepCopyInto :: copier where
  "SourceInfo_DeepCopyInto = into_fields []"

definition SourceInfo_DeepCopy :: copier where
  "SourceInfo_DeepCopy = copy_pointer SourceInfoT SourceInfo_DeepCopyInto"

definition FlavorSpec_DeepCopyInto :: copier where
  "FlavorSpec_DeepCopyInto = into_fields []"

definition FlavorSpec_DeepCopy :: copier where
  "FlavorSpec_DeepCopy = copy_pointer FlavorSpecT FlavorSpec_DeepCopyInto"

definition ApplicationStatus_DeepCopyInto :: copier where
  "ApplicationStatus_DeepCopyInto = into_fields []"

definition ApplicationStatus_DeepCopy :: copier where
  "ApplicationStatus_DeepCopy = copy_pointer ApplicationStatusT ApplicationStatus_DeepCopyInto"

definition FlavorStatus_DeepCopyInto :: copier where
  "FlavorStatus_DeepCopyInto = into_fields []"

definition FlavorStatus_DeepCopy :: copier where
  "FlavorStatus_DeepCopy = copy_pointer FlavorStatusT FlavorStatus_DeepCopyInto"

definition InstallStatus_DeepCopyInto :: copier where
  "InstallStatus_DeepCopyInto = into_fields []"

definition InstallStatus_DeepCopy :: copier where
  "InstallStatus_DeepCopy = copy_pointer InstallStatusT InstallStatus_DeepCopyInto"

definition ManifestStatus_DeepCopyInto :: copier where
  "ManifestStatus_DeepCopyInto = into_fields []"

definition ManifestStatus_DeepCopy :: copier where
  "ManifestStatus_DeepCopy = copy_pointer ManifestStatusT ManifestStatus_DeepCopyInto"

definition RegistryStatus_DeepCopyInto :: copier where
  "RegistryStatus_DeepCopyInto = into_fields []"

definition RegistryStatus_DeepCopy :: copier where
  "RegistryStatus_DeepCopy = copy_pointer RegistryStatusT RegistryStatus_DeepCopyInto"

definition SourceStatus_DeepCopyInto :: copier where
  "SourceStatus_DeepCopyInto = into_fields []"

definition SourceStatus_DeepCopy :: copier where
  "SourceStatus_DeepCopy = copy_pointer SourceStatusT SourceStatus_DeepCopyInto"

definition ProvidesList_DeepCopyInto :: copier where
  "ProvidesList_DeepCopyInto = into_fields [
     (''Outputs'', copy_slice OutputDefinitionSpecT)]"

definition ProvidesList_DeepCopy :: copier where
  "ProvidesList_DeepCopy = copy_pointer ProvidesListT ProvidesList_DeepCopyInto"

definition RequiresList_DeepCopyInto :: copier where
  "RequiresList_DeepCopyInto = into_fields [
     (''Parameters'', copy_slice ParameterSpecT)]"

definition RequiresList_DeepCopy :: copier where
  "RequiresList_DeepCopy = copy_pointer RequiresListT RequiresList_DeepCopyInto"

definition ApplicationSpec_DeepCopyInto :: copier where
  "ApplicationSpec_DeepCopyInto = into_fields [
     (''Images'', copy_slice ImageSpecT),
     (''ParameterDefinitions'', copy_slice ParameterDefinitionSpecT),
     (''Provides'', copy_each ProvidesListT ProvidesList_DeepCopyInto),
     (''Requires'', copy_each RequiresListT RequiresList_DeepCopyInto),
     (''Resources'', copy_slice ResourceT), (''Status'', copy_slice StatusListT)]"

definition ApplicationSpec_DeepCopy :: copier where
  "ApplicationSpec_DeepCopy = copy_pointer ApplicationSpecT ApplicationSpec_DeepCopyInto"

definition InstallSpec_DeepCopyInto :: copier where
  "InstallSpec_DeepCopyInto = into_fields [
     (''Parameters'', copy_slice ParameterSpecT), (''Secrets'', copy_slice ParameterSpecT)]"

definition InstallSpec_DeepCopy :: copier where
  "InstallSpec_DeepCopy = copy_pointer InstallSpecT InstallSpec_DeepCopyInto"

definition BundleSpec_DeepCopyInto :: copier where
  "BundleSpec_DeepCopyInto = into_fields [
     (''Parameters'', copy_slice ParameterSpecT),
     (''Requires'', copy_each RequiresListT RequiresList_DeepCopyInto)]"

definition BundleSpec_DeepCopy :: copier where
  "BundleSpec_DeepCopy = copy_pointer BundleSpecT BundleSpec_DeepCopyInto"

definition ManifestSpec_DeepCopyInto :: copier where
  "ManifestSpec_DeepCopyInto = into_fields [
     (''Sources'', copy_slice SourceInfoT),
     (''Bundles'', copy_each BundleSpecT BundleSpec_DeepCopyInto)]"

definition ManifestSpec_DeepCopy :: copier where
  "ManifestSpec_DeepCopy = copy_pointer ManifestSpecT ManifestSpec_DeepCopyInto"

definition RegistrySpec_DeepCopyInto :: copier where
  "RegistrySpec_DeepCopyInto = into_fields [
     (''NodeSelector'', copy_map)]"

definition RegistrySpec_DeepCopy :: copier where
  "RegistrySpec_DeepCopy = copy_pointer RegistrySpecT RegistrySpec_DeepCopyInto"

definition SourceSpec_DeepCopyInto :: copier where
  "SourceSpec_DeepCopyInto = into_fields [
     (''Options'', copy_map)]"

definition SourceSpec_DeepCopy :: copier where
  "SourceSpec_DeepCopy = copy_pointer SourceSpecT SourceSpec_DeepCopyInto"

text \<open>
  \<open>ResourceList\<close> is itself a slice: \<open>DeepCopyInto\<close> has no test for nil, so it writes an empty
  slice for a nil one, and \<open>DeepCopy\<close> returns what the new pointer holds.
\<close>

definition ResourceList_DeepCopyInto :: copier where
  "ResourceList_DeepCopyInto inn h =
     (let (out, h1) = make_slice ResourceT (slice_len inn) h in (out, copy_elems out inn h1))"

definition ResourceList_DeepCopy :: copier where
  "ResourceList_DeepCopy inn h =
     (if inn = VNil then (VNil, h)
      else let (out, h1) = new_object ResourceListT h; (x, h2) = ResourceList_DeepCopyInto inn h1;
             h3 = set_pointee out x h2
           in (pointee out h3, h3))"

section \<open>The deep copies of the objects and their lists\<close>

definition Application_DeepCopyInto :: "copier \<Rightarrow> copier" where
  "Application_DeepCopyInto meta = into_fields [
     (''TypeMeta'', assign), (''ObjectMeta'', meta),
     (''Spec'', ApplicationSpec_DeepCopyInto), (''Status'', assign)]"

definition Application_DeepCopy :: "gtype \<Rightarrow> copier \<Rightarrow> copier" where
  "Application_DeepCopy OM meta = copy_pointer (ApplicationT OM) (Application_DeepCopyInto meta)"

definition Application_DeepCopyObject :: "gtype \<Rightarrow> copier \<Rightarrow> copier" where
  "Application_DeepCopyObject OM meta = copy_object (Application_DeepCopy OM meta)"

definition ApplicationList_DeepCopyInto :: "gtype \<Rightarrow> copier \<Rightarrow> copier \<Rightarrow> copier" where
  "ApplicationList_DeepCopyInto OM meta lmeta = into_fields [
     (''TypeMeta'', assign), (''ListMeta'', lmeta),
     (''Items'', copy_each (ApplicationT OM) (Application_DeepCopyInto meta))]"

definition ApplicationList_DeepCopy :: "gtype \<Rightarrow> copier \<Rightarrow> gtype \<Rightarrow> copier \<Rightarrow> copier" where
  "ApplicationList_DeepCopy OM meta LM lmeta =
     copy_pointer (ApplicationListT OM LM) (ApplicationList_DeepCopyInto OM meta lmeta)"

definition ApplicationList_DeepCopyObject :: "gtype \<Rightarrow> copier \<Rightarrow> gtype \<Rightarrow> copier \<Rightarrow> copier" where
  "ApplicationList_DeepCopyObject OM meta LM lmeta = copy_object (ApplicationList_DeepCopy OM meta LM lmeta)"

definition Flavor_DeepCopyInto :: "copier \<Rightarrow> copier" where
  "Flavor_DeepCopyInto meta = into_fields [
     (''TypeMeta'', assign), (''ObjectMeta'', meta), (''Spec'', assign),
     (''Status'', assign)]"

definition Flavor_DeepCopy :: "gtype \<Rightarrow> copier \<Rightarrow> copier" where
  "Flavor_DeepCopy OM meta = copy_pointer (FlavorT OM) (Flavor_DeepCopyInto meta)"

definition Flavor_DeepCopyObject :: "gtype \<Rightarrow> copier \<Rightarrow> copier" where
  "Flavor_DeepCopyObject OM meta = copy_object (Flavor_DeepCopy OM meta)"

definition FlavorList_DeepCopyInto :: "gtype \<Rightarrow> copier \<Rightarrow> copier \<Rightarrow> copier" where
  "FlavorList_DeepCopyInto OM meta lmeta = into_fields [
     (''TypeMeta'', assign), (''ListMeta'', lmeta),
     (''Items'', copy_each (FlavorT OM) (Flavor_DeepCopyInto meta))]"

definition FlavorList_DeepCopy :: "gtype \<Rightarrow> copier \<Rightarrow> gtype \<Rightarrow> copier \<Rightarrow> copier" where
  "FlavorList_DeepCopy OM meta LM lmeta =
     copy_pointer (FlavorListT OM LM) (FlavorList_DeepCopyInto OM meta lmeta)"

definition FlavorList_DeepCopyObject :: "gtype \<Rightarrow> copier \<Rightarrow> gtype \<Rightarrow> copier \<Rightarrow> copier" where
  "FlavorList_DeepCopyObject OM meta LM lmeta = copy_object (FlavorList_DeepCopy OM meta LM lmeta)"

definition Install_DeepCopyInto :: "copier \<Rightarrow> copier" where
  "Install_DeepCopyInto meta = into_fields [
     (''TypeMeta'', assign), (''ObjectMeta'', meta), (''Spec'', InstallSpec_DeepCopyInto),
     (''Status'', assign)]"

definition Install_DeepCopy :: "gtype \<Rightarrow> copier \<Rightarrow> copier" where
  "Install_DeepCopy OM meta = copy_pointer (InstallT OM) (Install_DeepCopyInto meta)"

definition Install_DeepCopyObject :: "gtype \<Rightarrow> copier \<Rightarrow> copier" where
  "Install_DeepCopyObject OM meta = copy_object (Install_DeepCopy OM meta)"

definition InstallList_DeepCopyInto :: "gtype \<Rightarrow> copier \<Rightarrow> copier \<Rightarrow> copier" where
  "InstallList_DeepCopyInto OM meta lmeta = into_fields [
     (''TypeMeta'', assign), (''ListMeta'', lmeta),
     (''Items'', copy_each (InstallT OM) (Install_DeepCopyInto meta))]"

definition InstallList_DeepCopy :: "gtype \<Rightarrow> copier \<Rightarrow> gtype \<Rightarrow> copier \<Rightarrow> copier" where
  "InstallList_DeepCopy OM meta LM lmeta =
     copy_pointer (InstallListT OM LM) (InstallList_DeepCopyInto OM meta lmeta)"

definition InstallList_DeepCopyObject :: "gtype \<Rightarrow> copier \<Rightarrow> gtype \<Rightarrow> copier \<Rightarrow> copier" where
  "InstallList_DeepCopyObject OM meta LM lmeta = copy_object (InstallList_DeepCopy OM meta LM lmeta)"

definition Manifest_DeepCopyInto :: "copier \<Rightarrow> copier" where
  "Manifest_DeepCopyInto meta = into_fields [
     (''TypeMeta'', assign), (''ObjectMeta'', meta), (''Spec'', ManifestSpec_DeepCopyInto),
     (''Status'', assign)]"

definition Manifest_DeepCopy :: "gtype \<Rightarrow> copier \<Rightarrow> copier" where
  "Manifest_DeepCopy OM meta = copy_pointer (ManifestT OM) (Manifest_DeepCopyInto meta)"

definition Manifest_DeepCopyObject :: "gtype \<Rightarrow> copier \<Rightarrow> copier" where
  "Manifest_DeepCopyObject OM meta = copy_object (Manifest_DeepCopy OM meta)"

definition ManifestList_DeepCopyInto :: "gtype \<Rightarrow> copier \<Rightarrow> copier \<Rightarrow> copier" where
  "ManifestList_DeepCopyInto OM meta lmeta = into_fields [
     (''TypeMeta'', assign), (''ListMeta'', lmeta),
     (''Items'', copy_each (ManifestT OM) (Manifest_DeepCopyInto meta))]"

definition ManifestList_DeepCopy :: "gtype \<Rightarrow> copier \<Rightarrow> gtype \<Rightarrow> copier \<Rightarrow> copier" where
  "ManifestList_DeepCopy OM meta LM lmeta =
     copy_pointer (ManifestListT OM LM) (ManifestList_DeepCopyInto OM meta lmeta)"

definition ManifestList_DeepCopyObject :: "gtype \<Rightarrow> copier \<Rightarrow> gtype \<Rightarrow> copier \<Rightarrow> copier" where
  "ManifestList_DeepCopyObject OM meta LM lmeta = copy_object (ManifestList_DeepCopy OM meta LM lmeta)"

definition Registry_DeepCopyInto :: "copier \<Rightarrow> copier" where
  "Registry_DeepCopyInto meta = into_fields [
     (''TypeMeta'', assign), (''ObjectMeta'', meta), (''Spec'', RegistrySpec_DeepCopyInto),
     (''Status'', assign)]"

definition Registry_DeepCopy :: "gtype \<Rightarrow> copier \<Rightarrow> copier" where
  "Registry_DeepCopy OM meta = copy_pointer (RegistryT OM) (Registry_DeepCopyInto meta)"

definition Registry_DeepCopyObject :: "gtype \<Rightarrow> copier \<Rightarrow> copier" where
  "Registry_DeepCopyObject OM meta = copy_object (Registry_DeepCopy OM meta)"

definition RegistryList_DeepCopyInto :: "gtype \<Rightarrow> copier \<Rightarrow> copier \<Rightarrow> copier" where
  "RegistryList_DeepCopyInto OM meta lmeta = into_fields [
     (''TypeMeta'', assign), (''ListMeta'', lmeta),
     (''Items'', copy_each (RegistryT OM) (Registry_DeepCopyInto meta))]"

definition RegistryList_DeepCopy :: "gtype \<Rightarrow> copier \<Rightarrow> gtype \<Rightarrow> copier \<Rightarrow> copier" where
  "RegistryList_DeepCopy OM meta LM lmeta =
     copy_pointer (RegistryListT OM LM) (RegistryList_DeepCopyInto OM meta lmeta)"

definition RegistryList_DeepCopyObject :: "gtype \<Rightarrow> copier \<Rightarrow> gtype \<Rightarrow> copier \<Rightarrow> copier" where
  "RegistryList_DeepCopyObject OM meta LM lmeta = copy_object (RegistryList_DeepCopy OM meta LM lmeta)"

definition Source_DeepCopyInto :: "copier \<Rightarrow> copier" where
  "Source_DeepCopyInto meta = into_fields [
     (''TypeMeta'', assign), (''ObjectMeta'', meta), (''Spec'', SourceSpec_DeepCopyInto),
     (''Status'', assign)]"

definition Source_DeepCopy :: "gtype \<Rightarrow> copier \<Rightarrow> copier" where
  "Source_DeepCopy OM meta = copy_pointer (SourceT OM) (Source_DeepCopyInto meta)"

definition Source_DeepCopyObject :: "gtype \<Rightarrow> copier \<Rightarrow> copier" where
  "Source_DeepCopyObject OM meta = copy_object (Source_DeepCopy OM meta)"

definition SourceList_DeepCopyInto :: "gtype \<Rightarrow> copier \<Rightarrow> copier \<Rightarrow> copier" where
  "SourceList_DeepCopyInto OM meta lmeta = into_fields [
     (''TypeMeta'', assign), (''ListMeta'', lmeta),
     (''Items'', copy_each (SourceT OM) (Source_DeepCopyInto meta))]"

definition SourceList_DeepCopy :: "gtype \<Rightarrow> copier \<Rightarrow> gtype \<Rightarrow> copier \<Rightarrow> copier" where
  "SourceList_DeepCopy OM meta LM lmeta =
     copy_pointer (SourceListT OM LM) (SourceList_DeepCopyInto OM meta lmeta)"

definition SourceList_DeepCopyObject :: "gtype \<Rightarrow> copier \<Rightarrow> gtype \<Rightarrow> copier \<Rightarrow> copier" where
  "SourceList_DeepCopyObject OM meta LM lmeta = copy_object (SourceList_DeepCopy OM meta LM lmeta)"

section \<open>All of them\<close>

text \<open>
  The deep copiers of the package with the type each copies. The first group are the
  \<open>DeepCopy\<close> methods of plain values, the second the \<open>DeepCopyObject\<close> methods through which the
  controller-runtime client and its caches copy the custom resources.
\<close>

definition value_copiers :: "(gtype \<times> copier) list" where
  "value_copiers = [
     (TPtr GenerateSecretT, GenerateSecret_DeepCopy),
     (TPtr ParameterSpecT, ParameterSpec_DeepCopy),
     (TPtr StatusListT, StatusList_DeepCopy),
     (TPtr ImageSpecT, ImageSpec_DeepCopy),
     (TPtr ParameterDefinitionSpecT, ParameterDefinitionSpec_DeepCopy),
     (TPtr OutputDefinitionSpecT, OutputDefinitionSpec_DeepCopy),
     (TPtr ResourceT, Resource_DeepCopy),
     (TPtr SourceInfoT, SourceInfo_DeepCopy),
     (TPtr FlavorSpecT, FlavorSpec_DeepCopy),
     (TPtr ApplicationStatusT, ApplicationStatus_DeepCopy),
     (TPtr FlavorStatusT, FlavorStatus_DeepCopy),
     (TPtr InstallStatusT, InstallStatus_DeepCopy),
     (TPtr ManifestStatusT, ManifestStatus_DeepCopy),
     (TPtr RegistryStatusT, RegistryStatus_DeepCopy),
     (TPtr SourceStatusT, SourceStatus_DeepCopy),
     (TPtr ProvidesListT, ProvidesList_DeepCopy),
     (TPtr RequiresListT, RequiresList_DeepCopy),
     (TPtr ApplicationSpecT, ApplicationSpec_DeepCopy),
     (TPtr InstallSpecT, InstallSpec_DeepCopy),
     (TPtr BundleSpecT, BundleSpec_DeepCopy),
     (TPtr ManifestSpecT, ManifestSpec_DeepCopy),
     (TPtr RegistrySpecT, RegistrySpec_DeepCopy),
     (TPtr SourceSpecT, SourceSpec_DeepCopy),
     (ResourceListT, ResourceList_DeepCopy)]"

definition object_copiers :: "gtype \<Rightarrow> copier \<Rightarrow> gtype \<Rightarrow> copier \<Rightarrow> (gtype \<times> copier) list" where
  "object_copiers OM meta LM lmeta = [
     (TPtr (ApplicationT OM), Application_DeepCopyObject OM meta),
     (TPtr (ApplicationListT OM LM), ApplicationList_DeepCopyObject OM meta LM lmeta),
     (TPtr (FlavorT OM), Flavor_DeepCopyObject OM meta),
     (TPtr (FlavorListT OM LM), FlavorList_DeepCopyObject OM meta LM lmeta),
     (TPtr (InstallT OM), Install_DeepCopyObject OM meta),
     (TPtr (InstallListT OM LM), InstallList_DeepCopyObject OM meta LM lmeta),
     (TPtr (ManifestT OM), Manifest_DeepCopyObject OM meta),
     (TPtr (ManifestListT OM LM), ManifestList_DeepCopyObject OM meta LM lmeta),
     (TPtr (RegistryT OM), Registry_DeepCopyObject OM meta),
     (TPtr (RegistryListT OM LM), RegistryList_DeepCopyObject OM meta LM lmeta),
     (TPtr (SourceT OM), Source_DeepCopyObject OM meta),
     (TPtr (SourceListT OM LM), SourceList_DeepCopyObject OM meta LM lmeta)]"

end
