(* ===== verification/Deep_Copy_Laws.thy ===== *)
theory Deep_Copy_Laws
  imports Deep_Copy
begin

text \<open>
  The generated deep copies are deep: the copy of a value has the content of the original, lives in
  cells allocated by the copy alone, reaches each of them in one way, and leaves every cell that was
  there as it was. A combinator lemma for each statement form of the generated code, the locale of
  the deep copiers with the isolation of a copy, and its interpretations at the types of the package.
\<close>

section \<open>The law of a deep copier\<close>

definition deep_copied :: "gtype \<Rightarrow> store \<Rightarrow> gval \<Rightarrow> gval \<times> store \<Rightarrow> bool" where
  "deep_copied T h v r = (case r of (v', h') \<Rightarrow>
     take (length h) h' = h \<and> typed T h' v' \<and> content T h' v' = content T h v \<and>
     distinct (refs T h' v') \<and> (\<forall>a \<in> set (refs T h' v'). length h \<le> a))"

definition deep_copies :: "gtype \<Rightarrow> copier \<Rightarrow> bool" where
  "deep_copies T f \<longleftrightarrow> (\<forall>h v. typed T h v \<longrightarrow> deep_copied T h v (f v h))"

lemma deep_copiesD: "deep_copies T f \<Longrightarrow> typed T h v \<Longrightarrow> deep_copied T h v (f v h)"
  by (simp add: deep_copies_def)

section \<open>Reading in a store that keeps the reachable cells\<close>

lemma take_eq_append: "take (length h) h' = h \<longleftrightarrow> (\<exists>e. h' = h @ e)"
  by (metis append_eq_conv_conj append_take_drop_id)

lemma typed_agree:
  "typed T h v \<Longrightarrow> \<forall>a \<in> set (refs T h v). a < length h' \<and> h' ! a = h ! a \<Longrightarrow>
     typed T h' v \<and> content T h' v = content T h v \<and> refs T h' v = refs T h v"
proof (induction T h v rule: typed.induct)
  case (4 fs h v)
  show ?case
  proof (cases v)
    case (VStruct gs)
    have field: "typed T h' x \<and> content T h' x = content T h x \<and> refs T h' x = refs T h x"
      if "((m, T), (m', x)) \<in> set (zip fs gs)" for m T m' x
      using that "4.prems" VStruct by (intro "4.IH" [OF VStruct that refl refl]) auto
    then show ?thesis
      using "4.prems" VStruct by (auto intro!: arg_cong [where f = concat] map_cong)
  qed (use "4.prems" in auto)
next
  case (5 T h v)
  then show ?case
    by (cases v) (auto simp: is_array_def array_at_def split: gcell.splits
        intro!: arg_cong [where f = concat] map_cong)
next
  case (6 h v)
  then show ?case by (cases v) (auto simp: is_map_def map_at_def)
next
  case (7 T h v)
  then show ?case by (cases v) (auto simp: is_array_def array_at_def split: gcell.splits)
qed (auto split: gval.splits)

lemma refs_bound: "typed T h v \<Longrightarrow> a \<in> set (refs T h v) \<Longrightarrow> a < length h"
proof (induction T h v rule: typed.induct)
  case (4 fs h v)
  then show ?case by (cases v) (fastforce simp: split_beta)+
next
  case (5 T h v)
  then show ?case by (cases v) (auto simp: is_array_def)
next
  case (6 h v)
  then show ?case by (cases v) (auto simp: is_map_def)
next
  case (7 T h v)
  then show ?case by (cases v) (auto simp: is_array_def)
qed auto

text \<open>More cells, or other cells in place of ones out of reach, change nothing a value means.\<close>

lemma typed_append:
  "typed T h v \<Longrightarrow> typed T (h @ e) v \<and> content T (h @ e) v = content T h v \<and> refs T (h @ e) v = refs T h v"
  by (rule typed_agree) (auto simp: nth_append dest: refs_bound)

lemma typed_extend:
  assumes "typed T h v" "take (length h) h' = h"
  shows "typed T h' v \<and> content T h' v = content T h v \<and> refs T h' v = refs T h v"
  using typed_append [OF assms(1)] assms(2) by (auto simp: take_eq_append)

lemma typed_update:
  "typed T h v \<Longrightarrow> a \<notin> set (refs T h v) \<Longrightarrow>
     typed T (h[a := c]) v \<and> content T (h[a := c]) v = content T h v \<and> refs T (h[a := c]) v = refs T h v"
  by (rule typed_agree) (auto dest: refs_bound intro!: nth_list_update_neq)

section \<open>Plain values\<close>

lemma flat_refs: "flat T \<Longrightarrow> refs T h v = []"
proof (induction T arbitrary: v)
  case (TStruct fs)
  then show ?case by (cases v) (fastforce dest: set_zip_leftD)+
qed auto

lemma flat_typed: "flat T \<Longrightarrow> typed T h v \<Longrightarrow> typed T h' v"
  using typed_agree [of T h v h'] by (simp add: flat_refs)

lemma flat_content: "flat T \<Longrightarrow> typed T h v \<Longrightarrow> content T h' v = content T h v"
  using typed_agree [of T h v h'] by (simp add: flat_refs)

lemma assign_deep: "flat T \<Longrightarrow> deep_copies T assign"
  by (simp add: deep_copies_def deep_copied_def assign_def flat_refs)

section \<open>Slices, maps and pointers\<close>

lemma array_at_append [simp]:
  "a < length h \<Longrightarrow> array_at (h @ e) a = array_at h a"
  "array_at (h @ [Arr xs]) (length h) = xs"
  by (simp_all add: array_at_def nth_append)

text \<open>
  The state of a loop that fills the new array, after \<open>i\<close> elements: the old cells are as they
  were, and the elements written so far are deep copies that share nothing with each other.
\<close>

definition filled :: "gtype \<Rightarrow> store \<Rightarrow> gval list \<Rightarrow> nat \<Rightarrow> store \<Rightarrow> bool" where
  "filled T h xs i g = (length h < length g \<and> take (length h) g = h \<and>
     (\<exists>ys. g ! length h = Arr ys \<and> length ys = length xs \<and>
        (\<forall>y \<in> set (take i ys). typed T g y) \<and>
        List.map (content T g) (take i ys) = List.map (content T h) (take i xs) \<and>
        distinct (concat (List.map (refs T g) (take i ys))) \<and>
        (\<forall>a \<in> set (concat (List.map (refs T g) (take i ys))). length h < a)))"

lemma filled_start: "filled T h xs 0 (h @ [Arr (replicate (length xs) z)])"
  by (simp add: filled_def)

lemma filled_done:
  assumes "filled T h xs (length xs) g" "content (TSlice T) h v = CSlice (List.map (content T h) xs)"
  shows "deep_copied (TSlice T) h v (VSlice (length h) 0 (length xs), g)"
proof -
  from assms(1) obtain ys where ys: "length h < length g" "take (length h) g = h" "g ! length h = Arr ys"
      "length ys = length xs" "\<forall>y \<in> set ys. typed T g y"
      "List.map (content T g) ys = List.map (content T h) xs"
      "distinct (concat (List.map (refs T g) ys))"
      "\<forall>a \<in> set (concat (List.map (refs T g) ys)). length h < a"
    by (auto simp: filled_def)
  have el: "elems g (length h) 0 (length xs) = ys"
    using ys(3,4) by (simp add: array_at_def)
  have at: "array_at g (length h) = ys" "is_array g (length h)"
    using ys(1,3) by (simp_all add: array_at_def is_array_def)
  have "typed (TSlice T) g (VSlice (length h) 0 (length xs))"
    using ys(4,5) at el by simp
  moreover have "content (TSlice T) g (VSlice (length h) 0 (length xs)) = content (TSlice T) h v"
    using ys(6) assms(2) el by simp
  moreover have "distinct (refs (TSlice T) g (VSlice (length h) 0 (length xs)))"
      "\<forall>a \<in> set (refs (TSlice T) g (VSlice (length h) 0 (length xs))). length h \<le> a"
    using ys(7,8) el by fastforce+
  ultimately show ?thesis
    using ys(2) by (simp only: deep_copied_def prod.case simp_thms)
qed

lemma filled_step:
  assumes "filled T h xs i g" "i < length xs" "typed T h (xs ! i)" "deep_copied T g (xs ! i) (x, g1)"
  shows "filled T h xs (Suc i) (slice_put (VSlice (length h) 0 n) i x g1)"
proof -
  from assms(1) obtain ys where ys: "length h < length g" "take (length h) g = h" "g ! length h = Arr ys"
      "length ys = length xs" "\<forall>y \<in> set (take i ys). typed T g y"
      "List.map (content T g) (take i ys) = List.map (content T h) (take i xs)"
      "distinct (concat (List.map (refs T g) (take i ys)))"
      "\<forall>a \<in> set (concat (List.map (refs T g) (take i ys))). length h < a"
    by (auto simp: filled_def)
  from assms(4) have x: "take (length g) g1 = g" "typed T g1 x" "content T g1 x = content T g (xs ! i)"
      "distinct (refs T g1 x)" "\<forall>a \<in> set (refs T g1 x). length g \<le> a"
    by (auto simp: deep_copied_def)
  obtain e where e: "g1 = g @ e"
    using x(1) by (auto simp: take_eq_append)
  define g2 where "g2 = g1[length h := Arr (ys[i := x])]"
  have put: "slice_put (VSlice (length h) 0 n) i x g1 = g2"
    using ys(1,3) e by (simp add: slice_put_def g2_def array_at_def nth_append)
  have old: "typed T g2 y \<and> content T g2 y = content T g y \<and> refs T g2 y = refs T g y"
    if "y \<in> set (take i ys)" for y
    using typed_extend [OF _ x(1), of T y] typed_update [of T g1 y "length h" "Arr (ys[i := x])"]
      that ys(5,8) by (force simp: g2_def)
  have new: "typed T g2 x \<and> content T g2 x = content T h (xs ! i) \<and> refs T g2 x = refs T g1 x"
    using typed_update [of T g1 x "length h" "Arr (ys[i := x])"] x(2,3,5) ys(1,2)
      typed_extend [OF assms(3), of g] by (force simp: g2_def)
  have tk: "take (Suc i) (ys[i := x]) = take i ys @ [x]" "take (Suc i) xs = take i xs @ [xs ! i]"
    using assms(2) ys(4) by (simp_all add: take_Suc_conv_app_nth)
  have same: "List.map (refs T g2) (take i ys) = List.map (refs T g) (take i ys)"
      "List.map (content T g2) (take i ys) = List.map (content T g) (take i ys)"
    using old by simp_all
  have below: "\<forall>a \<in> set (concat (List.map (refs T g) (take i ys))). a < length g"
    using ys(5) by (auto dest: refs_bound)
  have "length h < length g2" "take (length h) g2 = h" "g2 ! length h = Arr (ys[i := x])"
    using ys(1,2) e by (simp_all add: g2_def nth_append)
  moreover have "distinct (concat (List.map (refs T g2) (take (Suc i) (ys[i := x]))))"
    using ys(7) x(4,5) below new by (auto simp: tk same) fastforce?
  moreover have "\<forall>a \<in> set (concat (List.map (refs T g2) (take (Suc i) (ys[i := x])))). length h < a"
    using ys(1,8) x(5) new by (auto simp: tk same) fastforce?
  ultimately show ?thesis
    using ys(4,6) old new by (auto simp: filled_def put tk same)
qed

lemma filled_loop:
  assumes "filled T h xs 0 g0" "\<And>i g. i < n \<Longrightarrow> filled T h xs i g \<Longrightarrow> filled T h xs (Suc i) (step g i)"
  shows "filled T h xs n (foldl step g0 [0..<n])"
  using assms(2) by (induction n) (simp_all add: assms(1))

lemma filled_keeps: "filled T h xs i g \<Longrightarrow> take (length h) g = h"
  by (simp add: filled_def)

lemma slice_get_elems:
  assumes "typed (TSlice T) h (VSlice a k n)" "i < n" "take (length h) g = h"
  shows "slice_get (VSlice a k n) i g = elems h a k n ! i"
  using assms by (auto simp: slice_get_def is_array_def take_eq_append)

lemma elems_length: "typed (TSlice T) h (VSlice a k n) \<Longrightarrow> length (elems h a k n) = n"
  by (auto simp: min_def)

lemma elems_typed:
  assumes "typed (TSlice T) h (VSlice a k n)" "i < n"
  shows "typed T h (elems h a k n ! i)"
proof -
  have "elems h a k n ! i \<in> set (elems h a k n)"
    by (rule nth_mem) (simp only: elems_length [OF assms(1)] assms(2))
  then show ?thesis using assms(1) by simp
qed

lemma copy_each_deep:
  assumes "deep_copies T into"
  shows "deep_copies (TSlice T) (copy_each T into)"
  unfolding deep_copies_def
proof (intro allI impI)
  fix h v assume v: "typed (TSlice T) h v"
  show "deep_copied (TSlice T) h v (copy_each T into v h)"
  proof (cases v)
    case VNil
    then show ?thesis by (simp add: copy_each_def deep_copied_def)
  next
    case (VSlice a k n)
    note sl = v [unfolded VSlice]
    define xs where "xs = elems h a k n"
    have len: "length xs = n" using elems_length [OF sl] by (simp add: xs_def)
    define step where "step = (\<lambda>g i. let (x, g1) = into (slice_get v i g) g
       in slice_put (VSlice (length h) 0 n) i x g1)"
    define g0 where "g0 = h @ [Arr (replicate n (zero_of T))]"
    have "filled T h xs n (foldl step g0 [0..<n])"
    proof (rule filled_loop)
      show "filled T h xs 0 g0" using filled_start [of T h xs] by (simp add: g0_def len)
      fix i g assume i: "i < n" and f: "filled T h xs i g"
      have el: "slice_get v i g = xs ! i"
        using slice_get_elems [OF sl i filled_keeps [OF f]] by (simp add: VSlice xs_def)
      have ty: "typed T h (xs ! i)" using elems_typed [OF sl i] by (simp only: xs_def)
      obtain x g1 where r: "into (xs ! i) g = (x, g1)" by fastforce
      have "deep_copied T g (xs ! i) (x, g1)"
        using deep_copiesD [OF assms, of g "xs ! i"] typed_extend [OF ty filled_keeps [OF f]] r by simp
      then show "filled T h xs (Suc i) (step g i)"
        using filled_step [OF f _ ty] i len by (simp add: step_def el r)
    qed
    moreover have "content (TSlice T) h v = CSlice (List.map (content T h) xs)"
      by (simp add: VSlice xs_def)
    ultimately have "deep_copied (TSlice T) h v (VSlice (length h) 0 (length xs), foldl step g0 [0..<n])"
      using filled_done [of T h xs "foldl step g0 [0..<n]" v] by (simp only: len)
    then show ?thesis
      by (simp add: copy_each_def make_slice_def slice_len_def VSlice step_def g0_def len)
  qed (use v in auto)
qed

text \<open>Go's \<open>copy\<close> is the loop whose elements are assigned.\<close>

lemma copy_elems_fills:
  assumes "flat T" "typed (TSlice T) h (VSlice a k n)"
  shows "filled T h (elems h a k n) n
           (copy_elems (VSlice (length h) 0 n) (VSlice a k n) (h @ [Arr (replicate n (zero_of T))]))"
proof -
  let ?g0 = "h @ [Arr (replicate n (zero_of T))]"
  let ?xs = "elems h a k n"
  have len: "length ?xs = n" using elems_length [OF assms(2)] .
  have "filled T h ?xs n (foldl (\<lambda>g i. slice_put (VSlice (length h) 0 n) i
          (slice_get (VSlice a k n) i ?g0) g) ?g0 [0..<n])"
  proof (rule filled_loop)
    show "filled T h ?xs 0 ?g0" using filled_start [of T h ?xs] unfolding len .
    fix i g assume i: "i < n" and f: "filled T h ?xs i g"
    have el: "slice_get (VSlice a k n) i ?g0 = ?xs ! i"
      using slice_get_elems [OF assms(2) i] by simp
    have ty: "typed T h (?xs ! i)" by (rule elems_typed [OF assms(2) i])
    have "deep_copied T g (?xs ! i) (?xs ! i, g)"
      using deep_copiesD [OF assign_deep [OF assms(1)], of g "?xs ! i"]
        typed_extend [OF ty filled_keeps [OF f]] by (simp add: assign_def)
    then show "filled T h ?xs (Suc i) (slice_put (VSlice (length h) 0 n) i (slice_get (VSlice a k n) i ?g0) g)"
      using filled_step [OF f _ ty] i len by (simp add: el)
  qed
  then show ?thesis by (simp add: copy_elems_def slice_len_def)
qed

lemma copy_slice_deep:
  assumes "flat T"
  shows "deep_copies (TSlice T) (copy_slice T)"
  unfolding deep_copies_def
proof (intro allI impI)
  fix h v assume v: "typed (TSlice T) h v"
  show "deep_copied (TSlice T) h v (copy_slice T v h)"
  proof (cases v)
    case VNil
    then show ?thesis by (simp add: copy_slice_def deep_copied_def)
  next
    case (VSlice a k n)
    note sl = v [unfolded VSlice]
    show ?thesis
      using filled_done [of T h "elems h a k n", unfolded elems_length [OF sl], OF copy_elems_fills [OF assms sl]]
      by (simp add: copy_slice_def make_slice_def slice_len_def VSlice)
  qed (use v in auto)
qed

text \<open>A map: the entries go one by one into the new map, which has the same bindings.\<close>

lemma copy_map_fold:
  "foldl (\<lambda>g (key, val). g[length h := Mp (AList.update key val (map_at g (length h)))]) (h @ [Mp m0]) m
     = h @ [Mp (foldl (\<lambda>acc (key, val). AList.update key val acc) m0 m)]"
  by (induction m arbitrary: m0) (auto simp: map_at_def nth_append)

lemma foldl_update_map_of:
  "distinct (List.map fst m) \<Longrightarrow>
     map_of (foldl (\<lambda>acc (key, val). AList.update key val acc) m0 m) = map_of m0 ++ map_of m"
proof (induction m arbitrary: m0)
  case (Cons p m)
  obtain key val where p: "p = (key, val)" by fastforce
  have "map_of m key = None" using Cons.prems by (auto simp: p map_of_eq_None_iff)
  then have "map_of (AList.update key val m0) ++ map_of m = map_of m0 ++ map_of (p # m)"
    by (auto simp: p update_conv' map_add_def fun_eq_iff split: option.splits)
  then show ?case using Cons.IH [of "AList.update key val m0"] Cons.prems by (simp add: p del: map_of.simps)
qed simp

lemma foldl_update_distinct:
  "distinct (List.map fst m0) \<Longrightarrow>
     distinct (List.map fst (foldl (\<lambda>acc (key, val). AList.update key val acc) m0 m))"
  by (induction m arbitrary: m0) (auto simp: distinct_update)

lemma copy_map_deep: "deep_copies TMap copy_map"
  unfolding deep_copies_def
proof (intro allI impI)
  fix h v assume v: "typed TMap h v"
  show "deep_copied TMap h v (copy_map v h)"
  proof (cases v)
    case (VMap a)
    have "distinct (List.map fst (map_at h a))"
      using v VMap by (auto simp: is_map_def map_at_def split: gcell.splits)
    moreover define m where "m = foldl (\<lambda>acc (key, val). AList.update key val acc) [] (map_at h a)"
    ultimately have m: "map_of m = map_of (map_at h a)" "distinct (List.map fst m)"
      using foldl_update_map_of [of "map_at h a" "[]"] foldl_update_distinct [of "[]" "map_at h a"]
      by (simp_all add: m_def)
    have "copy_map v h = (VMap (length h), h @ [Mp m])"
      by (simp add: VMap copy_map_def copy_map_fold m_def)
    moreover have "map_at (h @ [Mp m]) (length h) = m"
      by (simp add: map_at_def)
    ultimately show ?thesis
      using m by (simp add: VMap deep_copied_def is_map_def)
  qed (use v in \<open>simp_all add: copy_map_def deep_copied_def\<close>)
qed

text \<open>A pointer: the copy of the object goes into the new cell.\<close>

lemma copy_pointer_deep:
  assumes "deep_copies T into"
  shows "deep_copies (TPtr T) (copy_pointer T into)"
  unfolding deep_copies_def
proof (intro allI impI)
  fix h p assume p: "typed (TPtr T) h p"
  show "deep_copied (TPtr T) h p (copy_pointer T into p h)"
  proof (cases p)
    case VNil
    then show ?thesis by (simp add: copy_pointer_def deep_copied_def)
  next
    case (VPtr a)
    define v where "v = hd (array_at h a)"
    define h1 where "h1 = h @ [Arr [zero_of T]]"
    have ty: "typed T h v" and a: "a < length h" using p VPtr by (auto simp: v_def is_array_def)
    obtain x h2 where r: "into v h1 = (x, h2)" by fastforce
    have v1: "typed T h1 v" "content T h1 v = content T h v" using typed_append [OF ty] by (simp_all add: h1_def)
    have x: "take (length h1) h2 = h1" "typed T h2 x" "content T h2 x = content T h v"
        "distinct (refs T h2 x)" "\<forall>b \<in> set (refs T h2 x). Suc (length h) \<le> b"
      using deep_copiesD [OF assms v1(1)] r v1(2) by (auto simp: deep_copied_def h1_def)
    obtain e where e: "h2 = h @ Arr [zero_of T] # e"
      using x(1) unfolding take_eq_append by (auto simp: h1_def)
    define h3 where "h3 = h2[length h := Arr [x]]"
    have new: "typed T h3 x \<and> content T h3 x = content T h v \<and> refs T h3 x = refs T h2 x"
      using typed_update [of T h2 x "length h" "Arr [x]"] x(2,3,5) by (force simp: h3_def)
    have cell: "h3 ! length h = Arr [x]" "length h < length h3" "take (length h) h3 = h"
      using e by (simp_all add: h3_def)
    have at: "array_at h3 (length h) = [x]" "is_array h3 (length h)"
      using cell by (simp_all add: array_at_def is_array_def)
    have "deep_copied (TPtr T) h p (VPtr (length h), h3)"
      using x(4,5) new cell(3) at by (force simp: deep_copied_def VPtr v_def)
    moreover have "copy_pointer T into p h = (VPtr (length h), h3)"
      using a r by (simp add: copy_pointer_def new_object_def VPtr pointee_def set_pointee_def h1_def v_def h3_def)
    ultimately show ?thesis by simp
  qed (use p in auto)
qed

lemma copy_object_deep: "deep_copies T f \<Longrightarrow> deep_copies T (copy_object f)"
proof -
  have "copy_object f = f"
    by (auto simp: copy_object_def fun_eq_iff split: prod.splits)
  then show "deep_copies T f \<Longrightarrow> deep_copies T (copy_object f)" by simp
qed

section \<open>Structs\<close>

text \<open>A value of a struct type, read field by field.\<close>

lemma struct_fields:
  "List.map fst gs = List.map fst fs \<Longrightarrow> distinct (List.map fst fs) \<Longrightarrow>
     zip fs gs = List.map (\<lambda>(m, T). ((m, T), (m, get_field m (VStruct gs)))) fs"
proof (induction gs fs rule: list_induct2')
  case (4 g gs f fs)
  obtain m x T where g: "g = (m, x)" "f = (m, T)"
    using "4.prems"(1) by (cases f; cases g) auto
  have "List.map (\<lambda>(m, T). ((m, T), (m, get_field m (VStruct (g # gs))))) fs =
      List.map (\<lambda>(m, T). ((m, T), (m, get_field m (VStruct gs)))) fs"
    using "4.prems"(2) by (intro map_cong refl) (force simp: get_field_def g)
  then show ?case using 4 by (simp add: get_field_def g)
qed simp_all

lemma struct_readings:
  assumes "distinct (List.map fst fs)" "List.map fst gs = List.map fst fs" "v = VStruct gs"
  shows "typed (TStruct fs) h v \<longleftrightarrow> (\<forall>(m, T) \<in> set fs. typed T h (get_field m v))"
    and "content (TStruct fs) h v = CStruct (List.map (\<lambda>(m, T). (m, content T h (get_field m v))) fs)"
    and "refs (TStruct fs) h v = concat (List.map (\<lambda>(m, T). refs T h (get_field m v)) fs)"
  using assms(2) by (auto simp: assms(3) struct_fields [OF assms(2,1)] comp_def split_def)

lemma distinct_fields:
  assumes "distinct (List.map fst fs)" "\<And>m T. (m, T) \<in> set fs \<Longrightarrow> distinct (f m T)"
    "\<And>m T m' T'. (m, T) \<in> set fs \<Longrightarrow> (m', T') \<in> set fs \<Longrightarrow> m \<noteq> m' \<Longrightarrow> set (f m T) \<inter> set (f m' T') = {}"
  shows "distinct (concat (List.map (\<lambda>(m, T). f m T) fs))"
  using assms
proof (induction fs)
  case (Cons p fs)
  obtain m T where p: "p = (m, T)" by fastforce
  have "distinct (concat (List.map (\<lambda>(m, T). f m T) fs))"
  proof (rule Cons.IH)
    show "distinct (List.map fst fs)" using Cons.prems(1) by simp
    show "distinct (f n S)" if "(n, S) \<in> set fs" for n S
      using Cons.prems(2) [of n S] that by simp
    show "set (f n S) \<inter> set (f n' S') = {}"
      if "(n, S) \<in> set fs" "(n', S') \<in> set fs" "n \<noteq> n'" for n S n' S'
      using Cons.prems(3) [of n S n' S'] that by simp
  qed
  moreover have "set (f m T) \<inter> set (f n S) = {}" if "(n, S) \<in> set fs" for n S
    using Cons.prems(1) Cons.prems(3) [of m T n S] that by (force simp: p)
  moreover have "distinct (f m T)" using Cons.prems(2) [of m T] by (simp add: p)
  ultimately show ?case by (auto simp: p)
qed simp

text \<open>
  The state of a \<open>DeepCopyInto\<close> between two statements: the fields in \<open>done\<close> are deep copies that
  share nothing, the others are still the fields of \<open>in\<close>.
\<close>

definition copying :: "(string \<times> gtype) list \<Rightarrow> store \<Rightarrow> gval \<Rightarrow> string set \<Rightarrow> gval \<times> store \<Rightarrow> bool" where
  "copying fs h inn copied r = (case r of (out, g) \<Rightarrow>
     take (length h) g = h \<and> (\<exists>gs. out = VStruct gs \<and> List.map fst gs = List.map fst fs) \<and>
     (\<forall>(m, T) \<in> set fs. if m \<in> copied
        then deep_copied T h (get_field m inn) (get_field m out, g)
        else get_field m out = get_field m inn) \<and>
     (\<forall>(m, T) \<in> set fs. \<forall>(m', T') \<in> set fs. m \<in> copied \<longrightarrow> m' \<in> copied \<longrightarrow> m \<noteq> m' \<longrightarrow>
        set (refs T g (get_field m out)) \<inter> set (refs T' g (get_field m' out)) = {}))"

lemma get_set_field:
  "get_field m' (set_field m x (VStruct gs)) = (if m' = m then x else get_field m' (VStruct gs))"
  by (auto simp: get_field_def set_field_def update_conv')

lemma deep_copied_extend:
  assumes "deep_copied T h v (x, g)" "take (length g) g' = g"
  shows "deep_copied T h v (x, g') \<and> refs T g' x = refs T g x"
proof -
  obtain e e' where "g = h @ e" "g' = g @ e'" using assms by (auto simp: deep_copied_def take_eq_append)
  then show ?thesis
    using assms(1) typed_extend [OF _ assms(2), of T x] by (auto simp: deep_copied_def)
qed

lemma deep_copied_later:
  assumes "deep_copied T g v (x, g')" "typed T h v" "take (length h) g = h"
  shows "deep_copied T h v (x, g')"
proof -
  obtain e e' where "g = h @ e" "g' = g @ e'" using assms(1,3) by (auto simp: deep_copied_def take_eq_append)
  then show ?thesis
    using assms(1) typed_extend [OF assms(2,3)] by (auto simp: deep_copied_def)
qed

lemma copying_fields:
  assumes "copying fs h inn D (out, g)" "(n, S) \<in> set fs"
  shows "if n \<in> D then deep_copied S h (get_field n inn) (get_field n out, g)
         else get_field n out = get_field n inn"
  using assms by (fastforce simp: copying_def)

lemma copying_apart:
  assumes "copying fs h inn D (out, g)" "(n, S) \<in> set fs" "(n', S') \<in> set fs" "n \<in> D" "n' \<in> D" "n \<noteq> n'"
  shows "set (refs S g (get_field n out)) \<inter> set (refs S' g (get_field n' out)) = {}"
  using assms unfolding copying_def by blast

lemma copying_start:
  "typed (TStruct fs) h inn \<Longrightarrow> copying fs h inn {} (inn, h)"
  by (cases inn) (auto simp: copying_def)

lemma copying_step:
  assumes fs: "distinct (List.map fst fs)" and m: "(m, T) \<in> set fs" "m \<notin> D"
    and ty: "typed T h (get_field m inn)" and c: "deep_copies T c"
    and st: "copying fs h inn D (out, g)"
  shows "copying fs h inn (insert m D) (let (x, g1) = c (get_field m inn) g in (set_field m x out, g1))"
proof -
  obtain x g1 where r: "c (get_field m inn) g = (x, g1)" by fastforce
  from st obtain gs where g: "take (length h) g = h" and gs: "out = VStruct gs" "List.map fst gs = List.map fst fs"
    by (auto simp: copying_def)
  note fields = copying_fields [OF st] and apart = copying_apart [OF st]
  have x: "deep_copied T g (get_field m inn) (x, g1)"
    using deep_copiesD [OF c] typed_extend [OF ty g] r by metis
  then have g1: "take (length g) g1 = g" by (simp add: deep_copied_def)
  have x_h: "deep_copied T h (get_field m inn) (x, g1)" by (rule deep_copied_later [OF x ty g])
  have get: "get_field n (set_field m x out) = (if n = m then x else get_field n out)" for n
    by (simp only: gs(1) get_set_field)
  have only: "S = T" if "(m, S) \<in> set fs" for S
    using eq_key_imp_eq_value [OF fs] that m(1) by blast
  have old: "deep_copied S h (get_field n inn) (get_field n out, g1)"
      "refs S g1 (get_field n out) = refs S g (get_field n out)"
      "set (refs S g1 (get_field n out)) \<inter> set (refs T g1 x) = {}"
    if "(n, S) \<in> set fs" "n \<in> D" for n S
  proof -
    have d: "deep_copied S h (get_field n inn) (get_field n out, g)" using fields [OF that(1)] that(2) by simp
    show "deep_copied S h (get_field n inn) (get_field n out, g1)"
      and same: "refs S g1 (get_field n out) = refs S g (get_field n out)"
      using deep_copied_extend [OF d g1] by simp_all
    have "typed S g (get_field n out)" using d by (simp add: deep_copied_def)
    then show "set (refs S g1 (get_field n out)) \<inter> set (refs T g1 x) = {}"
      using x refs_bound by (fastforce simp: same deep_copied_def)
  qed
  have "m \<in> fst ` set fs" "m \<in> fst ` set gs"
    using m(1) gs(2) by (metis fst_conv image_eqI list.set_map)+
  then have out': "\<exists>gs'. set_field m x out = VStruct gs' \<and> List.map fst gs' = List.map fst fs"
    using gs by (intro exI [of _ "AList.update m x gs"]) (simp add: set_field_def update_keys)
  have "take (length h) g1 = h" using x_h by (simp add: deep_copied_def)
  moreover have "if n \<in> insert m D then deep_copied S h (get_field n inn) (get_field n (set_field m x out), g1)
        else get_field n (set_field m x out) = get_field n inn" if "(n, S) \<in> set fs" for n S
    using that fields [OF that] old(1) [OF that] x_h only m(2) by (auto simp: get)
  moreover have "set (refs S g1 (get_field n (set_field m x out))) \<inter>
        set (refs S' g1 (get_field n' (set_field m x out))) = {}"
    if "(n, S) \<in> set fs" "(n', S') \<in> set fs" "n \<in> insert m D" "n' \<in> insert m D" "n \<noteq> n'" for n S n' S'
    using that old [of n S] old [of n' S'] apart [of n S n' S'] only m(2) by (auto simp: get)
  ultimately show ?thesis
    using out' unfolding copying_def r Let_def Ball_def split_paired_All prod.case by blast
qed

text \<open>
  The generated body copies a struct deeply when every statement is a deep copy of its field and
  every field without a statement is plain.
\<close>

definition covers :: "(string \<times> gtype) list \<Rightarrow> (string \<times> copier) list \<Rightarrow> bool" where
  "covers fs cs \<longleftrightarrow> distinct (List.map fst fs) \<and> distinct (List.map fst cs) \<and>
     (\<forall>(m, c) \<in> set cs. \<exists>T. (m, T) \<in> set fs \<and> deep_copies T c) \<and>
     (\<forall>(m, T) \<in> set fs. m \<notin> fst ` set cs \<longrightarrow> flat T)"

lemma copying_all:
  assumes fs: "distinct (List.map fst fs)" and ty: "\<forall>(m, T) \<in> set fs. typed T h (get_field m inn)"
    and cs: "distinct (List.map fst cs)" "\<forall>(m, c) \<in> set cs. \<exists>T. (m, T) \<in> set fs \<and> deep_copies T c"
    and D: "D \<inter> fst ` set cs = {}" and st: "copying fs h inn D (out, g)"
  shows "copying fs h inn (D \<union> fst ` set cs)
     (foldl (\<lambda>(out, g) (m, c). let (x, g1) = c (get_field m inn) g in (set_field m x out, g1)) (out, g) cs)"
  using cs D st
proof (induction cs arbitrary: D out g)
  case (Cons p cs)
  obtain m c where p: "p = (m, c)" by fastforce
  obtain T where m: "(m, T) \<in> set fs" "deep_copies T c" using Cons.prems(2) by (auto simp: p)
  obtain x g1 where r: "c (get_field m inn) g = (x, g1)" by fastforce
  have "copying fs h inn (insert m D) (set_field m x out, g1)"
    using copying_step [OF fs m(1) _ _ m(2) Cons.prems(4)] Cons.prems(3) ty m(1) by (force simp: p r)
  moreover have "insert m D \<inter> fst ` set cs = {}" using Cons.prems(1,3) by (auto simp: p)
  ultimately have "copying fs h inn (insert m D \<union> fst ` set cs)
     (foldl (\<lambda>(out, g) (m, c). let (x, g1) = c (get_field m inn) g in (set_field m x out, g1))
       (set_field m x out, g1) cs)"
    using Cons.prems(1,2) by (intro Cons.IH) auto
  then show ?case by (simp add: p r)
qed simp

lemma into_fields_deep:
  assumes "covers fs cs"
  shows "deep_copies (TStruct fs) (into_fields cs)"
  unfolding deep_copies_def
proof (intro allI impI)
  fix h inn assume inn: "typed (TStruct fs) h inn"
  have fs: "distinct (List.map fst fs)" using assms by (simp add: covers_def)
  obtain gs where gs: "inn = VStruct gs" "List.map fst gs = List.map fst fs"
    using inn by (cases inn) auto
  note read = struct_readings [OF fs gs(2,1), of h]
  obtain out g where r: "into_fields cs inn h = (out, g)" by fastforce
  let ?D = "fst ` set cs"
  have st: "copying fs h inn ?D (out, g)"
    using copying_all [OF fs, of h inn cs "{}" inn h] copying_start [OF inn]
      inn [unfolded read] assms [unfolded covers_def]
    unfolding into_fields_def [symmetric] r by auto
  then obtain gs' where out: "out = VStruct gs'" "List.map fst gs' = List.map fst fs" and g: "take (length h) g = h"
    by (auto simp: copying_def)
  note read' = struct_readings [OF fs out(2,1), of g]
  have field: "deep_copied T h (get_field m inn) (get_field m out, g)" if "(m, T) \<in> set fs" for m T
  proof (cases "m \<in> ?D")
    case True
    then show ?thesis using copying_fields [OF st that] by simp
  next
    case False
    have "flat T" using that False assms by (auto simp: covers_def)
    moreover have "typed T h (get_field m inn)" using inn [unfolded read] that by auto
    ultimately show ?thesis
      using copying_fields [OF st that] False g flat_typed [of T h "get_field m inn" g]
        flat_content [of T h "get_field m inn" g]
      by (simp add: deep_copied_def flat_refs)
  qed
  have apart: "set (refs T g (get_field m out)) \<inter> set (refs T' g (get_field m' out)) = {}"
    if "(m, T) \<in> set fs" "(m', T') \<in> set fs" "m \<noteq> m'" for m T m' T'
  proof (cases "m \<in> ?D \<and> m' \<in> ?D")
    case True
    then show ?thesis using copying_apart [OF st that(1,2)] that(3) by simp
  next
    case False
    then have "flat T \<or> flat T'" using that assms by (auto simp: covers_def)
    then show ?thesis by (auto simp: flat_refs)
  qed
  have "distinct (refs (TStruct fs) g out)"
    unfolding read' using field apart by (intro distinct_fields [OF fs]) (simp_all add: deep_copied_def)
  moreover have "List.map (\<lambda>(m, T). (m, content T g (get_field m out))) fs =
      List.map (\<lambda>(m, T). (m, content T h (get_field m inn))) fs"
    using field by (auto simp: deep_copied_def)
  ultimately show "deep_copied (TStruct fs) h inn (into_fields cs inn h)"
    using field g unfolding r deep_copied_def prod.case read read' by fastforce
qed

section \<open>The locale of the deep copiers\<close>

text \<open>
  What the callers of a \<open>DeepCopy\<close> rely on: whatever is written afterwards into a cell of the copy
  the original does not notice, and the other way round.
\<close>

locale deep_copier =
  fixes T :: gtype and f :: copier
  assumes deep: "deep_copies T f"
begin

lemma copied: "typed T h v \<Longrightarrow> f v h = (v', h') \<Longrightarrow> deep_copied T h v (v', h')"
  using deep_copiesD [OF deep] by metis

lemma same_content: "typed T h v \<Longrightarrow> f v h = (v', h') \<Longrightarrow> content T h' v' = content T h v"
  using copied by (simp add: deep_copied_def)

lemma fresh: "typed T h v \<Longrightarrow> f v h = (v', h') \<Longrightarrow> set (refs T h' v') \<inter> set (refs T h v) = {}"
  using copied refs_bound by (fastforce simp: deep_copied_def)

lemma original_kept:
  assumes "typed T h v" "f v h = (v', h')"
  shows "typed T h' v \<and> content T h' v = content T h v \<and> refs T h' v = refs T h v"
  using typed_extend [OF assms(1), of h'] copied [OF assms] by (simp add: deep_copied_def)

lemma copy_written:
  assumes "typed T h v" "f v h = (v', h')" "a \<in> set (refs T h' v')"
  shows "content T (h'[a := c]) v = content T h v"
proof -
  note kept = original_kept [OF assms(1,2)]
  have "a \<notin> set (refs T h' v)" using fresh [OF assms(1,2)] assms(3) kept by auto
  then show ?thesis using typed_update [of T h' v a c] kept by simp
qed

lemma original_written:
  assumes "typed T h v" "f v h = (v', h')" "a \<in> set (refs T h v)"
  shows "content T (h'[a := c]) v' = content T h v"
proof -
  have "a \<notin> set (refs T h' v')" using fresh [OF assms(1,2)] assms(3) by blast
  then show ?thesis using typed_update [of T h' v' a c] copied [OF assms(1,2)] by (simp add: deep_copied_def)
qed

end

section \<open>The types of the package\<close>


lemma flat_types [simp]:
  "flat TypeMetaT"
  "flat GenerateSecretT"
  "flat ParameterSpecT"
  "flat StatusListT"
  "flat ImageSpecT"
  "flat ParameterDefinitionSpecT"
  "flat OutputDefinitionSpecT"
  "flat ResourceT"
  "flat SourceInfoT"
  "flat FlavorSpecT"
  "flat ApplicationStatusT"
  "flat FlavorStatusT"
  "flat InstallStatusT"
  "flat ManifestStatusT"
  "flat RegistryStatusT"
  "flat SourceStatusT"
  by (simp_all add: TypeMetaT_def GenerateSecretT_def ParameterSpecT_def StatusListT_def ImageSpecT_def ParameterDefinitionSpecT_def OutputDefinitionSpecT_def ResourceT_def SourceInfoT_def FlavorSpecT_def ApplicationStatusT_def FlavorStatusT_def InstallStatusT_def ManifestStatusT_def RegistryStatusT_def SourceStatusT_def)

lemmas deep_rules = assign_deep copy_slice_deep copy_each_deep copy_map_deep copy_pointer_deep copy_object_deep

text \<open>The \<open>DeepCopyInto\<close> of every type. A plain struct has statements for struct fields only.\<close>

lemma plain_into_deep:
  assumes "flat (TStruct fs)" "distinct (List.map fst fs)" "distinct (List.map fst cs)"
    "\<forall>(m, c) \<in> set cs. c = assign \<and> m \<in> fst ` set fs"
  shows "deep_copies (TStruct fs) (into_fields cs)"
proof (rule into_fields_deep, unfold covers_def, intro conjI)
  show "\<forall>(m, c) \<in> set cs. \<exists>T. (m, T) \<in> set fs \<and> deep_copies T c"
    using assms(1,4) assign_deep by fastforce
qed (use assms in auto)

lemma value_into_deep [simp]:
  "deep_copies GenerateSecretT GenerateSecret_DeepCopyInto"
  "deep_copies ParameterSpecT ParameterSpec_DeepCopyInto"
  "deep_copies StatusListT StatusList_DeepCopyInto"
  "deep_copies ImageSpecT ImageSpec_DeepCopyInto"
  "deep_copies ParameterDefinitionSpecT ParameterDefinitionSpec_DeepCopyInto"
  "deep_copies OutputDefinitionSpecT OutputDefinitionSpec_DeepCopyInto"
  "deep_copies ResourceT Resource_DeepCopyInto"
  "deep_copies SourceInfoT SourceInfo_DeepCopyInto"
  "deep_copies FlavorSpecT FlavorSpec_DeepCopyInto"
  "deep_copies ApplicationStatusT ApplicationStatus_DeepCopyInto"
  "deep_copies FlavorStatusT FlavorStatus_DeepCopyInto"
  "deep_copies InstallStatusT InstallStatus_DeepCopyInto"
  "deep_copies ManifestStatusT ManifestStatus_DeepCopyInto"
  "deep_copies RegistryStatusT RegistryStatus_DeepCopyInto"
  "deep_copies SourceStatusT SourceStatus_DeepCopyInto"
  unfolding GenerateSecretT_def GenerateSecret_DeepCopyInto_def
    ParameterSpecT_def ParameterSpec_DeepCopyInto_def
    StatusListT_def StatusList_DeepCopyInto_def
    ImageSpecT_def ImageSpec_DeepCopyInto_def
    ParameterDefinitionSpecT_def ParameterDefinitionSpec_DeepCopyInto_def
    OutputDefinitionSpecT_def OutputDefinitionSpec_DeepCopyInto_def
    ResourceT_def Resource_DeepCopyInto_def
    SourceInfoT_def SourceInfo_DeepCopyInto_def
    FlavorSpecT_def FlavorSpec_DeepCopyInto_def
    ApplicationStatusT_def ApplicationStatus_DeepCopyInto_def
    FlavorStatusT_def FlavorStatus_DeepCopyInto_def
    InstallStatusT_def InstallStatus_DeepCopyInto_def
    ManifestStatusT_def ManifestStatus_DeepCopyInto_def
    RegistryStatusT_def RegistryStatus_DeepCopyInto_def
    SourceStatusT_def SourceStatus_DeepCopyInto_def
  by (rule plain_into_deep; simp)+

lemma ProvidesList_into_deep [simp]: "deep_copies ProvidesListT ProvidesList_DeepCopyInto"
  unfolding ProvidesListT_def ProvidesList_DeepCopyInto_def
  by (rule into_fields_deep) (simp add: covers_def deep_rules)

lemma RequiresList_into_deep [simp]: "deep_copies RequiresListT RequiresList_DeepCopyInto"
  unfolding RequiresListT_def RequiresList_DeepCopyInto_def
  by (rule into_fields_deep) (simp add: covers_def deep_rules)

lemma ApplicationSpec_into_deep [simp]: "deep_copies ApplicationSpecT ApplicationSpec_DeepCopyInto"
  unfolding ApplicationSpecT_def ApplicationSpec_DeepCopyInto_def
  by (rule into_fields_deep) (simp add: covers_def deep_rules)

lemma InstallSpec_into_deep [simp]: "deep_copies InstallSpecT InstallSpec_DeepCopyInto"
  unfolding InstallSpecT_def InstallSpec_DeepCopyInto_def
  by (rule into_fields_deep) (simp add: covers_def deep_rules)

lemma BundleSpec_into_deep [simp]: "deep_copies BundleSpecT BundleSpec_DeepCopyInto"
  unfolding BundleSpecT_def BundleSpec_DeepCopyInto_def
  by (rule into_fields_deep) (simp add: covers_def deep_rules)

lemma ManifestSpec_into_deep [simp]: "deep_copies ManifestSpecT ManifestSpec_DeepCopyInto"
  unfolding ManifestSpecT_def ManifestSpec_DeepCopyInto_def
  by (rule into_fields_deep) (simp add: covers_def deep_rules)

lemma RegistrySpec_into_deep [simp]: "deep_copies RegistrySpecT RegistrySpec_DeepCopyInto"
  unfolding RegistrySpecT_def RegistrySpec_DeepCopyInto_def
  by (rule into_fields_deep) (simp add: covers_def deep_rules)

lemma SourceSpec_into_deep [simp]: "deep_copies SourceSpecT SourceSpec_DeepCopyInto"
  unfolding SourceSpecT_def SourceSpec_DeepCopyInto_def
  by (rule into_fields_deep) (simp add: covers_def deep_rules)

lemma ResourceList_deep [simp]: "deep_copies ResourceListT ResourceList_DeepCopy"
  unfolding deep_copies_def
proof (intro allI impI)
  fix h v assume v: "typed ResourceListT h v"
  show "deep_copied ResourceListT h v (ResourceList_DeepCopy v h)"
  proof (cases "v = VNil")
    case True
    then show ?thesis by (simp add: ResourceList_DeepCopy_def deep_copied_def ResourceListT_def)
  next
    case False
    define h1 where "h1 = h @ [Arr [zero_of ResourceListT]]"
    obtain x h2 where r: "copy_slice ResourceT v h1 = (x, h2)" by fastforce
    have into: "ResourceList_DeepCopyInto v h1 = (x, h2)"
      using False r by (simp add: ResourceList_DeepCopyInto_def copy_slice_def)
    have "typed ResourceListT h1 v" using typed_append [OF v] by (simp add: h1_def)
    then have "deep_copied ResourceListT h1 v (x, h2)"
      using deep_copiesD [OF copy_slice_deep [of ResourceT]] r flat_types by (metis ResourceListT_def)
    then have x: "take (length h1) h2 = h1" "typed ResourceListT h2 x"
        "content ResourceListT h2 x = content ResourceListT h v" "distinct (refs ResourceListT h2 x)"
        "\<forall>a \<in> set (refs ResourceListT h2 x). Suc (length h) \<le> a"
      using typed_append [OF v] by (auto simp: deep_copied_def h1_def)
    obtain e where e: "h2 = h @ Arr [zero_of ResourceListT] # e"
      using x(1) unfolding take_eq_append by (auto simp: h1_def)
    define h3 where "h3 = h2[length h := Arr [x]]"
    have "length h \<notin> set (refs ResourceListT h2 x)" using x(5) by auto
    then have "deep_copied ResourceListT h v (x, h3)"
      using typed_update [of ResourceListT h2 x "length h" "Arr [x]"] x(2-5)
      by (auto simp: deep_copied_def h3_def e)
    moreover have "ResourceList_DeepCopy v h = (x, h3)"
      using False into by (simp add: ResourceList_DeepCopy_def new_object_def set_pointee_def pointee_def
          h1_def [symmetric] h3_def array_at_def e)
    ultimately show ?thesis by simp
  qed
qed

text \<open>The \<open>DeepCopy\<close> of every value type.\<close>

lemma value_copiers_deep: "(T, f) \<in> set value_copiers \<Longrightarrow> deep_copies T f"
  unfolding value_copiers_def GenerateSecret_DeepCopy_def
    ParameterSpec_DeepCopy_def
    StatusList_DeepCopy_def
    ImageSpec_DeepCopy_def
    ParameterDefinitionSpec_DeepCopy_def
    OutputDefinitionSpec_DeepCopy_def
    Resource_DeepCopy_def
    SourceInfo_DeepCopy_def
    FlavorSpec_DeepCopy_def
    ApplicationStatus_DeepCopy_def
    FlavorStatus_DeepCopy_def
    InstallStatus_DeepCopy_def
    ManifestStatus_DeepCopy_def
    RegistryStatus_DeepCopy_def
    SourceStatus_DeepCopy_def
    ProvidesList_DeepCopy_def
    RequiresList_DeepCopy_def
    ApplicationSpec_DeepCopy_def
    InstallSpec_DeepCopy_def
    BundleSpec_DeepCopy_def
    ManifestSpec_DeepCopy_def
    RegistrySpec_DeepCopy_def
    SourceSpec_DeepCopy_def
  by (auto intro!: copy_pointer_deep)

text \<open>
  The objects and their lists: deep copies whenever the deep copies of the metadata are.
\<close>

lemma Application_into_deep: "deep_copies OM meta \<Longrightarrow> deep_copies (ApplicationT OM) (Application_DeepCopyInto meta)"
  unfolding ApplicationT_def Application_DeepCopyInto_def
  by (rule into_fields_deep) (simp add: covers_def deep_rules)

lemma ApplicationList_into_deep:
  "deep_copies OM meta \<Longrightarrow> deep_copies LM lmeta \<Longrightarrow>
     deep_copies (ApplicationListT OM LM) (ApplicationList_DeepCopyInto OM meta lmeta)"
  unfolding ApplicationListT_def ApplicationList_DeepCopyInto_def
  by (rule into_fields_deep) (simp add: covers_def deep_rules Application_into_deep)

lemma Flavor_into_deep: "deep_copies OM meta \<Longrightarrow> deep_copies (FlavorT OM) (Flavor_DeepCopyInto meta)"
  unfolding FlavorT_def Flavor_DeepCopyInto_def
  by (rule into_fields_deep) (simp add: covers_def deep_rules)

lemma FlavorList_into_deep:
  "deep_copies OM meta \<Longrightarrow> deep_copies LM lmeta \<Longrightarrow>
     deep_copies (FlavorListT OM LM) (FlavorList_DeepCopyInto OM meta lmeta)"
  unfolding FlavorListT_def FlavorList_DeepCopyInto_def
  by (rule into_fields_deep) (simp add: covers_def deep_rules Flavor_into_deep)

lemma Install_into_deep: "deep_copies OM meta \<Longrightarrow> deep_copies (InstallT OM) (Install_DeepCopyInto meta)"
  unfolding InstallT_def Install_DeepCopyInto_def
  by (rule into_fields_deep) (simp add: covers_def deep_rules)

lemma InstallList_into_deep:
  "deep_copies OM meta \<Longrightarrow> deep_copies LM lmeta \<Longrightarrow>
     deep_copies (InstallListT OM LM) (InstallList_DeepCopyInto OM meta lmeta)"
  unfolding InstallListT_def InstallList_DeepCopyInto_def
  by (rule into_fields_deep) (simp add: covers_def deep_rules Install_into_deep)

lemma Manifest_into_deep: "deep_copies OM meta \<Longrightarrow> deep_copies (ManifestT OM) (Manifest_DeepCopyInto meta)"
  unfolding ManifestT_def Manifest_DeepCopyInto_def
  by (rule into_fields_deep) (simp add: covers_def deep_rules)

lemma ManifestList_into_deep:
  "deep_copies OM meta \<Longrightarrow> deep_copies LM lmeta \<Longrightarrow>
     deep_copies (ManifestListT OM LM) (ManifestList_DeepCopyInto OM meta lmeta)"
  unfolding ManifestListT_def ManifestList_DeepCopyInto_def
  by (rule into_fields_deep) (simp add: covers_def deep_rules Manifest_into_deep)

lemma Registry_into_deep: "deep_copies OM meta \<Longrightarrow> deep_copies (RegistryT OM) (Registry_DeepCopyInto meta)"
  unfolding RegistryT_def Registry_DeepCopyInto_def
  by (rule into_fields_deep) (simp add: covers_def deep_rules)

lemma RegistryList_into_deep:
  "deep_copies OM meta \<Longrightarrow> deep_copies LM lmeta \<Longrightarrow>
     deep_copies (RegistryListT OM LM) (RegistryList_DeepCopyInto OM meta lmeta)"
  unfolding RegistryListT_def RegistryList_DeepCopyInto_def
  by (rule into_fields_deep) (simp add: covers_def deep_rules Registry_into_deep)

lemma Source_into_deep: "deep_copies OM meta \<Longrightarrow> deep_copies (SourceT OM) (Source_DeepCopyInto meta)"
  unfolding SourceT_def Source_DeepCopyInto_def
  by (rule into_fields_deep) (simp add: covers_def deep_rules)

lemma SourceList_into_deep:
  "deep_copies OM meta \<Longrightarrow> deep_copies LM lmeta \<Longrightarrow>
     deep_copies (SourceListT OM LM) (SourceList_DeepCopyInto OM meta lmeta)"
  unfolding SourceListT_def SourceList_DeepCopyInto_def
  by (rule into_fields_deep) (simp add: covers_def deep_rules Source_into_deep)

lemmas objects_into_deep = Application_into_deep ApplicationList_into_deep
  Flavor_into_deep FlavorList_into_deep
  Install_into_deep InstallList_into_deep
  Manifest_into_deep ManifestList_into_deep
  Registry_into_deep RegistryList_into_deep
  Source_into_deep SourceList_into_deep

lemma object_copiers_deep:
  assumes "deep_copies OM meta" "deep_copies LM lmeta" "(T, f) \<in> set (object_copiers OM meta LM lmeta)"
  shows "deep_copies T f"
  using assms(3) unfolding object_copiers_def
    Application_DeepCopyObject_def Application_DeepCopy_def ApplicationList_DeepCopyObject_def ApplicationList_DeepCopy_def
    Flavor_DeepCopyObject_def Flavor_DeepCopy_def FlavorList_DeepCopyObject_def FlavorList_DeepCopy_def
    Install_DeepCopyObject_def Install_DeepCopy_def InstallList_DeepCopyObject_def InstallList_DeepCopy_def
    Manifest_DeepCopyObject_def Manifest_DeepCopy_def ManifestList_DeepCopyObject_def ManifestList_DeepCopy_def
    Registry_DeepCopyObject_def Registry_DeepCopy_def RegistryList_DeepCopyObject_def RegistryList_DeepCopy_def
    Source_DeepCopyObject_def Source_DeepCopy_def SourceList_DeepCopyObject_def SourceList_DeepCopy_def
  by (auto intro!: copy_object_deep copy_pointer_deep objects_into_deep assms(1,2))

interpretation application_spec: deep_copier "TPtr ApplicationSpecT" ApplicationSpec_DeepCopy
  by unfold_locales (simp add: ApplicationSpec_DeepCopy_def copy_pointer_deep)

interpretation install_spec: deep_copier "TPtr InstallSpecT" InstallSpec_DeepCopy
  by unfold_locales (simp add: InstallSpec_DeepCopy_def copy_pointer_deep)

interpretation manifest_spec: deep_copier "TPtr ManifestSpecT" ManifestSpec_DeepCopy
  by unfold_locales (simp add: ManifestSpec_DeepCopy_def copy_pointer_deep)

interpretation bundle_spec: deep_copier "TPtr BundleSpecT" BundleSpec_DeepCopy
  by unfold_locales (simp add: BundleSpec_DeepCopy_def copy_pointer_deep)

interpretation registry_spec: deep_copier "TPtr RegistrySpecT" RegistrySpec_DeepCopy
  by unfold_locales (simp add: RegistrySpec_DeepCopy_def copy_pointer_deep)

interpretation source_spec: deep_copier "TPtr SourceSpecT" SourceSpec_DeepCopy
  by unfold_locales (simp add: SourceSpec_DeepCopy_def copy_pointer_deep)

interpretation resource_list: deep_copier ResourceListT ResourceList_DeepCopy
  by unfold_locales simp

lemma object_copier: 
  assumes "deep_copies OM meta" "deep_copies LM lmeta" "(T, f) \<in> set (object_copiers OM meta LM lmeta)"
  shows "deep_copier T f"
  using object_copiers_deep [OF assms] by unfold_locales

section \<open>The properties\<close>

text \<open>
  C30. The generated DeepCopyObject of every custom resource and list, the copy through which the
  Kubernetes client and its caches hand objects out, is deep for every object: the copy has the
  content of the original (nil slices and maps included), no cell of it is a cell of the original or is
  reached in two ways, and every cell that existed before is unchanged.
\<close>

theorem object_copies_deep:
  assumes "deep_copies OM meta" "deep_copies LM lmeta"
    and "(T, f) \<in> set (object_copiers OM meta LM lmeta)" and "typed T h p" and "f p h = (p', h')"
  shows "typed T h' p' \<and> content T h' p' = content T h p \<and> distinct (refs T h' p') \<and>
     set (refs T h' p') \<inter> set (refs T h p) = {} \<and> take (length h) h' = h"
  using deep_copier.copied [OF object_copier [OF assms(1-3)] assms(4,5)]
    deep_copier.fresh [OF object_copier [OF assms(1-3)] assms(4,5)]
  by (simp add: deep_copied_def)

text \<open>
  C31. After a DeepCopyObject the copy and the original are independent: overwriting any cell that one
  of them reaches, whatever is written, leaves the content of the other as it was before the copy.
\<close>

theorem object_copy_isolated:
  assumes "deep_copies OM meta" "deep_copies LM lmeta"
    and "(T, f) \<in> set (object_copiers OM meta LM lmeta)" and "typed T h p" and "f p h = (p', h')"
    and "a \<in> set (refs T h' p')" and "b \<in> set (refs T h p)"
  shows "content T (h'[a := c]) p = content T h p \<and> content T (h'[b := c]) p' = content T h p"
  using deep_copier.copy_written [OF object_copier [OF assms(1-3)] assms(4-6)]
    deep_copier.original_written [OF object_copier [OF assms(1-3)] assms(4,5,7)]
  by simp

section \<open>A source that is copied\<close>

text \<open>
  A source with two options, whose metadata has a name and a map of labels. The metadata is copied
  like the structs of the package.
\<close>

definition meta_fields :: "(string \<times> gtype) list" where
  "meta_fields = [(''Name'', TStr), (''Labels'', TMap)]"

definition meta_into :: copier where
  "meta_into = into_fields [(''Labels'', copy_map)]"

definition source_store :: store where
  "source_store = [
     Arr [VStruct [(''TypeMeta'', VStruct [(''Kind'', VStr ''Source''), (''APIVersion'', VStr ''v1alpha1'')]),
       (''ObjectMeta'', VStruct [(''Name'', VStr ''s3''), (''Labels'', VNil)]),
       (''Spec'', VStruct [(''Type'', VStr ''s3''), (''Path'', VStr ''bundles''), (''Options'', VMap 1)]),
       (''Status'', VStruct [])]],
     Mp [(''bucket'', ''b''), (''region'', ''r'')]]"

definition copied_store :: store where
  "copied_store = source_store @ [
     Arr [VStruct [(''TypeMeta'', VStruct [(''Kind'', VStr ''Source''), (''APIVersion'', VStr ''v1alpha1'')]),
       (''ObjectMeta'', VStruct [(''Name'', VStr ''s3''), (''Labels'', VNil)]),
       (''Spec'', VStruct [(''Type'', VStr ''s3''), (''Path'', VStr ''bundles''), (''Options'', VMap 3)]),
       (''Status'', VStruct [])]],
     Mp [(''bucket'', ''b''), (''region'', ''r'')]]"

lemma meta_deep: "deep_copies (TStruct meta_fields) meta_into"
  unfolding meta_into_def
  by (rule into_fields_deep) (simp add: covers_def meta_fields_def copy_map_deep)

lemma source_copied:
  "Source_DeepCopyObject (TStruct meta_fields) meta_into (VPtr 0) source_store = (VPtr 2, copied_store)"
  by code_simp

lemma source_typed: "typed (TPtr (SourceT (TStruct meta_fields))) source_store (VPtr 0)"
  by (simp add: SourceT_def TypeMetaT_def SourceSpecT_def SourceStatusT_def meta_fields_def source_store_def
      is_array_def array_at_def is_map_def)

lemma source_refs:
  "refs (TPtr (SourceT (TStruct meta_fields))) source_store (VPtr 0) = [0, 1]"
  "refs (TPtr (SourceT (TStruct meta_fields))) copied_store (VPtr 2) = [2, 3]"
  by (simp_all add: SourceT_def TypeMetaT_def SourceSpecT_def SourceStatusT_def meta_fields_def source_store_def
      copied_store_def array_at_def)

lemma source_listed:
  "(TPtr (SourceT (TStruct meta_fields)), Source_DeepCopyObject (TStruct meta_fields) meta_into)
     \<in> set (object_copiers (TStruct meta_fields) meta_into (TStruct meta_fields) meta_into)"
  by (simp add: object_copiers_def)

lemmas source_example = meta_deep meta_deep source_listed source_typed source_copied

theorem object_copies_deep_witness:
  "content (TPtr (SourceT (TStruct meta_fields))) copied_store (VPtr 2) =
     content (TPtr (SourceT (TStruct meta_fields))) source_store (VPtr 0)"
  using object_copies_deep [OF source_example] by simp

theorem object_copy_isolated_witness:
  "content (TPtr (SourceT (TStruct meta_fields))) (copied_store[3 := Mp []]) (VPtr 0) =
     content (TPtr (SourceT (TStruct meta_fields))) source_store (VPtr 0)"
  using object_copy_isolated [OF source_example, unfolded source_refs, of 3 0 "Mp []"] by simp

end
