(* ===== verification/Command_Line.thy ===== *)
theory Command_Line
  imports Commands
begin

text \<open>
  The command line of \<open>kb\<close> (cmd/kb/main.go and cmd/kb/subcommands): the command variables with the
  closures they run, what the \<open>init\<close> functions of the package register, the clients every command
  starts with, the log level, the version and the exit code. The command line library itself, which
  parses the arguments and picks the command, is a parameter; help texts are left out.
\<close>

section \<open>Version (cmd/kb/main.go, version.go)\<close>

record Info =
  vi_FullVersion :: string
  vi_SemanticVersion :: string
  vi_BuildDateTime :: string
  vi_PipelineID :: string
  vi_GitShortSHA :: string
  vi_BuildOS :: string

definition Info_String :: "Info \<Rightarrow> string" where
  "Info_String i =
     ''Full Version: '' @ vi_FullVersion i @ newline @ ''Semantic Version: '' @ vi_SemanticVersion i @ newline @
     ''Build Date: '' @ vi_BuildDateTime i @ newline @ ''Build Pipeline ID: '' @ vi_PipelineID i @ newline @
     ''Git SHA: '' @ vi_GitShortSHA i @ newline @ ''Build OS: '' @ vi_BuildOS i"

section \<open>Commands\<close>

text \<open>The number of positional arguments a command asks the library to check.\<close>

datatype positional = ExactArgs nat | MinimumNArgs nat | MaximumNArgs nat

text \<open>
  What the closures of the commands use: the shell of the command functions, the flag variables after
  parsing, \<open>cmd.Flags().GetBool\<close> and \<open>cmd.Help()\<close> of the running command, the blocking server
  of the health status, and the version.
\<close>

record ('u, 'w) cli =
  cl_shell :: "('u, 'w) shell"
  cl_vars :: vars
  cl_installOpts :: InstallOpts
  cl_sourceOpts :: SourceOpts
  cl_bootstrap :: bootstrap_vars
  cl_builder :: "'w builder"
  cl_buildArg :: "string list"
  cl_registryImage :: string
  cl_anonymousPull :: bool
  cl_GetBool :: "string \<Rightarrow> bool result"
  cl_Help :: "string \<Rightarrow> ('w, unit) io"
  cl_HealthStatus :: "('w, unit) io"
  cl_VInfo :: Info

text \<open>
  A closure first reads the arguments it needs, which panics when one is missing, and then calls the
  function of the command.
\<close>

record ('u, 'w) command =
  c_Use :: string
  c_Aliases :: "string list"
  c_Args :: "positional option"
  c_RunE :: "('u, 'w) cli \<Rightarrow> string list \<Rightarrow> ('w, unit) io result"

definition with_arg :: "string list \<Rightarrow> nat \<Rightarrow> (string \<Rightarrow> 'a result) \<Rightarrow> 'a result" where
  "with_arg args i k = (if i < length args then k (args ! i) else Panic ''index out of range'')"

definition args_from :: "string list \<Rightarrow> nat \<Rightarrow> (string list \<Rightarrow> 'a result) \<Rightarrow> 'a result" where
  "args_from args i k = (if i \<le> length args then k (drop i args) else Panic ''slice bounds out of range'')"

text \<open>
  Registration of subcommands and flags. A flag has its name, its shorthand (empty for none), the
  variable it writes (empty where the closure asks for it by name) and its default.
\<close>

datatype flag_default = BoolFlag bool | IntFlag int | StringFlag string | StringArrayFlag "string list"

datatype kb_flag = kb_flag (fl_Name: string) (fl_Short: string) (fl_Var: string) (fl_Default: flag_default)

datatype wire = AddCommand string string | Flag string kb_flag | PersistentFlag string kb_flag | OnInitialize

section \<open>The command variables\<close>

definition getApplicationsCmd :: "('u, 'w) command" where
  "getApplicationsCmd = \<lparr>c_Use = ''applications'', c_Aliases = [''apps'', ''app'', ''application''], c_Args = None,
     c_RunE = (\<lambda>cl _. Ok (listApplications (cl_shell cl)))\<rparr>"

definition descApplicationsCmd :: "('u, 'w) command" where
  "descApplicationsCmd = \<lparr>c_Use = ''applications'', c_Aliases = [''apps'', ''app'', ''application''], c_Args = Some (MaximumNArgs 1),
     c_RunE = (\<lambda>cl args. Ok (descApplications (cl_shell cl) args))\<rparr>"

definition createApplicationCmd :: "('u, 'w) command" where
  "createApplicationCmd = \<lparr>c_Use = ''applications'', c_Aliases = [''apps'', ''app'', ''application''], c_Args = None,
     c_RunE = (\<lambda>cl _. Ok (createApplication (cl_shell cl)))\<rparr>"

definition deleteApplicationCmd :: "('u, 'w) command" where
  "deleteApplicationCmd = \<lparr>c_Use = ''applications'', c_Aliases = [''apps'', ''app'', ''application''], c_Args = None,
     c_RunE = (\<lambda>cl args. Ok (deleteApplications (cl_shell cl) args))\<rparr>"

definition bootstrapCmd :: "('u, 'w) command" where
  "bootstrapCmd = \<lparr>c_Use = ''bootstrap'', c_Aliases = [''setup''], c_Args = Some (ExactArgs 0),
     c_RunE = (\<lambda>cl _. Ok (runBootstrap (cl_shell cl) (cl_bootstrap cl)))\<rparr>"

definition buildCmd :: "('u, 'w) command" where
  "buildCmd = \<lparr>c_Use = ''build'', c_Aliases = [], c_Args = Some (ExactArgs 1),
     c_RunE = (\<lambda>cl args. with_arg args 0 (\<lambda>dir. Ok (build_command (cl_builder cl) (cl_buildArg cl) (cl_registryImage cl)
         (cl_anonymousPull cl) dir (v_appFile (cl_vars cl)))))\<rparr>"

definition configCmd :: "('u, 'w) command" where
  "configCmd = \<lparr>c_Use = ''config'', c_Aliases = [], c_Args = None,
     c_RunE = (\<lambda>cl _. Ok (cl_Help cl ''configCmd''))\<rparr>"

definition getConfigCmd :: "('u, 'w) command" where
  "getConfigCmd = \<lparr>c_Use = ''get'', c_Aliases = [], c_Args = Some (ExactArgs 2),
     c_RunE = (\<lambda>cl args. with_arg args 0 (\<lambda>n. with_arg args 1 (\<lambda>key. Ok (getConfig (cl_shell cl) n key))))\<rparr>"

definition listConfigCmd :: "('u, 'w) command" where
  "listConfigCmd = \<lparr>c_Use = ''list'', c_Aliases = [], c_Args = Some (ExactArgs 1),
     c_RunE = (\<lambda>cl args. with_arg args 0 (\<lambda>n. Ok (listConfig (cl_shell cl) n)))\<rparr>"

definition setConfigCmd :: "('u, 'w) command" where
  "setConfigCmd = \<lparr>c_Use = ''set'', c_Aliases = [], c_Args = Some (MinimumNArgs 2),
     c_RunE = (\<lambda>cl args. with_arg args 0 (\<lambda>n. args_from args 1 (\<lambda>kvs. Ok (setConfig (cl_shell cl) n kvs))))\<rparr>"

definition removeConfigCmd :: "('u, 'w) command" where
  "removeConfigCmd = \<lparr>c_Use = ''remove'', c_Aliases = [], c_Args = Some (MinimumNArgs 2),
     c_RunE = (\<lambda>cl args. with_arg args 0 (\<lambda>n. args_from args 1 (\<lambda>keys. Ok (removeConfig (cl_shell cl) n keys))))\<rparr>"

definition copyCmd :: "('u, 'w) command" where
  "copyCmd = \<lparr>c_Use = ''copy'', c_Aliases = [], c_Args = None,
     c_RunE = (\<lambda>cl _. Ok (cl_Help cl ''copyCmd''))\<rparr>"

definition copyBundleCmd :: "('u, 'w) command" where
  "copyBundleCmd = \<lparr>c_Use = ''bundle'', c_Aliases = [], c_Args = Some (MinimumNArgs 1),
     c_RunE = (\<lambda>cl args. Ok (copyBundle_command (cl_shell cl) (cl_vars cl) args))\<rparr>"

definition copyManifestCmd :: "('u, 'w) command" where
  "copyManifestCmd = \<lparr>c_Use = ''manifest'', c_Aliases = [], c_Args = None,
     c_RunE = (\<lambda>cl _. Ok (copyManifest (cl_shell cl) (cl_vars cl) (v_configFilename (cl_vars cl))
         (v_destination (cl_vars cl)) (v_manifestFilename (cl_vars cl))))\<rparr>"

definition createCmd :: "('u, 'w) command" where
  "createCmd = \<lparr>c_Use = ''create'', c_Aliases = [], c_Args = None,
     c_RunE = (\<lambda>cl _. Ok (cl_Help cl ''createCmd''))\<rparr>"

definition deleteCmd :: "('u, 'w) command" where
  "deleteCmd = \<lparr>c_Use = ''delete'', c_Aliases = [], c_Args = None,
     c_RunE = (\<lambda>cl _. Ok (cl_Help cl ''deleteCmd''))\<rparr>"

definition deployCmd :: "('u, 'w) command" where
  "deployCmd = \<lparr>c_Use = ''deploy'', c_Aliases = [], c_Args = None,
     c_RunE = (\<lambda>cl _. Ok (cl_Help cl ''deployCmd''))\<rparr>"

definition deployManifestCmd :: "('u, 'w) command" where
  "deployManifestCmd = \<lparr>c_Use = ''manifest'', c_Aliases = [], c_Args = Some (MinimumNArgs 1),
     c_RunE = (\<lambda>cl args. Ok (deployManifest (cl_shell cl) (cl_vars cl) args))\<rparr>"

definition deployBundleCmd :: "('u, 'w) command" where
  "deployBundleCmd = \<lparr>c_Use = ''bundle'', c_Aliases = [], c_Args = Some (MinimumNArgs 1),
     c_RunE = (\<lambda>cl args. Ok (deployBundle (cl_shell cl) (cl_vars cl) args))\<rparr>"

definition deployRegistryCmd :: "('u, 'w) command" where
  "deployRegistryCmd = \<lparr>c_Use = ''registry'', c_Aliases = [], c_Args = Some (MinimumNArgs 1),
     c_RunE = (\<lambda>cl args. Ok (deployRegistry (cl_shell cl) args))\<rparr>"

definition describeCmd :: "('u, 'w) command" where
  "describeCmd = \<lparr>c_Use = ''describe'', c_Aliases = [], c_Args = None,
     c_RunE = (\<lambda>cl _. Ok (cl_Help cl ''describeCmd''))\<rparr>"

definition diffCmd :: "('u, 'w) command" where
  "diffCmd = \<lparr>c_Use = ''diff'', c_Aliases = [], c_Args = Some (MinimumNArgs 1),
     c_RunE = (\<lambda>cl _. Ok (cl_Help cl ''diffCmd''))\<rparr>"

definition diffManifestCmd :: "('u, 'w) command" where
  "diffManifestCmd = \<lparr>c_Use = ''manifest'', c_Aliases = [], c_Args = Some (MinimumNArgs 1),
     c_RunE = (\<lambda>cl args. Ok (diffManifest (cl_shell cl) (cl_vars cl) args))\<rparr>"

definition diffBundleCmd :: "('u, 'w) command" where
  "diffBundleCmd = \<lparr>c_Use = ''bundle'', c_Aliases = [], c_Args = Some (ExactArgs 1),
     c_RunE = (\<lambda>cl args. Ok (diffBundle (cl_shell cl) (cl_vars cl) args))\<rparr>"

definition getCmd :: "('u, 'w) command" where
  "getCmd = \<lparr>c_Use = ''get'', c_Aliases = [], c_Args = None,
     c_RunE = (\<lambda>cl _. Ok (cl_Help cl ''getCmd''))\<rparr>"

definition importCmd :: "('u, 'w) command" where
  "importCmd = \<lparr>c_Use = ''import'', c_Aliases = [], c_Args = None,
     c_RunE = (\<lambda>cl _. Ok (cl_Help cl ''importCmd''))\<rparr>"

definition importBundleCmd :: "('u, 'w) command" where
  "importBundleCmd = \<lparr>c_Use = ''bundle'', c_Aliases = [], c_Args = None,
     c_RunE = (\<lambda>cl args. Ok (importBundle (cl_shell cl) (v_registryArg (cl_vars cl)) (v_destDirArg (cl_vars cl))
         (v_hostArg (cl_vars cl)) args))\<rparr>"

definition importManifestCmd :: "('u, 'w) command" where
  "importManifestCmd = \<lparr>c_Use = ''manifest'', c_Aliases = [], c_Args = None,
     c_RunE = (\<lambda>cl args. Ok (importManifest (cl_shell cl) (v_destDirArg (cl_vars cl)) (v_hostArg (cl_vars cl)) args))\<rparr>"

definition installCmd :: "('u, 'w) command" where
  "installCmd = \<lparr>c_Use = ''install'', c_Aliases = [], c_Args = None,
     c_RunE = (\<lambda>cl _. Ok (cl_Help cl ''installCmd''))\<rparr>"

definition installBundleCmd :: "('u, 'w) command" where
  "installBundleCmd = \<lparr>c_Use = ''bundle'', c_Aliases = [], c_Args = Some (MinimumNArgs 1),
     c_RunE = (\<lambda>cl args. Ok (try_do (lift_result (cl_GetBool cl ''force'')) (\<lambda>err. Wrapf err ''Failed to get force parameter'' [])
         (installBundle (cl_shell cl) (cl_vars cl) args)))\<rparr>"

definition installManifestCmd :: "('u, 'w) command" where
  "installManifestCmd = \<lparr>c_Use = ''manifest'', c_Aliases = [], c_Args = Some (MinimumNArgs 1),
     c_RunE = (\<lambda>cl args. Ok (try_do (lift_result (cl_GetBool cl ''force'')) (\<lambda>err. Wrapf err ''Failed to get force parameter'' [])
         (manifestInstall (cl_shell cl) (cl_vars cl) args)))\<rparr>"

definition getInstalls :: "('u, 'w) command" where
  "getInstalls = \<lparr>c_Use = ''installs'', c_Aliases = [''install''], c_Args = None,
     c_RunE = (\<lambda>cl _. Ok (listInstalls (cl_shell cl)))\<rparr>"

definition descInstallCmd :: "('u, 'w) command" where
  "descInstallCmd = \<lparr>c_Use = ''installs'', c_Aliases = [''install''], c_Args = Some (MaximumNArgs 1),
     c_RunE = (\<lambda>cl args. Ok (describeInstalls (cl_shell cl) args))\<rparr>"

definition createInstallCmd :: "('u, 'w) command" where
  "createInstallCmd = \<lparr>c_Use = ''installs'', c_Aliases = [''install''], c_Args = Some (ExactArgs 1),
     c_RunE = (\<lambda>cl args. with_arg args 0 (\<lambda>app. Ok (createInstall (cl_shell cl) app (cl_installOpts cl))))\<rparr>"

definition deleteInstallCmd :: "('u, 'w) command" where
  "deleteInstallCmd = \<lparr>c_Use = ''installs'', c_Aliases = [''install''], c_Args = None,
     c_RunE = (\<lambda>cl args. Ok (deleteInstalls (cl_shell cl) args))\<rparr>"

definition publishCmd :: "('u, 'w) command" where
  "publishCmd = \<lparr>c_Use = ''publish'', c_Aliases = [], c_Args = Some (MinimumNArgs 1),
     c_RunE = (\<lambda>cl args. Ok (publish (cl_shell cl) (cl_vars cl) (v_configFilename (cl_vars cl)) args))\<rparr>"

definition registerCmd :: "('u, 'w) command" where
  "registerCmd = \<lparr>c_Use = ''register'', c_Aliases = [], c_Args = Some (MinimumNArgs 1),
     c_RunE = (\<lambda>cl args. Ok (register_command (cl_shell cl) args))\<rparr>"

definition deleteRegistryCmd :: "('u, 'w) command" where
  "deleteRegistryCmd = \<lparr>c_Use = ''registry'', c_Aliases = [], c_Args = Some (MinimumNArgs 1),
     c_RunE = (\<lambda>cl args. Ok (deleteRegistry (cl_shell cl) args))\<rparr>"

definition rootCmd :: "('u, 'w) command" where
  "rootCmd = \<lparr>c_Use = ''kb'', c_Aliases = [], c_Args = None,
     c_RunE = (\<lambda>cl _. Ok (cl_Help cl ''rootCmd''))\<rparr>"

definition smoketestCmd :: "('u, 'w) command" where
  "smoketestCmd = \<lparr>c_Use = ''smoketest'', c_Aliases = [], c_Args = None,
     c_RunE = (\<lambda>cl _. Ok (cl_Help cl ''smoketestCmd''))\<rparr>"

definition smoketestManifestCmd :: "('u, 'w) command" where
  "smoketestManifestCmd = \<lparr>c_Use = ''manifest'', c_Aliases = [], c_Args = Some (MinimumNArgs 1),
     c_RunE = (\<lambda>cl args. Ok (smoketestManifest (cl_shell cl) (cl_vars cl) args))\<rparr>"

definition smoketestBundleCmd :: "('u, 'w) command" where
  "smoketestBundleCmd = \<lparr>c_Use = ''bundle'', c_Aliases = [], c_Args = Some (MinimumNArgs 1),
     c_RunE = (\<lambda>cl args. Ok (smoketestBundle (cl_shell cl) (cl_vars cl) args))\<rparr>"

definition getSourcesCmd :: "('u, 'w) command" where
  "getSourcesCmd = \<lparr>c_Use = ''sources'', c_Aliases = [''source''], c_Args = None,
     c_RunE = (\<lambda>cl _. Ok (listSources (cl_shell cl)))\<rparr>"

definition createSourceCmd :: "('u, 'w) command" where
  "createSourceCmd = \<lparr>c_Use = ''sources'', c_Aliases = [''source''], c_Args = Some (ExactArgs 0),
     c_RunE = (\<lambda>cl _. Ok (createSource_command (cl_shell cl) (cl_sourceOpts cl)))\<rparr>"

definition deleteSourceCmd :: "('u, 'w) command" where
  "deleteSourceCmd = \<lparr>c_Use = ''sources'', c_Aliases = [''source''], c_Args = None,
     c_RunE = (\<lambda>cl args. Ok (deleteSources (cl_shell cl) args))\<rparr>"

definition serverCmd :: "('u, 'w) command" where
  "serverCmd = \<lparr>c_Use = ''server'', c_Aliases = [], c_Args = None,
     c_RunE = (\<lambda>cl _. Ok (cl_Help cl ''serverCmd''))\<rparr>"

definition healthStatusCmd :: "('u, 'w) command" where
  "healthStatusCmd = \<lparr>c_Use = ''health-status'', c_Aliases = [], c_Args = None,
     c_RunE = (\<lambda>cl _. Ok (cl_HealthStatus cl))\<rparr>"

definition statusCmd :: "('u, 'w) command" where
  "statusCmd = \<lparr>c_Use = ''status'', c_Aliases = [], c_Args = None,
     c_RunE = (\<lambda>cl _. Ok (printStatus (cl_shell cl)))\<rparr>"

definition applicationStatusCmd :: "('u, 'w) command" where
  "applicationStatusCmd = \<lparr>c_Use = ''applications'', c_Aliases = [], c_Args = None,
     c_RunE = (\<lambda>cl _. Ok (printApplicationStatus (cl_shell cl)))\<rparr>"

definition resourceStatusCmd :: "('u, 'w) command" where
  "resourceStatusCmd = \<lparr>c_Use = ''resources'', c_Aliases = [], c_Args = None,
     c_RunE = (\<lambda>cl _. Ok (resourceStatus_command (cl_shell cl)))\<rparr>"

definition uninstallCmd :: "('u, 'w) command" where
  "uninstallCmd = \<lparr>c_Use = ''uninstall'', c_Aliases = [], c_Args = Some (MinimumNArgs 1),
     c_RunE = (\<lambda>cl args. Ok (uninstall (cl_shell cl) (cl_vars cl) args))\<rparr>"

definition versionCmd :: "('u, 'w) command" where
  "versionCmd = \<lparr>c_Use = ''version'', c_Aliases = [], c_Args = Some (ExactArgs 0),
     c_RunE = (\<lambda>cl _. Ok (printf (cl_shell cl) (Info_String (cl_VInfo cl) @ newline)))\<rparr>"

text \<open>The command variables of the package, by their names.\<close>

definition commands :: "(string \<times> ('u, 'w) command) list" where
  "commands = [
     (''getApplicationsCmd'', getApplicationsCmd),
     (''descApplicationsCmd'', descApplicationsCmd),
     (''createApplicationCmd'', createApplicationCmd),
     (''deleteApplicationCmd'', deleteApplicationCmd),
     (''bootstrapCmd'', bootstrapCmd),
     (''buildCmd'', buildCmd),
     (''configCmd'', configCmd),
     (''getConfigCmd'', getConfigCmd),
     (''listConfigCmd'', listConfigCmd),
     (''setConfigCmd'', setConfigCmd),
     (''removeConfigCmd'', removeConfigCmd),
     (''copyCmd'', copyCmd),
     (''copyBundleCmd'', copyBundleCmd),
     (''copyManifestCmd'', copyManifestCmd),
     (''createCmd'', createCmd),
     (''deleteCmd'', deleteCmd),
     (''deployCmd'', deployCmd),
     (''deployManifestCmd'', deployManifestCmd),
     (''deployBundleCmd'', deployBundleCmd),
     (''deployRegistryCmd'', deployRegistryCmd),
     (''describeCmd'', describeCmd),
     (''diffCmd'', diffCmd),
     (''diffManifestCmd'', diffManifestCmd),
     (''diffBundleCmd'', diffBundleCmd),
     (''getCmd'', getCmd),
     (''importCmd'', importCmd),
     (''importBundleCmd'', importBundleCmd),
     (''importManifestCmd'', importManifestCmd),
     (''installCmd'', installCmd),
     (''installBundleCmd'', installBundleCmd),
     (''installManifestCmd'', installManifestCmd),
     (''getInstalls'', getInstalls),
     (''descInstallCmd'', descInstallCmd),
     (''createInstallCmd'', createInstallCmd),
     (''deleteInstallCmd'', deleteInstallCmd),
     (''publishCmd'', publishCmd),
     (''registerCmd'', registerCmd),
     (''deleteRegistryCmd'', deleteRegistryCmd),
     (''rootCmd'', rootCmd),
     (''smoketestCmd'', smoketestCmd),
     (''smoketestManifestCmd'', smoketestManifestCmd),
     (''smoketestBundleCmd'', smoketestBundleCmd),
     (''getSourcesCmd'', getSourcesCmd),
     (''createSourceCmd'', createSourceCmd),
     (''deleteSourceCmd'', deleteSourceCmd),
     (''serverCmd'', serverCmd),
     (''healthStatusCmd'', healthStatusCmd),
     (''statusCmd'', statusCmd),
     (''applicationStatusCmd'', applicationStatusCmd),
     (''resourceStatusCmd'', resourceStatusCmd),
     (''uninstallCmd'', uninstallCmd),
     (''versionCmd'', versionCmd)]"

section \<open>The init functions\<close>

definition wire_applications :: "wire list" where
  "wire_applications = [
     AddCommand ''getCmd'' ''getApplicationsCmd'',
     AddCommand ''describeCmd'' ''descApplicationsCmd'',
     AddCommand ''createCmd'' ''createApplicationCmd'',
     AddCommand ''deleteCmd'' ''deleteApplicationCmd'']"

definition wire_bootstrap :: "wire list" where
  "wire_bootstrap = [
     Flag ''bootstrapCmd'' (kb_flag ''skip-crds'' [] ''skipCRDs'' (BoolFlag False)),
     Flag ''bootstrapCmd'' (kb_flag ''skip-bindings'' [] ''skipBindings'' (BoolFlag False)),
     Flag ''bootstrapCmd'' (kb_flag ''skip-flavors'' [] ''skipFlavors'' (BoolFlag False)),
     Flag ''bootstrapCmd'' (kb_flag ''skip-airgap'' [] ''skipAirgap'' (BoolFlag False)),
     Flag ''bootstrapCmd'' (kb_flag ''cluster-provider'' [] ''provider'' (StringFlag ''K0S'')),
     Flag ''bootstrapCmd'' (kb_flag ''registryURL'' [] ''registryURL'' (StringFlag ''gcr.io'')),
     Flag ''bootstrapCmd'' (kb_flag ''projectID'' [] ''projectID'' (StringFlag ''dsp-streamlio'')),
     AddCommand ''rootCmd'' ''bootstrapCmd'']"

definition wire_build :: "wire list" where
  "wire_build = [
     Flag ''buildCmd'' (kb_flag ''file'' ''f'' ''appFile'' (StringFlag DefaultAppFile)),
     Flag ''buildCmd'' (kb_flag ''registry'' ''r'' ''registryImage'' (StringFlag DefaultRegistryImage)),
     Flag ''buildCmd'' (kb_flag ''allow-anonymous-pull'' [] ''anonymousPull'' (BoolFlag False)),
     Flag ''buildCmd'' (kb_flag ''build-arg'' ''b'' ''buildArg'' (StringArrayFlag [])),
     AddCommand ''rootCmd'' ''buildCmd'']"

definition wire_config :: "wire list" where
  "wire_config = [
     AddCommand ''configCmd'' ''getConfigCmd'',
     AddCommand ''configCmd'' ''listConfigCmd'',
     AddCommand ''configCmd'' ''setConfigCmd'',
     AddCommand ''configCmd'' ''removeConfigCmd'',
     AddCommand ''rootCmd'' ''configCmd'']"

definition wire_copy :: "wire list" where
  "wire_copy = [
     Flag ''copyManifestCmd'' (kb_flag ''file'' ''f'' ''manifestFilename'' (StringFlag '''')),
     Flag ''copyManifestCmd'' (kb_flag ''config'' ''c'' ''configFilename'' (StringFlag '''')),
     Flag ''copyManifestCmd'' (kb_flag ''destination'' ''d'' ''destinationSourceFilename'' (StringFlag '''')),
     Flag ''copyManifestCmd'' (kb_flag ''section'' [] ''section'' (StringFlag ''latest'')),
     Flag ''copyManifestCmd'' (kb_flag ''release'' [] ''release'' (StringFlag ''main'')),
     Flag ''copyBundleCmd'' (kb_flag ''config'' ''c'' ''configFilename'' (StringFlag '''')),
     Flag ''copyBundleCmd'' (kb_flag ''destination'' ''d'' ''destinationSourceFilename'' (StringFlag '''')),
     Flag ''copyBundleCmd'' (kb_flag ''section'' [] ''section'' (StringFlag ''latest'')),
     Flag ''copyBundleCmd'' (kb_flag ''release'' [] ''release'' (StringFlag ''main'')),
     AddCommand ''copyCmd'' ''copyManifestCmd'',
     AddCommand ''copyCmd'' ''copyBundleCmd'',
     AddCommand ''rootCmd'' ''copyCmd'']"

definition wire_create :: "wire list" where
  "wire_create = [
     AddCommand ''rootCmd'' ''createCmd'']"

definition wire_delete :: "wire list" where
  "wire_delete = [
     AddCommand ''rootCmd'' ''deleteCmd'']"

definition wire_deploy :: "wire list" where
  "wire_deploy = [
     Flag ''deployManifestCmd'' (kb_flag ''show-logs'' ''l'' ''showLogs'' (BoolFlag False)),
     Flag ''deployManifestCmd'' (kb_flag ''timeout'' ''t'' ''timeoutSeconds'' (IntFlag 90)),
     Flag ''deployBundleCmd'' (kb_flag ''timeout'' ''t'' ''timeoutSeconds'' (IntFlag 90)),
     Flag ''deployBundleCmd'' (kb_flag ''show-logs'' ''l'' ''showLogs'' (BoolFlag False)),
     AddCommand ''deployCmd'' ''deployManifestCmd'',
     AddCommand ''deployCmd'' ''deployBundleCmd'',
     AddCommand ''deployCmd'' ''deployRegistryCmd'',
     AddCommand ''rootCmd'' ''deployCmd'']"

definition wire_describe :: "wire list" where
  "wire_describe = [
     AddCommand ''rootCmd'' ''describeCmd'']"

definition wire_diff :: "wire list" where
  "wire_diff = [
     Flag ''diffManifestCmd'' (kb_flag ''show-logs'' ''l'' ''showLogs'' (BoolFlag False)),
     Flag ''diffManifestCmd'' (kb_flag ''timeout'' ''t'' ''timeoutSeconds'' (IntFlag 90)),
     Flag ''diffBundleCmd'' (kb_flag ''timeout'' ''t'' ''timeoutSeconds'' (IntFlag 60)),
     AddCommand ''diffCmd'' ''diffManifestCmd'',
     AddCommand ''diffCmd'' ''diffBundleCmd'',
     AddCommand ''rootCmd'' ''diffCmd'']"

definition wire_get :: "wire list" where
  "wire_get = [
     AddCommand ''rootCmd'' ''getCmd'']"

definition wire_import :: "wire list" where
  "wire_import = [
     Flag ''importBundleCmd'' (kb_flag ''registry'' ''r'' ''registryArg'' (StringFlag '''')),
     Flag ''importBundleCmd'' (kb_flag ''dest-dir'' ''d'' ''destDirArg'' (StringFlag '''')),
     Flag ''importBundleCmd'' (kb_flag ''host'' ''h'' ''hostArg'' (StringFlag '''')),
     Flag ''importManifestCmd'' (kb_flag ''dest-dir'' ''d'' ''destDirArg'' (StringFlag '''')),
     Flag ''importManifestCmd'' (kb_flag ''host'' ''h'' ''hostArg'' (StringFlag '''')),
     AddCommand ''importCmd'' ''importBundleCmd'',
     AddCommand ''importCmd'' ''importManifestCmd'',
     AddCommand ''rootCmd'' ''importCmd'']"

definition wire_install :: "wire list" where
  "wire_install = [
     Flag ''installBundleCmd'' (kb_flag ''show-logs'' ''l'' ''showLogs'' (BoolFlag False)),
     Flag ''installBundleCmd'' (kb_flag ''timeout'' ''t'' ''timeoutSeconds'' (IntFlag 90)),
     Flag ''installBundleCmd'' (kb_flag ''registry'' ''r'' ''registryArg'' (StringFlag '''')),
     Flag ''installBundleCmd'' (kb_flag ''force'' ''f'' [] (BoolFlag False)),
     Flag ''installManifestCmd'' (kb_flag ''show-logs'' ''l'' ''showLogs'' (BoolFlag False)),
     Flag ''installManifestCmd'' (kb_flag ''timeout'' ''t'' ''timeoutSeconds'' (IntFlag 90)),
     Flag ''installManifestCmd'' (kb_flag ''skip-smoketests'' [] ''skipSmoketests'' (BoolFlag False)),
     Flag ''installManifestCmd'' (kb_flag ''force'' ''f'' [] (BoolFlag False)),
     AddCommand ''installCmd'' ''installBundleCmd'',
     AddCommand ''installCmd'' ''installManifestCmd'',
     AddCommand ''rootCmd'' ''installCmd'']"

definition wire_installs :: "wire list" where
  "wire_installs = [
     Flag ''createInstallCmd'' (kb_flag ''name'' ''n'' ''installOpts.Name'' (StringFlag '''')),
     Flag ''createInstallCmd'' (kb_flag ''version'' ''v'' ''installOpts.Version'' (StringFlag '''')),
     AddCommand ''getCmd'' ''getInstalls'',
     AddCommand ''describeCmd'' ''descInstallCmd'',
     AddCommand ''createCmd'' ''createInstallCmd'',
     AddCommand ''deleteCmd'' ''deleteInstallCmd'']"

definition wire_publish :: "wire list" where
  "wire_publish = [
     Flag ''publishCmd'' (kb_flag ''config'' ''c'' ''configFilename'' (StringFlag '''')),
     Flag ''publishCmd'' (kb_flag ''section'' [] ''section'' (StringFlag ''latest'')),
     Flag ''publishCmd'' (kb_flag ''release'' [] ''release'' (StringFlag ''main'')),
     AddCommand ''rootCmd'' ''publishCmd'']"

definition wire_register :: "wire list" where
  "wire_register = [
     AddCommand ''rootCmd'' ''registerCmd'']"

definition wire_registry :: "wire list" where
  "wire_registry = [
     AddCommand ''deleteCmd'' ''deleteRegistryCmd'']"

definition wire_root :: "wire list" where
  "wire_root = [
     OnInitialize,
     PersistentFlag ''rootCmd'' (kb_flag ''debug'' [] ''debug'' (BoolFlag False)),
     PersistentFlag ''rootCmd'' (kb_flag ''info'' [] ''info'' (BoolFlag False))]"

definition wire_smoketest :: "wire list" where
  "wire_smoketest = [
     Flag ''smoketestManifestCmd'' (kb_flag ''timeout'' ''t'' ''timeoutSeconds'' (IntFlag 300)),
     Flag ''smoketestManifestCmd'' (kb_flag ''show-logs'' ''l'' ''showLogs'' (BoolFlag False)),
     Flag ''smoketestBundleCmd'' (kb_flag ''timeout'' ''t'' ''timeoutSeconds'' (IntFlag 300)),
     Flag ''smoketestBundleCmd'' (kb_flag ''show-logs'' ''l'' ''showLogs'' (BoolFlag False)),
     AddCommand ''smoketestCmd'' ''smoketestManifestCmd'',
     AddCommand ''smoketestCmd'' ''smoketestBundleCmd'',
     AddCommand ''rootCmd'' ''smoketestCmd'']"

definition wire_source :: "wire list" where
  "wire_source = [
     Flag ''createSourceCmd'' (kb_flag ''name'' ''n'' ''sourceOpts.Name'' (StringFlag '''')),
     Flag ''createSourceCmd'' (kb_flag ''type'' ''t'' ''sourceOpts.Type'' (StringFlag '''')),
     Flag ''createSourceCmd'' (kb_flag ''path'' ''p'' ''sourceOpts.Path'' (StringFlag '''')),
     AddCommand ''getCmd'' ''getSourcesCmd'',
     AddCommand ''createCmd'' ''createSourceCmd'',
     AddCommand ''deleteCmd'' ''deleteSourceCmd'']"

definition wire_status :: "wire list" where
  "wire_status = [
     AddCommand ''statusCmd'' ''healthStatusCmd'',
     AddCommand ''rootCmd'' ''serverCmd'',
     AddCommand ''rootCmd'' ''statusCmd'',
     AddCommand ''serverCmd'' ''healthStatusCmd'']"

definition wire_uninstall :: "wire list" where
  "wire_uninstall = [
     Flag ''uninstallCmd'' (kb_flag ''force'' ''f'' ''force'' (BoolFlag False)),
     Flag ''uninstallCmd'' (kb_flag ''timeout'' ''t'' ''timeoutSeconds'' (IntFlag 90)),
     AddCommand ''rootCmd'' ''uninstallCmd'']"

definition wire_version :: "wire list" where
  "wire_version = [
     AddCommand ''rootCmd'' ''versionCmd'']"

definition wiring :: "wire list" where
  "wiring = wire_applications @ wire_bootstrap @ wire_build @ wire_config @
     wire_copy @ wire_create @ wire_delete @ wire_deploy @
     wire_describe @ wire_diff @ wire_get @ wire_import @
     wire_install @ wire_installs @ wire_publish @ wire_register @
     wire_registry @ wire_root @ wire_smoketest @ wire_source @
     wire_status @ wire_uninstall @ wire_version"

section \<open>The root command (root.go)\<close>

text \<open>The level of the logger: the debug flag wins over the info flag.\<close>

datatype log_level = DebugLevel | InfoLevel | ErrorLevel

definition initConfig :: "bool \<Rightarrow> bool \<Rightarrow> log_level" where
  "initConfig debug info = (if debug then DebugLevel else if info then InfoLevel else ErrorLevel)"

text \<open>
  The construction of the clients, over the calls it makes (the Kubernetes libraries). The scheme the
  client is made with knows the groups that were added to it. Every failure is logged at the fatal
  level, which ends the process with exit code 1.
\<close>

datatype 'a process = Running 'a | Exit nat string

datatype scheme_group = ClientGo | BundleGroup | ApiExtensions

record ('cfg, 'c, 'cs, 'w) client_env =
  ce_GetConfig :: "('w, 'cfg) io"
  ce_NewClient :: "'cfg \<Rightarrow> scheme_group list \<Rightarrow> ('w, 'c) io"
  ce_ClientConfig :: "('w, 'cfg) io"
  ce_NewForConfig :: "'cfg \<Rightarrow> ('w, 'cs) io"

definition or_fatal :: "('w, 'a) io \<Rightarrow> string \<Rightarrow> ('a \<Rightarrow> ('w, 'b process) io) \<Rightarrow> ('w, 'b process) io" where
  "or_fatal m s k = handle m k (\<lambda>_. ret (Exit 1 s))"

definition createDefaultRestConfig :: "('cfg, 'c, 'cs, 'w) client_env \<Rightarrow> ('w, 'cfg) io" where
  "createDefaultRestConfig env =
     try_do (ce_ClientConfig env) (\<lambda>err. Wrapf err ''Unable to initialize REST config with default kubeconfig'' []) ret"

definition setup_clients :: "('cfg, 'c, 'cs, 'w) client_env \<Rightarrow> ('w, ('c \<times> 'cs \<times> 'cfg) process) io" where
  "setup_clients env =
     (let scheme = [ClientGo, BundleGroup, ApiExtensions] in
      or_fatal (ce_GetConfig env) (''couldn'' @ apo @ ''t get controller-runtime client'') (\<lambda>kubeconfig.
      or_fatal (ce_NewClient env kubeconfig scheme) (''couldn'' @ apo @ ''t create controller-runtime client'') (\<lambda>c.
      or_fatal (createDefaultRestConfig env) (''couldn'' @ apo @ ''t create default rest client'') (\<lambda>restConfig.
      or_fatal (ce_NewForConfig env restConfig) (''couldn'' @ apo @ ''t create client-go client'') (\<lambda>cs.
        ret (Running (c, cs, restConfig)))))))"

text \<open>
  \<open>Execute\<close> and the exit code of the process: the error of the run, if any, is printed.
\<close>

definition Execute :: "('u, 'w) cli \<Rightarrow> (gerror \<Rightarrow> string) \<Rightarrow> ('w, unit) io \<Rightarrow> ('w, nat) io" where
  "Execute cl error_text rootCmd_Execute =
     check rootCmd_Execute () (\<lambda>err _. case err of
         None \<Rightarrow> ret 0
       | Some e \<Rightarrow> andthen (printf (cl_shell cl) (error_text e @ newline)) (\<lambda>_. ret 1))"

text \<open>cmd/kb/main.go: the version variables the linker set, then \<open>Execute\<close>.\<close>

definition kb_main ::
    "('u, 'w) cli \<Rightarrow> Info \<Rightarrow> (gerror \<Rightarrow> string) \<Rightarrow> (('u, 'w) cli \<Rightarrow> ('w, unit) io) \<Rightarrow> ('w, nat) io" where
  "kb_main cl linked error_text rootCmd_Execute =
     (let cl' = cl\<lparr>cl_VInfo := linked\<rparr> in Execute cl' error_text (rootCmd_Execute cl'))"

section \<open>What the registrations make of the commands\<close>

definition children :: "string \<Rightarrow> string list" where
  "children p = List.map_filter (\<lambda>x. case x of AddCommand p' c \<Rightarrow> if p' = p then Some c else None | _ \<Rightarrow> None) wiring"

definition flags_of :: "string \<Rightarrow> kb_flag list" where
  "flags_of c = List.map_filter (\<lambda>x. case x of Flag c' f \<Rightarrow> if c' = c then Some f else None | _ \<Rightarrow> None) wiring"

definition all_flags :: "kb_flag list" where
  "all_flags = List.map_filter (\<lambda>x. case x of Flag _ f \<Rightarrow> Some f | PersistentFlag _ f \<Rightarrow> Some f | _ \<Rightarrow> None) wiring"

text \<open>The names a command answers to, which do not depend on what its closure uses.\<close>

definition command_names :: "string \<Rightarrow> string list" where
  "command_names c = (case map_of (commands :: (string \<times> (unit, unit) command) list) c of
     None \<Rightarrow> [] | Some d \<Rightarrow> c_Use d # c_Aliases d)"

definition run_command :: "('u, 'w) command \<Rightarrow> ('u, 'w) cli \<Rightarrow> string list \<Rightarrow> ('w, unit) io" where
  "run_command c cl args = andthen (lift_result (c_RunE c cl args)) (\<lambda>act. act)"

end
