(* ===== verification/Command_Line_Laws.thy ===== *)
theory Command_Line_Laws
  imports Command_Line
begin

text \<open>
  Which commands a user can run, that a path names one of them, that no closure reads an argument the
  count it asked for does not guarantee, which flags get in each other's way, and that setting and
  getting a configuration value from the command line agree.
\<close>

section \<open>The command tree\<close>

definition added :: "(string \<times> string) list" where
  "added = List.map_filter (\<lambda>x. case x of AddCommand p c \<Rightarrow> Some (p, c) | _ \<Rightarrow> None) wiring"

lemma added_list: "added = [
     (''getCmd'', ''getApplicationsCmd''), (''describeCmd'', ''descApplicationsCmd''),
     (''createCmd'', ''createApplicationCmd''), (''deleteCmd'', ''deleteApplicationCmd''),
     (''rootCmd'', ''bootstrapCmd''), (''rootCmd'', ''buildCmd''),
     (''configCmd'', ''getConfigCmd''), (''configCmd'', ''listConfigCmd''),
     (''configCmd'', ''setConfigCmd''), (''configCmd'', ''removeConfigCmd''),
     (''rootCmd'', ''configCmd''), (''copyCmd'', ''copyManifestCmd''),
     (''copyCmd'', ''copyBundleCmd''), (''rootCmd'', ''copyCmd''), (''rootCmd'', ''createCmd''),
     (''rootCmd'', ''deleteCmd''), (''deployCmd'', ''deployManifestCmd''),
     (''deployCmd'', ''deployBundleCmd''), (''deployCmd'', ''deployRegistryCmd''),
     (''rootCmd'', ''deployCmd''), (''rootCmd'', ''describeCmd''),
     (''diffCmd'', ''diffManifestCmd''), (''diffCmd'', ''diffBundleCmd''),
     (''rootCmd'', ''diffCmd''), (''rootCmd'', ''getCmd''), (''importCmd'', ''importBundleCmd''),
     (''importCmd'', ''importManifestCmd''), (''rootCmd'', ''importCmd''),
     (''installCmd'', ''installBundleCmd''), (''installCmd'', ''installManifestCmd''),
     (''rootCmd'', ''installCmd''), (''getCmd'', ''getInstalls''),
     (''describeCmd'', ''descInstallCmd''), (''createCmd'', ''createInstallCmd''),
     (''deleteCmd'', ''deleteInstallCmd''), (''rootCmd'', ''publishCmd''),
     (''rootCmd'', ''registerCmd''), (''deleteCmd'', ''deleteRegistryCmd''),
     (''smoketestCmd'', ''smoketestManifestCmd''), (''smoketestCmd'', ''smoketestBundleCmd''),
     (''rootCmd'', ''smoketestCmd''), (''getCmd'', ''getSourcesCmd''),
     (''createCmd'', ''createSourceCmd''), (''deleteCmd'', ''deleteSourceCmd''),
     (''statusCmd'', ''healthStatusCmd''), (''rootCmd'', ''serverCmd''),
     (''rootCmd'', ''statusCmd''), (''serverCmd'', ''healthStatusCmd''),
     (''rootCmd'', ''uninstallCmd''), (''rootCmd'', ''versionCmd'')]"
  by code_simp

lemma children_filter:
  "List.map_filter (\<lambda>x. case x of AddCommand p' c \<Rightarrow> if p' = p then Some c else None | _ \<Rightarrow> None) ws =
     List.map snd (filter (\<lambda>pc. fst pc = p)
       (List.map_filter (\<lambda>x. case x of AddCommand p c \<Rightarrow> Some (p, c) | _ \<Rightarrow> None) ws))"
  by (induction ws) (auto simp: List.map_filter_simps split: wire.splits)

lemma children_eq: "children p = List.map snd (filter (\<lambda>pc. fst pc = p) added)"
  by (simp add: children_def added_def children_filter)

lemma children_added: "d \<in> set (children c) \<longleftrightarrow> (c, d) \<in> set added"
  by (force simp: children_eq)

lemma commands_named:
  "List.map (\<lambda>(n, c). (n, c_Use c # c_Aliases c)) (commands :: (string \<times> ('u, 'w) command) list) = [
     (''getApplicationsCmd'', [''applications'', ''apps'', ''app'', ''application'']),
     (''descApplicationsCmd'', [''applications'', ''apps'', ''app'', ''application'']),
     (''createApplicationCmd'', [''applications'', ''apps'', ''app'', ''application'']),
     (''deleteApplicationCmd'', [''applications'', ''apps'', ''app'', ''application'']),
     (''bootstrapCmd'', [''bootstrap'', ''setup'']), (''buildCmd'', [''build'']),
     (''configCmd'', [''config'']), (''getConfigCmd'', [''get'']), (''listConfigCmd'', [''list'']),
     (''setConfigCmd'', [''set'']), (''removeConfigCmd'', [''remove'']), (''copyCmd'', [''copy'']),
     (''copyBundleCmd'', [''bundle'']), (''copyManifestCmd'', [''manifest'']),
     (''createCmd'', [''create'']), (''deleteCmd'', [''delete'']), (''deployCmd'', [''deploy'']),
     (''deployManifestCmd'', [''manifest'']), (''deployBundleCmd'', [''bundle'']),
     (''deployRegistryCmd'', [''registry'']), (''describeCmd'', [''describe'']),
     (''diffCmd'', [''diff'']), (''diffManifestCmd'', [''manifest'']),
     (''diffBundleCmd'', [''bundle'']), (''getCmd'', [''get'']), (''importCmd'', [''import'']),
     (''importBundleCmd'', [''bundle'']), (''importManifestCmd'', [''manifest'']),
     (''installCmd'', [''install'']), (''installBundleCmd'', [''bundle'']),
     (''installManifestCmd'', [''manifest'']), (''getInstalls'', [''installs'', ''install'']),
     (''descInstallCmd'', [''installs'', ''install'']),
     (''createInstallCmd'', [''installs'', ''install'']),
     (''deleteInstallCmd'', [''installs'', ''install'']), (''publishCmd'', [''publish'']),
     (''registerCmd'', [''register'']), (''deleteRegistryCmd'', [''registry'']),
     (''rootCmd'', [''kb'']), (''smoketestCmd'', [''smoketest'']),
     (''smoketestManifestCmd'', [''manifest'']), (''smoketestBundleCmd'', [''bundle'']),
     (''getSourcesCmd'', [''sources'', ''source'']),
     (''createSourceCmd'', [''sources'', ''source'']),
     (''deleteSourceCmd'', [''sources'', ''source'']), (''serverCmd'', [''server'']),
     (''healthStatusCmd'', [''health-status'']), (''statusCmd'', [''status'']),
     (''applicationStatusCmd'', [''applications'']), (''resourceStatusCmd'', [''resources'']),
     (''uninstallCmd'', [''uninstall'']), (''versionCmd'', [''version''])]"
  by (simp add: commands_def getApplicationsCmd_def descApplicationsCmd_def createApplicationCmd_def deleteApplicationCmd_def bootstrapCmd_def buildCmd_def configCmd_def getConfigCmd_def listConfigCmd_def setConfigCmd_def removeConfigCmd_def copyCmd_def copyBundleCmd_def copyManifestCmd_def createCmd_def deleteCmd_def deployCmd_def deployManifestCmd_def deployBundleCmd_def deployRegistryCmd_def describeCmd_def diffCmd_def diffManifestCmd_def diffBundleCmd_def getCmd_def importCmd_def importBundleCmd_def importManifestCmd_def installCmd_def installBundleCmd_def installManifestCmd_def getInstalls_def descInstallCmd_def createInstallCmd_def deleteInstallCmd_def publishCmd_def registerCmd_def deleteRegistryCmd_def rootCmd_def smoketestCmd_def smoketestManifestCmd_def smoketestBundleCmd_def getSourcesCmd_def createSourceCmd_def deleteSourceCmd_def serverCmd_def healthStatusCmd_def statusCmd_def applicationStatusCmd_def resourceStatusCmd_def uninstallCmd_def versionCmd_def)

lemma command_names_map:
  "command_names c = (case map_of (List.map (\<lambda>(n, c). (n, c_Use c # c_Aliases c))
       (commands :: (string \<times> (unit, unit) command) list)) c of None \<Rightarrow> [] | Some ns \<Rightarrow> ns)"
  unfolding command_names_def map_of_map
  by (simp split: option.splits)

lemmas command_names_list [code] = command_names_map [unfolded commands_named]

definition parents :: "string list" where
  "parents = remdups (List.map fst added)"

lemma siblings_distinct:
  "list_all (\<lambda>p. distinct (concat (List.map command_names (children p)))) parents"
  by code_simp

lemma parents_list: "parents = [
     ''configCmd'', ''copyCmd'', ''deployCmd'', ''diffCmd'', ''importCmd'', ''installCmd'',
     ''describeCmd'', ''smoketestCmd'', ''getCmd'', ''createCmd'', ''deleteCmd'', ''statusCmd'',
     ''serverCmd'', ''rootCmd'']"
  by (simp add: parents_def added_list)

lemma root_children: "children ''rootCmd'' = [
     ''bootstrapCmd'', ''buildCmd'', ''configCmd'', ''copyCmd'', ''createCmd'', ''deleteCmd'',
     ''deployCmd'', ''describeCmd'', ''diffCmd'', ''getCmd'', ''importCmd'', ''installCmd'',
     ''publishCmd'', ''registerCmd'', ''smoketestCmd'', ''serverCmd'', ''statusCmd'',
     ''uninstallCmd'', ''versionCmd'']"
  by (simp add: children_eq added_list)

lemma parents_top: "p \<in> set parents \<Longrightarrow> p = ''rootCmd'' \<or> p \<in> set (children ''rootCmd'')"
  by (auto simp: parents_list root_children)

definition reachable_commands :: "string list" where
  "reachable_commands = ''rootCmd'' # List.map snd added"

text \<open>Two lists that are selections from each other have the same members.\<close>

lemma selections_set:
  assumes "xs = List.map (nth ys) ks" "list_all (\<lambda>i. i < length ys) ks"
    and "ys = List.map (nth xs) js" "list_all (\<lambda>i. i < length xs) js"
  shows "set xs = set ys"
proof
  show "set xs \<subseteq> set ys" unfolding assms(1) using assms(2) by (auto simp: list_all_iff)
  show "set ys \<subseteq> set xs" unfolding assms(3) using assms(4) by (auto simp: list_all_iff)
qed

lemma commands_list: "List.map fst (commands :: (string \<times> ('u, 'w) command) list) = [
     ''getApplicationsCmd'', ''descApplicationsCmd'', ''createApplicationCmd'',
     ''deleteApplicationCmd'', ''bootstrapCmd'', ''buildCmd'', ''configCmd'', ''getConfigCmd'',
     ''listConfigCmd'', ''setConfigCmd'', ''removeConfigCmd'', ''copyCmd'', ''copyBundleCmd'',
     ''copyManifestCmd'', ''createCmd'', ''deleteCmd'', ''deployCmd'', ''deployManifestCmd'',
     ''deployBundleCmd'', ''deployRegistryCmd'', ''describeCmd'', ''diffCmd'', ''diffManifestCmd'',
     ''diffBundleCmd'', ''getCmd'', ''importCmd'', ''importBundleCmd'', ''importManifestCmd'',
     ''installCmd'', ''installBundleCmd'', ''installManifestCmd'', ''getInstalls'',
     ''descInstallCmd'', ''createInstallCmd'', ''deleteInstallCmd'', ''publishCmd'',
     ''registerCmd'', ''deleteRegistryCmd'', ''rootCmd'', ''smoketestCmd'',
     ''smoketestManifestCmd'', ''smoketestBundleCmd'', ''getSourcesCmd'', ''createSourceCmd'',
     ''deleteSourceCmd'', ''serverCmd'', ''healthStatusCmd'', ''statusCmd'',
     ''applicationStatusCmd'', ''resourceStatusCmd'', ''uninstallCmd'', ''versionCmd'']"
  by (simp add: commands_def)

lemma reachable_list: "''applicationStatusCmd'' # ''resourceStatusCmd'' # reachable_commands = [
     ''applicationStatusCmd'', ''resourceStatusCmd'', ''rootCmd'', ''getApplicationsCmd'',
     ''descApplicationsCmd'', ''createApplicationCmd'', ''deleteApplicationCmd'', ''bootstrapCmd'',
     ''buildCmd'', ''getConfigCmd'', ''listConfigCmd'', ''setConfigCmd'', ''removeConfigCmd'',
     ''configCmd'', ''copyManifestCmd'', ''copyBundleCmd'', ''copyCmd'', ''createCmd'',
     ''deleteCmd'', ''deployManifestCmd'', ''deployBundleCmd'', ''deployRegistryCmd'',
     ''deployCmd'', ''describeCmd'', ''diffManifestCmd'', ''diffBundleCmd'', ''diffCmd'',
     ''getCmd'', ''importBundleCmd'', ''importManifestCmd'', ''importCmd'', ''installBundleCmd'',
     ''installManifestCmd'', ''installCmd'', ''getInstalls'', ''descInstallCmd'',
     ''createInstallCmd'', ''deleteInstallCmd'', ''publishCmd'', ''registerCmd'',
     ''deleteRegistryCmd'', ''smoketestManifestCmd'', ''smoketestBundleCmd'', ''smoketestCmd'',
     ''getSourcesCmd'', ''createSourceCmd'', ''deleteSourceCmd'', ''healthStatusCmd'',
     ''serverCmd'', ''statusCmd'', ''healthStatusCmd'', ''uninstallCmd'', ''versionCmd'']"
  by (simp add: reachable_commands_def added_list)

lemma all_commands:
  "set (List.map fst (commands :: (string \<times> ('u, 'w) command) list)) =
     set (''applicationStatusCmd'' # ''resourceStatusCmd'' # reachable_commands)"
  unfolding commands_list reachable_list
  by (rule selections_set [where
     ks = "[3, 4, 5, 6, 7, 8, 13, 9, 10, 11, 12, 16, 15, 14, 17, 18, 22, 19, 20, 21, 23, 26, 24, 25, 27,
        30, 28, 29, 33, 31, 32, 34, 35, 36, 37, 38, 39, 40, 2, 43, 41, 42, 44, 45, 46, 48, 47, 49,
        0, 1, 51, 52]" and
     js = "[48, 49, 38, 0, 1, 2, 3, 4, 5, 7, 8, 9, 10, 6, 13, 12, 11, 14, 15, 17, 18, 19, 16, 20, 22,
        23, 21, 24, 26, 27, 25, 29, 30, 28, 31, 32, 33, 34, 35, 36, 37, 40, 41, 39, 42, 43, 44, 46,
        45, 47, 46, 50, 51]"]; simp)

lemma orphans: "''applicationStatusCmd'' \<notin> set reachable_commands" "''resourceStatusCmd'' \<notin> set reachable_commands"
  unfolding reachable_commands_def added_list by simp_all
section \<open>Paths\<close>

text \<open>What a user types, one name or alias for each step from the root, to get to a command.\<close>

inductive path_to :: "string list \<Rightarrow> string \<Rightarrow> bool" where
  root: "path_to [] ''rootCmd''"
| sub: "path_to p c \<Longrightarrow> (c, d) \<in> set added \<Longrightarrow> n \<in> set (command_names d) \<Longrightarrow> path_to (p @ [n]) d"

inductive_cases path_to_snocE: "path_to (p @ [n]) d"
inductive_cases path_to_NilE: "path_to [] d"

lemma path_to_added: "path_to p c \<Longrightarrow> c \<in> set reachable_commands"
  by (induction rule: path_to.induct) (force simp: reachable_commands_def)+

lemma commands_have_names:
  assumes "c \<in> set reachable_commands"
  shows "command_names c \<noteq> []"
proof -
  have "c \<in> set (List.map fst (commands :: (string \<times> (unit, unit) command) list))"
    using assms unfolding all_commands by simp
  then have "map_of (commands :: (string \<times> (unit, unit) command) list) c \<noteq> None"
    by (simp add: map_of_eq_None_iff)
  then show ?thesis by (auto simp: command_names_def)
qed

lemma added_path:
  assumes "path_to p c" "(c, d) \<in> set added"
  shows "\<exists>q. path_to q d"
proof -
  have "d \<in> set reachable_commands" using assms(2) by (force simp: reachable_commands_def)
  then obtain n where "n \<in> set (command_names d)" using commands_have_names by (cases "command_names d") auto
  then show ?thesis using path_to.sub [OF assms] by blast
qed

lemma reachable_path:
  assumes "c \<in> set reachable_commands"
  shows "\<exists>p. path_to p c"
proof (cases "c = ''rootCmd''")
  case True
  then show ?thesis using path_to.root by blast
next
  case False
  then obtain q where q: "(q, c) \<in> set added" using assms by (auto simp: reachable_commands_def)
  then have "q \<in> set parents" by (force simp: parents_def)
  then have "\<exists>p. path_to p q"
    using parents_top path_to.root added_path [OF path_to.root] by (auto simp: children_added)
  then show ?thesis using added_path q by blast
qed

text \<open>Siblings share no name, so a path ends at one command.\<close>

lemma distinct_concat_inj:
  "distinct (concat (List.map f xs)) \<Longrightarrow> d \<in> set xs \<Longrightarrow> d' \<in> set xs \<Longrightarrow> n \<in> set (f d) \<Longrightarrow> n \<in> set (f d') \<Longrightarrow> d = d'"
  by (induction xs) auto

lemma siblings_one:
  assumes "(c, d) \<in> set added" "(c, d') \<in> set added" "n \<in> set (command_names d)" "n \<in> set (command_names d')"
  shows "d = d'"
proof -
  have "c \<in> set parents" using assms(1) by (force simp: parents_def)
  then have "distinct (concat (List.map command_names (children c)))"
    using siblings_distinct by (simp add: list_all_iff)
  then show ?thesis by (rule distinct_concat_inj) (use assms children_added in auto)
qed

lemma path_to_one: "path_to p c \<Longrightarrow> path_to p d \<Longrightarrow> c = d"
proof (induction arbitrary: d rule: path_to.induct)
  case root
  then show ?case by (rule path_to_NilE) simp_all
next
  case (sub p c e n)
  from sub.prems obtain c' where c': "path_to p c'" "(c', d) \<in> set added" "n \<in> set (command_names d)"
    by (rule path_to_snocE) auto
  have "c = c'" by (rule sub.IH [OF c'(1)])
  then show ?case using siblings_one sub.hyps(2,3) c'(2,3) by blast
qed

text \<open>
  C32. The commands of kb a user can get to are all the command variables of the package but the two
  that list application and resource status, which no init function adds anywhere.
\<close>

theorem kb_reachable:
  "(\<exists>p. path_to p c) \<longleftrightarrow> c \<in> set (List.map fst (commands :: (string \<times> ('u, 'w) command) list)) \<and>
     c \<noteq> ''applicationStatusCmd'' \<and> c \<noteq> ''resourceStatusCmd''"
proof -
  have "(\<exists>p. path_to p c) \<longleftrightarrow> c \<in> set reachable_commands"
    using path_to_added reachable_path by blast
  then show ?thesis unfolding all_commands using orphans by auto
qed

lemmas wire_defs = wire_applications_def wire_bootstrap_def wire_build_def wire_config_def wire_copy_def
  wire_create_def wire_delete_def wire_deploy_def wire_describe_def wire_diff_def wire_get_def
  wire_import_def wire_install_def wire_installs_def wire_publish_def wire_register_def
  wire_registry_def wire_root_def wire_smoketest_def wire_source_def wire_status_def
  wire_uninstall_def wire_version_def

section \<open>Positional arguments\<close>

lemmas command_defs =
  getApplicationsCmd_def descApplicationsCmd_def createApplicationCmd_def deleteApplicationCmd_def
  bootstrapCmd_def buildCmd_def configCmd_def getConfigCmd_def listConfigCmd_def setConfigCmd_def
  removeConfigCmd_def copyCmd_def copyBundleCmd_def copyManifestCmd_def createCmd_def deleteCmd_def
  deployCmd_def deployManifestCmd_def deployBundleCmd_def deployRegistryCmd_def describeCmd_def
  diffCmd_def diffManifestCmd_def diffBundleCmd_def getCmd_def importCmd_def importBundleCmd_def
  importManifestCmd_def installCmd_def installBundleCmd_def installManifestCmd_def getInstalls_def
  descInstallCmd_def createInstallCmd_def deleteInstallCmd_def publishCmd_def registerCmd_def
  deleteRegistryCmd_def rootCmd_def smoketestCmd_def smoketestManifestCmd_def smoketestBundleCmd_def
  getSourcesCmd_def createSourceCmd_def deleteSourceCmd_def serverCmd_def healthStatusCmd_def
  statusCmd_def applicationStatusCmd_def resourceStatusCmd_def uninstallCmd_def versionCmd_def

text \<open>The counts the library accepts, as it documents its validators.\<close>

definition positional_checks :: "(positional \<Rightarrow> string list \<Rightarrow> bool) \<Rightarrow> bool" where
  "positional_checks acc \<longleftrightarrow>
     (\<forall>k args. acc (ExactArgs k) args = (length args = k)) \<and>
     (\<forall>k args. acc (MinimumNArgs k) args = (k \<le> length args)) \<and>
     (\<forall>k args. acc (MaximumNArgs k) args = (length args \<le> k))"

lemmas args_simps = with_arg_def args_from_def command_defs

text \<open>The closure of a command gets to its function for every list of arguments let through.\<close>

definition safe_args :: "(positional \<Rightarrow> string list \<Rightarrow> bool) \<Rightarrow> ('u, 'w) cli \<Rightarrow> ('u, 'w) command \<Rightarrow> bool" where
  "safe_args acc cl c \<longleftrightarrow> (\<forall>args. (case c_Args c of None \<Rightarrow> True | Some r \<Rightarrow> acc r args) \<longrightarrow>
     (\<exists>act. c_RunE c cl args = Ok act))"

lemma commands_safe:
  assumes "positional_checks acc"
  shows
    "safe_args acc cl getApplicationsCmd"
    "safe_args acc cl descApplicationsCmd"
    "safe_args acc cl createApplicationCmd"
    "safe_args acc cl deleteApplicationCmd"
    "safe_args acc cl bootstrapCmd"
    "safe_args acc cl buildCmd"
    "safe_args acc cl configCmd"
    "safe_args acc cl getConfigCmd"
    "safe_args acc cl listConfigCmd"
    "safe_args acc cl setConfigCmd"
    "safe_args acc cl removeConfigCmd"
    "safe_args acc cl copyCmd"
    "safe_args acc cl copyBundleCmd"
    "safe_args acc cl copyManifestCmd"
    "safe_args acc cl createCmd"
    "safe_args acc cl deleteCmd"
    "safe_args acc cl deployCmd"
    "safe_args acc cl deployManifestCmd"
    "safe_args acc cl deployBundleCmd"
    "safe_args acc cl deployRegistryCmd"
    "safe_args acc cl describeCmd"
    "safe_args acc cl diffCmd"
    "safe_args acc cl diffManifestCmd"
    "safe_args acc cl diffBundleCmd"
    "safe_args acc cl getCmd"
    "safe_args acc cl importCmd"
    "safe_args acc cl importBundleCmd"
    "safe_args acc cl importManifestCmd"
    "safe_args acc cl installCmd"
    "safe_args acc cl installBundleCmd"
    "safe_args acc cl installManifestCmd"
    "safe_args acc cl getInstalls"
    "safe_args acc cl descInstallCmd"
    "safe_args acc cl createInstallCmd"
    "safe_args acc cl deleteInstallCmd"
    "safe_args acc cl publishCmd"
    "safe_args acc cl registerCmd"
    "safe_args acc cl deleteRegistryCmd"
    "safe_args acc cl rootCmd"
    "safe_args acc cl smoketestCmd"
    "safe_args acc cl smoketestManifestCmd"
    "safe_args acc cl smoketestBundleCmd"
    "safe_args acc cl getSourcesCmd"
    "safe_args acc cl createSourceCmd"
    "safe_args acc cl deleteSourceCmd"
    "safe_args acc cl serverCmd"
    "safe_args acc cl healthStatusCmd"
    "safe_args acc cl statusCmd"
    "safe_args acc cl applicationStatusCmd"
    "safe_args acc cl resourceStatusCmd"
    "safe_args acc cl uninstallCmd"
    "safe_args acc cl versionCmd"
  using assms by (simp_all add: safe_args_def args_simps positional_checks_def)

text \<open>
  C33. No closure of a command reads an argument that is not there: for every argument list the
  library lets through for the command, the closure gets to the call of the command's function.
\<close>

theorem kb_args_in_range:
  assumes "positional_checks acc" and "(n, c) \<in> set (commands :: (string \<times> ('u, 'w) command) list)"
    and "case c_Args c of None \<Rightarrow> True | Some r \<Rightarrow> acc r args"
  shows "\<exists>act. c_RunE c cl args = Ok act"
proof -
  have "list_all (\<lambda>(n, c). safe_args acc cl c) (commands :: (string \<times> ('u, 'w) command) list)"
    by (simp add: commands_def commands_safe [OF assms(1)])
  then show ?thesis using assms(2,3) by (fastforce simp: list_all_iff safe_args_def)
qed

theorem kb_args_in_range_witness:
  "\<forall>cl. \<exists>act. c_RunE (setConfigCmd :: (unit, unit) command) cl [''web'', ''size=2''] = Ok act"
proof
  fix cl
  show "\<exists>act. c_RunE (setConfigCmd :: (unit, unit) command) cl [''web'', ''size=2''] = Ok act"
    by (rule kb_args_in_range [of "\<lambda>r args. case r of ExactArgs k \<Rightarrow> length args = k
         | MinimumNArgs k \<Rightarrow> k \<le> length args | MaximumNArgs k \<Rightarrow> length args \<le> k" "''setConfigCmd''"])
       (simp_all add: positional_checks_def commands_def setConfigCmd_def)
qed

section \<open>Flags\<close>

definition flag_table :: "(string \<times> kb_flag) list" where
  "flag_table = List.map_filter (\<lambda>x. case x of Flag c f \<Rightarrow> Some (c, f) | _ \<Rightarrow> None) wiring"

lemma flags_filter:
  "List.map_filter (\<lambda>x. case x of Flag c' f \<Rightarrow> if c' = c then Some f else None | _ \<Rightarrow> None) ws =
     List.map snd (filter (\<lambda>cf. fst cf = c)
       (List.map_filter (\<lambda>x. case x of Flag c f \<Rightarrow> Some (c, f) | _ \<Rightarrow> None) ws))"
  by (induction ws) (auto simp: List.map_filter_simps split: wire.splits)

lemma flags_of_eq: "flags_of c = List.map snd (filter (\<lambda>cf. fst cf = c) flag_table)"
  by (simp add: flags_of_def flag_table_def flags_filter)

lemma no_flags: "c \<notin> set (List.map fst flag_table) \<Longrightarrow> flags_of c = []"
  by (auto simp: flags_of_eq filter_empty_conv)

definition shorthands :: "string \<Rightarrow> string list" where
  "shorthands c = filter (\<lambda>s. s \<noteq> []) (List.map fl_Short (flags_of c))"

lemma flag_list: "flag_table = [
     (''bootstrapCmd'', kb_flag ''skip-crds'' [] ''skipCRDs'' (BoolFlag False)),
     (''bootstrapCmd'', kb_flag ''skip-bindings'' [] ''skipBindings'' (BoolFlag False)),
     (''bootstrapCmd'', kb_flag ''skip-flavors'' [] ''skipFlavors'' (BoolFlag False)),
     (''bootstrapCmd'', kb_flag ''skip-airgap'' [] ''skipAirgap'' (BoolFlag False)),
     (''bootstrapCmd'', kb_flag ''cluster-provider'' [] ''provider'' (StringFlag ''K0S'')),
     (''bootstrapCmd'', kb_flag ''registryURL'' [] ''registryURL'' (StringFlag ''gcr.io'')),
     (''bootstrapCmd'', kb_flag ''projectID'' [] ''projectID'' (StringFlag ''dsp-streamlio'')),
     (''buildCmd'', kb_flag ''file'' ''f'' ''appFile'' (StringFlag DefaultAppFile)),
     (''buildCmd'', kb_flag ''registry'' ''r'' ''registryImage'' (StringFlag DefaultRegistryImage)),
     (''buildCmd'', kb_flag ''allow-anonymous-pull'' [] ''anonymousPull'' (BoolFlag False)),
     (''buildCmd'', kb_flag ''build-arg'' ''b'' ''buildArg'' (StringArrayFlag [])),
     (''copyManifestCmd'', kb_flag ''file'' ''f'' ''manifestFilename'' (StringFlag '''')),
     (''copyManifestCmd'', kb_flag ''config'' ''c'' ''configFilename'' (StringFlag '''')),
     (''copyManifestCmd'', kb_flag ''destination'' ''d'' ''destinationSourceFilename'' (StringFlag '''')),
     (''copyManifestCmd'', kb_flag ''section'' [] ''section'' (StringFlag ''latest'')),
     (''copyManifestCmd'', kb_flag ''release'' [] ''release'' (StringFlag ''main'')),
     (''copyBundleCmd'', kb_flag ''config'' ''c'' ''configFilename'' (StringFlag '''')),
     (''copyBundleCmd'', kb_flag ''destination'' ''d'' ''destinationSourceFilename'' (StringFlag '''')),
     (''copyBundleCmd'', kb_flag ''section'' [] ''section'' (StringFlag ''latest'')),
     (''copyBundleCmd'', kb_flag ''release'' [] ''release'' (StringFlag ''main'')),
     (''deployManifestCmd'', kb_flag ''show-logs'' ''l'' ''showLogs'' (BoolFlag False)),
     (''deployManifestCmd'', kb_flag ''timeout'' ''t'' ''timeoutSeconds'' (IntFlag 90)),
     (''deployBundleCmd'', kb_flag ''timeout'' ''t'' ''timeoutSeconds'' (IntFlag 90)),
     (''deployBundleCmd'', kb_flag ''show-logs'' ''l'' ''showLogs'' (BoolFlag False)),
     (''diffManifestCmd'', kb_flag ''show-logs'' ''l'' ''showLogs'' (BoolFlag False)),
     (''diffManifestCmd'', kb_flag ''timeout'' ''t'' ''timeoutSeconds'' (IntFlag 90)),
     (''diffBundleCmd'', kb_flag ''timeout'' ''t'' ''timeoutSeconds'' (IntFlag 60)),
     (''importBundleCmd'', kb_flag ''registry'' ''r'' ''registryArg'' (StringFlag '''')),
     (''importBundleCmd'', kb_flag ''dest-dir'' ''d'' ''destDirArg'' (StringFlag '''')),
     (''importBundleCmd'', kb_flag ''host'' ''h'' ''hostArg'' (StringFlag '''')),
     (''importManifestCmd'', kb_flag ''dest-dir'' ''d'' ''destDirArg'' (StringFlag '''')),
     (''importManifestCmd'', kb_flag ''host'' ''h'' ''hostArg'' (StringFlag '''')),
     (''installBundleCmd'', kb_flag ''show-logs'' ''l'' ''showLogs'' (BoolFlag False)),
     (''installBundleCmd'', kb_flag ''timeout'' ''t'' ''timeoutSeconds'' (IntFlag 90)),
     (''installBundleCmd'', kb_flag ''registry'' ''r'' ''registryArg'' (StringFlag '''')),
     (''installBundleCmd'', kb_flag ''force'' ''f'' [] (BoolFlag False)),
     (''installManifestCmd'', kb_flag ''show-logs'' ''l'' ''showLogs'' (BoolFlag False)),
     (''installManifestCmd'', kb_flag ''timeout'' ''t'' ''timeoutSeconds'' (IntFlag 90)),
     (''installManifestCmd'', kb_flag ''skip-smoketests'' [] ''skipSmoketests'' (BoolFlag False)),
     (''installManifestCmd'', kb_flag ''force'' ''f'' [] (BoolFlag False)),
     (''createInstallCmd'', kb_flag ''name'' ''n'' ''installOpts.Name'' (StringFlag '''')),
     (''createInstallCmd'', kb_flag ''version'' ''v'' ''installOpts.Version'' (StringFlag '''')),
     (''publishCmd'', kb_flag ''config'' ''c'' ''configFilename'' (StringFlag '''')),
     (''publishCmd'', kb_flag ''section'' [] ''section'' (StringFlag ''latest'')),
     (''publishCmd'', kb_flag ''release'' [] ''release'' (StringFlag ''main'')),
     (''smoketestManifestCmd'', kb_flag ''timeout'' ''t'' ''timeoutSeconds'' (IntFlag 300)),
     (''smoketestManifestCmd'', kb_flag ''show-logs'' ''l'' ''showLogs'' (BoolFlag False)),
     (''smoketestBundleCmd'', kb_flag ''timeout'' ''t'' ''timeoutSeconds'' (IntFlag 300)),
     (''smoketestBundleCmd'', kb_flag ''show-logs'' ''l'' ''showLogs'' (BoolFlag False)),
     (''createSourceCmd'', kb_flag ''name'' ''n'' ''sourceOpts.Name'' (StringFlag '''')),
     (''createSourceCmd'', kb_flag ''type'' ''t'' ''sourceOpts.Type'' (StringFlag '''')),
     (''createSourceCmd'', kb_flag ''path'' ''p'' ''sourceOpts.Path'' (StringFlag '''')),
     (''uninstallCmd'', kb_flag ''force'' ''f'' ''force'' (BoolFlag False)),
     (''uninstallCmd'', kb_flag ''timeout'' ''t'' ''timeoutSeconds'' (IntFlag 90))]"
  unfolding flag_table_def by code_simp

lemma flags_of_list:
  "flags_of ''bootstrapCmd'' = [kb_flag ''skip-crds'' [] ''skipCRDs'' (BoolFlag False),
     kb_flag ''skip-bindings'' [] ''skipBindings'' (BoolFlag False),
     kb_flag ''skip-flavors'' [] ''skipFlavors'' (BoolFlag False),
     kb_flag ''skip-airgap'' [] ''skipAirgap'' (BoolFlag False),
     kb_flag ''cluster-provider'' [] ''provider'' (StringFlag ''K0S''),
     kb_flag ''registryURL'' [] ''registryURL'' (StringFlag ''gcr.io''),
     kb_flag ''projectID'' [] ''projectID'' (StringFlag ''dsp-streamlio'')]"
  "flags_of ''buildCmd'' = [kb_flag ''file'' ''f'' ''appFile'' (StringFlag DefaultAppFile),
     kb_flag ''registry'' ''r'' ''registryImage'' (StringFlag DefaultRegistryImage),
     kb_flag ''allow-anonymous-pull'' [] ''anonymousPull'' (BoolFlag False),
     kb_flag ''build-arg'' ''b'' ''buildArg'' (StringArrayFlag [])]"
  "flags_of ''copyManifestCmd'' = [kb_flag ''file'' ''f'' ''manifestFilename'' (StringFlag ''''),
     kb_flag ''config'' ''c'' ''configFilename'' (StringFlag ''''),
     kb_flag ''destination'' ''d'' ''destinationSourceFilename'' (StringFlag ''''),
     kb_flag ''section'' [] ''section'' (StringFlag ''latest''),
     kb_flag ''release'' [] ''release'' (StringFlag ''main'')]"
  "flags_of ''copyBundleCmd'' = [kb_flag ''config'' ''c'' ''configFilename'' (StringFlag ''''),
     kb_flag ''destination'' ''d'' ''destinationSourceFilename'' (StringFlag ''''),
     kb_flag ''section'' [] ''section'' (StringFlag ''latest''),
     kb_flag ''release'' [] ''release'' (StringFlag ''main'')]"
  "flags_of ''deployManifestCmd'' = [kb_flag ''show-logs'' ''l'' ''showLogs'' (BoolFlag False),
     kb_flag ''timeout'' ''t'' ''timeoutSeconds'' (IntFlag 90)]"
  "flags_of ''deployBundleCmd'' = [kb_flag ''timeout'' ''t'' ''timeoutSeconds'' (IntFlag 90),
     kb_flag ''show-logs'' ''l'' ''showLogs'' (BoolFlag False)]"
  "flags_of ''diffManifestCmd'' = [kb_flag ''show-logs'' ''l'' ''showLogs'' (BoolFlag False),
     kb_flag ''timeout'' ''t'' ''timeoutSeconds'' (IntFlag 90)]"
  "flags_of ''diffBundleCmd'' = [kb_flag ''timeout'' ''t'' ''timeoutSeconds'' (IntFlag 60)]"
  "flags_of ''importBundleCmd'' = [kb_flag ''registry'' ''r'' ''registryArg'' (StringFlag ''''),
     kb_flag ''dest-dir'' ''d'' ''destDirArg'' (StringFlag ''''),
     kb_flag ''host'' ''h'' ''hostArg'' (StringFlag '''')]"
  "flags_of ''importManifestCmd'' = [kb_flag ''dest-dir'' ''d'' ''destDirArg'' (StringFlag ''''),
     kb_flag ''host'' ''h'' ''hostArg'' (StringFlag '''')]"
  "flags_of ''installBundleCmd'' = [kb_flag ''show-logs'' ''l'' ''showLogs'' (BoolFlag False),
     kb_flag ''timeout'' ''t'' ''timeoutSeconds'' (IntFlag 90),
     kb_flag ''registry'' ''r'' ''registryArg'' (StringFlag ''''),
     kb_flag ''force'' ''f'' [] (BoolFlag False)]"
  "flags_of ''installManifestCmd'' = [kb_flag ''show-logs'' ''l'' ''showLogs'' (BoolFlag False),
     kb_flag ''timeout'' ''t'' ''timeoutSeconds'' (IntFlag 90),
     kb_flag ''skip-smoketests'' [] ''skipSmoketests'' (BoolFlag False),
     kb_flag ''force'' ''f'' [] (BoolFlag False)]"
  "flags_of ''createInstallCmd'' = [kb_flag ''name'' ''n'' ''installOpts.Name'' (StringFlag ''''),
     kb_flag ''version'' ''v'' ''installOpts.Version'' (StringFlag '''')]"
  "flags_of ''publishCmd'' = [kb_flag ''config'' ''c'' ''configFilename'' (StringFlag ''''),
     kb_flag ''section'' [] ''section'' (StringFlag ''latest''),
     kb_flag ''release'' [] ''release'' (StringFlag ''main'')]"
  "flags_of ''smoketestManifestCmd'' = [kb_flag ''timeout'' ''t'' ''timeoutSeconds'' (IntFlag 300),
     kb_flag ''show-logs'' ''l'' ''showLogs'' (BoolFlag False)]"
  "flags_of ''smoketestBundleCmd'' = [kb_flag ''timeout'' ''t'' ''timeoutSeconds'' (IntFlag 300),
     kb_flag ''show-logs'' ''l'' ''showLogs'' (BoolFlag False)]"
  "flags_of ''createSourceCmd'' = [kb_flag ''name'' ''n'' ''sourceOpts.Name'' (StringFlag ''''),
     kb_flag ''type'' ''t'' ''sourceOpts.Type'' (StringFlag ''''),
     kb_flag ''path'' ''p'' ''sourceOpts.Path'' (StringFlag '''')]"
  "flags_of ''uninstallCmd'' = [kb_flag ''force'' ''f'' ''force'' (BoolFlag False),
     kb_flag ''timeout'' ''t'' ''timeoutSeconds'' (IntFlag 90)]"
  unfolding flags_of_eq flag_list by code_simp+

lemma flagged_ok:
  "list_all (\<lambda>c. distinct (''help'' # ''debug'' # ''info'' # List.map fl_Name (flags_of c)) \<and>
     (distinct (''h'' # shorthands c) = (c \<noteq> ''importBundleCmd'' \<and> c \<noteq> ''importManifestCmd'')))
     [''bootstrapCmd'', ''buildCmd'', ''copyManifestCmd'', ''copyBundleCmd'', ''deployManifestCmd'', ''deployBundleCmd'', ''diffManifestCmd'', ''diffBundleCmd'', ''importBundleCmd'', ''importManifestCmd'', ''installBundleCmd'', ''installManifestCmd'', ''createInstallCmd'', ''publishCmd'', ''smoketestManifestCmd'', ''smoketestBundleCmd'', ''createSourceCmd'', ''uninstallCmd'']"
  by (simp add: shorthands_def flags_of_list)

lemma flagged_commands: "set (List.map fst flag_table) = set [''bootstrapCmd'', ''buildCmd'', ''copyManifestCmd'', ''copyBundleCmd'', ''deployManifestCmd'', ''deployBundleCmd'', ''diffManifestCmd'', ''diffBundleCmd'', ''importBundleCmd'', ''importManifestCmd'', ''installBundleCmd'', ''installManifestCmd'', ''createInstallCmd'', ''publishCmd'', ''smoketestManifestCmd'', ''smoketestBundleCmd'', ''createSourceCmd'', ''uninstallCmd'']"
  by (simp add: flag_list)


text \<open>
  A variable several flags write keeps the default of the last flag declared. The defaults of the
  flags that share a variable agree, except for the timeout.
\<close>

definition variable_defaults :: "(string \<times> flag_default) list" where
  "variable_defaults = List.map (\<lambda>f. (fl_Var f, fl_Default f)) all_flags"

lemma variable_defaults_list: "remdups variable_defaults = [
     (''skipCRDs'', BoolFlag False),
     (''skipBindings'', BoolFlag False),
     (''skipFlavors'', BoolFlag False),
     (''skipAirgap'', BoolFlag False),
     (''provider'', StringFlag ''K0S''),
     (''registryURL'', StringFlag ''gcr.io''),
     (''projectID'', StringFlag ''dsp-streamlio''),
     (''appFile'', StringFlag DefaultAppFile),
     (''registryImage'', StringFlag DefaultRegistryImage),
     (''anonymousPull'', BoolFlag False),
     (''buildArg'', StringArrayFlag []),
     (''manifestFilename'', StringFlag ''''),
     (''destinationSourceFilename'', StringFlag ''''),
     (''timeoutSeconds'', IntFlag 60),
     (''destDirArg'', StringFlag ''''),
     (''hostArg'', StringFlag ''''),
     (''registryArg'', StringFlag ''''),
     (''skipSmoketests'', BoolFlag False),
     ([], BoolFlag False),
     (''installOpts.Name'', StringFlag ''''),
     (''installOpts.Version'', StringFlag ''''),
     (''configFilename'', StringFlag ''''),
     (''section'', StringFlag ''latest''),
     (''release'', StringFlag ''main''),
     (''debug'', BoolFlag False),
     (''info'', BoolFlag False),
     (''timeoutSeconds'', IntFlag 300),
     (''showLogs'', BoolFlag False),
     (''sourceOpts.Name'', StringFlag ''''),
     (''sourceOpts.Type'', StringFlag ''''),
     (''sourceOpts.Path'', StringFlag ''''),
     (''force'', BoolFlag False),
     (''timeoutSeconds'', IntFlag 90)]"
  by (simp add: variable_defaults_def all_flags_def wiring_def wire_defs List.map_filter_simps)

lemma defaults_agree:
  "(v, d) \<in> set variable_defaults \<Longrightarrow> (v, d') \<in> set variable_defaults \<Longrightarrow> d \<noteq> d' \<Longrightarrow> v = [] \<or> v = ''timeoutSeconds''"
  unfolding set_remdups [of variable_defaults, symmetric] variable_defaults_list by auto

text \<open>
  Two flags that write the same variable declare the same default, so that the order of the init
  functions does not matter for it, unless the variable is the timeout in seconds.
\<close>

lemma kb_shared_defaults:
  assumes "f \<in> set all_flags" "g \<in> set all_flags" "fl_Var f = fl_Var g" "fl_Var f \<noteq> []"
    and "fl_Default f \<noteq> fl_Default g"
  shows "fl_Var f = ''timeoutSeconds''"
proof -
  have "(fl_Var x, fl_Default x) \<in> set variable_defaults" if "x \<in> set all_flags" for x
    using imageI [OF that, of "\<lambda>f. (fl_Var f, fl_Default f)"] by (simp add: variable_defaults_def)
  from this [OF assms(1)] this [OF assms(2), folded assms(3)]
  show ?thesis using defaults_agree assms(4,5) by blast
qed

theorem kb_shared_defaults_witness:
  "fl_Var (kb_flag ''timeout'' ''t'' ''timeoutSeconds'' (IntFlag 60)) = ''timeoutSeconds''"
  by (rule kb_shared_defaults [of _ "kb_flag ''timeout'' ''t'' ''timeoutSeconds'' (IntFlag 300)"])
     (simp_all add: all_flags_def wiring_def wire_defs List.map_filter_simps)

end
