(* ===== verification/Command_Runs.thy ===== *)
theory Command_Runs
  imports Command_Line_Laws Commands_Laws
begin

text \<open>
  Whole runs of \<open>kb\<close>: the command line library finds the command a path names and hands it the
  remaining arguments, the command function talks to the cluster, and the error decides the exit
  code. With it, what \<open>kb config set\<close> stored is what \<open>kb config get\<close> prints.
\<close>

section \<open>The library\<close>

text \<open>
  What is relied on of the command line library, for command lines without flags: the path of a
  command that has no subcommands, followed by arguments that do not look like flags and that the
  count of the command lets through, runs the closure of the command with these arguments.
\<close>

definition plain_arg :: "string \<Rightarrow> bool" where
  "plain_arg a = (a = [] \<or> hd a \<noteq> CHR ''-'')"

definition dispatches ::
    "(string list \<Rightarrow> ('w, unit) io) \<Rightarrow> (positional \<Rightarrow> string list \<Rightarrow> bool) \<Rightarrow> ('u, 'w) cli \<Rightarrow> bool" where
  "dispatches exec acc cl \<longleftrightarrow> (\<forall>p n c args. path_to p n \<longrightarrow> children n = [] \<longrightarrow> map_of commands n = Some c \<longrightarrow>
     list_all plain_arg args \<longrightarrow> (case c_Args c of None \<Rightarrow> True | Some r \<Rightarrow> acc r args) \<longrightarrow>
     exec (p @ args) = run_command c cl args)"

lemma run_command_Ok: "c_RunE c cl args = Ok act \<Longrightarrow> run_command c cl args = act"
  by (auto simp: run_command_def lift_result_def andthen_def try_do_def handle_def fail_def fun_eq_iff
      split: result.splits prod.splits)

lemma Execute_zero: "Execute cl t m w = (Ok 0, w') \<longleftrightarrow> m w = (Ok (), w')"
  by (auto simp: Execute_def check_def handle_def andthen_def try_do_def printf_def ret_def
      split: result.splits prod.splits)

section \<open>Two commands of the configuration\<close>

lemma config_paths:
  "path_to [''config'', ''set''] ''setConfigCmd''" "path_to [''config'', ''get''] ''getConfigCmd''"
proof -
  have c: "path_to [''config''] ''configCmd''"
    using path_to.sub [OF path_to.root, of "''configCmd''" "''config''"] by (simp add: added_list command_names_list)
  show "path_to [''config'', ''set''] ''setConfigCmd''"
    using path_to.sub [OF c, of "''setConfigCmd''" "''set''"] by (simp add: added_list command_names_list)
  show "path_to [''config'', ''get''] ''getConfigCmd''"
    using path_to.sub [OF c, of "''getConfigCmd''" "''get''"] by (simp add: added_list command_names_list)
qed

lemma config_leaves: "children ''setConfigCmd'' = []" "children ''getConfigCmd'' = []"
  by (simp_all add: children_eq added_list)

lemma config_run:
  assumes "dispatches exec acc cl" "positional_checks acc"
  shows "plain_arg n \<Longrightarrow> list_all plain_arg kvs \<Longrightarrow> kvs \<noteq> [] \<Longrightarrow>
      exec (''config'' # ''set'' # n # kvs) = setConfig (cl_shell cl) n kvs"
    and "plain_arg n \<Longrightarrow> plain_arg key \<Longrightarrow>
      exec [''config'', ''get'', n, key] = getConfig (cl_shell cl) n key"
proof -
  assume a: "plain_arg n" "list_all plain_arg kvs" "kvs \<noteq> []"
  have "exec ([''config'', ''set''] @ (n # kvs)) = run_command setConfigCmd cl (n # kvs)"
    using assms(1) [unfolded dispatches_def, rule_format, OF config_paths(1) config_leaves(1),
        of setConfigCmd "n # kvs"] assms(2) a
    by (cases kvs) (auto simp: commands_def setConfigCmd_def positional_checks_def)
  then show "exec (''config'' # ''set'' # n # kvs) = setConfig (cl_shell cl) n kvs"
    by (simp add: run_command_Ok setConfigCmd_def with_arg_def args_from_def)
next
  assume a: "plain_arg n" "plain_arg key"
  have "exec ([''config'', ''get''] @ [n, key]) = run_command getConfigCmd cl [n, key]"
    using assms(1) [unfolded dispatches_def, rule_format, OF config_paths(2) config_leaves(2),
        of getConfigCmd "[n, key]"] assms(2) a
    by (auto simp: commands_def getConfigCmd_def positional_checks_def)
  then show "exec [''config'', ''get'', n, key] = getConfig (cl_shell cl) n key"
    by (simp add: run_command_Ok getConfigCmd_def with_arg_def)
qed

lemma setConfig_one:
  assumes "CHR ''='' \<notin> set key" "CHR ''='' \<notin> set value"
  shows "setConfig sh n [key @ ''='' @ value] w = (Ok (), w') \<longleftrightarrow>
      Config_Set (sh_config sh) (install_ref n) key value w = (Ok (), w')"
proof -
  have tw: "takeWhile (\<lambda>c. c \<noteq> CHR ''='') (key @ ''='' @ value) = key"
    and dw: "dropWhile (\<lambda>c. c \<noteq> CHR ''='') (key @ ''='' @ value) = ''='' @ value"
    using assms(1) by (auto simp: takeWhile_append dropWhile_append)
  have "filter (\<lambda>c. c \<noteq> CHR ''='') value = value" using assms(2) by (auto simp: filter_id_conv)
  then have "splitKeyValue (key @ ''='' @ value) = Ok (key, value)"
    by (simp add: splitKeyValue_cut tw dw del: append.simps)
  then show ?thesis
    by (auto simp: setConfig_def io_ok lift_result_def ret_def del: iffI)
qed


section \<open>A library that dispatches\<close>

text \<open>Walk down the tree as long as an argument names a subcommand.\<close>

fun walk :: "string \<Rightarrow> string list \<Rightarrow> string \<times> string list" where
  "walk c [] = (c, [])"
| "walk c (a # args) = (case List.find (\<lambda>d. a \<in> set (command_names d)) (children c) of
     Some d \<Rightarrow> walk d args | None \<Rightarrow> (c, a # args))"

lemma walk_path: "path_to p c \<Longrightarrow> walk ''rootCmd'' (p @ args) = walk c args"
proof (induction arbitrary: args rule: path_to.induct)
  case (sub p c d n)
  obtain d' where d': "List.find (\<lambda>d. n \<in> set (command_names d)) (children c) = Some d'"
    using sub.hyps(2,3) children_added by (fastforce simp: find_None_iff2 dest: sym
        intro: option.exhaust [of "List.find (\<lambda>d. n \<in> set (command_names d)) (children c)"])
  then have "d' \<in> set (children c)" "n \<in> set (command_names d')" by (auto simp: find_Some_iff)
  then have "d' = d" using siblings_one sub.hyps(2,3) children_added by blast
  then show ?case using sub.IH [of "n # args"] d' by simp
qed simp

lemma walk_leaf: "children c = [] \<Longrightarrow> walk c args = (c, args)"
  by (cases args) simp_all

definition small_library ::
    "(positional \<Rightarrow> string list \<Rightarrow> bool) \<Rightarrow> ('u, 'w) cli \<Rightarrow> string list \<Rightarrow> ('w, unit) io" where
  "small_library acc cl argv = (case walk ''rootCmd'' argv of (n, args) \<Rightarrow>
     (case map_of commands n of
        None \<Rightarrow> fail (Foreign ''unknown command'')
      | Some c \<Rightarrow> if (case c_Args c of None \<Rightarrow> True | Some r \<Rightarrow> acc r args) then run_command c cl args
          else fail (Foreign ''wrong number of arguments'')))"

lemma small_library_dispatches: "dispatches (small_library acc cl) acc cl"
  by (simp add: dispatches_def small_library_def walk_path walk_leaf)

definition counts :: "positional \<Rightarrow> string list \<Rightarrow> bool" where
  "counts r args = (case r of ExactArgs k \<Rightarrow> length args = k | MinimumNArgs k \<Rightarrow> k \<le> length args
     | MaximumNArgs k \<Rightarrow> length args \<le> k)"

lemma counts_positional: "positional_checks counts"
  by (simp add: positional_checks_def counts_def)

text \<open>No docker engine, and the shell of the sample cluster, in which the install \<open>web\<close> has a color.\<close>

definition no_docker :: "memory builder" where
  "no_docker = (let none = Foreign ''cannot connect'' in
     \<lparr>bd_NewClient = fail none, bd_GetAllCredentials = fail none, bd_UrlParse = (\<lambda>s. Ok (s, [])), bd_ErrorOf = (\<lambda>l. []),
     bd_Open = (\<lambda>p. fail none), bd_DecodeApp = (\<lambda>h. fail none), bd_Create = (\<lambda>p. fail none), bd_Close = (\<lambda>h. ret ()),
     bd_Copy = (\<lambda>h g. fail none), zw_Create = (\<lambda>h n. fail none), zw_Close = (\<lambda>h. ret ()), dk_Tar = (\<lambda>d. fail none),
     dk_ImageBuild = (\<lambda>t i a c. fail none), dk_ImagePull = (\<lambda>i a. fail none), dk_ImageTag = (\<lambda>i j. fail none),
     dk_ImagePush = (\<lambda>i b a. fail none), dk_Progress = (\<lambda>h. fail none), dk_ContainerCreate = (\<lambda>i. fail none),
     dk_ContainerStart = (\<lambda>c. fail none), dk_ContainerStop = (\<lambda>c. fail none), dk_ContainerRemove = (\<lambda>c. fail none),
     dk_CopyFromContainer = (\<lambda>c p. fail none)\<rparr>)"

definition sample_cli :: "(string, memory) cli" where
  "sample_cli = \<lparr>cl_shell = sample_shell mem_client example_apps, cl_vars = zero_vars,
     cl_installOpts = \<lparr>io_Name = [], io_Version = []\<rparr>, cl_sourceOpts = \<lparr>so_Name = [], so_Type = [], so_Path = []\<rparr>,
     cl_bootstrap = init_bootstrap, cl_builder = no_docker, cl_buildArg = [], cl_registryImage = [],
     cl_anonymousPull = False, cl_GetBool = (\<lambda>_. Ok False), cl_Help = (\<lambda>_. ret ()), cl_HealthStatus = ret (),
     cl_VInfo = \<lparr>vi_FullVersion = [], vi_SemanticVersion = [], vi_BuildDateTime = [], vi_PipelineID = [],
       vi_GitShortSHA = [], vi_BuildOS = []\<rparr>\<rparr>"

abbreviation sample_exec :: "string list \<Rightarrow> (memory, unit) io" where
  "sample_exec \<equiv> small_library counts sample_cli"


end
