(* ===== verification/Controller_Manager.thy ===== *)
theory Controller_Manager
  imports Prelude
begin

text \<open>
  The controller manager (main.go, controllers, api/v1alpha1/groupversion\_info.go and the registration of
  the types): the scheme the program builds, the reconcilers of the six custom resources and the start
  of the manager. The controller-runtime library is a parameter.
\<close>

section \<open>The scheme (groupversion\_info.go and the init functions of the types)\<close>

datatype group_version = group_version (gv_Group: string) (gv_Version: string)

definition GroupVersion :: group_version where
  "GroupVersion = group_version ''bundle.splunk.com'' ''v1alpha1''"

text \<open>The kinds each file adds to the scheme builder, in the order of the files.\<close>

definition register_Application :: "string list" where
  "register_Application = [''Application'', ''ApplicationList'']"

definition register_Flavor :: "string list" where
  "register_Flavor = [''Flavor'', ''FlavorList'']"

definition register_Install :: "string list" where
  "register_Install = [''Install'', ''InstallList'']"

definition register_Manifest :: "string list" where
  "register_Manifest = [''Manifest'', ''ManifestList'']"

definition register_Registry :: "string list" where
  "register_Registry = [''Registry'', ''RegistryList'']"

definition register_Source :: "string list" where
  "register_Source = [''Source'', ''SourceList'']"

definition SchemeBuilder :: "string list" where
  "SchemeBuilder = register_Application @ register_Flavor @ register_Install @ register_Manifest @
     register_Registry @ register_Source"

type_synonym kube_scheme = "(group_version \<times> string) list"

definition AddToScheme :: "kube_scheme \<Rightarrow> kube_scheme" where
  "AddToScheme s = s @ map (\<lambda>k. (GroupVersion, k)) SchemeBuilder"

text \<open>The package variable of main.go, after its init function added the types of the client library.\<close>

definition main_scheme :: "kube_scheme \<Rightarrow> kube_scheme" where
  "main_scheme clientgo = AddToScheme clientgo"

section \<open>The reconcilers (controllers)\<close>

text \<open>
  A request names an object. A reconciler answers with a result, here always the empty one (no
  requeue), and an error.
\<close>

record ctrl_request =
  cr_Namespace :: string
  cr_Name :: string

record ctrl_result =
  cr_Requeue :: bool
  cr_RequeueAfter :: int

type_synonym 'w reconciler = "ctrl_request \<Rightarrow> ('w, ctrl_result) io"

abbreviation empty_result :: ctrl_result where
  "empty_result \<equiv> \<lparr>cr_Requeue = False, cr_RequeueAfter = 0\<rparr>"

text \<open>
  What the manager offers: the builder of a controller for the kind of an object, the two checks, and
  \<open>Start\<close>, which returns when the process is asked to end. \<open>NewManager\<close> gets the options; it
  includes \<open>GetConfigOrDie\<close>, which ends the process with exit code 1 like the error of the call.
\<close>

record manager_options =
  mo_Scheme :: kube_scheme
  mo_MetricsBindAddress :: string
  mo_Port :: int
  mo_HealthProbeBindAddress :: string
  mo_LeaderElection :: bool
  mo_LeaderElectionID :: string

record 'w manager_env =
  me_NewManager :: "manager_options \<Rightarrow> ('w, unit) io"
  me_Complete :: "kube_scheme \<Rightarrow> group_version \<Rightarrow> string \<Rightarrow> 'w reconciler \<Rightarrow> ('w, unit) io"
  me_AddHealthzCheck :: "string \<Rightarrow> ('w, unit) io"
  me_AddReadyzCheck :: "string \<Rightarrow> ('w, unit) io"
  me_Start :: "('w, unit) io"

definition Application_Reconcile :: "'w reconciler" where
  "Application_Reconcile req = ret empty_result"

definition Application_SetupWithManager :: "'w manager_env \<Rightarrow> kube_scheme \<Rightarrow> ('w, unit) io" where
  "Application_SetupWithManager mgr scheme = me_Complete mgr scheme GroupVersion ''Application'' Application_Reconcile"

definition Flavor_Reconcile :: "'w reconciler" where
  "Flavor_Reconcile req = ret empty_result"

definition Flavor_SetupWithManager :: "'w manager_env \<Rightarrow> kube_scheme \<Rightarrow> ('w, unit) io" where
  "Flavor_SetupWithManager mgr scheme = me_Complete mgr scheme GroupVersion ''Flavor'' Flavor_Reconcile"

definition Install_Reconcile :: "'w reconciler" where
  "Install_Reconcile req = ret empty_result"

definition Install_SetupWithManager :: "'w manager_env \<Rightarrow> kube_scheme \<Rightarrow> ('w, unit) io" where
  "Install_SetupWithManager mgr scheme = me_Complete mgr scheme GroupVersion ''Install'' Install_Reconcile"

definition Manifest_Reconcile :: "'w reconciler" where
  "Manifest_Reconcile req = ret empty_result"

definition Manifest_SetupWithManager :: "'w manager_env \<Rightarrow> kube_scheme \<Rightarrow> ('w, unit) io" where
  "Manifest_SetupWithManager mgr scheme = me_Complete mgr scheme GroupVersion ''Manifest'' Manifest_Reconcile"

definition Registry_Reconcile :: "'w reconciler" where
  "Registry_Reconcile req = ret empty_result"

definition Registry_SetupWithManager :: "'w manager_env \<Rightarrow> kube_scheme \<Rightarrow> ('w, unit) io" where
  "Registry_SetupWithManager mgr scheme = me_Complete mgr scheme GroupVersion ''Registry'' Registry_Reconcile"

definition Source_Reconcile :: "'w reconciler" where
  "Source_Reconcile req = ret empty_result"

definition Source_SetupWithManager :: "'w manager_env \<Rightarrow> kube_scheme \<Rightarrow> ('w, unit) io" where
  "Source_SetupWithManager mgr scheme = me_Complete mgr scheme GroupVersion ''Source'' Source_Reconcile"

section \<open>The program (main.go)\<close>

text \<open>The flags with their defaults; parsing them is the standard library's.\<close>

record manager_flags =
  mf_metricsAddr :: string
  mf_probeAddr :: string
  mf_enableLeaderElection :: bool

definition default_flags :: manager_flags where
  "default_flags = \<lparr>mf_metricsAddr = '':8080'', mf_probeAddr = '':8081'', mf_enableLeaderElection = False\<rparr>"

definition main_options :: "kube_scheme \<Rightarrow> manager_flags \<Rightarrow> manager_options" where
  "main_options scheme fl = \<lparr>mo_Scheme = scheme, mo_MetricsBindAddress = mf_metricsAddr fl, mo_Port = 9443,
     mo_HealthProbeBindAddress = mf_probeAddr fl, mo_LeaderElection = mf_enableLeaderElection fl,
     mo_LeaderElectionID = ''45c846cd.splunk.com''\<rparr>"

text \<open>\<open>os.Exit(1)\<close> after an error is logged; the value is the exit code of the process.\<close>

definition or_exit :: "('w, unit) io \<Rightarrow> ('w, nat) io \<Rightarrow> ('w, nat) io" where
  "or_exit m k = handle m (\<lambda>_. k) (\<lambda>_. ret 1)"

definition manager_main :: "'w manager_env \<Rightarrow> kube_scheme \<Rightarrow> manager_flags \<Rightarrow> ('w, nat) io" where
  "manager_main mgr scheme fl =
     or_exit (me_NewManager mgr (main_options scheme fl))
     (or_exit (Application_SetupWithManager mgr scheme)
     (or_exit (Install_SetupWithManager mgr scheme)
     (or_exit (Manifest_SetupWithManager mgr scheme)
     (or_exit (Source_SetupWithManager mgr scheme)
     (or_exit (Registry_SetupWithManager mgr scheme)
     (or_exit (Flavor_SetupWithManager mgr scheme)
     (or_exit (me_AddHealthzCheck mgr ''healthz'')
     (or_exit (me_AddReadyzCheck mgr ''readyz'')
     (or_exit (me_Start mgr) (ret 0))))))))))"

section \<open>What starting the manager does\<close>

text \<open>
  A manager that records the calls it gets. Any of them may fail, and a controller for a kind the
  scheme does not know always does, as the library documents.
\<close>

datatype manager_call =
    NewManager manager_options
  | Controller string
  | Healthz string
  | Readyz string
  | Start

definition recorded :: "(manager_call \<Rightarrow> bool) \<Rightarrow> manager_call \<Rightarrow> (manager_call list, unit) io" where
  "recorded fails c = (\<lambda>w. (if fails c then Err (Foreign ''failed'') else Ok (), w @ [c]))"

definition recorder :: "(manager_call \<Rightarrow> bool) \<Rightarrow> manager_call list manager_env" where
  "recorder fails = \<lparr>me_NewManager = (\<lambda>opts. recorded fails (NewManager opts)),
     me_Complete = (\<lambda>scheme gv k r. if (gv, k) \<in> set scheme then recorded fails (Controller k)
       else (\<lambda>w. (Err (Foreign ''no kind is registered for the type''), w @ [Controller k]))),
     me_AddHealthzCheck = (\<lambda>n. recorded fails (Healthz n)), me_AddReadyzCheck = (\<lambda>n. recorded fails (Readyz n)),
     me_Start = recorded fails Start\<rparr>"

definition manager_calls :: "kube_scheme \<Rightarrow> manager_flags \<Rightarrow> manager_call list" where
  "manager_calls scheme fl = [NewManager (main_options scheme fl), Controller ''Application'', Controller ''Install'',
     Controller ''Manifest'', Controller ''Source'', Controller ''Registry'', Controller ''Flavor'',
     Healthz ''healthz'', Readyz ''readyz'', Start]"

text \<open>A list up to and with the first element that has a property.\<close>

fun until :: "('a \<Rightarrow> bool) \<Rightarrow> 'a list \<Rightarrow> 'a list" where
  "until P [] = []"
| "until P (x # xs) = (if P x then [x] else x # until P xs)"

lemma recorded_calls:
  "foldr (\<lambda>c. or_exit (recorded fails c)) cs (ret 0) w =
     (Ok (if list_ex fails cs then 1 else 0), w @ until fails cs)"
  by (induction cs arbitrary: w) (auto simp: or_exit_def recorded_def handle_def ret_def)

text \<open>The kinds of the package are registered with the scheme whatever it held before.\<close>

lemma main_scheme_kinds: "k \<in> set SchemeBuilder \<Longrightarrow> (GroupVersion, k) \<in> set (main_scheme s)"
  by (simp add: main_scheme_def AddToScheme_def)

lemma controllers_recorded:
  fixes fails s
  defines "mgr \<equiv> recorder fails" and "scheme \<equiv> main_scheme s"
  shows "Application_SetupWithManager mgr scheme = recorded fails (Controller ''Application'')"
    "Install_SetupWithManager mgr scheme = recorded fails (Controller ''Install'')"
    "Manifest_SetupWithManager mgr scheme = recorded fails (Controller ''Manifest'')"
    "Source_SetupWithManager mgr scheme = recorded fails (Controller ''Source'')"
    "Registry_SetupWithManager mgr scheme = recorded fails (Controller ''Registry'')"
    "Flavor_SetupWithManager mgr scheme = recorded fails (Controller ''Flavor'')"
  unfolding Application_SetupWithManager_def Install_SetupWithManager_def Manifest_SetupWithManager_def
    Source_SetupWithManager_def Registry_SetupWithManager_def Flavor_SetupWithManager_def
  by (simp_all add: mgr_def scheme_def recorder_def main_scheme_kinds SchemeBuilder_def register_Application_def
      register_Flavor_def register_Install_def register_Manifest_def register_Registry_def register_Source_def)

text \<open>
  C35. The controller manager is started only when the manager was made with the scheme and the flags,
  the controllers of all six custom resources were set up and both health checks were added, in this
  order: whatever fails, nothing is called after the first failure and the exit code is 1, and it is 0
  when nothing fails. Every kind a controller is set up for is registered with the scheme.
\<close>

theorem manager_main_calls:
  "manager_main (recorder fails) (main_scheme s) fl [] =
     (Ok (if list_ex fails (manager_calls (main_scheme s) fl) then 1 else 0),
      until fails (manager_calls (main_scheme s) fl))"
proof -
  have "manager_main (recorder fails) (main_scheme s) fl =
      foldr (\<lambda>c. or_exit (recorded fails c)) (manager_calls (main_scheme s) fl) (ret 0)"
    unfolding manager_main_def manager_calls_def controllers_recorded by (simp add: recorder_def)
  then show ?thesis by (simp add: recorded_calls)
qed

text \<open>The kinds with a controller are the registered kinds that are not lists.\<close>

lemma controllers_registered:
  "{k. Controller k \<in> set (manager_calls s fl)} = {k \<in> set SchemeBuilder. k @ ''List'' \<in> set SchemeBuilder}"
  by (auto simp: manager_calls_def SchemeBuilder_def register_Application_def register_Flavor_def
      register_Install_def register_Manifest_def register_Registry_def register_Source_def)

end
