(* ===== verification/Servers.thy ===== *)
theory Servers
  imports Commands Node_Trackers
begin

text \<open>
  The HTTP servers and the requests between them: the health-status server of managers/status.go with
  its handlers, the daemon of a node (the main function of cmd/cluster-status/main.go), and who asks
  whom: \<open>kb status\<close> and the daemons ask the health-status server, which asks the daemons.
  The encoding of answers as JSON is the standard library's and a parameter.
\<close>

section \<open>Answers\<close>

text \<open>A request is answered with status 200 and a body, or with 404 when no route has the path.\<close>

datatype http_answer = http_ok string | http_not_found

record json =
  js_AppStatusResponse :: "AppStatus list \<Rightarrow> string"
  js_NodeStatuses :: "NodeStatus list \<Rightarrow> string"
  js_NodeInfos :: "NodeInfo list \<Rightarrow> string"
  js_ResourceStatuses :: "ResourceStatus list \<Rightarrow> string"
  js_NodeStatus :: "NodeStatus \<Rightarrow> string"

section \<open>The health-status server (managers/status.go)\<close>

text \<open>
  The state its goroutines share: the results of the applications and of the nodes with the goroutines
  that keep them, and the package variable with the results of the resources.
\<close>

record health =
  he_apps :: app_server
  he_nodes :: node_server
  he_resources :: "ResourceStatus list"

definition health_init :: "health \<Rightarrow> bool" where
  "health_init s \<longleftrightarrow> app_init (he_apps s) \<and> node_init (he_nodes s) \<and> he_resources s = []"

text \<open>
  The three updaters run side by side, and a panic of any goroutine ends the process. A round of
  the resource updater replaces all results at once.
\<close>

inductive health_step :: "health \<Rightarrow> health \<Rightarrow> bool" where
  health_apps: "\<not> nd_panicked (he_nodes s) \<Longrightarrow> app_step (he_apps s) a \<Longrightarrow> health_step s (s\<lparr>he_apps := a\<rparr>)"
| health_nodes: "\<not> nd_panicked (he_nodes s) \<Longrightarrow> node_step (he_nodes s) n \<Longrightarrow> health_step s (s\<lparr>he_nodes := n\<rparr>)"
| health_resources: "\<not> nd_panicked (he_nodes s) \<Longrightarrow> health_step s (s\<lparr>he_resources := rs\<rparr>)"

text \<open>
  The routes of the server. The handlers that range over a concurrent map take its keys in some order,
  \<open>ka\<close> for the applications and \<open>kn\<close> for the nodes.
\<close>

definition retrieveResourceStatus :: "health \<Rightarrow> ResourceStatus list" where
  "retrieveResourceStatus s = he_resources s"

definition health_routes :: "json \<Rightarrow> string list \<Rightarrow> string list \<Rightarrow> (string \<times> (health \<Rightarrow> string)) list" where
  "health_routes js ka kn = [
     (''/application-status'', \<lambda>s. js_AppStatusResponse js (retrieveApplicationStatus ka (he_apps s))),
     (''/cluster-status'', \<lambda>s. js_NodeStatuses js (retrieveClusterStatus kn (he_nodes s))),
     (''/cluster-nodes'', \<lambda>s. js_NodeInfos js (retrieveClusterNodes kn (he_nodes s))),
     (''/resource-status'', \<lambda>s. js_ResourceStatuses js (retrieveResourceStatus s))]"

definition health_answer :: "json \<Rightarrow> string list \<Rightarrow> string list \<Rightarrow> health \<Rightarrow> string \<Rightarrow> http_answer" where
  "health_answer js ka kn s path = (case map_of (health_routes js ka kn) path of
     None \<Rightarrow> http_not_found | Some h \<Rightarrow> http_ok (h s))"

text \<open>
  \<open>HealthStatus\<close> blocks in \<open>ListenAndServe\<close>, which returns only with an error.
\<close>

definition HealthStatus ::
    "(string \<Rightarrow> (string \<times> (health \<Rightarrow> string)) list \<Rightarrow> ('w, unit) io) \<Rightarrow> json \<Rightarrow> string list \<Rightarrow> string list \<Rightarrow> ('w, unit) io" where
  "HealthStatus ListenAndServe js ka kn =
     try_do (ListenAndServe '':8080'' (health_routes js ka kn))
       (\<lambda>err. Wrapf err ''could not listen on port 8080'' []) ret"

section \<open>The daemon of a node (cmd/cluster-status/main.go)\<close>

definition CheckNodeInterval :: int where "CheckNodeInterval = 60 * second"
definition GetNodesInterval :: int where "GetNodesInterval = 5 * 60 * second"

definition healthStatusDeploymentUrl :: string where
  "healthStatusDeploymentUrl = ''http://app-status.default:8080/''"

text \<open>
  The routes of the daemon: \<open>/online\<close> answers with an empty body, and so does \<open>/status\<close> as long as
  there is no result for the daemon's own node.
\<close>

definition daemon_routes :: "json \<Rightarrow> string \<Rightarrow> (string \<times> (daemon \<Rightarrow> string)) list" where
  "daemon_routes js nodeName = [
     (''/online'', \<lambda>s. []),
     (''/status'', \<lambda>s. case retrieveNodeStatus nodeName s of None \<Rightarrow> [] | Some st \<Rightarrow> js_NodeStatus js st)]"

definition daemon_answer :: "json \<Rightarrow> string \<Rightarrow> daemon \<Rightarrow> string \<Rightarrow> http_answer" where
  "daemon_answer js nodeName s path = (case map_of (daemon_routes js nodeName) path of
     None \<Rightarrow> http_not_found | Some h \<Rightarrow> http_ok (h s))"

text \<open>The program logs an error of the server and returns; it never exits with another code than 0.\<close>

definition daemon_main ::
    "(string \<Rightarrow> (string \<times> (daemon \<Rightarrow> string)) list \<Rightarrow> ('w, unit) io) \<Rightarrow> json \<Rightarrow> string \<Rightarrow> string \<Rightarrow> ('w, nat) io" where
  "daemon_main ListenAndServe js port nodeName =
     handle (ListenAndServe ('':'' @ port) (daemon_routes js nodeName)) (\<lambda>_. ret 0) (\<lambda>_. ret 0)"

text \<open>
  The nodes the daemon asks the health-status server for. \<open>Get\<close> is the HTTP client with a timeout of ten
  seconds, which gives the body whatever the status code is.
\<close>

definition getClusterNodes ::
    "(string \<Rightarrow> ('w, string) io) \<Rightarrow> (string \<Rightarrow> NodeInfo list result) \<Rightarrow> ('w, NodeInfo list) io" where
  "getClusterNodes Get decode =
     andthen (Get (healthStatusDeploymentUrl @ ''cluster-nodes'')) (\<lambda>body. lift_result (decode body))"

text \<open>
  The preflight check of the kernel parameters, which nothing calls. \<open>sysctl\<close> runs the command, and the
  map of the checks is ranged over in some order \<open>ks\<close> of its keys.
\<close>

definition sysctlChecks :: "string \<rightharpoonup> string \<times> string" where
  "sysctlChecks = [''ipForwarding'' \<mapsto> (''net.ipv4.ip_forward'', ''1''),
     ''routeLocalnet'' \<mapsto> (''net.ipv4.conf.all.route_localnet'', ''1'')]"

definition check_sysctl ::
    "(string \<Rightarrow> ('w, string) io) \<Rightarrow> (gerror \<Rightarrow> string) \<Rightarrow> string \<Rightarrow> string \<times> DetailStatus list \<Rightarrow>
     ('w, string \<times> DetailStatus list) io" where
  "check_sysctl sysctl message checkName acc = (case acc of (isHealthy, details) \<Rightarrow>
     (case sysctlChecks checkName of None \<Rightarrow> ret acc | Some (param, expected) \<Rightarrow>
       handle (sysctl param)
         (\<lambda>output. let value = TrimSuffix output newline in
           if value \<noteq> expected
           then ret (''Not Healthy'', details @ [\<lparr>dt_Name = checkName, dt_Value = value, dt_Healthy = ''false''\<rparr>])
           else ret (isHealthy, details @ [\<lparr>dt_Name = checkName, dt_Value = value, dt_Healthy = ''true''\<rparr>]))
         (\<lambda>err. ret (''Not Healthy'', details @ [\<lparr>dt_Name = checkName, dt_Value = message err, dt_Healthy = ''false''\<rparr>]))))"

definition checkSysctlParameters ::
    "(string \<Rightarrow> ('w, string) io) \<Rightarrow> (gerror \<Rightarrow> string) \<Rightarrow> string list \<Rightarrow> ('w, string \<times> DetailStatus list) io" where
  "checkSysctlParameters sysctl message ks = fold_io (check_sysctl sysctl message) ks (''Healthy'', [])"

end
