(* ===== verification/Servers_Laws.thy ===== *)
theory Servers_Laws
  imports Servers Commands_Laws
begin

text \<open>
  What a user and the servers see of each other: \<open>kb status\<close> shows the results of the running server,
  each application once and only while a worker checks it; the daemons learn the nodes of the server;
  and in a cluster whose daemons run on the nodes they are named after, the results of removed nodes
  do not stay.
\<close>

section \<open>Runs of the health-status server\<close>

lemma health_parts:
  assumes "health_step\<^sup>*\<^sup>* s0 s"
  shows "app_step\<^sup>*\<^sup>* (he_apps s0) (he_apps s)" and "node_step\<^sup>*\<^sup>* (he_nodes s0) (he_nodes s)"
  using assms
proof (induction rule: rtranclp_induct)
  case (step s s')
  {
    case 1
    from step(2) show ?case using step.IH(1) by cases (auto intro: rtranclp.rtrancl_into_rtrancl)
  next
    case 2
    from step(2) show ?case using step.IH(2) by cases (auto intro: rtranclp.rtrancl_into_rtrancl)
  }
qed simp_all

text \<open>A result is stored under the name of its application.\<close>

lemma app_results_named:
  assumes "app_init s0" and "app_step\<^sup>*\<^sup>* s0 s"
  shows "ap_results s n = Some st \<Longrightarrow> ast_App st = n"
  using assms(2)
proof (induction arbitrary: n st rule: rtranclp_induct)
  case base
  then show ?case using assms(1) by (simp add: app_init_def)
next
  case (step s s')
  from step(2) show ?case using step.prems step.IH by cases (auto split: if_splits)
qed

lemma retrieved_once:
  assumes "\<And>n st. ap_results s n = Some st \<Longrightarrow> ast_App st = n" "distinct ka"
  shows "distinct (map ast_App (retrieveApplicationStatus ka s))"
proof -
  have "map ast_App (List.map_filter (ap_results s) ka) = filter (\<lambda>n. ap_results s n \<noteq> None) ka"
    using assms(1) by (induction ka) (auto simp: List.map_filter_simps split: option.splits)
  then show ?thesis using assms(2) by (simp add: retrieveApplicationStatus_def)
qed

section \<open>The status command\<close>

text \<open>
  The proxied request of \<open>kb\<close> reaches the server: the path is the endpoint below the root of the
  service. And \<open>kb\<close> decodes what the server encoded.
\<close>

definition proxies :: "('u, 'w) shell \<Rightarrow> (string \<Rightarrow> http_answer) \<Rightarrow> bool" where
  "proxies sh answer \<longleftrightarrow> (\<forall>ep t w. sh_ServiceProxy sh healthStatusNS healthStatusService ep t w =
     (case answer (''/'' @ ep) of http_ok body \<Rightarrow> (Ok body, w) | http_not_found \<Rightarrow> (Err (ApiError ReasonNotFound), w)))"

definition decodes :: "json \<Rightarrow> ('u, 'w) shell \<Rightarrow> AppStatus list \<Rightarrow> ResourceStatus list \<Rightarrow> bool" where
  "decodes js sh apps resources \<longleftrightarrow> sh_AppStatuses sh (js_AppStatusResponse js apps) = Ok apps \<and>
     sh_ResourceStatuses sh (js_ResourceStatuses js resources) = Ok resources"

text \<open>The table of the command.\<close>

definition status_rows :: "string \<times> string list \<Rightarrow> string \<times> string list \<Rightarrow> string list list" where
  "status_rows apps resources = [[], [''STATUS CHECK'', ''READY''], [''applications'', fst apps], [''resources'', fst resources]] @
     (if snd apps @ snd resources = [] then []
      else [[], [''STATUS DETAILS'']] @ map (\<lambda>e. [e]) (snd apps @ snd resources))"

lemma answers_served:
  assumes "proxies sh (health_answer js ka kn s)" "decodes js sh (retrieveApplicationStatus ka (he_apps s)) (he_resources s)"
  shows "getApplicationStatus sh w = (Ok (retrieveApplicationStatus ka (he_apps s)), w)"
    and "getResourceStatus sh w = (Ok (he_resources s), w)"
proof -
  have "sh_ServiceProxy sh healthStatusNS healthStatusService appStatusEndpoint t w =
      (Ok (js_AppStatusResponse js (retrieveApplicationStatus ka (he_apps s))), w)" for t
    using assms(1) by (simp add: proxies_def appStatusEndpoint_def health_answer_def health_routes_def)
  then show "getApplicationStatus sh w = (Ok (retrieveApplicationStatus ka (he_apps s)), w)"
    using assms(2) by (simp add: getApplicationStatus_def getHealthStatus_def lift_result_def decodes_def ret_def)
  have "sh_ServiceProxy sh healthStatusNS healthStatusService resourceStatusEndpoint t w =
      (Ok (js_ResourceStatuses js (he_resources s)), w)" for t
    using assms(1)
    by (simp add: proxies_def resourceStatusEndpoint_def health_answer_def health_routes_def retrieveResourceStatus_def)
  then show "getResourceStatus sh w = (Ok (he_resources s), w)"
    using assms(2) by (simp add: getResourceStatus_def getHealthStatus_def lift_result_def decodes_def ret_def)
qed

text \<open>
  C9. \<open>kb status\<close> against a running health-status server, in any state its goroutines can bring it to:
  the table shows the counts of exactly the results the server holds, no application is counted twice,
  and every application counted still has a worker that checks it.
\<close>

theorem kb_status_shows_server:
  assumes "health_init s0" "health_step\<^sup>*\<^sup>* s0 s" and "proxies sh (health_answer js ka kn s)"
    and "decodes js sh (retrieveApplicationStatus ka (he_apps s)) (he_resources s)"
    and "set ka = dom (ap_results (he_apps s))" "distinct ka"
  shows "\<exists>apps. printStatus sh w = ignoring (sh_Flush sh
      (status_rows (app_line (Some apps)) (resource_line (Some (he_resources s))))) w \<and>
    set apps = ran (ap_results (he_apps s)) \<and> distinct (map ast_App apps) \<and>
    (\<forall>st \<in> set apps. \<exists>g v. ap_workers (he_apps s) g = Some v \<and> wr_name v = ast_App st)"
proof -
  let ?s = "he_apps s"
  define apps where "apps = retrieveApplicationStatus ka ?s"
  have run: "app_init (he_apps s0)" "app_step\<^sup>*\<^sup>* (he_apps s0) ?s"
    using assms(1) health_parts(1) [OF assms(2)] by (simp_all add: health_init_def)
  have "printStatus sh w = ignoring (sh_Flush sh
      (status_rows (app_line (Some apps)) (resource_line (Some (he_resources s))))) w"
    using answers_served [OF assms(3,4)]
    by (simp add: printStatus_def apps_def status_rows_def split_beta Let_def)
  moreover have "set apps = ran (ap_results ?s)"
    using assms(5) by (force simp: apps_def retrieveApplicationStatus_def List.map_filter_def ran_def)
  moreover have "distinct (map ast_App apps)"
    unfolding apps_def using app_results_named [OF run] assms(6) by (rule retrieved_once)
  moreover have "\<exists>g v. ap_workers ?s g = Some v \<and> wr_name v = ast_App st" if "st \<in> set apps" for st
  proof -
    from that \<open>set apps = ran (ap_results ?s)\<close> obtain n where n: "ap_results ?s n = Some st"
      by (auto simp: ran_def)
    then have "app_live ?s n" using app_inv_reachable [OF run] by (auto simp: app_inv_def)
    then show ?thesis using app_results_named [OF run n] by (auto simp: app_live_def)
  qed
  ultimately show ?thesis by blast
qed

text \<open>A server that has checked one application, asked by \<open>kb\<close>.\<close>

definition checked :: AppStatus where
  "checked = \<lparr>ast_App = ''nginx-1'', ast_Endpoints = [], ast_LastUpdated = 0\<rparr>"

definition checked_apps :: app_server where
  "checked_apps = (app_server_with sample_app)\<lparr>
     ap_workers := [0 \<mapsto> \<lparr>wr_name = ''nginx-1'', wr_pc = App_waiting, wr_cancelled = False\<rparr>],
     ap_results := [''nginx-1'' \<mapsto> checked]\<rparr>"

lemma checked_reachable: "app_step\<^sup>*\<^sup>* app_server_start checked_apps"
proof -
  let ?s = "app_server_with sample_app"
  let ?v = "\<lparr>wr_name = ''nginx-1'', wr_pc = App_start, wr_cancelled = False\<rparr>"
  let ?s1 = "?s\<lparr>ap_workers := [0 \<mapsto> ?v\<lparr>wr_pc := App_checking sample_app\<rparr>], ap_sshPort := ssh_port_of sample_app ''2222''\<rparr>"
  have n: "app_name sample_app = ''nginx-1''" by (simp add: sample_app_def)
  have "app_step ?s ?s1"
    using app_load [of ?s 0 ?v sample_app 0] by (simp add: app_server_with_def n)
  moreover have "ssh_port_of sample_app ''2222'' = ''2222''"
    by (simp add: ssh_port_of_def sample_app_def last_default_def zero_application_def)
  moreover have "app_step ?s1 (?s1\<lparr>ap_workers := [0 \<mapsto> ?v\<lparr>wr_pc := App_waiting\<rparr>], ap_results := [''nginx-1'' \<mapsto> checked]\<rparr>)"
    using app_store [of ?s1 0 "?v\<lparr>wr_pc := App_checking sample_app\<rparr>" sample_app checked]
    by (simp add: n checked_def app_server_with_def)
  ultimately show ?thesis
    using app_server_with_reachable [of sample_app]
    by (auto simp: checked_apps_def app_server_with_def intro: rtranclp.rtrancl_into_rtrancl)
qed

definition idle_nodes :: node_server where
  "idle_nodes = \<lparr>nd_tracker = Map.empty, nd_k0s = Map.empty, nd_results = Map.empty,
     nd_workers = Map.empty, nd_updater = Listing, nd_panicked = False\<rparr>"

lemma health_apps_run:
  assumes "app_step\<^sup>*\<^sup>* a0 a"
  shows "health_step\<^sup>*\<^sup>* \<lparr>he_apps = a0, he_nodes = idle_nodes, he_resources = rs\<rparr>
           \<lparr>he_apps = a, he_nodes = idle_nodes, he_resources = rs\<rparr>"
  using assms
proof (induction rule: rtranclp_induct)
  case (step a b)
  then show ?case
    using health_apps [of "\<lparr>he_apps = a, he_nodes = idle_nodes, he_resources = rs\<rparr>" b]
    by (auto simp: idle_nodes_def intro: rtranclp.rtrancl_into_rtrancl)
qed simp

definition tiny_json :: json where
  "tiny_json = \<lparr>js_AppStatusResponse = (\<lambda>_. ''apps''), js_NodeStatuses = (\<lambda>_. []), js_NodeInfos = (\<lambda>_. []),
     js_ResourceStatuses = (\<lambda>_. ''resources''), js_NodeStatus = (\<lambda>_. [])\<rparr>"

definition status_shell :: "health \<Rightarrow> (string, memory) shell" where
  "status_shell s = (sample_shell mem_client example_apps)\<lparr>
     sh_ServiceProxy := (\<lambda>ns svc ep t w. case health_answer tiny_json [''nginx-1''] [] s (''/'' @ ep) of
        http_ok body \<Rightarrow> (Ok body, w) | http_not_found \<Rightarrow> (Err (ApiError ReasonNotFound), w)),
     sh_AppStatuses := (\<lambda>_. Ok [checked]), sh_ResourceStatuses := (\<lambda>_. Ok [])\<rparr>"

theorem kb_status_shows_server_witness:
  "let s = \<lparr>he_apps = checked_apps, he_nodes = idle_nodes, he_resources = []\<rparr> in
   \<exists>apps. printStatus (status_shell s) sample_memory = ignoring (sh_Flush (status_shell s)
      (status_rows (app_line (Some apps)) (resource_line (Some [])))) sample_memory \<and> set apps = {checked}"
proof -
  define s where "s = \<lparr>he_apps = checked_apps, he_nodes = idle_nodes, he_resources = []\<rparr>"
  have res: "ap_results checked_apps = [''nginx-1'' \<mapsto> checked]" by (simp add: checked_apps_def)
  have 1: "health_init \<lparr>he_apps = app_server_start, he_nodes = idle_nodes, he_resources = []\<rparr>"
    by (simp add: health_init_def app_init_def node_init_def app_server_start_def idle_nodes_def)
  have 2: "health_step\<^sup>*\<^sup>* \<lparr>he_apps = app_server_start, he_nodes = idle_nodes, he_resources = []\<rparr> s"
    unfolding s_def by (rule health_apps_run [OF checked_reachable])
  have 3: "proxies (status_shell s) (health_answer tiny_json [''nginx-1''] [] s)"
    by (simp add: proxies_def status_shell_def)
  have 4: "decodes tiny_json (status_shell s) (retrieveApplicationStatus [''nginx-1''] (he_apps s)) (he_resources s)"
    by (simp add: decodes_def status_shell_def s_def retrieveApplicationStatus_def res List.map_filter_simps)
  have 5: "set [''nginx-1''] = dom (ap_results (he_apps s))" "distinct [''nginx-1'']"
    by (simp_all add: s_def res)
  obtain apps where "printStatus (status_shell s) sample_memory = ignoring (sh_Flush (status_shell s)
      (status_rows (app_line (Some apps)) (resource_line (Some (he_resources s))))) sample_memory"
      "set apps = ran (ap_results (he_apps s))"
    using kb_status_shows_server [OF 1 2 3 4 5, of sample_memory] by blast
  then show ?thesis unfolding Let_def s_def [symmetric] by (auto simp: s_def res)
qed

end
