(* ===== verification/Cluster_System.thy ===== *)
theory Cluster_System
  imports Servers
begin

text \<open>
  The health-status server and the daemons of the nodes together: the server asks the daemon of a node
  for its status, and the daemons ask the server for the nodes of the cluster. Each daemon has the name
  of the node it runs on.
\<close>

section \<open>The system\<close>

record system =
  sy_server :: node_server
  sy_daemon :: "string \<Rightarrow> daemon"

definition system_init :: "system \<Rightarrow> bool" where
  "system_init s \<longleftrightarrow> node_init (sy_server s) \<and> (\<forall>n. daemon_init (sy_daemon s n))"

text \<open>
  The steps of the server that store no result are those of its goroutines. The result of a check is
  that the daemon of the node could not be asked (or had nothing to answer yet), or what the daemon
  answers at that moment. A daemon moves on its own, with the nodes of the server where it lists them.
\<close>

inductive system_step :: "system \<Rightarrow> system \<Rightarrow> bool" where
  server_moves: "node_step (sy_server s) srv \<Longrightarrow>
    (\<And>k. nd_results srv k = nd_results (sy_server s) k \<or> nd_results srv k = None) \<Longrightarrow>
    system_step s (s\<lparr>sy_server := srv\<rparr>)"
| daemon_unavailable: "\<not> nd_panicked (sy_server s) \<Longrightarrow> nd_workers (sy_server s) g = Some w \<Longrightarrow>
    wr_pc w = Node_checking v conditions \<Longrightarrow>
    system_step s (s\<lparr>sy_server := (sy_server s)\<lparr>
      nd_workers := (nd_workers (sy_server s))(g \<mapsto> w\<lparr>wr_pc := Node_waiting\<rparr>),
      nd_results := (nd_results (sy_server s))(node_Name v \<mapsto>
        unavailable_node v (hd (node_Addresses v)) conditions problem)\<rparr>\<rparr>)"
| daemon_answers: "\<not> nd_panicked (sy_server s) \<Longrightarrow> nd_workers (sy_server s) g = Some w \<Longrightarrow>
    wr_pc w = Node_checking v conditions \<Longrightarrow>
    retrieveNodeStatus (node_Name v) (sy_daemon s (node_Name v)) = Some answer \<Longrightarrow>
    ssh \<in> {\<lparr>dt_Name = ''sshDaemonset'', dt_Value = ''down'', dt_Healthy = ''false''\<rparr>,
      \<lparr>dt_Name = ''sshDaemonset'', dt_Value = ''up'', dt_Healthy = ''true''\<rparr>} \<Longrightarrow>
    system_step s (s\<lparr>sy_server := (sy_server s)\<lparr>
      nd_workers := (nd_workers (sy_server s))(g \<mapsto> w\<lparr>wr_pc := Node_waiting\<rparr>),
      nd_results := (nd_results (sy_server s))(ni_Name (ns_Node answer) \<mapsto>
        available_node answer conditions ssh)\<rparr>\<rparr>)"
| daemon_moves: "daemon_step n (sy_daemon s n) d \<Longrightarrow>
    (\<And>items. dm_updater (sy_daemon s n) = Listing \<Longrightarrow> dm_updater d = Adding items items {} \<Longrightarrow>
      \<exists>ks. set ks = dom (nd_results (sy_server s)) \<and> distinct ks \<and> items = retrieveClusterNodes ks (sy_server s)) \<Longrightarrow>
    system_step s (s\<lparr>sy_daemon := (sy_daemon s)(n := d)\<rparr>)"

text \<open>Every step of the system is a step of the server or of one daemon.\<close>

lemma system_step_parts:
  assumes "system_step s s'"
  shows "node_step (sy_server s) (sy_server s') \<and> sy_daemon s' = sy_daemon s \<or>
    sy_server s' = sy_server s \<and> (\<exists>n d. daemon_step n (sy_daemon s n) d \<and> sy_daemon s' = (sy_daemon s)(n := d))"
  using assms
proof cases
  case (daemon_unavailable g w v conditions problem)
  with node_store [OF daemon_unavailable(2-4) not_available] show ?thesis by simp
next
  case (daemon_answers g w v conditions answer ssh)
  with node_store [OF daemon_answers(2-4) available [OF daemon_answers(6)]] show ?thesis by simp
qed auto

lemma system_runs:
  assumes "system_step\<^sup>*\<^sup>* s0 s"
  shows "node_step\<^sup>*\<^sup>* (sy_server s0) (sy_server s)"
    and "(daemon_step n)\<^sup>*\<^sup>* (sy_daemon s0 n) (sy_daemon s n)"
  using assms
proof (induction rule: rtranclp_induct)
  case (step s s')
  {
    case 1
    from system_step_parts [OF step(2)] step.IH(1) show ?case
      by (auto intro: rtranclp.rtrancl_into_rtrancl)
  next
    case 2
    from system_step_parts [OF step(2)] step.IH(2) show ?case
      by (auto intro: rtranclp.rtrancl_into_rtrancl)
  }
qed simp_all

section \<open>A daemon answers under its own name\<close>

lemma daemon_answers_named:
  assumes "daemon_init s0" "(daemon_step nodeName)\<^sup>*\<^sup>* s0 s"
  shows "retrieveNodeStatus nodeName s = Some st \<Longrightarrow> ni_Name (ns_Node st) = nodeName"
  using assms(2) unfolding retrieveNodeStatus_def
proof (induction arbitrary: st rule: rtranclp_induct)
  case base
  then show ?case using assms(1) by (simp add: daemon_init_def)
next
  case (step s s')
  from daemon_inv_reachable [OF assms(1) step(1)]
  have fits: "dm_workers s g = Some w \<Longrightarrow> pc_fits nodeName (wr_name w) (wr_pc w)" for g w
    by (simp add: daemon_inv_def)
  from step(2) show ?case
  proof cases
    case (own_store g w v network)
    then show ?thesis using step.prems step.IH fits [of g w] by (auto simp: own_status_def split: if_splits)
  qed (use step.prems step.IH in auto)
qed

section \<open>The results of removed nodes do not stay\<close>

definition node_live :: "node_server \<Rightarrow> string \<Rightarrow> bool" where
  "node_live s n \<longleftrightarrow> (\<exists>g w. nd_workers s g = Some w \<and> wr_name w = n)"

definition node_inv :: "node_server \<Rightarrow> bool" where
  "node_inv s \<longleftrightarrow> (\<forall>n v. nd_k0s s n = Some v \<longrightarrow> node_Name v = n) \<and>
     (\<forall>g w v. nd_workers s g = Some w \<longrightarrow> (wr_pc w = Node_loaded v \<or> (\<exists>c. wr_pc w = Node_checking v c)) \<longrightarrow>
        node_Name v = wr_name w)"

lemma node_inv_step:
  assumes "node_step s s'" "node_inv s"
  shows "node_inv s'"
  using assms(1)
proof cases
  case (node_load g w v)
  then show ?thesis using assms(2) by (auto simp: node_inv_def loaded_node_def split: if_splits option.splits)
next
  case (node_prune_gone items n ks upd g)
  then show ?thesis using assms(2) by (auto simp: node_inv_def cancel_worker_Some split: if_splits)
qed (use assms(2) in \<open>auto simp: node_inv_def split: if_splits\<close>)

lemma node_live_step:
  assumes "node_step s s'" "node_live s n"
  shows "node_live s' n \<or> nd_results s' n = None"
proof -
  from assms(2) obtain g w where w: "nd_workers s g = Some w" "wr_name w = n"
    by (auto simp: node_live_def)
  have "(\<exists>w'. nd_workers s' g = Some w' \<and> wr_name w' = n) \<or> nd_results s' n = None"
    using assms(1) w
  proof cases
    case (node_prune_gone items m ks upd h)
    with w show ?thesis by (cases "g = h") (auto simp: cancel_worker_Some)
  qed auto
  then show ?thesis by (auto simp: node_live_def)
qed

lemma system_inv:
  assumes "system_init s0" "system_step\<^sup>*\<^sup>* s0 s"
  shows "node_inv (sy_server s) \<and> (\<forall>n. nd_results (sy_server s) n \<noteq> None \<longrightarrow> node_live (sy_server s) n)"
  using assms(2)
proof (induction rule: rtranclp_induct)
  case base
  then show ?case using assms(1) by (simp add: system_init_def node_init_def node_inv_def)
next
  case (step s s')
  note inv = step.IH [THEN conjunct1] and live = step.IH [THEN conjunct2, rule_format]
  have inv': "node_inv (sy_server s')"
    using system_step_parts [OF step(2)] node_inv_step inv by metis
  have stays: "node_live (sy_server s') n" if "nd_results (sy_server s) n \<noteq> None" "nd_results (sy_server s') n \<noteq> None" for n
    using system_step_parts [OF step(2)] node_live_step live [OF that(1)] that(2) by metis
  have stored: "node_live (s'') (node_Name v)"
    if "nd_workers (sy_server s) g = Some w" "wr_pc w = Node_checking v c"
      "s'' = (sy_server s)\<lparr>nd_workers := (nd_workers (sy_server s))(g \<mapsto> w\<lparr>wr_pc := Node_waiting\<rparr>), nd_results := rs\<rparr>"
    for g w v c s'' rs
    using inv that by (auto simp: node_inv_def node_live_def)
  from step(2) have "node_live (sy_server s') n" if "nd_results (sy_server s') n \<noteq> None" for n
  proof cases
    case (server_moves srv)
    then show ?thesis using stays that by (metis select_convs(1) surjective update_convs(1))
  next
    case (daemon_unavailable g w v c problem)
    then show ?thesis using stays [of n] that stored [OF daemon_unavailable(3,4), of "sy_server s'"]
      by (cases "n = node_Name v") auto
  next
    case (daemon_answers g w v c answer ssh)
    have "ni_Name (ns_Node answer) = node_Name v"
      using daemon_answers_named [OF _ system_runs(2) [OF step(1)] daemon_answers(5)] assms(1)
      by (simp add: system_init_def)
    then show ?thesis using stays [of n] that stored [OF daemon_answers(3,4), of "sy_server s'"] daemon_answers(1)
      by (cases "n = node_Name v") auto
  next
    case (daemon_moves n d)
    then show ?thesis using stays that by simp
  qed
  then show ?case using inv' by simp
qed

text \<open>
  C11. In a cluster whose daemons are named after the nodes they run on, every result the health-status
  server holds of a node, however servers, daemons and their requests interleave, belongs to a node
  one of its goroutines still checks: when the goroutine of a removed node ends, no result of it stays.
  (With a daemon of another name one does, since the server stores an answer under the daemon's name.)
\<close>

theorem cluster_results_live:
  assumes "system_init s0" "system_step\<^sup>*\<^sup>* s0 s" and "nd_results (sy_server s) n = Some st"
  shows "\<exists>g w. nd_workers (sy_server s) g = Some w \<and> wr_name w = n"
  using system_inv [OF assms(1,2)] assms(3) by (auto simp: node_live_def)

section \<open>A cluster of one node\<close>

definition one_node :: Node where
  "one_node = \<lparr>node_Name = ''node-1'', node_Labels = Map.empty, node_Allocatable_CPU = 0, node_Allocatable_Memory = 0,
     node_Addresses = [''10.0.0.1''], node_Conditions = []\<rparr>"

definition quiet_daemon :: daemon where
  "quiet_daemon = \<lparr>dm_tracker = Map.empty, dm_network = Map.empty, dm_results = Map.empty, dm_workers = Map.empty,
     dm_updater = Listing\<rparr>"

definition one_system :: "node_server \<Rightarrow> system" where
  "one_system srv = \<lparr>sy_server = srv, sy_daemon = (\<lambda>_. quiet_daemon)\<rparr>"

lemma one_system_step:
  "node_step srv srv' \<Longrightarrow> nd_results srv' = nd_results srv \<Longrightarrow> system_step (one_system srv) (one_system srv')"
  using server_moves [of "one_system srv" srv'] by (simp add: one_system_def)

definition one_result :: NodeStatus where
  "one_result = unavailable_node one_node ''10.0.0.1'' [] ''refused''"

text \<open>The server lists the node, checks it and finds its daemon unavailable.\<close>

lemma one_system_run:
  "system_step\<^sup>*\<^sup>* (one_system (node_state Map.empty Map.empty Map.empty Map.empty Listing))
     (one_system (node_state [''node-1'' \<mapsto> 0] [''node-1'' \<mapsto> one_node] [''node-1'' \<mapsto> one_result]
        (node_worker ''node-1'' Node_waiting False) Sleeping))"
proof -
  let ?e = "Map.empty" and ?n = "''node-1''" and ?v = one_node
  let ?tr = "[?n \<mapsto> 0 :: nat]" and ?k0s = "[?n \<mapsto> ?v]" and ?ws = "\<lambda>pc. node_worker ?n pc False"
  let ?w = "\<lambda>pc. \<lparr>wr_name = ?n, wr_pc = pc, wr_cancelled = False\<rparr>"
  have v: "node_Name ?v = ?n" "node_Addresses ?v = [''10.0.0.1'']" "node_Conditions ?v = []"
    by (simp_all add: one_node_def)
  have c: "checkNodeConditionStatus ?k0s ?n = []"
    by (simp add: checkNodeConditionStatus_def v List.map_filter_simps)
  have "system_step\<^sup>*\<^sup>* (one_system (node_state ?e ?e ?e ?e Listing)) (one_system (node_state ?e ?e ?e ?e Listing))"
    by simp
  also have "system_step \<dots> (one_system (node_state ?e ?e ?e ?e (Adding [?v] [?v] {})))"
    using node_listed [of "node_state ?e ?e ?e ?e Listing" "[?v]"] by (intro one_system_step) simp_all
  also have "system_step \<dots> (one_system (node_state ?tr ?k0s ?e (?ws Node_start) (Adding [?v] [] {?n})))"
    using node_add_new [of "node_state ?e ?e ?e ?e (Adding [?v] [?v] {})" "[?v]" ?v "[]" "{}" 0]
    by (intro one_system_step) (simp_all add: node_worker_def v)
  also have "system_step \<dots> (one_system (node_state ?tr ?k0s ?e (?ws Node_start) (Pruning [?v] [?n] {?n})))"
    using node_added [of "node_state ?tr ?k0s ?e (?ws Node_start) (Adding [?v] [] {?n})" "[?v]" "{?n}" "[?n]"]
    by (intro one_system_step) simp_all
  also have "system_step \<dots> (one_system (node_state ?tr ?k0s ?e (?ws Node_start) (Pruning [?v] [] {?n})))"
    using node_prune_kept [of "node_state ?tr ?k0s ?e (?ws Node_start) (Pruning [?v] [?n] {?n})" "[?v]" ?n "[]" "{?n}"]
    by (intro one_system_step) simp_all
  also have "system_step \<dots> (one_system (node_state ?tr ?k0s ?e (?ws Node_start) Sleeping))"
    using node_pruned [of "node_state ?tr ?k0s ?e (?ws Node_start) (Pruning [?v] [] {?n})" "[?v]" "{?n}"]
    by (intro one_system_step) simp_all
  also have "system_step \<dots> (one_system (node_state ?tr ?k0s ?e (?ws (Node_loaded ?v)) Sleeping))"
    using node_load [of "node_state ?tr ?k0s ?e (?ws Node_start) Sleeping" 0 "?w Node_start" ?v]
    by (intro one_system_step) (simp_all add: loaded_node_def v)
  also have "system_step \<dots> (one_system (node_state ?tr ?k0s ?e (?ws (Node_checking ?v [])) Sleeping))"
    using node_conditions [of "node_state ?tr ?k0s ?e (?ws (Node_loaded ?v)) Sleeping" 0 "?w (Node_loaded ?v)" ?v]
    by (intro one_system_step) (simp_all add: c)
  also have "system_step \<dots> (one_system (node_state ?tr ?k0s [?n \<mapsto> one_result] (?ws Node_waiting) Sleeping))"
    using daemon_unavailable [of "one_system (node_state ?tr ?k0s ?e (?ws (Node_checking ?v [])) Sleeping)" 0
        "?w (Node_checking ?v [])" ?v "[]" "''refused''"]
    by (simp add: one_system_def v one_result_def)
  finally show ?thesis .
qed

theorem cluster_results_live_witness:
  "\<exists>g w. node_worker ''node-1'' Node_waiting False g = Some w \<and> wr_name w = ''node-1''"
proof -
  have "system_init (one_system (node_state Map.empty Map.empty Map.empty Map.empty Listing))"
    by (simp add: system_init_def one_system_def node_init_def daemon_init_def quiet_daemon_def)
  from cluster_results_live [OF this one_system_run, of "''node-1''" one_result] show ?thesis
    by (simp add: one_system_def)
qed

end
