(* ===== verification/Spec2Isabelle.thy ===== *)
theory Spec2Isabelle
  imports Config Manifest_Laws Installs Node_Trackers Waitfor Registry_Laws Build_Laws Commands_Laws Services Deep_Copy_Laws Command_Runs Controller_Manager Servers_Laws
    Cluster_System
begin

text \<open>
  A model of kube-bundler and the theorems about it.

  kube-bundler (\<open>kb\<close>) packages applications for Kubernetes as bundle files and installs them. A
  bundle holds the definition of an application (a custom resource) and the docker images it needs;
  the definition names a deploy image, which \<open>kb\<close> runs as a job in the cluster to apply, diff,
  delete or test the application. Installs, applications, flavors, manifests (sets of bundles),
  registries and sources are custom resources kept by the API server. Two servers report the health of
  what is installed, and a small command waits for services to come up.

  \<^bold>\<open>How the code is modelled.\<close> A Go function that talks to the outside world is a function of type
  \<open>('w, 'a) io\<close>, from a world to a result and a world; the result is a value, a Go error (the
  datatype \<open>gerror\<close>, which keeps the formats and arguments of the messages and the wrapped
  cause), a panic, or the end of the fuel of a loop that has no bound in the code. The statements of a
  body are the combinators \<open>try_do\<close> (return a wrapped error), \<open>andthen\<close>,
  \<open>check\<close> (look at the error and go on), \<open>deferring\<close> (defer), \<open>for_each\<close>
  and \<open>fold_io\<close> (loops with early returns) of the theory Prelude. What is not under src (the
  API server behind the two Kubernetes clients, the file system, zip, tar, YAML and JSON codecs, S3,
  docker, HTTP, the clock, the dependency solver) is a record of operations that the definitions take as
  an argument. A theorem that relies on one states what it relies on as a named hypothesis
  (\<open>serves_Get\<close>, \<open>lawful_config\<close>, \<open>lawful_writes\<close>, \<open>tidy_docker\<close>, ...), and
  each is shown to hold of a concrete model of it: an in-memory cluster (\<open>mem_client\<close>), a disk
  (\<open>disk_os\<close>), a set of containers (\<open>sample_docker\<close>). Go maps are maps, or association
  lists where the order of an iteration matters; that order is the choice of the record
  \<open>runtime\<close>. Integers of 32 and 64 bits that can overflow are words or wrap explicitly.

  \<^bold>\<open>The theories\<close>, in the order of the code's layers.

  \<^item> Prelude, Loops, Go\_Strings: the vocabulary above with the rules that decompose the success of a
    compound action (\<open>io_ok\<close>) and carry a predicate of the world through one
    (\<open>keeps_rule\<close>); the locale \<open>ticking\<close> of loops that sleep until a deadline; the
    string and path functions of Go's library.
  \<^item> Api\_Types (api/v1alpha1), Kube\_Types (the Kubernetes objects and clients), Resource\_Manager
    (managers/resource.go), Cluster (the contract of the API server and the in-memory one).
  \<^item> Parameters (managers/parameter.go), Config (managers/config.go), Util (managers/util.go, flavor.go).
  \<^item> Sources (managers/source.go, copy.go, publish.go): the locale \<open>bundle_source\<close> is the contract
    of the four sources. Register (managers/register.go), Installs (managers/install.go).
  \<^item> Rollout\_Status (helpers/), Deployables and Deployable\_Laws (resources/): the six kinds of workload,
    with the locales \<open>deployable\<close> and \<open>polling\<close> interpreted for each. Services
    (resources/service\_resource.go). Rollout (managers/rollout.go).
  \<^item> Deploy and Deploy\_Laws (managers/deploy.go, smoketest.go, deploysmoketest.go), Manifests and
    Manifest\_Laws (managers/manifest.go).
  \<^item> Registries and Registry\_Laws (managers/registry.go, bootstrap.go), Build and Build\_Laws
    (managers/build.go, cmd/kb/subcommands/build.go).
  \<^item> Status (the checks of managers/status\_app.go, status\_node.go, status\_resource.go), Trackers and
    Node\_Trackers (the goroutines of those files and of cmd/cluster-status/main.go as step relations, one
    step for each access to a shared map; the locale \<open>tracking\<close> is what the three have in
    common). Waitfor (cmd/waitfor/main.go).
  \<^item> Commands and Commands\_Laws (cmd/kb/subcommands): the functions behind the commands, over all of the
    above. Command\_Line (cmd/kb/main.go and the command variables and init functions of
    cmd/kb/subcommands) with Command\_Line\_Laws; Command\_Runs: whole runs, from the arguments to the exit code.
  \<^item> Servers (managers/status.go and the main function of cmd/cluster-status/main.go): the routes and the
    requests between \<open>kb\<close>, the health-status server and the daemons, with Servers\_Laws;
    Cluster\_System: the server and the daemons of the nodes as one step relation.
  \<^item> Controller\_Manager (main.go, controllers/, api/v1alpha1/groupversion\_info.go).
  \<^item> Deep\_Copy and Deep\_Copy\_Laws (api/v1alpha1/zz\_generated.deepcopy.go) over an explicit store, with
    the locale \<open>deep_copier\<close>. Here a nil slice differs from an empty one, which elsewhere are
    the same list.
  \<^item> This theory: properties across configuring, building, registering and deploying.

  \<^bold>\<open>What the theorems show.\<close> Parameters are merged by name, the last value given wins, a
  configured value reads back. A bundle put into a directory is what the directory gives back. Bundles are
  registered in the order of their dependencies and a failure leaves a prefix of that order. An install
  keeps its parameters over an upgrade. A deployment that succeeds has seen its job complete and its
  resources ready, and a deployed manifest has deployed its targets in dependency order. The loops that
  wait for jobs, pods, workloads and targets return within the time they are given. The workers of the
  health servers are those of the tracked names in every reachable state. Importing images overwrites no
  file; a build leaves no container behind; every image a bundle needs is in it, under the path a
  deployment from a registry asks for. From the command line, each command but two can be reached, no
  closure reads an argument that was not counted, and what \<open>kb config set\<close> stores \<open>kb config get\<close>
  prints. \<open>kb status\<close> shows the results of the running server, and in a cluster of daemons named after
  their nodes no result of a removed node stays. The deep copies of the custom resources share no cell with
  their originals. The controller manager starts only when everything it needs was set up. Where the code does not do what it or its comments intend, the
  theorem states what it does: which resources a rollout does not wait for, when a poll never returns,
  when a node worker panics, which values a configuration cuts, which timeout a command really has.

  \<^bold>\<open>Bounds and fuel.\<close> The waiting loops take the fuel \<open>rt_fuel\<close>. A loop with a deadline
  needs one turn for each sleep until the deadline and one more; that this is enough is a theorem for each
  of the three waits (for a job, for the resources of an application, of the waitfor command), for a clock
  that advances by at least the time slept. Logs waited for without a deadline have no such bound: that
  this wait never returns is shown for every fuel. The loop of \<open>Delete\<close> ends at its first turn.

  \<^bold>\<open>Not modelled.\<close> Third-party code: the command line library (what is relied on of it is the
  hypothesis \<open>dispatches\<close>), controller-runtime, the Kubernetes clients and the codecs are parameters.
  Printing is modelled for the commands whose purpose it is (their tables as lists of rows); help texts,
  logging, progress output, the metrics of the servers and the sockets they listen on are not. The
  constructors and accessors that only store and return fields have no definition where the model passes
  the fields themselves. Deep copies are modelled on values written to a location nothing else refers to,
  as in every call of the code; a call with one object as both the source and the destination is not.
\<close>

section \<open>From a build to a deployment\<close>






lemma deploy_installed: "installed (cluster_of deploy_memory) sample_ref sample_install web_app"
  by (simp add: installed_def cluster_of_def deploy_memory_def sample_memory_def sample_ref_def)
     (simp add: sample_install_def)

lemma deploy_set:
  "\<exists>w'. Config_Set \<lparr>cmg_kbClient = mem_client\<rparr> sample_ref ''color'' ''green'' deploy_memory = (Ok (), w') \<and>
     (\<exists>info. gather_info mem_client sample_ref opts w' = (Ok info, w'))"
proof -
  let ?ps = "set_parameter ''color'' ''green'' (is_Parameters (in_Spec sample_install))"
  let ?i = "with_parameters ?ps sample_install"
  obtain w' where p: "rm_Patch (kb_Installs mem_client) ?i sample_install deploy_memory = (Ok (), w')"
    and v: "cluster_of w' = (cluster_of deploy_memory)\<lparr>cl_Installs := (cl_Installs (cluster_of deploy_memory))
        ((ir_Name sample_ref, ir_Namespace sample_ref) \<mapsto> ?i)\<rparr>"
    by (rule Config_Patch_installed [OF mem_client_config deploy_installed])
  have "Config_List \<lparr>cmg_kbClient = mem_client\<rparr> sample_ref deploy_memory = (Ok [''size'' \<mapsto> ''1'', ''color'' \<mapsto> ''blue''], deploy_memory)"
    using Config_List_installed [of "\<lparr>cmg_kbClient = mem_client\<rparr>" cluster_of] deploy_installed mem_client_config
    by (simp add: install_pm_def web_merge)
  with p installed_Get(1) [OF mem_client_config deploy_installed]
  have s: "Config_Set \<lparr>cmg_kbClient = mem_client\<rparr> sample_ref ''color'' ''green'' deploy_memory = (Ok (), w')"
    by (simp add: Config_Set_def Let_def)
  have i: "installed (cluster_of w') sample_ref ?i web_app"
    unfolding v by (rule installed_patched [OF deploy_installed])
  have spec: "is_Flavor (in_Spec ?i) = []" "is_DockerRegistry (in_Spec ?i) = []"
    by (simp_all add: with_parameters_def)
  have "cl_Flavors (cluster_of w') ([], ''default'') = Some zero_flavor"
    by (simp add: v) (simp add: cluster_of_def deploy_memory_def)
  then have f: "rm_Get (kb_Flavors mem_client) [] ''default'' zero_flavor w' = (Ok zero_flavor, w')"
    using rm_Get_served(2) [OF mem_client_flavors(1)] by blast
  have "Parameter_Validate (NewParameterManager mem_client n (as_ParameterDefinitions (app_Spec web_app)) ps) = None" for n ps
    by (simp add: Parameter_Validate_def NewParameterManager_def web_app_def sample_app_def zero_application_def Let_def)
  with installed_Get [OF mem_client_config i] f spec
  have "\<exists>info. gather_info mem_client sample_ref opts w' = (Ok info, w')"
    by (simp add: gather_info_def validateRequiredParameters_def resolve_image_def Let_def)
  with s show ?thesis by blast
qed


end
